(* ===== verification/Prelude.thy ===== *)
theory Prelude
  imports Complex_Main
begin

text \<open>
  Vocabulary and automation shared by every component.

  \<^item> Go's \<open>int\<close> and \<open>int64\<close> are \<open>int\<close> with the wrap-around written out (\<open>wrap64\<close>) at
    every addition the code does not guard; \<open>uint64\<close> likewise (\<open>wrapu64\<close>).
  \<^item> A Go \<open>string\<close> is the list of its bytes. \<open>trim_space\<close> is \<open>strings.TrimSpace\<close>, with the
    multi-byte White Space code points of UTF-8 written out.
  \<^item> \<open>time.Time\<close> and \<open>time.Duration\<close> are integers in nanoseconds; \<open>unix_milli\<close> is the floor
    division that \<open>Time.UnixMilli\<close> performs.
  \<^item> Go maps are \<open>'k \<rightharpoonup> 'v\<close>; \<open>map_drop\<close> is \<open>delete\<close>, \<open>map_get_or\<close> is an index expression that
    yields the zero value of a missing key.
  \<^item> \<open>transition_system\<close> is the contract every state machine of the development satisfies: an
    invariant of the initial states kept by each step holds in each reachable state.
\<close>

named_theorems model_simps \<open>unfolding rules of the executable definitions\<close>

section \<open>Machine integers\<close>

definition wrap64 :: "int \<Rightarrow> int" where
  "wrap64 x = (x + 2 ^ 63) mod 2 ^ 64 - 2 ^ 63"

definition wrapu64 :: "int \<Rightarrow> int" where
  "wrapu64 x = x mod 2 ^ 64"

definition int64_ok :: "int \<Rightarrow> bool" where
  "int64_ok x \<longleftrightarrow> - (2 ^ 63) \<le> x \<and> x < 2 ^ 63"

definition int32_ok :: "int \<Rightarrow> bool" where
  "int32_ok x \<longleftrightarrow> - (2 ^ 31) \<le> x \<and> x < 2 ^ 31"

lemma wrap64_id [simp]: "int64_ok x \<Longrightarrow> wrap64 x = x"
  by (simp add: wrap64_def int64_ok_def)

lemma wrap64_ok [simp]: "int64_ok (wrap64 x)"
proof -
  have "0 \<le> (x + 2 ^ 63) mod 2 ^ 64" and "(x + 2 ^ 63) mod 2 ^ 64 < (2::int) ^ 64"
    by simp_all
  then show ?thesis
    unfolding wrap64_def int64_ok_def by simp
qed

lemma wrap64_overflow:
  assumes "2 ^ 63 \<le> x" and "x < 2 ^ 64 + 2 ^ 63"
  shows "wrap64 x = x - 2 ^ 64"
proof -
  have "(x + 2 ^ 63) mod 2 ^ 64 = (x + 2 ^ 63 - 2 ^ 64) mod (2 ^ 64 :: int)"
    by (metis minus_mod_self2)
  also have "\<dots> = x + 2 ^ 63 - 2 ^ 64"
    using assms by (intro mod_pos_pos_trivial) simp_all
  finally show ?thesis
    by (simp add: wrap64_def)
qed

lemma int32_int64 [simp]: "int32_ok x \<Longrightarrow> int64_ok x"
  by (simp add: int32_ok_def int64_ok_def)

section \<open>Go maps\<close>

definition map_drop :: "'k \<Rightarrow> ('k \<rightharpoonup> 'v) \<Rightarrow> ('k \<rightharpoonup> 'v)" where
  "map_drop k m = m(k := None)"

definition map_get_or :: "'v \<Rightarrow> ('k \<rightharpoonup> 'v) \<Rightarrow> 'k \<Rightarrow> 'v" where
  "map_get_or z m k = (case m k of None \<Rightarrow> z | Some v \<Rightarrow> v)"

lemma map_drop_apply [simp]: "map_drop k m j = (if j = k then None else m j)"
  by (simp add: map_drop_def)

lemma dom_map_drop [simp]: "dom (map_drop k m) = dom m - {k}"
  by (auto simp: dom_def)

lemma map_get_or_Some [simp]: "m k = Some v \<Longrightarrow> map_get_or z m k = v"
  by (simp add: map_get_or_def)

lemma map_get_or_None [simp]: "m k = None \<Longrightarrow> map_get_or z m k = z"
  by (simp add: map_get_or_def)

section \<open>Strings\<close>

text \<open>The UTF-8 encodings of the code points that \<open>unicode.IsSpace\<close> accepts.\<close>

definition space_seqs :: "string list" where
  "space_seqs =
     [[CHR 0x09], [CHR 0x0A], [CHR 0x0B], [CHR 0x0C], [CHR 0x0D], [CHR 0x20],
      [CHR 0xC2, CHR 0x85], [CHR 0xC2, CHR 0xA0], [CHR 0xE1, CHR 0x9A, CHR 0x80],
      [CHR 0xE2, CHR 0x80, CHR 0x80], [CHR 0xE2, CHR 0x80, CHR 0x81],
      [CHR 0xE2, CHR 0x80, CHR 0x82], [CHR 0xE2, CHR 0x80, CHR 0x83],
      [CHR 0xE2, CHR 0x80, CHR 0x84], [CHR 0xE2, CHR 0x80, CHR 0x85],
      [CHR 0xE2, CHR 0x80, CHR 0x86], [CHR 0xE2, CHR 0x80, CHR 0x87],
      [CHR 0xE2, CHR 0x80, CHR 0x88], [CHR 0xE2, CHR 0x80, CHR 0x89],
      [CHR 0xE2, CHR 0x80, CHR 0x8A], [CHR 0xE2, CHR 0x80, CHR 0xA8],
      [CHR 0xE2, CHR 0x80, CHR 0xA9], [CHR 0xE2, CHR 0x80, CHR 0xAF],
      [CHR 0xE2, CHR 0x81, CHR 0x9F], [CHR 0xE3, CHR 0x80, CHR 0x80]]"

definition has_prefix :: "string \<Rightarrow> string \<Rightarrow> bool" where
  "has_prefix s p \<longleftrightarrow> take (length p) s = p"

definition leading_space :: "string list \<Rightarrow> string \<Rightarrow> string option" where
  "leading_space seqs s = find (has_prefix s) seqs"

lemma leading_space_length:
  "leading_space space_seqs s = Some w \<Longrightarrow> 0 < length w \<and> length w \<le> length s"
proof -
  assume a: "leading_space space_seqs s = Some w"
  then have "w \<in> set space_seqs" and p: "take (length w) s = w"
    by (auto simp: leading_space_def find_Some_iff has_prefix_def)
  then have "w \<noteq> []" by (auto simp: space_seqs_def)
  with p show ?thesis by (metis length_greater_0_conv length_take min_def nat_le_linear)
qed

lemma leading_space_rev_length:
  "leading_space (map rev space_seqs) s = Some w \<Longrightarrow> 0 < length w \<and> length w \<le> length s"
proof -
  assume a: "leading_space (map rev space_seqs) s = Some w"
  then have "w \<in> set (map rev space_seqs)" and p: "take (length w) s = w"
    by (auto simp: leading_space_def find_Some_iff has_prefix_def)
  then have "w \<noteq> []" by (auto simp: space_seqs_def)
  with p show ?thesis by (metis length_greater_0_conv length_take min_def nat_le_linear)
qed

function trim_left :: "string \<Rightarrow> string" where
  "trim_left s = (case leading_space space_seqs s of None \<Rightarrow> s
     | Some w \<Rightarrow> trim_left (drop (length w) s))"
  by pat_completeness auto
termination
  by (relation "measure length") (auto dest!: leading_space_length intro: diff_less)

function trim_left_rev :: "string \<Rightarrow> string" where
  "trim_left_rev s = (case leading_space (map rev space_seqs) s of None \<Rightarrow> s
     | Some w \<Rightarrow> trim_left_rev (drop (length w) s))"
  by pat_completeness auto
termination
  by (relation "measure length") (auto dest!: leading_space_rev_length intro: diff_less)

declare trim_left.simps [simp del] trim_left_rev.simps [simp del]

definition trim_space :: "string \<Rightarrow> string" where
  "trim_space s = rev (trim_left_rev (rev (trim_left s)))"

lemma trim_left_idem: "trim_left (trim_left s) = trim_left s"
proof (induction s rule: trim_left.induct)
  case (1 s)
  then show ?case
    by (cases "leading_space space_seqs s") (simp_all add: trim_left.simps [of s])
qed

lemma trim_left_Nil [simp]: "trim_left [] = []"
  by (subst trim_left.simps) (simp add: leading_space_def has_prefix_def space_seqs_def)

lemma trim_left_rev_Nil [simp]: "trim_left_rev [] = []"
  by (subst trim_left_rev.simps) (simp add: leading_space_def has_prefix_def space_seqs_def)

lemma trim_space_Nil [simp]: "trim_space [] = []"
  by (simp add: trim_space_def)

section \<open>Time\<close>

definition second_ns :: int where "second_ns = 1000000000"
definition milli_ns :: int where "milli_ns = 1000000"

definition unix_milli :: "int \<Rightarrow> int" where
  "unix_milli t = t div milli_ns"

definition from_unix_milli :: "int \<Rightarrow> int" where
  "from_unix_milli ms = ms * milli_ns"

lemma unix_milli_from [simp]: "unix_milli (from_unix_milli ms) = ms"
  by (simp add: unix_milli_def from_unix_milli_def milli_ns_def)

lemma unix_milli_mono: "s \<le> t \<Longrightarrow> unix_milli s \<le> unix_milli t"
  by (simp add: unix_milli_def milli_ns_def zdiv_mono1)

lemma from_unix_milli_le: "from_unix_milli (unix_milli t) \<le> t"
  by (simp add: unix_milli_def from_unix_milli_def milli_ns_def)

lemma find_append: "find P (xs @ ys) = (case find P xs of None \<Rightarrow> find P ys | Some x \<Rightarrow> Some x)"
  by (induction xs) auto

section \<open>State machines\<close>

text \<open>
  A component with state is a set of initial states and a step relation. Whatever each step
  keeps holds in each reachable state; the lemma is proved once, in the locale.
\<close>

inductive reach :: "('s \<Rightarrow> bool) \<Rightarrow> ('s \<Rightarrow> 's \<Rightarrow> bool) \<Rightarrow> 's \<Rightarrow> bool"
  for ini :: "'s \<Rightarrow> bool" and stp :: "'s \<Rightarrow> 's \<Rightarrow> bool" where
  reach_init: "ini s \<Longrightarrow> reach ini stp s"
| reach_step: "reach ini stp s \<Longrightarrow> stp s t \<Longrightarrow> reach ini stp t"

locale transition_system =
  fixes ini :: "'s \<Rightarrow> bool" and stp :: "'s \<Rightarrow> 's \<Rightarrow> bool" and inv :: "'s \<Rightarrow> bool"
  assumes inv_init: "ini s \<Longrightarrow> inv s"
    and inv_step: "inv s \<Longrightarrow> stp s t \<Longrightarrow> inv t"
begin

lemma reachable_inv: "reach ini stp s \<Longrightarrow> inv s"
  by (induction rule: reach.induct) (blast intro: inv_init inv_step)+

lemma reachable_steps: "reach ini stp s \<Longrightarrow> stp\<^sup>*\<^sup>* s t \<Longrightarrow> inv t"
  by (rotate_tac, induction rule: rtranclp_induct)
    (auto intro: reachable_inv inv_step)

end

text \<open>
  A system whose steps keep an invariant and only grow, in a sense that is reflexive and transitive:
  each state of a run has grown from every earlier one.
\<close>

locale growing_system = transition_system ini stp inv
  for ini :: "'s \<Rightarrow> bool" and stp :: "'s \<Rightarrow> 's \<Rightarrow> bool" and inv :: "'s \<Rightarrow> bool" +
  fixes grown :: "'s \<Rightarrow> 's \<Rightarrow> bool"
  assumes grown_refl: "grown s s"
    and grown_trans: "grown s t \<Longrightarrow> grown t u \<Longrightarrow> grown s u"
    and grown_step: "inv s \<Longrightarrow> stp s t \<Longrightarrow> grown s t"
begin

lemma steps_grown: "stp\<^sup>*\<^sup>* s t \<Longrightarrow> inv s \<Longrightarrow> inv t \<and> grown s t"
  by (induction rule: rtranclp_induct) (blast intro: grown_refl grown_trans grown_step inv_step)+

end

end
