(* ===== verification/Calendar.thy ===== *)
theory Calendar
  imports Prelude
begin

text \<open>
  Go's \<open>time.Time\<close> in UTC as the components read it: an instant is a number of nanoseconds since the
  Unix epoch, its hour, minute and second are those of the civil day, which has no leap seconds.
\<close>

definition day_ns :: int where "day_ns = 86400 * second_ns"

definition hour_of :: "int \<Rightarrow> int" where "hour_of t = t div (3600 * second_ns) mod 24"
definition minute_of :: "int \<Rightarrow> int" where "minute_of t = t div (60 * second_ns) mod 60"
definition second_of :: "int \<Rightarrow> int" where "second_of t = t div second_ns mod 60"

text \<open>\<open>Time.Sub\<close> saturates at the ends of \<open>Duration\<close>, an \<open>int64\<close>.\<close>

definition time_sub :: "int \<Rightarrow> int \<Rightarrow> int" where
  "time_sub a b = max (- (2 ^ 63)) (min (2 ^ 63 - 1) (a - b))"

definition second_of_day :: "int \<Rightarrow> int" where
  "second_of_day t = t div second_ns mod 86400"

lemma sixty_sixty: "x = 60 * (60 * a + b) + c \<Longrightarrow> x = 3600 * a + 60 * b + (c :: int)"
  by simp

lemma second_of_day_split: "second_of_day t = 3600 * hour_of t + 60 * minute_of t + second_of t"
proof -
  define x where "x = t div second_ns"
  have "t div (second_ns * 3600) = x div 3600" "t div (second_ns * 60) = x div 60"
    unfolding x_def by (rule zdiv_zmult2_eq; simp)+
  then have h: "hour_of t = x div 3600 mod 24" and m: "minute_of t = x div 60 mod 60"
    unfolding hour_of_def minute_of_def by (simp_all only: mult.commute)
  have "x mod (60 * 1440) = 60 * (x div 60 mod 1440) + x mod 60"
    by (rule zmod_zmult2_eq) simp
  moreover have "x div 60 mod (60 * 24) = 60 * (x div 60 div 60 mod 24) + x div 60 mod 60"
    by (rule zmod_zmult2_eq) simp
  moreover have "x div 60 div 60 = x div (60 * 60)" by (rule zdiv_zmult2_eq [symmetric]) simp
  moreover have "(60::int) * 1440 = 86400" "(60::int) * 24 = 1440" "(60::int) * 60 = 3600" by simp_all
  ultimately have "x mod 86400 = 60 * (60 * (x div 3600 mod 24) + x div 60 mod 60) + x mod 60"
    by (simp only:)
  then show ?thesis unfolding second_of_day_def second_of_def h m x_def [symmetric] by (rule sixty_sixty)
qed

lemma clock_part_bounds:
  "0 \<le> hour_of t" "hour_of t < 24" "0 \<le> minute_of t" "minute_of t < 60" "0 \<le> second_of t" "second_of t < 60"
  by (simp_all add: hour_of_def minute_of_def second_of_def)

lemma time_in_day:
  "hour_of t * (3600 * second_ns) + minute_of t * (60 * second_ns) + second_of t * second_ns + t mod second_ns
     = t mod day_ns"
proof -
  have "hour_of t * (3600 * second_ns) + minute_of t * (60 * second_ns) + second_of t * second_ns
      = second_of_day t * second_ns"
    by (simp add: second_of_day_split algebra_simps)
  moreover have "t mod day_ns = second_ns * (t div second_ns mod 86400) + t mod second_ns"
    using zmod_zmult2_eq [of 86400 t second_ns] by (simp add: day_ns_def mult.commute)
  ultimately show ?thesis by (simp add: second_of_day_def mult.commute)
qed

lemma int_div_less_iff:
  fixes a b c :: int
  assumes "0 < c"
  shows "a div c < b \<longleftrightarrow> a < b * c"
proof
  assume "a div c < b"
  then have "(a div c + 1) * c \<le> b * c" using assms by (intro mult_right_mono) simp_all
  moreover have "a < (a div c + 1) * c"
    unfolding distrib_right mult_1 using div_mult_mod_eq [of a c] pos_mod_bound [OF assms, of a] by linarith
  ultimately show "a < b * c" by simp
next
  assume l: "a < b * c"
  show "a div c < b"
  proof (rule ccontr)
    assume "\<not> a div c < b"
    then have "b * c \<le> a div c * c" using assms by (intro mult_right_mono) simp_all
    also have "\<dots> \<le> a" using div_mult_mod_eq [of a c] pos_mod_sign [OF assms, of a] by linarith
    finally show False using l by simp
  qed
qed

lemma hour_before:
  "hour_of t < b \<longleftrightarrow> t mod day_ns < b * (3600 * second_ns)"
proof -
  have "t mod day_ns div (3600 * second_ns) = hour_of t"
    using zmod_zmult2_eq [of 24 t "3600 * second_ns"] pos_mod_bound [of "3600 * second_ns" t]
    by (simp add: day_ns_def hour_of_def mult.commute second_ns_def)
  moreover have "t mod day_ns div (3600 * second_ns) < b \<longleftrightarrow> t mod day_ns < b * (3600 * second_ns)"
    by (rule int_div_less_iff) (simp add: second_ns_def)
  ultimately show ?thesis by simp
qed

end
