(* ===== verification/Float64.thy ===== *)
theory Float64
  imports Prelude
begin

text \<open>
  Go's \<open>float64\<close>: IEEE 754 binary64 with round-to-nearest-even, executable. A finite value is
  the rational it denotes (\<open>Fin\<close>); the two zeros are one value, which no code modelled here
  can tell apart (no division by a zero that is not excluded first). \<open>fl\<close> rounds a rational;
  each arithmetic operation is the exact one followed by \<open>fl\<close>. \<open>f64_to_int\<close> is the conversion
  \<open>time.Duration(x)\<close> of a finite value: truncation towards zero.

  The lemmas give what the components use: \<open>fl\<close> is monotone and exact on the integers up to
  \<open>2 ^ 53\<close>.
\<close>

datatype f64 = Fin rat | PInf | NInf | NaN

section \<open>Rounding\<close>

fun ilog2 :: "nat \<Rightarrow> nat" where
  "ilog2 n = (if n < 2 then 0 else Suc (ilog2 (n div 2)))"

declare ilog2.simps [simp del]

definition pow2 :: "int \<Rightarrow> rat" where
  "pow2 e = (if 0 \<le> e then 2 ^ nat e else 1 / 2 ^ nat (- e))"

definition flog2 :: "rat \<Rightarrow> int" where
  "flog2 x = (let (n, d) = quotient_of x; k = int (ilog2 (nat n)) - int (ilog2 (nat d))
     in if pow2 k \<le> x then k else k - 1)"

definition round_even :: "rat \<Rightarrow> int" where
  "round_even x = (let f = \<lfloor>x\<rfloor>; r = x - of_int f in
     if r < 1 / 2 then f else if 1 / 2 < r then f + 1 else if even f then f else f + 1)"

definition fexp :: "rat \<Rightarrow> int" where
  "fexp x = max (flog2 x - 52) (- 1074)"

definition fround :: "rat \<Rightarrow> rat" where
  "fround x = of_int (round_even (x / pow2 (fexp x))) * pow2 (fexp x)"

definition fl :: "rat \<Rightarrow> f64" where
  "fl x =
     (if x = 0 then Fin 0
      else if 0 < x then (let r = fround x in if 2 ^ 1024 \<le> r then PInf else Fin r)
      else (let r = fround (- x) in if 2 ^ 1024 \<le> r then NInf else Fin (- r)))"

section \<open>Operations\<close>

definition is_fin :: "f64 \<Rightarrow> bool" where
  "is_fin x = (case x of Fin _ \<Rightarrow> True | _ \<Rightarrow> False)"

definition is_nan :: "f64 \<Rightarrow> bool" where
  "is_nan x = (case x of NaN \<Rightarrow> True | _ \<Rightarrow> False)"

definition is_inf :: "f64 \<Rightarrow> bool" where
  "is_inf x = (case x of PInf \<Rightarrow> True | NInf \<Rightarrow> True | _ \<Rightarrow> False)"

fun fneg :: "f64 \<Rightarrow> f64" where
  "fneg (Fin a) = Fin (- a)"
| "fneg PInf = NInf"
| "fneg NInf = PInf"
| "fneg NaN = NaN"

fun fabs :: "f64 \<Rightarrow> f64" where
  "fabs (Fin a) = Fin \<bar>a\<bar>"
| "fabs PInf = PInf"
| "fabs NInf = PInf"
| "fabs NaN = NaN"

fun fadd :: "f64 \<Rightarrow> f64 \<Rightarrow> f64" where
  "fadd (Fin a) (Fin b) = fl (a + b)"
| "fadd NaN _ = NaN"
| "fadd _ NaN = NaN"
| "fadd PInf NInf = NaN"
| "fadd NInf PInf = NaN"
| "fadd PInf _ = PInf"
| "fadd NInf _ = NInf"
| "fadd (Fin _) PInf = PInf"
| "fadd (Fin _) NInf = NInf"

definition fsub :: "f64 \<Rightarrow> f64 \<Rightarrow> f64" where
  "fsub x y = fadd x (fneg y)"

definition inf_of_sign :: "bool \<Rightarrow> f64" where
  "inf_of_sign neg = (if neg then NInf else PInf)"

fun fmul :: "f64 \<Rightarrow> f64 \<Rightarrow> f64" where
  "fmul (Fin a) (Fin b) = fl (a * b)"
| "fmul NaN _ = NaN"
| "fmul _ NaN = NaN"
| "fmul (Fin a) PInf = (if a = 0 then NaN else inf_of_sign (a < 0))"
| "fmul (Fin a) NInf = (if a = 0 then NaN else inf_of_sign (0 < a))"
| "fmul PInf (Fin b) = (if b = 0 then NaN else inf_of_sign (b < 0))"
| "fmul NInf (Fin b) = (if b = 0 then NaN else inf_of_sign (0 < b))"
| "fmul PInf PInf = PInf"
| "fmul NInf NInf = PInf"
| "fmul PInf NInf = NInf"
| "fmul NInf PInf = NInf"

text \<open>Division by zero yields an infinity of the dividend's sign (the zeros are positive).\<close>

fun fdiv :: "f64 \<Rightarrow> f64 \<Rightarrow> f64" where
  "fdiv (Fin a) (Fin b) =
     (if b = 0 then (if a = 0 then NaN else inf_of_sign (a < 0)) else fl (a / b))"
| "fdiv NaN _ = NaN"
| "fdiv _ NaN = NaN"
| "fdiv (Fin a) _ = Fin 0"
| "fdiv PInf (Fin b) = inf_of_sign (b < 0)"
| "fdiv NInf (Fin b) = inf_of_sign (0 \<le> b)"
| "fdiv _ _ = NaN"

text \<open>Comparisons: every one with a \<open>NaN\<close> is false.\<close>

fun flt :: "f64 \<Rightarrow> f64 \<Rightarrow> bool" where
  "flt (Fin a) (Fin b) = (a < b)"
| "flt (Fin _) PInf = True"
| "flt NInf (Fin _) = True"
| "flt NInf PInf = True"
| "flt _ _ = False"

fun fle :: "f64 \<Rightarrow> f64 \<Rightarrow> bool" where
  "fle (Fin a) (Fin b) = (a \<le> b)"
| "fle (Fin _) PInf = True"
| "fle NInf (Fin _) = True"
| "fle NInf PInf = True"
| "fle PInf PInf = True"
| "fle NInf NInf = True"
| "fle _ _ = False"

definition feq :: "f64 \<Rightarrow> f64 \<Rightarrow> bool" where
  "feq x y \<longleftrightarrow> x = y \<and> \<not> is_nan x"

definition f64_of_int :: "int \<Rightarrow> f64" where
  "f64_of_int i = fl (of_int i)"

text \<open>
  Truncation towards zero. Go leaves the conversion of a value outside the range of the target
  (or not finite) to the implementation; no path modelled here converts one.
\<close>

definition f64_to_int :: "f64 \<Rightarrow> int" where
  "f64_to_int x = (case x of Fin a \<Rightarrow> (if 0 \<le> a then \<lfloor>a\<rfloor> else - \<lfloor>- a\<rfloor>) | _ \<Rightarrow> - (2 ^ 63))"

section \<open>Facts about rounding\<close>

lemma ilog2_bounds: "0 < n \<Longrightarrow> 2 ^ ilog2 n \<le> n \<and> n < 2 ^ Suc (ilog2 n)"
proof (induction n rule: ilog2.induct)
  case (1 n)
  show ?case
  proof (cases "n < 2")
    case True
    with 1 show ?thesis by (simp add: ilog2.simps [of n])
  next
    case False
    then have "2 ^ ilog2 (n div 2) \<le> n div 2" and "n div 2 < 2 ^ Suc (ilog2 (n div 2))"
      using 1 by auto
    then have "2 * 2 ^ ilog2 (n div 2) \<le> n" and "n < 2 * 2 ^ Suc (ilog2 (n div 2))"
      by linarith+
    with False show ?thesis by (simp add: ilog2.simps [of n])
  qed
qed

lemma pow2_pos [simp]: "0 < pow2 e"
  by (simp add: pow2_def)

lemma pow2_nz [simp]: "pow2 e \<noteq> 0"
  using pow2_pos [of e] by linarith

lemma pow2_add: "pow2 (a + b) = pow2 a * pow2 b"
proof -
  have p: "pow2 e = 2 powi e" for e
    by (simp add: pow2_def power_int_def field_simps)
  show ?thesis unfolding p by (simp add: power_int_add)
qed

lemma pow2_Suc: "pow2 (e + 1) = 2 * pow2 e"
  by (simp add: pow2_add) (simp add: pow2_def)

lemma pow2_mono: "a \<le> b \<Longrightarrow> pow2 a \<le> pow2 b"
proof -
  assume "a \<le> b"
  then have "pow2 b = pow2 a * pow2 (b - a)" using pow2_add [of a "b - a"] by simp
  moreover have "1 \<le> pow2 (b - a)" using \<open>a \<le> b\<close> by (simp add: pow2_def)
  ultimately show ?thesis by simp
qed

lemma pow2_of_nat: "pow2 (int n) = 2 ^ n"
  by (simp add: pow2_def)

lemma pow2_diff: "pow2 (int a - int b) = 2 ^ a / 2 ^ b"
proof -
  have "pow2 (int a - int b) * pow2 (int b) = pow2 (int a)"
    using pow2_add [of "int a - int b" "int b"] by simp
  then show ?thesis by (simp add: pow2_of_nat field_simps)
qed

lemma flog2_bounds:
  assumes "0 < x"
  shows "pow2 (flog2 x) \<le> x \<and> x < pow2 (flog2 x + 1)"
proof -
  obtain n d where q: "quotient_of x = (n, d)" by force
  have d: "0 < d" using quotient_of_denom_pos [OF q] .
  have x: "x = of_int n / of_int d" using quotient_of_div [OF q] .
  have n: "0 < n" using assms d unfolding x by (simp add: zero_less_divide_iff)
  define a b where "a = ilog2 (nat n)" and "b = ilog2 (nat d)"
  have "2 ^ a \<le> nat n" "nat n < 2 ^ Suc a" "2 ^ b \<le> nat d" "nat d < 2 ^ Suc b"
    using ilog2_bounds [of "nat n"] ilog2_bounds [of "nat d"] n d by (auto simp: a_def b_def)
  then have "2 ^ a \<le> n" "n < 2 ^ Suc a" "2 ^ b \<le> d" "d < 2 ^ Suc b"
    using n d by (simp_all add: nat_le_iff le_nat_iff nat_less_iff zless_nat_eq_int_zless)
  then have r: "(2::rat) ^ a \<le> of_int n" "(of_int n :: rat) < 2 ^ Suc a"
    "(2::rat) ^ b \<le> of_int d" "(of_int d :: rat) < 2 ^ Suc b"
    by (metis of_int_le_iff of_int_less_iff of_int_numeral of_int_power)+
  let ?k = "int a - int b"
  have "x < 2 ^ Suc a / 2 ^ b"
    unfolding x using r n by (intro frac_less) simp_all
  also have "\<dots> = pow2 (?k + 1)" unfolding pow2_Suc pow2_diff by simp
  finally have up: "x < pow2 (?k + 1)" .
  have "2 ^ a / 2 ^ Suc b \<le> x"
    unfolding x using r d n by (intro frac_le) simp_all
  moreover have "2 * pow2 (?k - 1) = pow2 ?k" using pow2_Suc [of "?k - 1"] by simp
  ultimately have lo: "pow2 (?k - 1) \<le> x" unfolding pow2_diff by simp
  have k: "flog2 x = (if pow2 ?k \<le> x then ?k else ?k - 1)"
    by (simp add: flog2_def q a_def b_def Let_def)
  show ?thesis using up lo unfolding k by simp
qed

lemma flog2_le: "0 < x \<Longrightarrow> x < pow2 (e + 1) \<Longrightarrow> flog2 x \<le> e"
  using flog2_bounds [of x] pow2_mono [of "e + 1" "flog2 x"] by linarith

lemma flog2_mono: "0 < x \<Longrightarrow> x \<le> y \<Longrightarrow> flog2 x \<le> flog2 y"
  using flog2_bounds [of y] by (intro flog2_le) auto

lemma fexp_mono: "0 < x \<Longrightarrow> x \<le> y \<Longrightarrow> fexp x \<le> fexp y"
  using flog2_mono [of x y] by (simp add: fexp_def max_def)

lemma round_even_of_int [simp]: "round_even (of_int i) = i"
  by (simp add: round_even_def)

lemma round_even_bounds: "x - 1 / 2 \<le> of_int (round_even x) \<and> of_int (round_even x) \<le> x + 1 / 2"
proof -
  have "of_int \<lfloor>x\<rfloor> \<le> x" "x < of_int \<lfloor>x\<rfloor> + 1" by linarith+
  then show ?thesis unfolding round_even_def Let_def
    by (simp only: of_int_add of_int_1 split: if_split) linarith
qed

lemma round_even_mono: "x \<le> y \<Longrightarrow> round_even x \<le> round_even y"
proof -
  assume a: "x \<le> y"
  consider "\<lfloor>x\<rfloor> = \<lfloor>y\<rfloor>" | "\<lfloor>x\<rfloor> + 1 \<le> \<lfloor>y\<rfloor>" using floor_mono [OF a] by linarith
  then show ?thesis
  proof cases
    case 1
    with a show ?thesis by (simp add: round_even_def Let_def)
  next
    case 2
    have "round_even x \<le> \<lfloor>x\<rfloor> + 1" and "\<lfloor>y\<rfloor> \<le> round_even y"
      by (simp_all add: round_even_def Let_def)
    with 2 show ?thesis by linarith
  qed
qed

text \<open>A multiple of the quantum of a larger value is a bound that rounding keeps.\<close>

lemma fround_le_mult:
  assumes "x \<le> of_int m * pow2 (fexp x)"
  shows "fround x \<le> of_int m * pow2 (fexp x)"
proof -
  have "x / pow2 (fexp x) \<le> of_int m" using assms by (simp add: divide_le_eq)
  then have "round_even (x / pow2 (fexp x)) \<le> m"
    using round_even_mono by fastforce
  then show ?thesis unfolding fround_def by (intro mult_right_mono) (simp_all add: less_imp_le)
qed

lemma fround_ge_mult:
  assumes "of_int m * pow2 (fexp x) \<le> x"
  shows "of_int m * pow2 (fexp x) \<le> fround x"
proof -
  have "of_int m \<le> x / pow2 (fexp x)" using assms by (simp add: le_divide_eq)
  then have "m \<le> round_even (x / pow2 (fexp x))"
    using round_even_mono by fastforce
  then show ?thesis unfolding fround_def by (intro mult_right_mono) (simp_all add: less_imp_le)
qed

lemma pow2_multiple: "e \<le> k \<Longrightarrow> \<exists>m. pow2 k = of_int m * pow2 e"
proof -
  assume "e \<le> k"
  then have "pow2 k = of_int (2 ^ nat (k - e)) * pow2 e"
    using pow2_add [of "k - e" e] by (simp add: pow2_def)
  then show ?thesis by blast
qed

lemma fround_mono:
  assumes "0 < x" and "x \<le> y"
  shows "fround x \<le> fround y"
proof (cases "fexp x = fexp y")
  case True
  have "x / pow2 (fexp y) \<le> y / pow2 (fexp y)" using assms by (simp add: divide_right_mono less_imp_le)
  with True show ?thesis unfolding fround_def
    by (simp add: round_even_mono mult_right_mono less_imp_le)
next
  case False
  with fexp_mono [OF assms] have lt: "fexp x < fexp y" by simp
  then have y: "fexp y = flog2 y - 52" and less: "flog2 x < flog2 y" and "fexp x \<le> flog2 y"
    by (auto simp: fexp_def max_def split: if_splits)
  obtain m where m: "pow2 (flog2 y) = of_int m * pow2 (fexp x)"
    using pow2_multiple [OF \<open>fexp x \<le> flog2 y\<close>] by blast
  obtain m' where m': "pow2 (flog2 y) = of_int m' * pow2 (fexp y)"
    using pow2_multiple [of "fexp y" "flog2 y"] y by auto
  have "x \<le> pow2 (flog2 y)"
    using flog2_bounds [OF assms(1)] pow2_mono [of "flog2 x + 1" "flog2 y"] less by linarith
  then have "fround x \<le> pow2 (flog2 y)" using fround_le_mult [of x m] m by simp
  also have "pow2 (flog2 y) \<le> fround y"
    using fround_ge_mult [of m' y] m' flog2_bounds [of y] assms by simp
  finally show ?thesis .
qed

lemma fround_nonneg: "0 < x \<Longrightarrow> 0 \<le> fround x"
  using fround_ge_mult [of 0 x] by simp

lemma fl_mono:
  assumes "x \<le> y"
  shows "fle (fl x) (fl y)"
proof -
  consider "0 < x" | "y < 0" | "x \<le> 0" "0 \<le> y" using assms by linarith
  then show ?thesis
  proof cases
    case 1
    then have "fround x \<le> fround y" using assms by (rule fround_mono)
    with 1 assms show ?thesis by (auto simp: fl_def Let_def)
  next
    case 2
    then have "fround (- y) \<le> fround (- x)" using assms by (intro fround_mono) simp_all
    with 2 assms show ?thesis by (auto simp: fl_def Let_def)
  next
    case 3
    with fround_nonneg [of y] fround_nonneg [of "- x"] show ?thesis
      by (auto simp: fl_def Let_def less_le)
  qed
qed

text \<open>Rounding is idempotent.\<close>

lemma fround_idem:
  assumes "0 < x" and "0 < fround x"
  shows "fround (fround x) = fround x"
proof -
  define e where "e = fexp x"
  define y where "y = fround x"
  obtain m where m: "y = of_int m * pow2 e" by (simp add: y_def e_def fround_def)
  have top: "pow2 (e + 53) = of_int (2 ^ 53) * pow2 e" using pow2_add [of 53 e] by (simp add: pow2_def add.commute)
  have "pow2 (flog2 x + 1) \<le> pow2 (e + 53)" by (rule pow2_mono) (simp add: e_def fexp_def)
  then have "x \<le> pow2 (e + 53)" using flog2_bounds [OF assms(1)] by linarith
  then have le: "y \<le> pow2 (e + 53)"
    using fround_le_mult [of x "2 ^ 53"] top by (simp add: y_def e_def)
  have y: "0 < y" using assms(2) by (simp add: y_def)
  have b: "pow2 (flog2 y) \<le> y" using flog2_bounds [OF y] by simp
  have "\<exists>k. y = of_int k * pow2 (fexp y)"
  proof (cases "fexp y \<le> e")
    case True
    then obtain j where "pow2 e = of_int j * pow2 (fexp y)" using pow2_multiple by blast
    then have "y = of_int (m * j) * pow2 (fexp y)" by (simp add: m)
    then show ?thesis by blast
  next
    case False
    then have f: "fexp y = flog2 y - 52" "e + 53 \<le> flog2 y" by (auto simp: fexp_def e_def)
    then have eq: "y = pow2 (e + 53)" using pow2_mono [OF f(2)] b le by linarith
    have "fexp y \<le> e + 53"
    proof (rule ccontr)
      assume "\<not> fexp y \<le> e + 53"
      then have "pow2 (e + 53 + 1) \<le> pow2 (flog2 y)" using f(1) by (intro pow2_mono) simp
      moreover have "0 < pow2 (e + 53)" by simp
      ultimately show False using b unfolding eq pow2_Suc by linarith
    qed
    then show ?thesis using eq pow2_multiple by auto
  qed
  then obtain k where "y = of_int k * pow2 (fexp y)" by blast
  then show ?thesis unfolding y_def [symmetric] by (metis fround_def nonzero_mult_div_cancel_right pow2_nz round_even_of_int)
qed

lemma fl_idem: "fl x = Fin y \<Longrightarrow> fl y = Fin y"
proof -
  assume a: "fl x = Fin y"
  consider "x = 0" | "0 < x" | "x < 0" by linarith
  then show ?thesis
  proof cases
    case 2
    then have y: "y = fround x" "\<not> 2 ^ 1024 \<le> y" using a by (auto simp: fl_def Let_def split: if_splits)
    show ?thesis
    proof (cases "y = 0")
      case False
      then have "0 < y" using fround_nonneg [OF 2] y(1) by simp
      with fround_idem [OF 2] y show ?thesis by (simp add: fl_def Let_def)
    qed (simp add: fl_def)
  next
    case 3
    then have y: "y = - fround (- x)" "\<not> 2 ^ 1024 \<le> - y" using a by (auto simp: fl_def Let_def split: if_splits)
    show ?thesis
    proof (cases "y = 0")
      case False
      then have "y < 0" using fround_nonneg [of "- x"] 3 y(1) by simp
      with fround_idem [of "- x"] 3 y show ?thesis by (simp add: fl_def Let_def)
    qed (simp add: fl_def)
  qed (use a in \<open>simp add: fl_def\<close>)
qed

lemma fround_int:
  assumes "0 < i" and "i \<le> 2 ^ 53"
  shows "fround (of_int i) = of_int i"
proof -
  have "flog2 (of_int i) \<le> 53"
    using assms by (intro flog2_le) (simp_all add: pow2_def)
  show ?thesis
  proof (cases "flog2 (of_int i) = 53")
    case True
    have "pow2 53 \<le> of_int i" using flog2_bounds [of "of_int i"] assms True by simp
    then have "(2 ^ 53 :: rat) \<le> of_int i" by (simp add: pow2_def)
    then have "(of_int (2 ^ 53) :: rat) \<le> of_int i" by simp
    then have "2 ^ 53 \<le> i" by (subst (asm) of_int_le_iff)
    then have i: "i = 2 ^ 53" using assms by simp
    have e: "fexp (of_int i) = 1" using True by (simp add: fexp_def)
    have "of_int i / pow2 1 = (of_int (2 ^ 52) :: rat)" by (simp add: i pow2_def)
    then show ?thesis unfolding fround_def e by (simp only: round_even_of_int) (simp add: i pow2_def)
  next
    case False
    then have e: "fexp (of_int i) \<le> 0" using \<open>flog2 (of_int i) \<le> 53\<close> by (simp add: fexp_def)
    obtain m where "pow2 0 = of_int m * pow2 (fexp (of_int i))" using pow2_multiple [OF e] by blast
    then have one: "(1::rat) = of_int m * pow2 (fexp (of_int i))" by (simp add: pow2_def)
    then have "of_int i = of_int i * (of_int m * pow2 (fexp (of_int i :: rat)))" by simp
    then have "of_int i / pow2 (fexp (of_int i :: rat)) = of_int (i * m)"
      by (simp add: field_simps)
    then have "round_even (of_int i / pow2 (fexp (of_int i :: rat))) = i * m"
      by (simp only: round_even_of_int)
    then show ?thesis unfolding fround_def using one by (simp add: mult.assoc)
  qed
qed

lemma fl_of_int:
  assumes "\<bar>i\<bar> \<le> 2 ^ 53"
  shows "fl (of_int i) = Fin (of_int i)"
proof -
  have big: "(2::rat) ^ 53 < 2 ^ 1024" by (intro power_strict_increasing) simp_all
  have abs_i: "\<bar>of_int i :: rat\<bar> \<le> 2 ^ 53"
  proof -
    have "of_int \<bar>i\<bar> \<le> (of_int (2 ^ 53) :: rat)" using assms by (subst of_int_le_iff)
    then show ?thesis by simp
  qed
  consider "i = 0" | "0 < i" | "i < 0" by linarith
  then show ?thesis
  proof cases
    case 1
    then show ?thesis by (simp add: fl_def)
  next
    case 2
    have "fround (of_int i) = of_int i" using 2 assms by (intro fround_int) simp_all
    then show ?thesis using 2 abs_i big by (simp add: fl_def Let_def)
  next
    case 3
    have "fround (of_int (- i)) = of_int (- i)" using 3 assms by (intro fround_int) simp_all
    then show ?thesis using 3 abs_i big by (simp add: fl_def Let_def)
  qed
qed

text \<open>Small integers, the common case of an evaluation, are not rounded.\<close>

lemma fl_code [code]:
  "fl x = (case quotient_of x of (n, d) \<Rightarrow>
     if d = 1 \<and> \<bar>n\<bar> \<le> 9007199254740992 then Fin x
     else if 0 < x then (let r = fround x in if 2 ^ 1024 \<le> r then PInf else Fin r)
     else (let r = fround (- x) in if 2 ^ 1024 \<le> r then NInf else Fin (- r)))"
proof (cases "quotient_of x")
  case (Pair n d)
  then have x: "x = of_int n / of_int d" by (rule quotient_of_div)
  show ?thesis
  proof (cases "d = 1 \<and> \<bar>n\<bar> \<le> 9007199254740992")
    case True
    then have "x = of_int n" "\<bar>n\<bar> \<le> 2 ^ 53" using x by simp_all
    with Pair True show ?thesis using fl_of_int [of n] by simp
  next
    case False
    have "x \<noteq> 0"
    proof
      assume "x = 0"
      then have "quotient_of x = (0, 1)" by simp
      with Pair False show False by simp
    qed
    with Pair False show ?thesis by (auto simp: fl_def)
  qed
qed

lemma f64_of_int_exact: "\<bar>i\<bar> \<le> 2 ^ 53 \<Longrightarrow> f64_of_int i = Fin (of_int i)"
  by (simp add: f64_of_int_def fl_of_int)

lemma f64_to_int_of_int [simp]: "f64_to_int (Fin (of_int i)) = i"
proof -
  have "\<lfloor>- (of_int i :: rat)\<rfloor> = - i" by (metis floor_of_int of_int_minus)
  then show ?thesis by (simp add: f64_to_int_def)
qed

lemma f64_to_int_eqI: "0 \<le> x \<Longrightarrow> of_int m \<le> x \<Longrightarrow> x < of_int m + 1 \<Longrightarrow> f64_to_int (Fin x) = m"
  by (simp add: f64_to_int_def floor_eq_iff)

lemma f64_to_int_mono:
  assumes "a \<le> b"
  shows "f64_to_int (Fin a) \<le> f64_to_int (Fin b)"
proof (cases "a < 0 \<and> 0 \<le> b")
  case True
  then have "0 \<le> \<lfloor>- a\<rfloor>" and "0 \<le> \<lfloor>b\<rfloor>" by simp_all
  then have "- \<lfloor>- a\<rfloor> \<le> \<lfloor>b\<rfloor>" by linarith
  with True show ?thesis by (simp add: f64_to_int_def)
next
  case False
  moreover have "\<lfloor>a\<rfloor> \<le> \<lfloor>b\<rfloor>" and "\<lfloor>- b\<rfloor> \<le> \<lfloor>- a\<rfloor>"
    using assms by (simp_all add: floor_mono)
  ultimately show ?thesis using assms by (auto simp: f64_to_int_def)
qed

text \<open>Evaluation: the binary exponent \<open>k\<close> and the rounded significand \<open>m\<close> are supplied.\<close>

lemma flog2_eqI: "pow2 k \<le> x \<Longrightarrow> x < pow2 (k + 1) \<Longrightarrow> flog2 x = k"
proof -
  assume a: "pow2 k \<le> x" "x < pow2 (k + 1)"
  have "0 < x" using a(1) pow2_pos [of k] by linarith
  have "flog2 x \<le> k" using \<open>0 < x\<close> a by (rule_tac flog2_le)
  moreover have "k < flog2 x + 1"
    using flog2_bounds [OF \<open>0 < x\<close>] a pow2_mono [of "flog2 x + 1" k] by linarith
  ultimately show ?thesis by simp
qed

lemma round_even_eqI: "of_int m - 1 / 2 < x \<Longrightarrow> x < of_int m + 1 / 2 \<Longrightarrow> round_even x = m"
proof -
  assume a: "of_int m - 1 / 2 < x" "x < of_int m + 1 / 2"
  have "of_int (round_even x) < (of_int (m + 1) :: rat)" "(of_int (m - 1) :: rat) < of_int (round_even x)"
    using round_even_bounds [of x] a by (simp_all add: field_simps)
  then show ?thesis by (simp only: of_int_less_iff)
qed

lemma fl_eval:
  assumes "pow2 k \<le> x" and "x < pow2 (k + 1)" and "- 1022 \<le> k" and "k \<le> 1000"
    and "(of_int m - 1 / 2) * pow2 (k - 52) < x" and "x < (of_int m + 1 / 2) * pow2 (k - 52)"
  shows "fl x = Fin (of_int m * pow2 (k - 52))"
proof -
  have "0 < x" using assms(1) pow2_pos [of k] by linarith
  have "round_even (x / pow2 (k - 52)) = m"
    using assms(5,6) by (intro round_even_eqI) (simp_all add: less_divide_eq divide_less_eq)
  have e: "fexp x = k - 52" using flog2_eqI [OF assms(1,2)] assms(3) by (simp add: fexp_def)
  then have r: "fround x = of_int m * pow2 (k - 52)"
    using \<open>round_even _ = m\<close> by (simp add: fround_def)
  obtain n where n: "pow2 (k + 1) = of_int n * pow2 (fexp x)"
    using pow2_multiple [of "fexp x" "k + 1"] e by auto
  have "fround x \<le> pow2 (k + 1)" using fround_le_mult [of x n] n assms(2) by simp
  also have "\<dots> \<le> pow2 1001" using assms(4) by (intro pow2_mono) simp
  also have "\<dots> < pow2 1024"
    by (simp add: pow2_def)
  finally have "fround x < 2 ^ 1024" by (simp add: pow2_def)
  then show ?thesis using \<open>0 < x\<close> by (simp add: fl_def r Let_def)
qed

text \<open>The rounding error of a value below \<open>pow2 (k + 1)\<close> is at most half a unit of that binade.\<close>

lemma fl_error:
  assumes "0 \<le> x" and "x < pow2 (k + 1)" and "- 1022 \<le> k" and "k \<le> 1000"
  shows "\<exists>r. fl x = Fin r \<and> \<bar>r - x\<bar> \<le> pow2 (k - 53)"
proof (cases "x = 0")
  case True
  then show ?thesis by (auto simp: fl_def intro: less_imp_le)
next
  case False
  with assms have x: "0 < x" by simp
  have "flog2 x \<le> k" using x assms(2) by (rule flog2_le)
  then have e: "fexp x \<le> k - 52" using assms(3) by (simp add: fexp_def)
  obtain n where n: "pow2 (k + 1) = of_int n * pow2 (fexp x)"
    using pow2_multiple [of "fexp x" "k + 1"] e by auto
  have "fround x \<le> pow2 (k + 1)" using fround_le_mult [of x n] n assms(2) by simp
  also have "\<dots> \<le> pow2 1001" using assms(4) by (intro pow2_mono) simp
  also have "\<dots> < pow2 1024" by (simp add: pow2_def)
  finally have "fl x = Fin (fround x)" using x by (simp add: fl_def Let_def pow2_def)
  moreover have "\<bar>fround x - x\<bar> \<le> pow2 (k - 53)"
  proof -
    let ?q = "pow2 (fexp x)" and ?y = "x / pow2 (fexp x)"
    have "\<bar>of_int (round_even ?y) - ?y\<bar> \<le> 1 / 2"
      unfolding abs_le_iff using round_even_bounds [of ?y] by linarith
    then have "\<bar>of_int (round_even ?y) - ?y\<bar> * ?q \<le> 1 / 2 * ?q"
      by (intro mult_right_mono) (simp_all add: less_imp_le)
    moreover have "\<bar>of_int (round_even ?y) - ?y\<bar> * ?q = \<bar>fround x - x\<bar>"
    proof -
      have "(of_int (round_even ?y) - ?y) * ?q = fround x - x"
        by (simp add: fround_def left_diff_distrib)
      moreover have "\<bar>of_int (round_even ?y) - ?y\<bar> * ?q = \<bar>(of_int (round_even ?y) - ?y) * ?q\<bar>"
        by (simp add: abs_mult less_imp_le)
      ultimately show ?thesis by simp
    qed
    moreover have "2 * pow2 (k - 53) = pow2 (k - 52)" using pow2_Suc [of "k - 53"] by simp
    moreover have "?q \<le> pow2 (k - 52)" using e by (rule pow2_mono)
    ultimately show ?thesis by linarith
  qed
  ultimately show ?thesis by blast
qed

lemma fle_Fin_between: "fle (Fin a) x \<Longrightarrow> fle x (Fin b) \<Longrightarrow> \<exists>c. x = Fin c \<and> a \<le> c \<and> c \<le> b"
  by (cases x) auto

section \<open>Squared distances\<close>

lemma fl_error_abs:
  assumes "\<bar>x\<bar> < pow2 (k + 1)" and "- 1022 \<le> k" and "k \<le> 1000"
  shows "\<exists>r. fl x = Fin r \<and> \<bar>r - x\<bar> \<le> pow2 (k - 53)"
proof (cases "0 \<le> x")
  case True
  with assms show ?thesis by (intro fl_error) simp_all
next
  case False
  then obtain r where r: "fl (- x) = Fin r" "\<bar>r - (- x)\<bar> \<le> pow2 (k - 53)"
    using assms fl_error [of "- x" k] by auto
  have "fl x = Fin (- r)" using r(1) False by (auto simp: fl_def Let_def split: if_splits)
  with r(2) show ?thesis by (intro exI [of _ "- r"]) (simp add: abs_minus_commute)
qed

definition coordinate_ok :: "f64 \<Rightarrow> bool" where
  "coordinate_ok x \<longleftrightarrow> \<not> is_nan x \<and> \<not> is_inf x \<and> fle (fabs x) (Fin 1000000)"

lemma coordinate_ok_Fin: "coordinate_ok x \<longleftrightarrow> (\<exists>a. x = Fin a \<and> \<bar>a\<bar> \<le> 1000000)"
  by (cases x) (auto simp: coordinate_ok_def is_nan_def is_inf_def)

lemma square_perturbed:
  fixes d e :: rat
  assumes "\<bar>d - e\<bar> \<le> c" and "\<bar>e\<bar> \<le> m" and "c \<le> m"
  shows "\<bar>d * d - e * e\<bar> \<le> 3 * m * c"
proof -
  have "\<bar>d + e\<bar> \<le> 3 * m"
    using assms unfolding abs_le_iff by linarith
  then have "\<bar>d - e\<bar> * \<bar>d + e\<bar> \<le> c * (3 * m)"
    using assms(1) by (intro mult_mono) auto
  moreover have "d * d - e * e = (d - e) * (d + e)" by (simp add: algebra_simps)
  moreover have "\<bar>d * d - e * e\<bar> = \<bar>d - e\<bar> * \<bar>d + e\<bar>" unfolding calculation(2) abs_mult by simp
  ultimately show ?thesis by (simp add: mult.commute mult.left_commute)
qed

lemma square_error:
  assumes "\<bar>a\<bar> \<le> 1000000" and "\<bar>b\<bar> \<le> 1000000"
  shows "\<exists>s. fmul (fsub (Fin a) (Fin b)) (fsub (Fin a) (Fin b)) = Fin s
    \<and> \<bar>s - (a - b) * (a - b)\<bar> \<le> 1 / 256 \<and> \<bar>s\<bar> \<le> 2 ^ 43"
proof -
  have ab: "\<bar>a - b\<bar> \<le> 2000000" using assms unfolding abs_le_iff by linarith
  have p: "pow2 (20 + 1) = 2097152" "pow2 (20 - 53) = 1 / 8589934592"
    "pow2 (42 + 1) = 8796093022208" "pow2 (42 - 53) = 1 / 2048" by (simp_all add: pow2_def)
  have "\<bar>a - b\<bar> < pow2 (20 + 1)" unfolding p using ab by linarith
  then obtain d where d: "fl (a - b) = Fin d" "\<bar>d - (a - b)\<bar> \<le> 1 / 8589934592"
    using fl_error_abs [of "a - b" 20] p(2) by auto
  have sq: "\<bar>d * d - (a - b) * (a - b)\<bar> \<le> 3 * 2000000 * (1 / 8589934592)"
    using d(2) ab by (rule square_perturbed) simp
  have "\<bar>(a - b) * (a - b)\<bar> \<le> 2000000 * 2000000" unfolding abs_mult using ab by (intro mult_mono) auto
  then have m: "\<bar>d * d\<bar> \<le> 4000000000001" using sq unfolding abs_le_iff by linarith
  then have "\<bar>d * d\<bar> < pow2 (42 + 1)" unfolding p by linarith
  then obtain s where s: "fl (d * d) = Fin s" "\<bar>s - d * d\<bar> \<le> 1 / 2048"
    using fl_error_abs [of "d * d" 42] p(4) by auto
  have "\<bar>s - (a - b) * (a - b)\<bar> \<le> 1 / 256" using s(2) sq unfolding abs_le_iff by linarith
  moreover have "\<bar>s\<bar> \<le> 2 ^ 43" using s(2) m unfolding abs_le_iff by simp
  ultimately show ?thesis
    by (intro exI [of _ s]) (simp add: fsub_def d(1) s(1))
qed

lemma sum_error:
  assumes "\<bar>x\<bar> \<le> 2 ^ 44" and "\<bar>y\<bar> \<le> 2 ^ 43"
  shows "\<exists>s. fadd (Fin x) (Fin y) = Fin s \<and> \<bar>s - (x + y)\<bar> \<le> 1 / 256"
proof -
  have "\<bar>x + y\<bar> < pow2 (44 + 1)" using assms unfolding abs_le_iff by (simp add: pow2_def abs_less_iff)
  then obtain s where "fl (x + y) = Fin s" "\<bar>s - (x + y)\<bar> \<le> pow2 (44 - 53)"
    using fl_error_abs [of "x + y" 44] by auto
  moreover have "pow2 (44 - 53) \<le> 1 / 256" by (simp add: pow2_def)
  ultimately show ?thesis by (intro exI [of _ s]) simp
qed

definition sq_dist2 :: "f64 \<Rightarrow> f64 \<Rightarrow> f64 \<Rightarrow> f64 \<Rightarrow> f64" where
  "sq_dist2 x z px pz = fadd (fmul (fsub x px) (fsub x px)) (fmul (fsub z pz) (fsub z pz))"

definition sq_dist3 :: "f64 \<Rightarrow> f64 \<Rightarrow> f64 \<Rightarrow> f64 \<Rightarrow> f64 \<Rightarrow> f64 \<Rightarrow> f64" where
  "sq_dist3 x y z px py pz =
     fadd (fadd (fmul (fsub x px) (fsub x px)) (fmul (fsub y py) (fsub y py))) (fmul (fsub z pz) (fsub z pz))"

lemma sq_dist2_error:
  assumes "\<bar>a\<bar> \<le> 1000000" "\<bar>b\<bar> \<le> 1000000" "\<bar>c\<bar> \<le> 1000000" "\<bar>d\<bar> \<le> 1000000"
  shows "\<exists>s. sq_dist2 (Fin a) (Fin b) (Fin c) (Fin d) = Fin s
    \<and> \<bar>s - ((a - c) * (a - c) + (b - d) * (b - d))\<bar> \<le> 1 / 64"
proof -
  obtain s t where st: "fmul (fsub (Fin a) (Fin c)) (fsub (Fin a) (Fin c)) = Fin s" "\<bar>s\<bar> \<le> 2 ^ 43"
    "fmul (fsub (Fin b) (Fin d)) (fsub (Fin b) (Fin d)) = Fin t" "\<bar>t\<bar> \<le> 2 ^ 43"
    "\<bar>s - (a - c) * (a - c)\<bar> \<le> 1 / 256" "\<bar>t - (b - d) * (b - d)\<bar> \<le> 1 / 256"
    using square_error [OF assms(1,3)] square_error [OF assms(2,4)] by blast
  then obtain u where "fadd (Fin s) (Fin t) = Fin u" "\<bar>u - (s + t)\<bar> \<le> 1 / 256"
    using sum_error [of s t] by auto
  moreover have "\<bar>u - ((a - c) * (a - c) + (b - d) * (b - d))\<bar> \<le> 1 / 64"
    using calculation(2) st(5,6) unfolding abs_le_iff by linarith
  ultimately show ?thesis unfolding sq_dist2_def st(1,3) by blast
qed

lemma sq_dist3_error:
  assumes "\<bar>a\<bar> \<le> 1000000" "\<bar>b\<bar> \<le> 1000000" "\<bar>c\<bar> \<le> 1000000" "\<bar>a'\<bar> \<le> 1000000" "\<bar>b'\<bar> \<le> 1000000" "\<bar>c'\<bar> \<le> 1000000"
  shows "\<exists>s. sq_dist3 (Fin a) (Fin b) (Fin c) (Fin a') (Fin b') (Fin c') = Fin s
    \<and> \<bar>s - ((a - a') * (a - a') + (b - b') * (b - b') + (c - c') * (c - c'))\<bar> \<le> 1 / 32"
proof -
  obtain s t w where st: "fmul (fsub (Fin a) (Fin a')) (fsub (Fin a) (Fin a')) = Fin s" "\<bar>s\<bar> \<le> 2 ^ 43"
    "fmul (fsub (Fin b) (Fin b')) (fsub (Fin b) (Fin b')) = Fin t" "\<bar>t\<bar> \<le> 2 ^ 43"
    "fmul (fsub (Fin c) (Fin c')) (fsub (Fin c) (Fin c')) = Fin w" "\<bar>w\<bar> \<le> 2 ^ 43"
    "\<bar>s - (a - a') * (a - a')\<bar> \<le> 1 / 256" "\<bar>t - (b - b') * (b - b')\<bar> \<le> 1 / 256" "\<bar>w - (c - c') * (c - c')\<bar> \<le> 1 / 256"
    using square_error [OF assms(1,4)] square_error [OF assms(2,5)] square_error [OF assms(3,6)] by blast
  then obtain u where u: "fadd (Fin s) (Fin t) = Fin u" "\<bar>u - (s + t)\<bar> \<le> 1 / 256"
    using sum_error [of s t] by auto
  have b: "\<bar>(a - a') * (a - a')\<bar> \<le> 2000000 * 2000000" "\<bar>(b - b') * (b - b')\<bar> \<le> 2000000 * 2000000"
    unfolding abs_mult using assms by (intro mult_mono; auto simp: abs_le_iff)+
  have "\<bar>u\<bar> \<le> 2 ^ 44"
    using u(2) st(7,8) b unfolding abs_le_iff by simp
  then obtain v where "fadd (Fin u) (Fin w) = Fin v" "\<bar>v - (u + w)\<bar> \<le> 1 / 256"
    using sum_error [of u w] st(6) by auto
  moreover have "\<bar>v - ((a - a') * (a - a') + (b - b') * (b - b') + (c - c') * (c - c'))\<bar> \<le> 1 / 32"
    using calculation(2) u(2) st(7,8,9) unfolding abs_le_iff by linarith
  ultimately show ?thesis unfolding sq_dist3_def st(1,3,5) u(1) by blast
qed

end
