(* ===== verification/WorldClock.thy ===== *)
theory WorldClock
  imports Calendar Float64
begin

text \<open>
  The authoritative world clock, \<open>internal/worldstate\<close>: the accelerated calendar
  (\<open>clock.go\<close>) and the boundary loop of its manager (\<open>manager.go\<close>).

  Instants and durations are nanoseconds. \<open>c.now()\<close> is an argument. The lower-case mapping of
  Unicode (\<open>strings.ToLower\<close>) is the argument \<open>lower\<close>. A division by a zero day length panics
  in Go: \<open>active_day_length\<close> is positive for the only day length the server uses
  (\<open>active_day_length_shenmue\<close>), and \<open>snapshot\<close> returns \<open>None\<close> otherwise.
\<close>

section \<open>Constants\<close>

definition shenmue_day_length :: int where
  "shenmue_day_length = 96 * 60 * second_ns"

definition active_hours :: int where
  "active_hours = 15 * 3600 * second_ns"

definition day_start_second :: int where "day_start_second = 30600"
definition day_end_second :: int where "day_end_second = 84600"

text \<open>1986-06-09 08:30:00 UTC, in nanoseconds since the Unix epoch.\<close>

definition game_calendar_start :: int where
  "game_calendar_start = 518689800 * second_ns"


definition weather_names :: "string list" where
  "weather_names = [''clear'', ''overcast'', ''rain'', ''snow'']"

definition time_of_day_names :: "string list" where
  "time_of_day_names = [''day'', ''sunset'', ''evening'', ''night'']"

section \<open>Time of day\<close>

definition game_hour :: "int \<Rightarrow> f64" where
  "game_hour t =
     fadd (fadd (f64_of_int (hour_of t)) (fdiv (f64_of_int (minute_of t)) (Fin 60)))
       (fdiv (f64_of_int (second_of t)) (Fin 3600))"

definition time_of_day_for_time :: "int \<Rightarrow> nat" where
  "time_of_day_for_time t =
     (let h = game_hour t in
      if flt h (Fin (17 / 2)) then 3
      else if flt h (Fin (17 / 2 + 3 / 8)) then 1
      else if flt h (Fin (18 + 1 / 2)) then 0
      else if flt h (Fin (18 + 1 + 3 / 8)) then 1
      else if flt h (Fin (18 + 1 + 3 / 4 + 3 / 8)) then 2
      else 3)"

section \<open>The clock\<close>

record clock =
  epoch :: int
  day_length :: int
  season :: string
  weather :: string
  revision :: int

record world_state =
  ws_server_time_ms :: int
  ws_game_time_ms :: int
  ws_epoch_ms :: int
  ws_day_length_ms :: int
  ws_day_start_hour :: f64
  ws_day_end_hour :: f64
  ws_day_number :: int
  ws_day_progress :: f64
  ws_time_of_day :: string
  ws_time_of_day_index :: nat
  ws_season :: string
  ws_season_index :: nat
  ws_weather :: string
  ws_weather_index :: nat
  ws_revision :: int

definition normalize_word :: "(string \<Rightarrow> string) \<Rightarrow> string \<Rightarrow> string" where
  "normalize_word lower s = lower (trim_space s)"

definition new_clock_with :: "(string \<Rightarrow> string) \<Rightarrow> int \<Rightarrow> int \<Rightarrow> string \<Rightarrow> string + clock" where
  "new_clock_with lower ep dl s =
     (if dl \<le> 0 then Inl ''day length must be positive''
      else let n = normalize_word lower s in
        if n \<noteq> ''summer'' \<and> n \<noteq> ''winter'' then Inl ''season must be summer or winter''
        else Inr \<lparr>epoch = ep, day_length = dl, season = n, weather = ''clear'', revision = 1\<rparr>)"

definition new_clock :: "(string \<Rightarrow> string) \<Rightarrow> int \<Rightarrow> string \<Rightarrow> string + clock" where
  "new_clock lower ep s = new_clock_with lower ep shenmue_day_length s"

definition elapsed_since :: "clock \<Rightarrow> int \<Rightarrow> int" where
  "elapsed_since c now = max 0 (time_sub now (epoch c))"

definition active_day_length :: "int \<Rightarrow> int" where
  "active_day_length dl =
     f64_to_int (fdiv (fmul (f64_of_int dl) (f64_of_int active_hours)) (f64_of_int day_ns))"

definition day_progress :: "int \<Rightarrow> int \<Rightarrow> f64" where
  "day_progress wd adl = fdiv (f64_of_int wd) (f64_of_int adl)"

definition game_time_of :: "int \<Rightarrow> int \<Rightarrow> int" where
  "game_time_of el adl =
     game_calendar_start + day_ns * (el div adl)
     + f64_to_int (fmul (day_progress (el mod adl) adl) (f64_of_int active_hours))"

definition index_of :: "string list \<Rightarrow> string \<Rightarrow> nat" where
  "index_of names s = (case find (\<lambda>i. names ! i = s) [0..<length names] of Some i \<Rightarrow> i | None \<Rightarrow> 0)"

definition snapshot :: "clock \<Rightarrow> int \<Rightarrow> world_state option" where
  "snapshot c now =
     (let el = elapsed_since c now; adl = active_day_length (day_length c) in
      if adl = 0 then None
      else let gt = game_time_of el adl; ti = time_of_day_for_time gt in
        Some \<lparr>ws_server_time_ms = unix_milli now, ws_game_time_ms = unix_milli gt,
          ws_epoch_ms = unix_milli (epoch c), ws_day_length_ms = day_length c div milli_ns,
          ws_day_start_hour = Fin (17 / 2), ws_day_end_hour = Fin (47 / 2),
          ws_day_number = el div adl, ws_day_progress = day_progress (el mod adl) adl,
          ws_time_of_day = time_of_day_names ! ti, ws_time_of_day_index = ti,
          ws_season = season c, ws_season_index = (if season c = ''winter'' then 1 else 0),
          ws_weather = weather c, ws_weather_index = index_of weather_names (weather c),
          ws_revision = revision c\<rparr>)"

definition set_season :: "(string \<Rightarrow> string) \<Rightarrow> clock \<Rightarrow> string \<Rightarrow> string + clock" where
  "set_season lower c s =
     (let n = normalize_word lower s in
      if n \<noteq> ''summer'' \<and> n \<noteq> ''winter'' then Inl ''season must be summer or winter''
      else if season c \<noteq> n then Inr (c\<lparr>season := n, revision := wrapu64 (revision c + 1)\<rparr>)
      else Inr c)"

definition set_weather :: "(string \<Rightarrow> string) \<Rightarrow> clock \<Rightarrow> string \<Rightarrow> string + clock" where
  "set_weather lower c s =
     (let n = normalize_word lower s in
      if n \<notin> set weather_names then Inl ''weather must be clear, overcast, rain, or snow''
      else if weather c \<noteq> n then Inr (c\<lparr>weather := n, revision := wrapu64 (revision c + 1)\<rparr>)
      else Inr c)"

text \<open>
  \<open>SetGameSecond\<close> reads the wall clock once for the new epoch (\<open>now\<close>); the snapshot it returns
  is taken after the lock is released, at a later reading (\<open>now'\<close>). The multiplication and the
  negation are \<open>int64\<close> operations.
\<close>

definition within_day_of :: "int \<Rightarrow> int \<Rightarrow> int" where
  "within_day_of adl g =
     f64_to_int (fdiv (fmul (f64_of_int adl) (f64_of_int ((g - day_start_second) * second_ns)))
       (f64_of_int active_hours))"

definition set_game_second :: "clock \<Rightarrow> int \<Rightarrow> int \<Rightarrow> string + clock" where
  "set_game_second c now g =
     (if g < day_start_second \<or> day_end_second \<le> g
      then Inl ''game time must be between 08:30 and 23:29''
      else let el = elapsed_since c now; adl = active_day_length (day_length c);
               wd = within_day_of adl g in
        if adl = 0 then Inl ''runtime error: integer divide by zero''
        else Inr (c\<lparr>epoch := now + wrap64 (wrap64 (wrap64 (- (el div adl)) * adl) - wd),
               revision := wrapu64 (revision c + 1)\<rparr>))"

section \<open>The manager's loop\<close>

text \<open>
  \<open>Manager.Run\<close>: one snapshot per tick, compared with the previous one; \<open>onBoundary\<close> is called
  with the new one where they differ. The loop is a function of the snapshots it reads; its
  result is the list of calls.
\<close>

definition boundary_crossed :: "world_state \<Rightarrow> world_state \<Rightarrow> bool" where
  "boundary_crossed prev next \<longleftrightarrow>
     ws_day_number next \<noteq> ws_day_number prev \<or>
     ws_time_of_day_index next \<noteq> ws_time_of_day_index prev \<or>
     ws_season_index next \<noteq> ws_season_index prev \<or>
     ws_revision next \<noteq> ws_revision prev"

fun manager_run :: "world_state \<Rightarrow> world_state list \<Rightarrow> world_state list" where
  "manager_run prev [] = []"
| "manager_run prev (next # ticks) =
     (if boundary_crossed prev next then next # manager_run next ticks
      else manager_run next ticks)"

section \<open>Lemmas on the floats of the clock\<close>


lemma active_hours_f64 [simp]: "f64_of_int active_hours = Fin 54000000000000"
  by (simp add: f64_of_int_exact active_hours_def second_ns_def)

lemma active_day_length_shenmue: "active_day_length shenmue_day_length = 3600 * second_ns"
proof -
  have a: "f64_of_int shenmue_day_length = Fin 5760000000000" "f64_of_int day_ns = Fin 86400000000000"
    by (simp_all add: f64_of_int_exact shenmue_day_length_def day_ns_def second_ns_def)
  have p: "fl 311040000000000000000000000 = Fin 311040000000000028454158336"
    by (subst fl_eval [where k = 88 and m = 4526227712631226])
      (simp_all add: pow2_def)
  have q: "fl (311040000000000028454158336 / 86400000000000) = Fin (7372800000000001 / 2048)"
    by (subst fl_eval [where k = 41 and m = 7372800000000001])
      (simp_all add: pow2_def)
  show ?thesis
    unfolding active_day_length_def a active_hours_f64 using p q
    by (simp add: second_ns_def f64_to_int_eqI)
qed

lemma game_hour_error:
  "\<exists>r. game_hour t = Fin r \<and> \<bar>r - of_int (second_of_day t) / 3600\<bar> < 1 / 7200"
proof -
  let ?h = "of_int (hour_of t) :: rat" and ?m = "of_int (minute_of t) :: rat"
    and ?s = "of_int (second_of t) :: rat"
  note b = clock_part_bounds [of t]
  have bq: "0 \<le> ?h" "?h \<le> 23" "0 \<le> ?m" "?m \<le> 59" "0 \<le> ?s" "?s \<le> 59"
    using b by simp_all
  have ints: "f64_of_int (hour_of t) = Fin ?h" "f64_of_int (minute_of t) = Fin ?m"
    "f64_of_int (second_of t) = Fin ?s"
    using b by (simp_all add: f64_of_int_exact)
  have e: "pow2 (- 48) \<le> 1 / 1000000" by (simp add: pow2_def)
  obtain a where a: "fl (?m / 60) = Fin a" "\<bar>a - ?m / 60\<bar> \<le> pow2 (5 - 53)"
    using fl_error [of "?m / 60" 5] bq by (auto simp: pow2_def)
  obtain c where c: "fl (?s / 3600) = Fin c" "\<bar>c - ?s / 3600\<bar> \<le> pow2 (5 - 53)"
    using fl_error [of "?s / 3600" 5] bq by (auto simp: pow2_def)
  have a0: "0 \<le> a" using fl_mono [of 0 "?m / 60"] a bq by (simp add: fl_def)
  have c0: "0 \<le> c" using fl_mono [of 0 "?s / 3600"] c bq by (simp add: fl_def)
  have ab: "a \<le> 1 + 1 / 1000000" using a e bq by simp
  have cb: "c \<le> 1 + 1 / 1000000" using c e bq by simp
  obtain d where d: "fl (?h + a) = Fin d" "\<bar>d - (?h + a)\<bar> \<le> pow2 (5 - 53)"
    using fl_error [of "?h + a" 5] a0 ab bq by (auto simp: pow2_def)
  have d0: "0 \<le> d" using fl_mono [of 0 "?h + a"] d a0 bq by (simp add: fl_def)
  have db: "d \<le> 25" using d e ab bq by simp
  obtain r where r: "fl (d + c) = Fin r" "\<bar>r - (d + c)\<bar> \<le> pow2 (5 - 53)"
    using fl_error [of "d + c" 5] d0 db c0 cb by (auto simp: pow2_def)
  have g: "game_hour t = Fin r"
    by (simp add: game_hour_def ints a(1) c(1) d(1) r(1))
  have eq: "of_int (second_of_day t) / 3600 = ?h + ?m / 60 + ?s / 3600"
    by (simp add: second_of_day_split add_divide_distrib)
  have "\<bar>r - of_int (second_of_day t) / 3600\<bar> < 1 / 7200"
    unfolding eq abs_less_iff using a(2) c(2) d(2) r(2) e unfolding abs_le_iff by simp
  with g show ?thesis by blast
qed

lemma clock_parts_of:
  assumes "second_of_day t = 3600 * h + 60 * m + s"
    and "0 \<le> h" "0 \<le> m" "m < 60" "0 \<le> s" "s < 60"
  shows "hour_of t = h \<and> minute_of t = m \<and> second_of t = s"
proof -
  note eq = assms(1) [unfolded second_of_day_split] and b = assms(2-) clock_part_bounds [of t]
  have "\<not> h + 1 \<le> hour_of t" and "\<not> hour_of t + 1 \<le> h" using eq b by linarith+
  then have h: "hour_of t = h" by simp
  have "\<not> m + 1 \<le> minute_of t" and "\<not> minute_of t + 1 \<le> m" using eq b h by linarith+
  then have "minute_of t = m" by simp
  with eq h show ?thesis by simp
qed

lemma game_hour_at:
  assumes "second_of_day t = 3600 * h + 60 * m + s"
    and "0 \<le> h" "0 \<le> m" "m < 60" "0 \<le> s" "s < 60"
  shows "game_hour t = fadd (fadd (f64_of_int h) (fdiv (f64_of_int m) (Fin 60)))
       (fdiv (f64_of_int s) (Fin 3600))"
  using clock_parts_of [OF assms] by (simp add: game_hour_def)

lemma fl_clock_points:
  "fl (1 / 2) = Fin (1 / 2)"
  "fl (17 / 2) = Fin (17 / 2)"
  "fl (37 / 2) = Fin (37 / 2)"
  "fl (13 / 15) = Fin (1951559838527215 / 2251799813685248)"
  "fl (1 / 120) = Fin (4803839602528529 / 576460752303423488)"
  "fl (19965958348009199 / 2251799813685248) = Fin (1247872396750575 / 140737488355328)"
  "fl (5116089176692883729 / 576460752303423488) = Fin (71 / 8)"
  "fl (11 / 30) = Fin (6605279453476727 / 18014398509481984)"
  "fl (348878851133634423 / 18014398509481984) = Fin (2725616024481519 / 140737488355328)"
  "fl (11168927075878830353 / 576460752303423488) = Fin (155 / 8)"
  "fl (7 / 60) = Fin (4203359652212463 / 36028797018963968)"
  "fl (724779300031491823 / 36028797018963968) = Fin (2831169140748015 / 140737488355328)"
  "fl (11601272640106397969 / 576460752303423488) = Fin (161 / 8)"
proof -
  show "fl (1 / 2) = Fin (1 / 2)"
    by (subst fl_eval [where k = "-1" and m = 4503599627370496]) (simp_all add: pow2_def)
  show "fl (17 / 2) = Fin (17 / 2)"
    by (subst fl_eval [where k = "3" and m = 4785074604081152]) (simp_all add: pow2_def)
  show "fl (37 / 2) = Fin (37 / 2)"
    by (subst fl_eval [where k = "4" and m = 5207287069147136]) (simp_all add: pow2_def)
  show "fl (13 / 15) = Fin (1951559838527215 / 2251799813685248)"
    by (subst fl_eval [where k = "-1" and m = 7806239354108860]) (simp_all add: pow2_def)
  show "fl (1 / 120) = Fin (4803839602528529 / 576460752303423488)"
    by (subst fl_eval [where k = "-7" and m = 4803839602528529]) (simp_all add: pow2_def)
  show "fl (19965958348009199 / 2251799813685248) = Fin (1247872396750575 / 140737488355328)"
    by (subst fl_eval [where k = "3" and m = 4991489587002300]) (simp_all add: pow2_def)
  show "fl (5116089176692883729 / 576460752303423488) = Fin (71 / 8)"
    by (subst fl_eval [where k = "3" and m = 4996180836614144]) (simp_all add: pow2_def)
  show "fl (11 / 30) = Fin (6605279453476727 / 18014398509481984)"
    by (subst fl_eval [where k = "-2" and m = 6605279453476727]) (simp_all add: pow2_def)
  show "fl (348878851133634423 / 18014398509481984) = Fin (2725616024481519 / 140737488355328)"
    by (subst fl_eval [where k = "4" and m = 5451232048963038]) (simp_all add: pow2_def)
  show "fl (11168927075878830353 / 576460752303423488) = Fin (155 / 8)"
    by (subst fl_eval [where k = "4" and m = 5453577673768960]) (simp_all add: pow2_def)
  show "fl (7 / 60) = Fin (4203359652212463 / 36028797018963968)"
    by (subst fl_eval [where k = "-4" and m = 8406719304424926]) (simp_all add: pow2_def)
  show "fl (724779300031491823 / 36028797018963968) = Fin (2831169140748015 / 140737488355328)"
    by (subst fl_eval [where k = "4" and m = 5662338281496030]) (simp_all add: pow2_def)
  show "fl (11601272640106397969 / 576460752303423488) = Fin (161 / 8)"
    by (subst fl_eval [where k = "4" and m = 5664683906301952]) (simp_all add: pow2_def)
qed

lemma game_hour_points:
  "second_of_day t = 30600 \<Longrightarrow> game_hour t = Fin (17 / 2)"
  "second_of_day t = 31950 \<Longrightarrow> game_hour t = Fin (71 / 8)"
  "second_of_day t = 66600 \<Longrightarrow> game_hour t = Fin (37 / 2)"
  "second_of_day t = 69750 \<Longrightarrow> game_hour t = Fin (155 / 8)"
  "second_of_day t = 72450 \<Longrightarrow> game_hour t = Fin (161 / 8)"
  using game_hour_at [of t 8 30 0] game_hour_at [of t 8 52 30] game_hour_at [of t 18 30 0]
    game_hour_at [of t 19 22 30] game_hour_at [of t 20 7 30] fl_clock_points
  by (simp_all add: f64_of_int_exact fl_def [of 0])

lemma flt_threshold:
  assumes "second_of_day t = x \<Longrightarrow> game_hour t = Fin T" and "T = of_int x / 3600"
  shows "flt (game_hour t) (Fin T) \<longleftrightarrow> second_of_day t < x"
proof (cases "second_of_day t = x")
  case True
  with assms show ?thesis by simp
next
  case False
  obtain r where r: "game_hour t = Fin r" "\<bar>r - of_int (second_of_day t) / 3600\<bar> < 1 / 7200"
    using game_hour_error by blast
  from r(2) have rb: "of_int (second_of_day t) / 3600 - 1 / 7200 < r"
    "r < of_int (second_of_day t) / 3600 + 1 / 7200" by linarith+
  show ?thesis
  proof (cases "second_of_day t < x")
    case True
    then have "of_int (second_of_day t) + 1 \<le> (of_int x :: rat)" by linarith
    then have "r < T" using rb assms(2) by linarith
    with True r show ?thesis by simp
  next
    case 2: False
    with False have "of_int x + 1 \<le> (of_int (second_of_day t) :: rat)" by linarith
    then have "T < r" using rb assms(2) by linarith
    with 2 r show ?thesis by simp
  qed
qed

lemma time_of_day_phases:
  "time_of_day_for_time t =
     (let s = second_of_day t in
      if s < 30600 then 3 else if s < 31950 then 1 else if s < 66600 then 0
      else if s < 69750 then 1 else if s < 72450 then 2 else 3)"
proof -
  note p = game_hour_points [of t]
  have q: "17 / 2 + 3 / 8 = (71 / 8 :: rat)" "18 + 1 / 2 = (37 / 2 :: rat)"
    "18 + 1 + 3 / 8 = (155 / 8 :: rat)" "18 + 1 + 3 / 4 + 3 / 8 = (161 / 8 :: rat)"
    by simp_all
  have "flt (game_hour t) (Fin (17 / 2)) \<longleftrightarrow> second_of_day t < 30600"
    "flt (game_hour t) (Fin (71 / 8)) \<longleftrightarrow> second_of_day t < 31950"
    "flt (game_hour t) (Fin (37 / 2)) \<longleftrightarrow> second_of_day t < 66600"
    "flt (game_hour t) (Fin (155 / 8)) \<longleftrightarrow> second_of_day t < 69750"
    "flt (game_hour t) (Fin (161 / 8)) \<longleftrightarrow> second_of_day t < 72450"
    by (rule flt_threshold, rule p, assumption, simp)+
  then show ?thesis unfolding time_of_day_for_time_def Let_def q by simp
qed


section \<open>The offset within a game day\<close>

definition day_offset :: "int \<Rightarrow> int" where
  "day_offset w = f64_to_int (fmul (day_progress w (3600 * second_ns)) (f64_of_int active_hours))"

text \<open>
  A shenmue day lasts 3600 real seconds for 15 game hours, a factor of 15. The two roundings
  lose less than one nanosecond before the truncation.
\<close>

lemma day_offset_cases:
  assumes "0 \<le> w" and "w < 3600 * second_ns"
  shows "day_offset w = 15 * w \<or> day_offset w = 15 * w - 1 \<and> 0 < w"
proof (cases "w = 0")
  case True
  then show ?thesis
    by (simp add: day_offset_def day_progress_def f64_of_int_exact second_ns_def fl_def [of 0]
        f64_to_int_def)
next
  case False
  let ?x = "of_int w / 3600000000000 :: rat"
  have w: "0 < w" "w < 3600000000000" using assms False by (simp_all add: second_ns_def)
  then have x: "0 \<le> ?x" "?x < 1" by simp_all
  have "f64_of_int w = Fin (of_int w)" "f64_of_int (3600 * second_ns) = Fin 3600000000000"
    using w by (simp_all add: f64_of_int_exact second_ns_def)
  moreover obtain p where p: "fl ?x = Fin p" "\<bar>p - ?x\<bar> \<le> pow2 (- 54)"
    using fl_error [of ?x "-1"] x by (auto simp: pow2_def)
  ultimately have prog: "day_progress w (3600 * second_ns) = Fin p"
    by (simp add: day_progress_def)
  have p0: "0 \<le> p" using fl_mono [of 0 ?x] p x by (simp add: fl_def)
  have pe: "- 1 / 18014398509481984 \<le> p - ?x" "p - ?x \<le> 1 / 18014398509481984"
    using p(2) [unfolded abs_le_iff] by (simp_all add: pow2_def)
  let ?y = "p * 54000000000000"
  have ye: "- 1 / 256 \<le> ?y - of_int (15 * w)" "?y - of_int (15 * w) \<le> 1 / 256"
    using pe by simp_all
  have "?y < pow2 46" using ye w by (simp add: pow2_def)
  then obtain v where v: "fl ?y = Fin v" "\<bar>v - ?y\<bar> \<le> pow2 (- 8)"
    using fl_error [of ?y 45] p0 by auto
  have v0: "0 \<le> v" using fl_mono [of 0 ?y] v p0 by (simp add: fl_def)
  have ve: "- 1 / 128 \<le> v - of_int (15 * w)" "v - of_int (15 * w) \<le> 1 / 128"
    using v(2) [unfolded abs_le_iff] ye by (simp_all add: pow2_def)
  have off: "day_offset w = f64_to_int (Fin v)"
    by (simp add: day_offset_def prog v(1))
  show ?thesis
  proof (cases "of_int (15 * w) \<le> v")
    case True
    then have "day_offset w = 15 * w"
      unfolding off using v0 ve by (intro f64_to_int_eqI) simp_all
    then show ?thesis by simp
  next
    case False
    then have "day_offset w = 15 * w - 1"
      unfolding off using v0 ve by (intro f64_to_int_eqI) simp_all
    with w show ?thesis by simp
  qed
qed

lemma day_offset_bounds:
  assumes "0 \<le> w" and "w < 3600 * second_ns"
  shows "0 \<le> day_offset w \<and> day_offset w < active_hours"
  using day_offset_cases [OF assms] assms by (auto simp: active_hours_def second_ns_def)


lemma game_time_of_shenmue:
  "game_time_of el (3600 * second_ns) =
     game_calendar_start + day_ns * (el div (3600 * second_ns)) + day_offset (el mod (3600 * second_ns))"
  by (simp add: game_time_of_def day_offset_def)

lemma elapsed_mod_bounds:
  "0 \<le> el mod (3600 * second_ns)" "el mod (3600 * second_ns) < 3600 * second_ns"
  by (simp_all add: second_ns_def)


lemma elapsed_since_nonneg [simp]: "0 \<le> elapsed_since c now"
  by (simp add: elapsed_since_def)


lemma snapshot_shenmue:
  assumes "day_length c = shenmue_day_length"
  shows "\<exists>w. snapshot c now = Some w
    \<and> ws_game_time_ms w = unix_milli (game_time_of (elapsed_since c now) (3600 * second_ns))
    \<and> ws_day_number w = elapsed_since c now div (3600 * second_ns)
    \<and> ws_time_of_day_index w = time_of_day_for_time (game_time_of (elapsed_since c now) (3600 * second_ns))
    \<and> ws_revision w = revision c \<and> ws_season w = season c \<and> ws_weather w = weather c"
  using assms by (simp add: snapshot_def active_day_length_shenmue Let_def second_ns_def)

section \<open>Setting the game second\<close>

lemma within_day_of_bounds:
  assumes "day_start_second \<le> g" and "g < day_end_second"
  defines "s \<equiv> (g - day_start_second) * second_ns" and "wd \<equiv> within_day_of (3600 * second_ns) g"
  shows "0 \<le> wd" and "wd < 3600 * second_ns" and "15 * wd \<le> s" and "s \<le> 15 * wd + 16"
    and "\<not> 3 dvd (g - day_start_second) \<Longrightarrow> 15 * wd < s"
proof -
  have s: "0 \<le> s" "s < 54000000000000" "s = (g - day_start_second) * 1000000000"
    using assms(1,2) by (simp_all add: s_def day_start_second_def day_end_second_def second_ns_def)
  have f: "f64_of_int s = Fin (of_int s)" "f64_of_int (3600 * second_ns) = Fin 3600000000000"
    using s by (simp_all add: f64_of_int_exact second_ns_def)
  let ?x = "3600000000000 * of_int s :: rat"
  have x: "0 \<le> ?x" "?x < pow2 88" using s by (simp_all add: pow2_def)
  obtain p where p: "fl ?x = Fin p" "\<bar>p - ?x\<bar> \<le> pow2 34"
    using fl_error [of ?x 87] x by auto
  have p0: "0 \<le> p" using fl_mono [of 0 ?x] p x by (simp add: fl_def)
  let ?y = "p / 54000000000000"
  have ye: "- 1 / 1000 \<le> ?y - of_int s / 15" "?y - of_int s / 15 \<le> 1 / 1000"
    using p(2) [unfolded abs_le_iff] by (simp_all add: pow2_def)
  have "?y < pow2 42" using ye s(1,2) by (simp add: pow2_def)
  then obtain v where v: "fl ?y = Fin v" "\<bar>v - ?y\<bar> \<le> pow2 (- 12)"
    using fl_error [of ?y 41] p0 by auto
  have v0: "0 \<le> v" using fl_mono [of 0 ?y] v p0 by (simp add: fl_def)
  have ve: "- 1 / 100 \<le> v - of_int s / 15" "v - of_int s / 15 \<le> 1 / 100"
    using v(2) [unfolded abs_le_iff] ye by (simp_all add: pow2_def)
  have wd: "wd = \<lfloor>v\<rfloor>"
    using v0 by (simp add: wd_def within_day_of_def f p(1) v(1) f64_to_int_def s_def [symmetric])
  have fl: "of_int wd \<le> v" "v < of_int wd + 1" unfolding wd by linarith+
  have "(of_int s :: rat) \<le> of_int (15 * wd + 16)" using fl ve by simp
  then show "s \<le> 15 * wd + 16" by (simp only: of_int_le_iff)
  have "(of_int (15 * wd) :: rat) < of_int (s + 1)" using fl ve by simp
  then show up: "15 * wd \<le> s" by (simp only: of_int_less_iff)
  show "0 \<le> wd" using v0 by (simp add: wd)
  show "wd < 3600 * second_ns" using up s by (simp add: second_ns_def)
  show "15 * wd < s" if "\<not> 3 dvd (g - day_start_second)"
  proof (rule ccontr)
    assume "\<not> 15 * wd < s"
    with up s(3) have "15 * wd = (g - day_start_second) * 1000000000" by linarith
    then have "g - day_start_second = 3 * (5 * wd - 333333333 * (g - day_start_second))"
      by (simp add: algebra_simps)
    then have "3 dvd (g - day_start_second)" by (rule dvdI)
    with that show False by simp
  qed
qed

lemma set_game_second_state:
  assumes "day_length c = shenmue_day_length" and "day_start_second \<le> g" and "g < day_end_second"
    and "now - epoch c < 2 ^ 62"
  shows "\<exists>c'. set_game_second c now g = Inr c'
    \<and> day_length c' = shenmue_day_length \<and> revision c' = wrapu64 (revision c + 1)
    \<and> season c' = season c \<and> weather c' = weather c
    \<and> elapsed_since c' now =
        elapsed_since c now div (3600 * second_ns) * (3600 * second_ns) + within_day_of (3600 * second_ns) g"
proof -
  let ?L = "3600 * second_ns" and ?el = "elapsed_since c now"
  let ?d = "?el div ?L" and ?w = "within_day_of ?L g"
  note w = within_day_of_bounds [OF assms(2,3)]
  have el: "0 \<le> ?el" "?el < 2 ^ 62" using assms(4) by (auto simp: elapsed_since_def time_sub_def)
  have d0: "0 \<le> ?d" "?d * ?L \<le> ?el"
    using el div_mult_mod_eq [of ?el ?L] elapsed_mod_bounds [of ?el]
    by (simp_all add: pos_imp_zdiv_nonneg_iff second_ns_def)
  moreover have "?d \<le> ?d * ?L" using d0(1) by (simp add: second_ns_def)
  ultimately have d: "0 \<le> ?d" "?d * ?L \<le> ?el" "?d \<le> ?el" by linarith+
  have "int64_ok (- ?d)" "int64_ok (- ?d * ?L)" "int64_ok (- ?d * ?L - ?w)"
    using d el w by (simp_all add: int64_ok_def second_ns_def)
  then have ep: "wrap64 (wrap64 (wrap64 (- ?d) * ?L) - ?w) = - ?d * ?L - ?w" by simp
  let ?c = "c\<lparr>epoch := now + (- ?d * ?L - ?w), revision := wrapu64 (revision c + 1)\<rparr>"
  have set: "set_game_second c now g = Inr ?c"
    using assms(2,3) unfolding set_game_second_def Let_def assms(1) active_day_length_shenmue ep
    by (simp add: second_ns_def)
  have "time_sub now (epoch ?c) = ?d * ?L + ?w"
    using d el w(1,2) by (simp add: time_sub_def second_ns_def)
  then have "elapsed_since ?c now = ?d * ?L + ?w"
    using d w(1) by (simp add: elapsed_since_def second_ns_def)
  with set assms(1) show ?thesis by simp
qed

lemma unix_milli_shift: "unix_milli (q * milli_ns + x) * milli_ns = q * milli_ns + x div milli_ns * milli_ns"
  by (simp add: unix_milli_def milli_ns_def)

lemma second_of_day_eqI:
  "t div second_ns = q * 86400 + x \<Longrightarrow> 0 \<le> x \<Longrightarrow> x < 86400 \<Longrightarrow> second_of_day t = x"
  by (simp add: second_of_day_def)

text \<open>
  C37: at every wall-clock instant the server's clock publishes a snapshot, and the game time it
  shows lies on the calendar day of its day number, at or after 08:30:00 and before 23:30:00,
  whatever the floating-point roundings of \<open>Snapshot\<close>.
\<close>

theorem snapshot_playable:
  assumes "day_length c = shenmue_day_length"
  shows "\<exists>w. snapshot c now = Some w
    \<and> 0 \<le> ws_day_number w
    \<and> game_calendar_start + day_ns * ws_day_number w \<le> from_unix_milli (ws_game_time_ms w)
    \<and> from_unix_milli (ws_game_time_ms w) < game_calendar_start + day_ns * ws_day_number w + active_hours
    \<and> day_start_second \<le> second_of_day (from_unix_milli (ws_game_time_ms w))
    \<and> second_of_day (from_unix_milli (ws_game_time_ms w)) < day_end_second"
proof -
  let ?L = "3600 * second_ns" and ?el = "elapsed_since c now"
  let ?d = "?el div ?L" and ?o = "day_offset (?el mod ?L)"
  obtain w where w: "snapshot c now = Some w"
    and ms: "ws_game_time_ms w = unix_milli (game_time_of ?el ?L)" and dn: "ws_day_number w = ?d"
    using snapshot_shenmue [OF assms] by blast
  let ?t = "from_unix_milli (ws_game_time_ms w)"
  have o: "0 \<le> ?o" "?o < active_hours"
    using day_offset_bounds [OF elapsed_mod_bounds [of ?el]] by simp_all
  have d: "0 \<le> ?d" by (simp add: pos_imp_zdiv_nonneg_iff second_ns_def)
  obtain k where k: "?t = game_calendar_start + day_ns * ?d + k" "0 \<le> k" "k < active_hours"
  proof
    show "?t = game_calendar_start + day_ns * ?d + ?o div milli_ns * milli_ns"
    proof -
      have q: "game_calendar_start + day_ns * ?d = (518689800000 + 86400000 * ?d) * milli_ns"
        by (simp add: game_calendar_start_def day_ns_def second_ns_def milli_ns_def)
      show ?thesis
        unfolding ms game_time_of_shenmue from_unix_milli_def q by (rule unix_milli_shift)
    qed
    show "0 \<le> ?o div milli_ns * milli_ns" "?o div milli_ns * milli_ns < active_hours"
      using o by (simp_all add: milli_ns_def active_hours_def second_ns_def)
  qed
  have "second_of_day ?t = day_start_second + k div second_ns"
  proof -
    have "?t div second_ns = (6003 + ?d) * 86400 + (day_start_second + k div second_ns)"
      unfolding k(1) by (simp add: game_calendar_start_def day_ns_def second_ns_def day_start_second_def)
    moreover have "0 \<le> day_start_second + k div second_ns" "day_start_second + k div second_ns < 86400"
      using k(2,3) by (simp_all add: day_start_second_def active_hours_def second_ns_def)
    ultimately show ?thesis by (rule second_of_day_eqI)
  qed
  moreover have "0 \<le> k div second_ns" "k div second_ns < 54000"
    using k(2,3) by (simp_all add: active_hours_def second_ns_def)
  ultimately show ?thesis
    using w dn d k by (simp add: day_start_second_def day_end_second_def)
qed



text \<open>
  A valid \<open>SetGameSecond\<close> keeps the calendar day, the season and the weather, increments the
  revision, and the snapshot then shows the requested game second to within 17 nanoseconds of
  game time, never later than requested.
\<close>

theorem set_game_second_ok:
  assumes "day_length c = shenmue_day_length" and "day_start_second \<le> g" and "g < day_end_second"
    and "now - epoch c < 2 ^ 62"
  shows "\<exists>c' w v. set_game_second c now g = Inr c' \<and> snapshot c now = Some v \<and> snapshot c' now = Some w
    \<and> ws_day_number w = ws_day_number v \<and> ws_revision w = wrapu64 (ws_revision v + 1)
    \<and> ws_season w = ws_season v \<and> ws_weather w = ws_weather v
    \<and> (let midnight = game_calendar_start - day_start_second * second_ns + day_ns * ws_day_number v;
           asked = midnight + g * second_ns
       in unix_milli (asked - 17) \<le> ws_game_time_ms w \<and> ws_game_time_ms w \<le> unix_milli asked)"
proof -
  let ?L = "3600 * second_ns" and ?el = "elapsed_since c now"
  let ?w = "within_day_of ?L g" and ?s = "(g - day_start_second) * second_ns"
  obtain c' where c': "set_game_second c now g = Inr c'" "day_length c' = shenmue_day_length"
    "revision c' = wrapu64 (revision c + 1)" "season c' = season c" "weather c' = weather c"
    and el': "elapsed_since c' now = ?el div ?L * ?L + ?w"
    using set_game_second_state [OF assms] by blast
  note b = within_day_of_bounds [OF assms(2,3)]
  have dm: "elapsed_since c' now div ?L = ?el div ?L" "elapsed_since c' now mod ?L = ?w"
    unfolding el' using b(1,2) by simp_all
  obtain v where v: "snapshot c now = Some v" "ws_day_number v = ?el div ?L" "ws_revision v = revision c"
    "ws_season v = season c" "ws_weather v = weather c"
    using snapshot_shenmue [OF assms(1), of now] by blast
  obtain w where w: "snapshot c' now = Some w" "ws_day_number w = ?el div ?L" "ws_revision w = revision c'"
    "ws_season w = season c'" "ws_weather w = weather c'"
    "ws_game_time_ms w = unix_milli (game_calendar_start + day_ns * (?el div ?L) + day_offset ?w)"
    using snapshot_shenmue [OF c'(2), of now] unfolding game_time_of_shenmue dm by blast
  have o: "?s - 17 \<le> day_offset ?w" "day_offset ?w \<le> ?s"
    using day_offset_cases [OF b(1,2)] b(3,4) by linarith+
  let ?asked = "game_calendar_start - day_start_second * second_ns + day_ns * (?el div ?L) + g * second_ns"
  have "?asked = game_calendar_start + day_ns * (?el div ?L) + ?s" by (simp add: left_diff_distrib)
  then have "unix_milli (?asked - 17) \<le> ws_game_time_ms w" "ws_game_time_ms w \<le> unix_milli ?asked"
    unfolding w(6) using o by (auto intro!: unix_milli_mono)
  with c' v w show ?thesis by (simp add: Let_def)
qed


section \<open>Phases of the day\<close>

text \<open>
  The phase of the day switches exactly at 08:30:00, 08:52:30, 18:30:00, 19:22:30 and
  20:07:30: the floating-point hour that the code compares never moves a boundary by a second.
\<close>

theorem time_of_day_thresholds:
  "time_of_day_for_time t =
     (let s = second_of_day t in
      if s < 30600 then 3 else if s < 31950 then 1 else if s < 66600 then 0
      else if s < 69750 then 1 else if s < 72450 then 2 else 3)"
  by (rule time_of_day_phases)

section \<open>Reachable clocks\<close>

text \<open>The writes that the exported operations make to a clock.\<close>

inductive clock_step :: "(string \<Rightarrow> string) \<Rightarrow> clock \<Rightarrow> clock \<Rightarrow> bool" for lower where
  step_season: "set_season lower c s = Inr c' \<Longrightarrow> clock_step lower c c'"
| step_weather: "set_weather lower c s = Inr c' \<Longrightarrow> clock_step lower c c'"
| step_game_second: "set_game_second c now g = Inr c' \<Longrightarrow> clock_step lower c c'"

inductive_cases clock_stepE: "clock_step lower c c'"

definition clock_start :: "(string \<Rightarrow> string) \<Rightarrow> clock \<Rightarrow> bool" where
  "clock_start lower c \<longleftrightarrow> (\<exists>ep s. new_clock lower ep s = Inr c)"

definition clock_ok :: "clock \<Rightarrow> bool" where
  "clock_ok c \<longleftrightarrow> day_length c = shenmue_day_length \<and> season c \<in> {''summer'', ''winter''}
     \<and> weather c \<in> set weather_names"

lemma clock_step_ok: "clock_step lower c c' \<Longrightarrow> clock_ok c \<Longrightarrow> clock_ok c'"
  by (elim clock_stepE)
    (auto simp: clock_ok_def set_season_def set_weather_def set_game_second_def Let_def
      split: if_splits)

lemma clock_start_ok: "clock_start lower c \<Longrightarrow> clock_ok c"
  by (auto simp: clock_start_def new_clock_def new_clock_with_def clock_ok_def Let_def
      weather_names_def split: if_splits)

interpretation clk: transition_system "clock_start lower" "clock_step lower" clock_ok for lower
  by unfold_locales (auto intro: clock_start_ok clock_step_ok)

lemma clock_step_revision:
  "clock_step lower c c' \<Longrightarrow> c' = c \<or> revision c' = wrapu64 (revision c + 1)"
  by (elim clock_stepE)
    (auto simp: set_season_def set_weather_def set_game_second_def Let_def split: if_splits)

lemma index_of_weather: "s \<in> set weather_names \<Longrightarrow>
    index_of weather_names s < 4 \<and> weather_names ! index_of weather_names s = s"
  by (auto simp: weather_names_def index_of_def upt_rec)

lemma time_of_day_range: "time_of_day_for_time t < 4"
  by (simp add: time_of_day_phases Let_def)

text \<open>
  Every clock that \<open>NewClock\<close> and any sequence of \<open>SetSeason\<close>, \<open>SetWeather\<close> and
  \<open>SetGameSecond\<close> calls can produce publishes a snapshot, and its season, weather and time-of-day
  names are the ones at the published indices.
\<close>

theorem reachable_clock_publishes:
  assumes "reach (clock_start lower) (clock_step lower) c"
  shows "\<exists>w. snapshot c now = Some w \<and> ws_season w \<in> {''summer'', ''winter''}
    \<and> ws_season w = [''summer'', ''winter''] ! ws_season_index w
    \<and> ws_weather_index w < 4 \<and> ws_weather w = weather_names ! ws_weather_index w
    \<and> ws_time_of_day_index w < 4 \<and> ws_time_of_day w = time_of_day_names ! ws_time_of_day_index w"
proof -
  have ok: "clock_ok c" using assms by (rule clk.reachable_inv)
  then have "day_length c = shenmue_day_length" by (simp add: clock_ok_def)
  then have "\<exists>w. snapshot c now = Some w" using snapshot_shenmue by blast
  with ok show ?thesis
    using index_of_weather [of "weather c"] time_of_day_range
    by (auto simp: snapshot_def clock_ok_def Let_def split: if_splits)
qed

section \<open>Broadcasts of the manager\<close>

text \<open>What a client that applies every broadcast believes the world state to be.\<close>

definition boundary_key :: "world_state \<Rightarrow> int \<times> nat \<times> nat \<times> int" where
  "boundary_key w = (ws_day_number w, ws_time_of_day_index w, ws_season_index w, ws_revision w)"

lemma boundary_crossed_key: "boundary_crossed p n \<longleftrightarrow> boundary_key n \<noteq> boundary_key p"
  by (auto simp: boundary_crossed_def boundary_key_def)

lemma manager_run_subset: "set (manager_run prev ticks) \<subseteq> set ticks"
  by (induction ticks arbitrary: prev) auto

text \<open>
  C40: a client that applies the manager's broadcasts always agrees with the latest tick on the day,
  the phase, the season and the revision: no change of them goes unannounced.
\<close>

theorem manager_keeps_clients_current:
  "boundary_key (last (prev # manager_run prev ticks)) = boundary_key (last (prev # ticks))"
proof (induction ticks arbitrary: prev)
  case Nil
  then show ?case by simp
next
  case (Cons nx ticks)
  show ?case
  proof (cases "boundary_crossed prev nx")
    case True
    with Cons.IH [of nx] show ?thesis by simp
  next
    case False
    then have "boundary_key nx = boundary_key prev" by (simp add: boundary_crossed_key)
    with False Cons.IH [of nx] show ?thesis
      by (cases "manager_run nx ticks") (auto split: if_splits)
  qed
qed

section \<open>Witnesses\<close>

definition demo_clock :: clock where
  "demo_clock = \<lparr>epoch = 0, day_length = shenmue_day_length, season = ''summer'', weather = ''clear'', revision = 1\<rparr>"

theorem snapshot_playable_witness:
  "\<exists>w. snapshot demo_clock 5000 = Some w \<and> 0 \<le> ws_day_number w"
  using snapshot_playable [of demo_clock 5000] by (auto simp: demo_clock_def)


theorem set_game_second_ok_witness:
  "\<exists>c'. set_game_second demo_clock 7200000000000 43200 = Inr c'"
  using set_game_second_ok [of demo_clock 43200 7200000000000]
  by (auto simp: demo_clock_def day_start_second_def day_end_second_def)


lemma demo_clock_start: "clock_start (\<lambda>s. s) demo_clock"
proof -
  have "trim_space ''summer'' = ''summer''"
    by (simp add: trim_space_def trim_left.simps [of "''summer''"] trim_left_rev.simps [of "''remmus''"]
        leading_space_def space_seqs_def has_prefix_def)
  then have "new_clock (\<lambda>s. s) 0 ''summer'' = Inr demo_clock"
    by (simp add: new_clock_def new_clock_with_def normalize_word_def demo_clock_def
        shenmue_day_length_def second_ns_def)
  then show ?thesis unfolding clock_start_def by blast
qed

theorem reachable_clock_publishes_witness:
  "\<exists>w. snapshot demo_clock 0 = Some w \<and> ws_weather_index w < 4"
proof -
  have "reach (clock_start (\<lambda>s. s)) (clock_step (\<lambda>s. s)) demo_clock"
    using demo_clock_start by (rule reach_init)
  from reachable_clock_publishes [OF this, of 0] show ?thesis by blast
qed

end
