(* ===== verification/Progression.thy ===== *)
theory Progression
  imports Prelude
begin

text \<open>
  The progression curve, \<open>internal/game/progression.go\<close>: the experience thresholds of the ten
  levels and the level of an experience total. The loop of \<open>LevelForExperience\<close> over the levels
  \<open>2..10\<close> is \<open>level_loop\<close>.
\<close>

definition max_level :: int where "max_level = 10"
definition starting_max_hp :: int where "starting_max_hp = 100"

definition level_experience :: "int list" where
  "level_experience = [0, 100, 250, 450, 700, 1000, 1400, 1900, 2500, 3200]"

definition experience_for_level :: "int \<Rightarrow> int" where
  "experience_for_level level =
     (if level \<le> 1 then level_experience ! 0
      else let l = (if max_level < level then max_level else level)
        in level_experience ! nat (l - 1))"

function level_loop :: "int \<Rightarrow> int \<Rightarrow> int" where
  "level_loop experience level =
     (if max_level < level then max_level
      else if experience < experience_for_level level then level - 1
      else level_loop experience (level + 1))"
  by pat_completeness auto
termination
  by (relation "measure (\<lambda>(e, l). nat (max_level + 1 - l))") auto

declare level_loop.simps [simp del]

definition level_for_experience :: "int \<Rightarrow> int" where
  "level_for_experience experience = (if experience \<le> 0 then 1 else level_loop experience 2)"

lemma experience_for_level_values:
  "experience_for_level 1 = 0" "experience_for_level 2 = 100" "experience_for_level 3 = 250"
  "experience_for_level 4 = 450" "experience_for_level 5 = 700" "experience_for_level 6 = 1000"
  "experience_for_level 7 = 1400" "experience_for_level 8 = 1900" "experience_for_level 9 = 2500"
  "experience_for_level 10 = 3200"
  by (simp_all add: experience_for_level_def level_experience_def max_level_def)

lemma level_for_experience_table:
  "level_for_experience e =
     (if e < 100 then 1 else if e < 250 then 2 else if e < 450 then 3 else if e < 700 then 4
      else if e < 1000 then 5 else if e < 1400 then 6 else if e < 1900 then 7
      else if e < 2500 then 8 else if e < 3200 then 9 else 10)"
  by (simp add: level_for_experience_def level_loop.simps [of e 2] level_loop.simps [of e 3]
      level_loop.simps [of e 4] level_loop.simps [of e 5] level_loop.simps [of e 6]
      level_loop.simps [of e 7] level_loop.simps [of e 8] level_loop.simps [of e 9]
      level_loop.simps [of e 10] level_loop.simps [of e 11] experience_for_level_values max_level_def)

lemma level_cases:
  "1 \<le> l \<Longrightarrow> l \<le> 10 \<Longrightarrow> l \<in> {1, 2, 3, 4, 5, 6, 7, 8, 9, 10 :: int}"
  by (simp add: set_eq_iff; arith)

lemma level_for_experience_mono: "d \<le> e \<Longrightarrow> level_for_experience d \<le> level_for_experience e"
  by (simp add: level_for_experience_table)

text \<open>
  C32: the level of a character with a non-negative experience total is the greatest of the levels
  1 to 10 whose threshold the total has reached.
\<close>

theorem level_is_greatest_reached:
  assumes "0 \<le> e" and "1 \<le> l" and "l \<le> max_level"
  shows "experience_for_level l \<le> e \<longleftrightarrow> l \<le> level_for_experience e"
  using level_cases [OF assms(2)] assms
  by (auto simp: experience_for_level_values level_for_experience_table max_level_def)

theorem level_is_greatest_reached_witness:
  "experience_for_level 4 \<le> 460 \<longleftrightarrow> 4 \<le> level_for_experience 460"
  using level_is_greatest_reached [of 460 4] by (simp add: max_level_def)

text \<open>The level of each threshold is the level it belongs to.\<close>

lemma level_of_threshold:
  "1 \<le> l \<Longrightarrow> l \<le> max_level \<Longrightarrow> level_for_experience (experience_for_level l) = l"
  using level_cases [of l]
  by (auto simp: experience_for_level_values level_for_experience_table max_level_def)

end
