(* ===== verification/Economy.thy ===== *)
theory Economy
  imports Progression
begin

text \<open>
  The durable character economy, \<open>internal/store\<close>: \<open>progression.go\<close>, \<open>economy.go\<close> and
  \<open>vending.go\<close>, on the tables of \<open>migrations/001_baseline.sql\<close> they read and write.

  A table with a primary key is a map (\<open>character_inventory\<close>, \<open>characters\<close>), the reference table
  \<open>item_definitions\<close> and the append-only tables are lists. Every operation is one transaction: it
  yields an error, and then nothing is committed, or a result and the committed database. The
  constraints the statements can run into are branches of the model: the unique indexes on
  \<open>(character_id, event_key)\<close> and \<open>(character_id, request_id)\<close>, the foreign keys, the CHECKs, and
  the ranges of \<open>integer\<close> and \<open>bigint\<close>. A failing connection takes the same branches as a violated
  constraint (\<open>ErrDatabase\<close>, nothing committed). Timestamps and generated row ids, which no
  operation here reads, are left out.

  The row order of \<open>ORDER BY item.category, item.name\<close> depends on the database's collation; it is
  the parameter \<open>ord\<close>.
\<close>

section \<open>Tables\<close>

record character_row =
  ch_experience :: int
  ch_current_hp :: int
  ch_max_hp :: int
  ch_yen :: int
  ch_deleted :: bool

record item_def =
  it_key :: string
  it_name :: string
  it_description :: string
  it_category :: string
  it_max_stack :: int
  it_usable :: bool
  it_effect_kind :: "string option"
  it_effect_value :: "int option"

record economy_event =
  ee_character :: int
  ee_key :: "string option"
  ee_kind :: string
  ee_item :: "string option"
  ee_quantity_delta :: int
  ee_yen_delta :: int
  ee_reason :: string

record progression_event =
  pe_character :: int
  pe_key :: "string option"
  pe_kind :: string
  pe_experience_delta :: int
  pe_hp_delta :: int
  pe_reason :: string

record vending_row =
  vr_character :: int
  vr_request :: string
  vr_machine :: string
  vr_drink :: string
  vr_price :: int
  vr_winning_can :: bool

record db =
  characters :: "int \<rightharpoonup> character_row"
  items :: "item_def list"
  inventory :: "int \<times> string \<rightharpoonup> int"
  economy_events :: "economy_event list"
  progression_events :: "progression_event list"
  vending_purchases :: "vending_row list"

datatype store_error =
    ErrNotFound
  | ErrInsufficient
  | ErrDuplicateEvent
  | ErrNoRows
  | ErrInvalid string
  | ErrHpFull int
  | ErrDatabase

record progression =
  pr_experience :: int
  pr_level :: int
  pr_current_hp :: int
  pr_max_hp :: int

record inventory_item =
  ii_key :: string
  ii_name :: string
  ii_description :: string
  ii_category :: string
  ii_max_stack :: int
  ii_usable :: bool
  ii_effect_kind :: string
  ii_effect_value :: int
  ii_quantity :: int

record vending_purchase =
  vp_request :: string
  vp_machine :: string
  vp_drink :: string
  vp_price :: int
  vp_winning_can :: bool
  vp_yen :: int
  vp_inventory :: "inventory_item list"

type_synonym 'a tx = "store_error + 'a \<times> db"

section \<open>Statements\<close>

definition active_character :: "db \<Rightarrow> int \<Rightarrow> character_row option" where
  "active_character d cid =
     (case characters d cid of Some r \<Rightarrow> if ch_deleted r then None else Some r | None \<Rightarrow> None)"

definition find_item :: "db \<Rightarrow> string \<Rightarrow> item_def option" where
  "find_item d k = find (\<lambda>i. it_key i = k) (items d)"

definition set_character :: "int \<Rightarrow> character_row \<Rightarrow> db \<Rightarrow> db" where
  "set_character cid r d = d\<lparr>characters := (characters d)(cid \<mapsto> r)\<rparr>"

definition set_inventory :: "int \<Rightarrow> string \<Rightarrow> int option \<Rightarrow> db \<Rightarrow> db" where
  "set_inventory cid k q d = d\<lparr>inventory := (inventory d)((cid, k) := q)\<rparr>"

definition nullif_empty :: "string \<Rightarrow> string option" where
  "nullif_empty s = (if s = '''' then None else Some s)"

text \<open>The rows the two event tables receive; an empty key or item is stored as NULL.\<close>

definition economy_row :: "int \<Rightarrow> string \<Rightarrow> string \<Rightarrow> string \<Rightarrow> int \<Rightarrow> int \<Rightarrow> string \<Rightarrow> economy_event" where
  "economy_row cid event_key kind item_key quantity_delta yen_delta reason =
     \<lparr>ee_character = cid, ee_key = nullif_empty event_key, ee_kind = kind,
      ee_item = nullif_empty item_key, ee_quantity_delta = quantity_delta,
      ee_yen_delta = yen_delta, ee_reason = reason\<rparr>"

definition progression_row :: "int \<Rightarrow> string \<Rightarrow> string \<Rightarrow> int \<Rightarrow> int \<Rightarrow> string \<Rightarrow> progression_event" where
  "progression_row cid event_key kind experience_delta hp_delta reason =
     \<lparr>pe_character = cid, pe_key = nullif_empty event_key, pe_kind = kind,
      pe_experience_delta = experience_delta, pe_hp_delta = hp_delta, pe_reason = reason\<rparr>"

lemma economy_row_fields [simp]:
  "ee_character (economy_row c k kd i q y rs) = c" "ee_key (economy_row c k kd i q y rs) = nullif_empty k"
  "ee_item (economy_row c k kd i q y rs) = nullif_empty i"
  "ee_quantity_delta (economy_row c k kd i q y rs) = q" "ee_yen_delta (economy_row c k kd i q y rs) = y"
  by (simp_all add: economy_row_def)

lemma progression_row_fields [simp]:
  "pe_character (progression_row c k kd x h rs) = c" "pe_key (progression_row c k kd x h rs) = nullif_empty k"
  "pe_experience_delta (progression_row c k kd x h rs) = x" "pe_hp_delta (progression_row c k kd x h rs) = h"
  by (simp_all add: progression_row_def)

text \<open>
  \<open>INSERT INTO economy_events\<close>: the unique index rejects the row before the foreign keys are
  checked; a \<open>quantity_delta\<close> or \<open>yen_delta\<close> outside its column's range is refused first.
\<close>

definition insert_economy_event :: "economy_event \<Rightarrow> db \<Rightarrow> store_error + db" where
  "insert_economy_event e d =
     (if \<not> int32_ok (ee_quantity_delta e) \<or> \<not> int64_ok (ee_yen_delta e) then Inl ErrDatabase
      else if ee_key e \<noteq> None \<and> (\<exists>x\<in>set (economy_events d). ee_character x = ee_character e \<and> ee_key x = ee_key e)
      then Inl ErrDuplicateEvent
      else if characters d (ee_character e) = None then Inl ErrDatabase
      else if (case ee_item e of Some k \<Rightarrow> find_item d k = None | None \<Rightarrow> False) then Inl ErrDatabase
      else Inr (d\<lparr>economy_events := economy_events d @ [e]\<rparr>))"

definition insert_progression_event :: "progression_event \<Rightarrow> db \<Rightarrow> store_error + db" where
  "insert_progression_event e d =
     (if \<not> int64_ok (pe_experience_delta e) \<or> \<not> int32_ok (pe_hp_delta e) then Inl ErrDatabase
      else if pe_key e \<noteq> None \<and> (\<exists>x\<in>set (progression_events d). pe_character x = pe_character e \<and> pe_key x = pe_key e)
      then Inl ErrDuplicateEvent
      else if characters d (pe_character e) = None then Inl ErrDatabase
      else Inr (d\<lparr>progression_events := progression_events d @ [e]\<rparr>))"

section \<open>economy.go\<close>

definition item_row :: "item_def \<Rightarrow> int \<Rightarrow> inventory_item" where
  "item_row i q =
     \<lparr>ii_key = it_key i, ii_name = it_name i, ii_description = it_description i,
      ii_category = it_category i, ii_max_stack = it_max_stack i, ii_usable = it_usable i,
      ii_effect_kind = (case it_effect_kind i of Some k \<Rightarrow> k | None \<Rightarrow> ''''),
      ii_effect_value = (case it_effect_value i of Some v \<Rightarrow> v | None \<Rightarrow> 0), ii_quantity = q\<rparr>"

definition inventory_of :: "(inventory_item list \<Rightarrow> inventory_item list) \<Rightarrow> db \<Rightarrow> int \<Rightarrow> inventory_item list" where
  "inventory_of ord d cid =
     ord (concat (map (\<lambda>i. case inventory d (cid, it_key i) of Some q \<Rightarrow> [item_row i q] | None \<Rightarrow> []) (items d)))"

definition record_economy_event ::
  "int \<Rightarrow> string \<Rightarrow> string \<Rightarrow> string \<Rightarrow> int \<Rightarrow> int \<Rightarrow> string \<Rightarrow> db \<Rightarrow> store_error + db" where
  "record_economy_event cid event_key kind item_key quantity_delta yen_delta reason d =
     insert_economy_event (economy_row cid event_key kind item_key quantity_delta yen_delta reason) d"

definition credit_yen :: "int \<Rightarrow> int \<Rightarrow> string \<Rightarrow> string \<Rightarrow> db \<Rightarrow> int tx" where
  "credit_yen cid amount event_key reason d =
     (if amount \<le> 0 then Inl (ErrInvalid ''credit amount must be positive'')
      else case record_economy_event cid event_key ''yen_credit'' '''' 0 amount reason d of
        Inl e \<Rightarrow> Inl e
      | Inr d1 \<Rightarrow>
          (case active_character d1 cid of
            None \<Rightarrow> Inl ErrNoRows
          | Some r \<Rightarrow>
              if \<not> int64_ok (ch_yen r + amount) then Inl ErrDatabase
              else Inr (ch_yen r + amount, set_character cid (r\<lparr>ch_yen := ch_yen r + amount\<rparr>) d1)))"

definition spend_yen :: "int \<Rightarrow> int \<Rightarrow> string \<Rightarrow> string \<Rightarrow> db \<Rightarrow> int tx" where
  "spend_yen cid amount event_key reason d =
     (if amount \<le> 0 then Inl (ErrInvalid ''spend amount must be positive'')
      else case active_character d cid of
        None \<Rightarrow> Inl ErrInsufficient
      | Some r \<Rightarrow>
          if ch_yen r < amount then Inl ErrInsufficient
          else let b = ch_yen r - amount; d1 = set_character cid (r\<lparr>ch_yen := b\<rparr>) d in
            (case record_economy_event cid event_key ''yen_spend'' '''' 0 (- amount) reason d1 of
              Inl e \<Rightarrow> Inl e
            | Inr d2 \<Rightarrow> Inr (b, d2)))"

text \<open>
  The upsert of \<open>GrantItem\<close>: no row is returned where the item is unknown, where the grant exceeds
  the stack limit, or where the grown stack would; the sum is an \<open>integer\<close> expression.
\<close>

definition upsert_item :: "int \<Rightarrow> string \<Rightarrow> int \<Rightarrow> db \<Rightarrow> int tx" where
  "upsert_item cid k q d =
     (case find_item d k of
        None \<Rightarrow> Inl ErrInsufficient
      | Some i \<Rightarrow>
          if it_max_stack i < q then Inl ErrInsufficient
          else case inventory d (cid, k) of
            None \<Rightarrow> Inr (q, set_inventory cid k (Some q) d)
          | Some have \<Rightarrow>
              if \<not> int32_ok (have + q) then Inl ErrDatabase
              else if have + q \<le> it_max_stack i
              then Inr (have + q, set_inventory cid k (Some (have + q)) d)
              else Inl ErrInsufficient)"

definition grant_item :: "int \<Rightarrow> string \<Rightarrow> int \<Rightarrow> string \<Rightarrow> string \<Rightarrow> db \<Rightarrow> int tx" where
  "grant_item cid item_key quantity event_key reason d =
     (if quantity \<le> 0 then Inl (ErrInvalid ''grant quantity must be positive'')
      else case record_economy_event cid event_key ''item_grant'' item_key quantity 0 reason d of
        Inl e \<Rightarrow> Inl e
      | Inr d1 \<Rightarrow> upsert_item cid item_key quantity d1)"

definition take_item :: "int \<Rightarrow> string \<Rightarrow> int \<Rightarrow> db \<Rightarrow> db" where
  "take_item cid k remaining d =
     (if remaining = 0 then set_inventory cid k None d else set_inventory cid k (Some remaining) d)"

definition consume_item :: "int \<Rightarrow> string \<Rightarrow> int \<Rightarrow> string \<Rightarrow> db \<Rightarrow> int tx" where
  "consume_item cid item_key quantity reason d =
     (if quantity \<le> 0 then Inl (ErrInvalid ''consume quantity must be positive'')
      else case inventory d (cid, item_key) of
        None \<Rightarrow> Inl ErrInsufficient
      | Some current \<Rightarrow>
          if current < quantity then Inl ErrInsufficient
          else let remaining = current - quantity; d1 = take_item cid item_key remaining d in
            (case record_economy_event cid '''' ''item_consume'' item_key (- quantity) 0 reason d1 of
              Inl e \<Rightarrow> Inl e
            | Inr d2 \<Rightarrow> Inr (remaining, d2)))"

section \<open>progression.go\<close>

definition progression_for :: "int \<Rightarrow> int \<Rightarrow> int \<Rightarrow> progression" where
  "progression_for experience current_hp max_hp =
     \<lparr>pr_experience = experience, pr_level = level_for_experience experience,
      pr_current_hp = min (max 0 current_hp) max_hp, pr_max_hp = max_hp\<rparr>"

definition progression_of :: "int \<Rightarrow> db \<Rightarrow> store_error + progression" where
  "progression_of cid d =
     (case active_character d cid of
        None \<Rightarrow> Inl ErrNotFound
      | Some r \<Rightarrow> Inr (progression_for (ch_experience r) (ch_current_hp r) (ch_max_hp r)))"

text \<open>The sum is Go's \<open>int64\<close> addition; a negative total violates the table's CHECK.\<close>

definition award_experience :: "int \<Rightarrow> int \<Rightarrow> string \<Rightarrow> string \<Rightarrow> db \<Rightarrow> progression tx" where
  "award_experience cid amount event_key reason d =
     (if amount \<le> 0 then Inl (ErrInvalid ''experience amount must be positive'')
      else case insert_progression_event (progression_row cid event_key ''experience'' amount 0 reason) d of
        Inl e \<Rightarrow> Inl e
      | Inr d1 \<Rightarrow>
          (case active_character d1 cid of
            None \<Rightarrow> Inl ErrNoRows
          | Some r \<Rightarrow>
              let total = wrap64 (ch_experience r + amount) in
              if total < 0 then Inl ErrDatabase
              else Inr (progression_for total (ch_current_hp r) (ch_max_hp r),
                        set_character cid (r\<lparr>ch_experience := total\<rparr>) d1)))"

definition change_hp_in_tx :: "int \<Rightarrow> int \<Rightarrow> string \<Rightarrow> string \<Rightarrow> string \<Rightarrow> db \<Rightarrow> progression tx" where
  "change_hp_in_tx cid delta kind event_key reason d =
     (case active_character d cid of
        None \<Rightarrow> Inl ErrNotFound
      | Some r \<Rightarrow>
          let new_hp = min (ch_max_hp r) (max 0 (wrap64 (ch_current_hp r + delta)));
              d1 = set_character cid (r\<lparr>ch_current_hp := new_hp\<rparr>) d in
          if new_hp < 0 then Inl ErrDatabase
          else case insert_progression_event
              (progression_row cid event_key kind 0 (new_hp - ch_current_hp r) reason) d1 of
            Inl e \<Rightarrow> Inl e
          | Inr d2 \<Rightarrow> Inr (progression_for (ch_experience r) new_hp (ch_max_hp r), d2))"

definition change_hp :: "int \<Rightarrow> int \<Rightarrow> string \<Rightarrow> string \<Rightarrow> string \<Rightarrow> db \<Rightarrow> progression tx" where
  "change_hp cid delta kind event_key reason d = change_hp_in_tx cid delta kind event_key reason d"

definition apply_damage :: "int \<Rightarrow> int \<Rightarrow> string \<Rightarrow> string \<Rightarrow> db \<Rightarrow> progression tx" where
  "apply_damage cid amount event_key reason d =
     (if amount \<le> 0 then Inl (ErrInvalid ''damage amount must be positive'')
      else change_hp cid (- amount) ''damage'' event_key reason d)"

definition heal :: "int \<Rightarrow> int \<Rightarrow> string \<Rightarrow> string \<Rightarrow> db \<Rightarrow> progression tx" where
  "heal cid amount event_key reason d =
     (if amount \<le> 0 then Inl (ErrInvalid ''healing amount must be positive'')
      else change_hp cid amount ''heal'' event_key reason d)"

text \<open>
  The joined row that \<open>UseHealingItem\<close> locks: heal amount and quantity. The CHECK of
  \<open>item_definitions\<close> gives a usable item an effect value.
\<close>

definition healing_item :: "db \<Rightarrow> int \<Rightarrow> string \<Rightarrow> (int \<times> int) option" where
  "healing_item d cid k =
     (case (inventory d (cid, k), find_item d k) of
        (Some q, Some i) \<Rightarrow>
          (if it_usable i \<and> it_effect_kind i = Some ''heal_hp''
           then (case it_effect_value i of Some v \<Rightarrow> Some (v, q) | None \<Rightarrow> None) else None)
      | _ \<Rightarrow> None)"

definition use_healing_item :: "int \<Rightarrow> string \<Rightarrow> db \<Rightarrow> (progression \<times> int) tx" where
  "use_healing_item cid item_key d =
     (case healing_item d cid item_key of
        None \<Rightarrow> Inl ErrInsufficient
      | Some (heal_amount, quantity) \<Rightarrow>
          (case active_character d cid of
            None \<Rightarrow> Inl ErrNoRows
          | Some r \<Rightarrow>
              if ch_max_hp r \<le> ch_current_hp r then Inl (ErrHpFull quantity)
              else let remaining = quantity - 1; d1 = take_item cid item_key remaining d in
                (case insert_economy_event
                    ((economy_row cid '''' ''item_consume'' item_key (- 1) 0 ''heal_hp'')\<lparr>ee_item := Some item_key\<rparr>) d1 of
                  Inl e \<Rightarrow> Inl e
                | Inr d2 \<Rightarrow>
                    (case change_hp_in_tx cid heal_amount ''heal'' '''' (''item:'' @ item_key) d2 of
                      Inl e \<Rightarrow> Inl e
                    | Inr (p, d3) \<Rightarrow> Inr ((p, remaining), d3)))))"

section \<open>vending.go\<close>

definition find_purchase :: "db \<Rightarrow> int \<Rightarrow> string \<Rightarrow> vending_row option" where
  "find_purchase d cid req = find (\<lambda>v. vr_character v = cid \<and> vr_request v = req) (vending_purchases d)"

definition scan_purchase :: "vending_row \<Rightarrow> int \<Rightarrow> inventory_item list \<Rightarrow> vending_purchase" where
  "scan_purchase v yen its =
     \<lparr>vp_request = vr_request v, vp_machine = vr_machine v, vp_drink = vr_drink v,
      vp_price = vr_price v, vp_winning_can = vr_winning_can v, vp_yen = yen, vp_inventory = its\<rparr>"

definition populate_vending_state ::
  "(inventory_item list \<Rightarrow> inventory_item list) \<Rightarrow> int \<Rightarrow> vending_row \<Rightarrow> db \<Rightarrow> vending_purchase tx" where
  "populate_vending_state ord cid v d =
     (case active_character d cid of
        None \<Rightarrow> Inl ErrNoRows
      | Some r \<Rightarrow> Inr (scan_purchase v (ch_yen r) (inventory_of ord d cid), d))"

text \<open>
  The prize: no row where the stack is full (or where its limit is not known), which keeps the
  purchase without the prize; an unknown item violates the inventory's foreign key.
\<close>

definition grant_winning_can :: "int \<Rightarrow> db \<Rightarrow> store_error + bool \<times> db" where
  "grant_winning_can cid d =
     (case (inventory d (cid, ''winning_can''), find_item d ''winning_can'') of
        (None, None) \<Rightarrow> Inl ErrDatabase
      | (None, Some i) \<Rightarrow> Inr (True, set_inventory cid ''winning_can'' (Some 1) d)
      | (Some q, None) \<Rightarrow> Inr (False, d)
      | (Some q, Some i) \<Rightarrow>
          if q < it_max_stack i then Inr (True, set_inventory cid ''winning_can'' (Some (q + 1)) d)
          else Inr (False, d))"

definition insert_purchase :: "vending_row \<Rightarrow> db \<Rightarrow> store_error + db" where
  "insert_purchase v d =
     (if find_purchase d (vr_character v) (vr_request v) \<noteq> None then Inl ErrDuplicateEvent
      else if vr_price v \<le> 0 \<or> characters d (vr_character v) = None then Inl ErrDatabase
      else Inr (d\<lparr>vending_purchases := vending_purchases d @ [v]\<rparr>))"

definition purchase_new ::
  "(inventory_item list \<Rightarrow> inventory_item list) \<Rightarrow> int \<Rightarrow> string \<Rightarrow> string \<Rightarrow> string \<Rightarrow> int \<Rightarrow> bool \<Rightarrow> db
     \<Rightarrow> vending_purchase tx" where
  "purchase_new ord cid req machine drink price winning d =
     (case active_character d cid of
        None \<Rightarrow> Inl ErrInsufficient
      | Some r \<Rightarrow>
          if ch_yen r < price then Inl ErrInsufficient
          else let balance = ch_yen r - price; d1 = set_character cid (r\<lparr>ch_yen := balance\<rparr>) d in
            (case (if winning then grant_winning_can cid d1 else Inr (False, d1)) of
              Inl e \<Rightarrow> Inl e
            | Inr (won, d2) \<Rightarrow>
                let v = \<lparr>vr_character = cid, vr_request = req, vr_machine = machine, vr_drink = drink,
                         vr_price = price, vr_winning_can = won\<rparr> in
                (case insert_purchase v d2 of
                  Inl e \<Rightarrow> Inl e
                | Inr d3 \<Rightarrow>
                    (case record_economy_event cid (''vending:'' @ req) ''vending_purchase''
                        (if won then ''winning_can'' else '''') (if won then 1 else 0) (- price)
                        (''vending machine '' @ machine @ '': '' @ drink) d3 of
                      Inl e \<Rightarrow> Inl e
                    | Inr d4 \<Rightarrow> Inr (scan_purchase v balance (inventory_of ord d4 cid), d4)))))"

definition purchase_vending_drink ::
  "(inventory_item list \<Rightarrow> inventory_item list) \<Rightarrow> int \<Rightarrow> string \<Rightarrow> string \<Rightarrow> string \<Rightarrow> int \<Rightarrow> bool \<Rightarrow> db
     \<Rightarrow> vending_purchase tx" where
  "purchase_vending_drink ord cid request_id machine_id drink_key price winning d =
     (let req = trim_space request_id; machine = trim_space machine_id; drink = trim_space drink_key in
      if cid \<le> 0 \<or> req = '''' \<or> machine = '''' \<or> drink = '''' \<or> price \<le> 0
      then Inl (ErrInvalid ''invalid vending purchase'')
      else case find_purchase d cid req of
        Some v \<Rightarrow>
          if vr_machine v \<noteq> machine \<or> vr_drink v \<noteq> drink then Inl ErrDuplicateEvent
          else populate_vending_state ord cid v d
      | None \<Rightarrow> purchase_new ord cid req machine drink price winning d)"

section \<open>What a committed operation has done\<close>

lemma active_character_Some:
  "active_character d cid = Some r \<longleftrightarrow> characters d cid = Some r \<and> \<not> ch_deleted r"
  by (auto simp: active_character_def split: option.splits if_splits)

definition economy_key_free :: "economy_event \<Rightarrow> db \<Rightarrow> bool" where
  "economy_key_free e d \<longleftrightarrow>
     (ee_key e \<noteq> None \<longrightarrow> (\<forall>x\<in>set (economy_events d). ee_character x = ee_character e \<longrightarrow> ee_key x \<noteq> ee_key e))"

definition progression_key_free :: "progression_event \<Rightarrow> db \<Rightarrow> bool" where
  "progression_key_free e d \<longleftrightarrow>
     (pe_key e \<noteq> None \<longrightarrow> (\<forall>x\<in>set (progression_events d). pe_character x = pe_character e \<longrightarrow> pe_key x \<noteq> pe_key e))"

lemma insert_economy_event_Inr:
  "insert_economy_event e d = Inr d' \<longleftrightarrow>
     int32_ok (ee_quantity_delta e) \<and> int64_ok (ee_yen_delta e) \<and> economy_key_free e d \<and>
     characters d (ee_character e) \<noteq> None \<and>
     (case ee_item e of Some k \<Rightarrow> find_item d k \<noteq> None | None \<Rightarrow> True) \<and>
     d' = d\<lparr>economy_events := economy_events d @ [e]\<rparr>"
  by (auto simp: insert_economy_event_def economy_key_free_def split: option.splits)

lemma insert_progression_event_Inr:
  "insert_progression_event e d = Inr d' \<longleftrightarrow>
     int64_ok (pe_experience_delta e) \<and> int32_ok (pe_hp_delta e) \<and> progression_key_free e d \<and>
     characters d (pe_character e) \<noteq> None \<and>
     d' = d\<lparr>progression_events := progression_events d @ [e]\<rparr>"
  by (auto simp: insert_progression_event_def progression_key_free_def)

lemmas event_Inr = insert_economy_event_Inr insert_progression_event_Inr record_economy_event_def

lemma find_item_updates [simp]:
  "find_item (set_character c r d) k = find_item d k"
  "find_item (set_inventory c j q d) k = find_item d k"
  "find_item (take_item c j n d) k = find_item d k"
  "find_item (d\<lparr>economy_events := es\<rparr>) k = find_item d k"
  "find_item (d\<lparr>progression_events := ps\<rparr>) k = find_item d k"
  "find_item (d\<lparr>vending_purchases := vs\<rparr>) k = find_item d k"
  by (simp_all add: find_item_def set_character_def set_inventory_def take_item_def)

lemma table_updates [simp]:
  "characters (set_character c r d) = (characters d)(c \<mapsto> r)"
  "items (set_character c r d) = items d" "inventory (set_character c r d) = inventory d"
  "economy_events (set_character c r d) = economy_events d"
  "progression_events (set_character c r d) = progression_events d"
  "vending_purchases (set_character c r d) = vending_purchases d"
  "characters (set_inventory c k q d) = characters d" "items (set_inventory c k q d) = items d"
  "inventory (set_inventory c k q d) = (inventory d)((c, k) := q)"
  "economy_events (set_inventory c k q d) = economy_events d"
  "progression_events (set_inventory c k q d) = progression_events d"
  "vending_purchases (set_inventory c k q d) = vending_purchases d"
  by (simp_all add: set_character_def set_inventory_def)

lemma take_item_eq: "take_item c k n d = set_inventory c k (if n = 0 then None else Some n) d"
  by (simp add: take_item_def)

lemma key_free_updates [simp]:
  "economy_key_free e (set_character c r d) = economy_key_free e d"
  "economy_key_free e (set_inventory c k q d) = economy_key_free e d"
  "progression_key_free p (set_character c r d) = progression_key_free p d"
  "progression_key_free p (set_inventory c k q d) = progression_key_free p d"
  by (simp_all add: economy_key_free_def progression_key_free_def)

lemma nullif_empty_cases: "nullif_empty s = None \<and> s = '''' \<or> nullif_empty s = Some s \<and> s \<noteq> ''''"
  by (simp add: nullif_empty_def)

lemma credit_yen_Inr:
  "credit_yen cid amount key reason d = Inr (b, d') \<Longrightarrow>
     \<exists>r. 0 < amount \<and> characters d cid = Some r \<and> \<not> ch_deleted r \<and> b = ch_yen r + amount \<and> int64_ok b
       \<and> economy_key_free (economy_row cid key ''yen_credit'' '''' 0 amount reason) d
       \<and> d' = set_character cid (r\<lparr>ch_yen := b\<rparr>)
           (d\<lparr>economy_events := economy_events d @ [economy_row cid key ''yen_credit'' '''' 0 amount reason]\<rparr>)"
  by (auto simp: credit_yen_def event_Inr active_character_Some split: if_splits sum.splits option.splits)

lemma spend_yen_Inr:
  "spend_yen cid amount key reason d = Inr (b, d') \<Longrightarrow>
     \<exists>r. 0 < amount \<and> characters d cid = Some r \<and> \<not> ch_deleted r \<and> amount \<le> ch_yen r \<and> b = ch_yen r - amount
       \<and> economy_key_free (economy_row cid key ''yen_spend'' '''' 0 (- amount) reason) d
       \<and> d' = (set_character cid (r\<lparr>ch_yen := b\<rparr>) d)
           \<lparr>economy_events := economy_events d @ [economy_row cid key ''yen_spend'' '''' 0 (- amount) reason]\<rparr>"
  by (auto simp: spend_yen_def event_Inr active_character_Some Let_def
      split: if_splits sum.splits option.splits)

lemma upsert_item_Inr:
  "upsert_item cid k q d = Inr (n, d') \<Longrightarrow>
     \<exists>i. find_item d k = Some i \<and> n = (case inventory d (cid, k) of None \<Rightarrow> q | Some h \<Rightarrow> h + q)
       \<and> n \<le> it_max_stack i \<and> d' = set_inventory cid k (Some n) d"
  by (auto simp: upsert_item_def split: if_splits option.splits)

lemma grant_item_Inr:
  "grant_item cid k q key reason d = Inr (n, d') \<Longrightarrow>
     \<exists>i. 0 < q \<and> characters d cid \<noteq> None \<and> find_item d k = Some i
       \<and> n = (case inventory d (cid, k) of None \<Rightarrow> q | Some h \<Rightarrow> h + q) \<and> n \<le> it_max_stack i
       \<and> economy_key_free (economy_row cid key ''item_grant'' k q 0 reason) d
       \<and> d' = set_inventory cid k (Some n)
           (d\<lparr>economy_events := economy_events d @ [economy_row cid key ''item_grant'' k q 0 reason]\<rparr>)"
  unfolding grant_item_def
  by (auto simp: event_Inr split: if_splits sum.splits dest!: upsert_item_Inr)

lemma consume_item_Inr:
  "consume_item cid k q reason d = Inr (n, d') \<Longrightarrow>
     \<exists>h. 0 < q \<and> characters d cid \<noteq> None \<and> inventory d (cid, k) = Some h \<and> q \<le> h \<and> n = h - q
       \<and> d' = (take_item cid k n d)
           \<lparr>economy_events := economy_events d @ [economy_row cid '''' ''item_consume'' k (- q) 0 reason]\<rparr>"
  by (auto simp: consume_item_def event_Inr Let_def take_item_eq split: if_splits sum.splits option.splits)

lemma award_experience_Inr:
  "award_experience cid amount key reason d = Inr (p, d') \<Longrightarrow>
     \<exists>r t. 0 < amount \<and> int64_ok amount \<and> characters d cid = Some r \<and> \<not> ch_deleted r
       \<and> t = wrap64 (ch_experience r + amount) \<and> 0 \<le> t
       \<and> p = progression_for t (ch_current_hp r) (ch_max_hp r)
       \<and> progression_key_free (progression_row cid key ''experience'' amount 0 reason) d
       \<and> d' = set_character cid (r\<lparr>ch_experience := t\<rparr>)
           (d\<lparr>progression_events := progression_events d @ [progression_row cid key ''experience'' amount 0 reason]\<rparr>)"
  by (auto simp: award_experience_def event_Inr active_character_Some Let_def
      split: if_splits sum.splits option.splits)

lemma change_hp_Inr:
  "change_hp_in_tx cid delta kind key reason d = Inr (p, d') \<Longrightarrow>
     \<exists>r hp. characters d cid = Some r \<and> \<not> ch_deleted r
       \<and> hp = min (ch_max_hp r) (max 0 (wrap64 (ch_current_hp r + delta))) \<and> 0 \<le> hp
       \<and> p = progression_for (ch_experience r) hp (ch_max_hp r)
       \<and> progression_key_free (progression_row cid key kind 0 (hp - ch_current_hp r) reason) d
       \<and> d' = (set_character cid (r\<lparr>ch_current_hp := hp\<rparr>) d)\<lparr>progression_events := progression_events d @
           [progression_row cid key kind 0 (hp - ch_current_hp r) reason]\<rparr>"
proof -
  assume a: "change_hp_in_tx cid delta kind key reason d = Inr (p, d')"
  then obtain r where r: "characters d cid = Some r" "\<not> ch_deleted r" "active_character d cid = Some r"
    by (auto simp: change_hp_in_tx_def active_character_Some split: option.splits)
  define hp where "hp = min (ch_max_hp r) (max 0 (wrap64 (ch_current_hp r + delta)))"
  from a r show ?thesis
    unfolding change_hp_in_tx_def Let_def option.case r(3) hp_def [symmetric]
    by (intro exI [of _ r] exI [of _ hp]) (auto simp: event_Inr hp_def split: if_splits sum.splits)
qed

lemma healing_item_Some:
  "healing_item d cid k = Some (v, q) \<Longrightarrow>
     inventory d (cid, k) = Some q \<and> (\<exists>i. find_item d k = Some i \<and> it_effect_value i = Some v)"
  by (auto simp: healing_item_def split: option.splits if_splits)

definition heal_row :: "int \<Rightarrow> string \<Rightarrow> economy_event" where
  "heal_row cid k = (economy_row cid '''' ''item_consume'' k (- 1) 0 ''heal_hp'')\<lparr>ee_item := Some k\<rparr>"

lemma heal_row_fields [simp]:
  "ee_character (heal_row c k) = c" "ee_key (heal_row c k) = None" "ee_item (heal_row c k) = Some k"
  "ee_quantity_delta (heal_row c k) = - 1" "ee_yen_delta (heal_row c k) = 0"
  by (simp_all add: heal_row_def economy_row_def nullif_empty_def)

lemma use_healing_item_Inr:
  "use_healing_item cid k d = Inr ((p, n), d') \<Longrightarrow>
     \<exists>v q r d2. healing_item d cid k = Some (v, q) \<and> n = q - 1
       \<and> characters d cid = Some r \<and> ch_current_hp r < ch_max_hp r
       \<and> d2 = (take_item cid k n d)\<lparr>economy_events := economy_events d @ [heal_row cid k]\<rparr>
       \<and> change_hp_in_tx cid v ''heal'' '''' (''item:'' @ k) d2 = Inr (p, d')"
  by (auto simp: use_healing_item_def event_Inr active_character_Some Let_def take_item_eq heal_row_def
      split: option.splits prod.splits if_splits sum.splits)

lemma grant_winning_can_Inr:
  "grant_winning_can cid d = Inr (won, d') \<Longrightarrow>
     (\<not> won \<and> d' = d) \<or>
     (won \<and> (\<exists>i n. find_item d ''winning_can'' = Some i
        \<and> n = (case inventory d (cid, ''winning_can'') of None \<Rightarrow> 1 | Some q \<Rightarrow> q + 1)
        \<and> (inventory d (cid, ''winning_can'') \<noteq> None \<longrightarrow> n \<le> it_max_stack i)
        \<and> d' = set_inventory cid ''winning_can'' (Some n) d))"
  by (auto simp: grant_winning_can_def split: option.splits if_splits)

lemma insert_purchase_Inr:
  "insert_purchase v d = Inr d' \<Longrightarrow> find_purchase d (vr_character v) (vr_request v) = None \<and> 0 < vr_price v
     \<and> d' = d\<lparr>vending_purchases := vending_purchases d @ [v]\<rparr>"
  by (auto simp: insert_purchase_def split: if_splits)

definition vending_event :: "int \<Rightarrow> string \<Rightarrow> string \<Rightarrow> string \<Rightarrow> int \<Rightarrow> bool \<Rightarrow> economy_event" where
  "vending_event cid req machine drink price won =
     economy_row cid (''vending:'' @ req) ''vending_purchase''
       (if won then ''winning_can'' else '''') (if won then 1 else 0) (- price)
       (''vending machine '' @ machine @ '': '' @ drink)"

lemma purchase_new_Inr:
  assumes "purchase_new ord cid req machine drink price winning d = Inr (vp, d')"
  shows "\<exists>r won d1 d2 v. characters d cid = Some r \<and> \<not> ch_deleted r \<and> price \<le> ch_yen r
    \<and> d1 = set_character cid (r\<lparr>ch_yen := ch_yen r - price\<rparr>) d
    \<and> (if winning then grant_winning_can cid d1 else Inr (False, d1)) = Inr (won, d2)
    \<and> v = \<lparr>vr_character = cid, vr_request = req, vr_machine = machine, vr_drink = drink,
           vr_price = price, vr_winning_can = won\<rparr>
    \<and> find_purchase d2 cid req = None \<and> 0 < price
    \<and> economy_key_free (vending_event cid req machine drink price won) d2
    \<and> d' = d2\<lparr>vending_purchases := vending_purchases d2 @ [v],
              economy_events := economy_events d2 @ [vending_event cid req machine drink price won]\<rparr>
    \<and> vp = scan_purchase v (ch_yen r - price) (inventory_of ord d' cid)"
proof -
  obtain r where r: "active_character d cid = Some r"
    using assms by (auto simp: purchase_new_def split: option.splits)
  have le: "price \<le> ch_yen r" using assms by (auto simp: purchase_new_def r split: if_splits)
  define d1 where "d1 = set_character cid (r\<lparr>ch_yen := ch_yen r - price\<rparr>) d"
  let ?g = "if winning then grant_winning_can cid d1 else Inr (False, d1)"
  note body = assms [unfolded purchase_new_def r option.case Let_def, folded d1_def]
  obtain won d2 where g: "?g = Inr (won, d2)"
    using body le by (cases ?g) (auto simp del: if_split simp: not_less [THEN iffD2])
  define v where "v = \<lparr>vr_character = cid, vr_request = req, vr_machine = machine, vr_drink = drink,
           vr_price = price, vr_winning_can = won\<rparr>"
  obtain d3 where i: "insert_purchase v d2 = Inr d3"
    using body le unfolding g sum.case prod.case v_def [symmetric]
    by (cases "insert_purchase v d2") (auto simp del: if_split simp: not_less [THEN iffD2])
  have d3: "find_purchase d2 cid req = None \<and> 0 < price"
    "d3 = d2\<lparr>vending_purchases := vending_purchases d2 @ [v]\<rparr>"
    using insert_purchase_Inr [OF i] by (auto simp: v_def)
  have "\<exists>d4. record_economy_event cid (''vending:'' @ req) ''vending_purchase''
      (if won then ''winning_can'' else '''') (if won then 1 else 0) (- price)
      (''vending machine '' @ machine @ '': '' @ drink) d3 = Inr d4
    \<and> d' = d4 \<and> vp = scan_purchase v (ch_yen r - price) (inventory_of ord d4 cid)"
    using body le unfolding g sum.case prod.case v_def [symmetric] i
    by (auto simp del: if_split simp: not_less [THEN iffD2] split: sum.splits)
  then have ins: "insert_economy_event (vending_event cid req machine drink price won) d3 = Inr d'"
    and vp: "vp = scan_purchase v (ch_yen r - price) (inventory_of ord d' cid)"
    by (auto simp: record_economy_event_def vending_event_def)
  from ins have free: "economy_key_free (vending_event cid req machine drink price won) d2"
    and d': "d' = d2\<lparr>vending_purchases := vending_purchases d2 @ [v],
              economy_events := economy_events d2 @ [vending_event cid req machine drink price won]\<rparr>"
    by (simp_all add: insert_economy_event_Inr d3(2) economy_key_free_def)
  show ?thesis
    using r by (intro exI [of _ r] exI [of _ won] exI [of _ d1] exI [of _ d2] exI [of _ v] conjI)
      (simp_all only: le d1_def v_def g [unfolded d1_def] d3 free d' vp active_character_Some [of d] not_False_eq_True)
qed

lemma purchase_vending_Inr:
  assumes "purchase_vending_drink ord cid request_id machine_id drink_key price winning d = Inr (vp, d')"
  shows "(\<exists>v. find_purchase d cid (trim_space request_id) = Some v \<and> d' = d)
    \<or> purchase_new ord cid (trim_space request_id) (trim_space machine_id) (trim_space drink_key)
        price winning d = Inr (vp, d')"
  using assms
  by (auto simp: purchase_vending_drink_def populate_vending_state_def Let_def
      split: if_splits option.splits)

end
