(* ===== verification/Ledger.thy ===== *)
theory Ledger
  imports Economy
begin

text \<open>
  The promises of the durable economy over whole histories. \<open>store_step\<close> is the relation of all
  committed operations of \<open>Economy\<close>; \<open>db_ok\<close> the invariant that the schema's CHECKs and the code
  maintain together. The locale \<open>ledger\<close> is the contract of an append-only journal that explains a
  balance: it is interpreted four times, for yen, items, experience and hit points.
\<close>

section \<open>Committed operations\<close>

inductive store_step :: "db \<Rightarrow> db \<Rightarrow> bool" where
  step_credit: "credit_yen cid amount key reason d = Inr (b, d') \<Longrightarrow> store_step d d'"
| step_spend: "spend_yen cid amount key reason d = Inr (b, d') \<Longrightarrow> store_step d d'"
| step_grant: "grant_item cid k q key reason d = Inr (n, d') \<Longrightarrow> store_step d d'"
| step_consume: "consume_item cid k q reason d = Inr (n, d') \<Longrightarrow> store_step d d'"
| step_award: "award_experience cid amount key reason d = Inr (p, d') \<Longrightarrow> store_step d d'"
| step_damage: "apply_damage cid amount key reason d = Inr (p, d') \<Longrightarrow> store_step d d'"
| step_heal: "heal cid amount key reason d = Inr (p, d') \<Longrightarrow> store_step d d'"
| step_use_item: "use_healing_item cid k d = Inr (x, d') \<Longrightarrow> store_step d d'"
| step_vending: "purchase_vending_drink ord cid req machine drink price winning d = Inr (vp, d') \<Longrightarrow> store_step d d'"

inductive_cases store_stepE: "store_step d d'"

text \<open>
  Every committed operation is one of six writes, or none (a repeated vending request).
\<close>

inductive store_write :: "db \<Rightarrow> db \<Rightarrow> bool" where
  write_yen: "characters d cid = Some r \<Longrightarrow> 0 \<le> ch_yen r + y \<Longrightarrow> int64_ok (ch_yen r + y) \<Longrightarrow>
     ee_character e = cid \<Longrightarrow> ee_yen_delta e = y \<Longrightarrow> ee_quantity_delta e = 0 \<Longrightarrow> economy_key_free e d \<Longrightarrow>
     store_write d ((set_character cid (r\<lparr>ch_yen := ch_yen r + y\<rparr>) d)\<lparr>economy_events := economy_events d @ [e]\<rparr>)"
| write_item: "characters d cid \<noteq> None \<Longrightarrow> find_item d k = Some i \<Longrightarrow>
     n = (case inventory d (cid, k) of None \<Rightarrow> 0 | Some h \<Rightarrow> h) + q \<Longrightarrow> 0 \<le> n \<Longrightarrow> n \<le> it_max_stack i \<Longrightarrow>
     ee_character e = cid \<Longrightarrow> ee_item e = Some k \<Longrightarrow> ee_yen_delta e = 0 \<Longrightarrow> ee_quantity_delta e = q \<Longrightarrow>
     economy_key_free e d \<Longrightarrow>
     store_write d ((take_item cid k n d)\<lparr>economy_events := economy_events d @ [e]\<rparr>)"
| write_experience: "characters d cid = Some r \<Longrightarrow> 0 \<le> ch_experience r + x \<Longrightarrow> int64_ok (ch_experience r + x) \<Longrightarrow>
     0 < x \<Longrightarrow> pe_character e = cid \<Longrightarrow> pe_experience_delta e = x \<Longrightarrow> pe_hp_delta e = 0 \<Longrightarrow> progression_key_free e d \<Longrightarrow>
     store_write d ((set_character cid (r\<lparr>ch_experience := ch_experience r + x\<rparr>) d)
        \<lparr>progression_events := progression_events d @ [e]\<rparr>)"
| write_hp: "characters d cid = Some r \<Longrightarrow> 0 \<le> ch_current_hp r + h \<Longrightarrow> ch_current_hp r + h \<le> ch_max_hp r \<Longrightarrow>
     pe_character e = cid \<Longrightarrow> pe_experience_delta e = 0 \<Longrightarrow> pe_hp_delta e = h \<Longrightarrow> progression_key_free e d \<Longrightarrow>
     store_write d ((set_character cid (r\<lparr>ch_current_hp := ch_current_hp r + h\<rparr>) d)
        \<lparr>progression_events := progression_events d @ [e]\<rparr>)"
| write_purchase: "characters d cid = Some r \<Longrightarrow> 0 < price \<Longrightarrow> price \<le> ch_yen r \<Longrightarrow>
     find_purchase d cid req = None \<Longrightarrow> vr_character v = cid \<Longrightarrow> vr_request v = req \<Longrightarrow>
     ee_character e = cid \<Longrightarrow> ee_item e = None \<Longrightarrow> ee_yen_delta e = - price \<Longrightarrow> ee_quantity_delta e = 0 \<Longrightarrow>
     economy_key_free e d \<Longrightarrow>
     store_write d ((set_character cid (r\<lparr>ch_yen := ch_yen r - price\<rparr>) d)
        \<lparr>vending_purchases := vending_purchases d @ [v], economy_events := economy_events d @ [e]\<rparr>)"
| write_purchase_prize: "characters d cid = Some r \<Longrightarrow> 0 < price \<Longrightarrow> price \<le> ch_yen r \<Longrightarrow>
     find_purchase d cid req = None \<Longrightarrow> vr_character v = cid \<Longrightarrow> vr_request v = req \<Longrightarrow>
     find_item d k = Some i \<Longrightarrow> n = (case inventory d (cid, k) of None \<Rightarrow> 0 | Some h \<Rightarrow> h) + 1 \<Longrightarrow> n \<le> it_max_stack i \<Longrightarrow>
     ee_character e = cid \<Longrightarrow> ee_item e = Some k \<Longrightarrow> ee_yen_delta e = - price \<Longrightarrow> ee_quantity_delta e = 1 \<Longrightarrow>
     economy_key_free e d \<Longrightarrow>
     store_write d ((set_inventory cid k (Some n) (set_character cid (r\<lparr>ch_yen := ch_yen r - price\<rparr>) d))
        \<lparr>vending_purchases := vending_purchases d @ [v], economy_events := economy_events d @ [e]\<rparr>)"

section \<open>The invariant\<close>

definition character_ok :: "character_row \<Rightarrow> bool" where
  "character_ok r \<longleftrightarrow> 0 \<le> ch_experience r \<and> int64_ok (ch_experience r) \<and> 0 \<le> ch_current_hp r
     \<and> ch_current_hp r \<le> ch_max_hp r \<and> 0 < ch_max_hp r \<and> int32_ok (ch_max_hp r)
     \<and> 0 \<le> ch_yen r \<and> int64_ok (ch_yen r)"

definition characters_ok :: "db \<Rightarrow> bool" where
  "characters_ok d \<longleftrightarrow> (\<forall>cid r. characters d cid = Some r \<longrightarrow> character_ok r)"

definition stacks_ok :: "db \<Rightarrow> bool" where
  "stacks_ok d \<longleftrightarrow> (\<forall>cid k q. inventory d (cid, k) = Some q \<longrightarrow>
     characters d cid \<noteq> None \<and> 0 < q \<and> (\<exists>i. find_item d k = Some i \<and> q \<le> it_max_stack i))"

definition items_ok :: "db \<Rightarrow> bool" where
  "items_ok d \<longleftrightarrow> (\<forall>k i. find_item d k = Some i \<longrightarrow> k \<noteq> '''' \<and> 0 < it_max_stack i \<and> int32_ok (it_max_stack i)
     \<and> (\<forall>v. it_effect_value i = Some v \<longrightarrow> int32_ok v))"

definition keys_ok :: "db \<Rightarrow> bool" where
  "keys_ok d \<longleftrightarrow>
     distinct (map (\<lambda>e. (ee_character e, ee_key e)) (filter (\<lambda>e. ee_key e \<noteq> None) (economy_events d)))
   \<and> distinct (map (\<lambda>e. (pe_character e, pe_key e)) (filter (\<lambda>e. pe_key e \<noteq> None) (progression_events d)))
   \<and> distinct (map (\<lambda>v. (vr_character v, vr_request v)) (vending_purchases d))"

definition db_ok :: "db \<Rightarrow> bool" where
  "db_ok d \<longleftrightarrow> characters_ok d \<and> stacks_ok d \<and> items_ok d \<and> keys_ok d"

lemma find_purchase_None: "find_purchase d cid req = None \<longleftrightarrow>
   (\<forall>v\<in>set (vending_purchases d). \<not> (vr_character v = cid \<and> vr_request v = req))"
  by (auto simp: find_purchase_def find_None_iff)

lemma keys_ok_economy:
  "keys_ok d \<Longrightarrow> economy_key_free e d \<Longrightarrow> economy_events d' = economy_events d @ [e] \<Longrightarrow>
   progression_events d' = progression_events d \<Longrightarrow> vending_purchases d' = vending_purchases d \<Longrightarrow> keys_ok d'"
  by (auto simp: keys_ok_def economy_key_free_def)

lemma keys_ok_progression:
  "keys_ok d \<Longrightarrow> progression_key_free e d \<Longrightarrow> progression_events d' = progression_events d @ [e] \<Longrightarrow>
   economy_events d' = economy_events d \<Longrightarrow> vending_purchases d' = vending_purchases d \<Longrightarrow> keys_ok d'"
  by (auto simp: keys_ok_def progression_key_free_def)

lemma keys_ok_purchase:
  "keys_ok d \<Longrightarrow> economy_key_free e d \<Longrightarrow> find_purchase d (vr_character v) (vr_request v) = None \<Longrightarrow>
   economy_events d' = economy_events d @ [e] \<Longrightarrow> progression_events d' = progression_events d \<Longrightarrow>
   vending_purchases d' = vending_purchases d @ [v] \<Longrightarrow> keys_ok d'"
  by (auto simp: keys_ok_def economy_key_free_def find_purchase_None)

lemma characters_ok_update:
  "characters_ok d \<Longrightarrow> character_ok r \<Longrightarrow> characters d' = (characters d)(cid \<mapsto> r) \<Longrightarrow> characters_ok d'"
  by (auto simp: characters_ok_def)

lemma stacks_ok_frame:
  "stacks_ok d \<Longrightarrow> inventory d' = inventory d \<Longrightarrow> items d' = items d \<Longrightarrow>
   dom (characters d) \<subseteq> dom (characters d') \<Longrightarrow> stacks_ok d'"
  by (fastforce simp: stacks_ok_def find_item_def dom_def)

lemma stacks_ok_update:
  assumes "stacks_ok d" and "inventory d' = (inventory d)((cid, k) := q)" and "items d' = items d"
    and "dom (characters d) \<subseteq> dom (characters d')" and "characters d cid \<noteq> None"
    and "\<And>n. q = Some n \<Longrightarrow> 0 < n \<and> (\<exists>i. find_item d k = Some i \<and> n \<le> it_max_stack i)"
  shows "stacks_ok d'"
proof -
  have f: "find_item d' j = find_item d j" for j by (simp add: find_item_def assms(3))
  have c: "characters d c \<noteq> None \<Longrightarrow> characters d' c \<noteq> None" for c using assms(4) by (auto simp: dom_def)
  show ?thesis unfolding stacks_ok_def
  proof (intro allI impI)
    fix c j m
    assume a: "inventory d' (c, j) = Some m"
    show "characters d' c \<noteq> None \<and> 0 < m \<and> (\<exists>i. find_item d' j = Some i \<and> m \<le> it_max_stack i)"
    proof (cases "(c, j) = (cid, k)")
      case True
      with a assms(2,5,6) c show ?thesis by (simp add: f)
    next
      case False
      with a assms(1,2) c show ?thesis by (auto simp: f stacks_ok_def)
    qed
  qed
qed

lemma items_ok_frame: "items_ok d \<Longrightarrow> items d' = items d \<Longrightarrow> items_ok d'"
  by (simp add: items_ok_def find_item_def)

lemma items_take_item [simp]: "items (take_item c k n d) = items d"
  by (simp add: take_item_eq)

lemma character_okD:
  "db_ok d \<Longrightarrow> characters d cid = Some r \<Longrightarrow> character_ok r"
  by (auto simp: db_ok_def characters_ok_def)

lemma stack_pos: "db_ok d \<Longrightarrow> inventory d (cid, k) = Some q \<Longrightarrow> 0 < q"
  by (auto simp: db_ok_def stacks_ok_def)

lemma store_write_ok: "store_write d d' \<Longrightarrow> db_ok d \<Longrightarrow> db_ok d'"
proof (induction rule: store_write.induct)
  case (write_yen d cid r y e)
  let ?d = "(set_character cid (r\<lparr>ch_yen := ch_yen r + y\<rparr>) d)\<lparr>economy_events := economy_events d @ [e]\<rparr>"
  have "characters_ok ?d"
    using write_yen character_okD [OF write_yen(8,1)]
    by - (rule characters_ok_update [of d "r\<lparr>ch_yen := ch_yen r + y\<rparr>"], simp_all add: db_ok_def character_ok_def)
  moreover have "stacks_ok ?d" using write_yen by - (rule stacks_ok_frame [of d]; auto simp: db_ok_def)
  moreover have "items_ok ?d" using write_yen by - (rule items_ok_frame [of d]; auto simp: db_ok_def)
  moreover have "keys_ok ?d" using write_yen by - (rule keys_ok_economy [of d e], simp_all add: db_ok_def)
  ultimately show ?case by (simp add: db_ok_def)
next
  case (write_item d cid k i n q e)
  let ?d = "(take_item cid k n d)\<lparr>economy_events := economy_events d @ [e]\<rparr>"
  have "characters_ok ?d" using write_item(11) by (simp add: db_ok_def characters_ok_def take_item_eq)
  moreover have "stacks_ok ?d"
  proof (rule stacks_ok_update [of d _ cid k "if n = 0 then None else Some n"])
    show "0 < m \<and> (\<exists>i. find_item d k = Some i \<and> m \<le> it_max_stack i)"
      if "(if n = 0 then None else Some n) = Some m" for m
      using that write_item(2,4,5) by (simp split: if_splits)
  qed (use write_item(1,11) in \<open>simp_all add: db_ok_def take_item_eq\<close>)
  moreover have "items_ok ?d" using write_item by - (rule items_ok_frame [of d]; auto simp: db_ok_def)
  moreover have "keys_ok ?d"
    using write_item by - (rule keys_ok_economy [of d e], simp_all add: db_ok_def take_item_eq)
  ultimately show ?case by (simp add: db_ok_def)
next
  case (write_experience d cid r x e)
  let ?d = "(set_character cid (r\<lparr>ch_experience := ch_experience r + x\<rparr>) d)
      \<lparr>progression_events := progression_events d @ [e]\<rparr>"
  have "characters_ok ?d"
    using write_experience character_okD [OF write_experience(9,1)]
    by - (rule characters_ok_update [of d "r\<lparr>ch_experience := ch_experience r + x\<rparr>"], simp_all add: db_ok_def character_ok_def)
  moreover have "stacks_ok ?d" using write_experience by - (rule stacks_ok_frame [of d]; auto simp: db_ok_def)
  moreover have "items_ok ?d" using write_experience by - (rule items_ok_frame [of d]; auto simp: db_ok_def)
  moreover have "keys_ok ?d" using write_experience by - (rule keys_ok_progression [of d e], simp_all add: db_ok_def)
  ultimately show ?case by (simp add: db_ok_def)
next
  case (write_hp d cid r h e)
  let ?d = "(set_character cid (r\<lparr>ch_current_hp := ch_current_hp r + h\<rparr>) d)
      \<lparr>progression_events := progression_events d @ [e]\<rparr>"
  have "characters_ok ?d"
    using write_hp character_okD [OF write_hp(8,1)]
    by - (rule characters_ok_update [of d "r\<lparr>ch_current_hp := ch_current_hp r + h\<rparr>"], simp_all add: db_ok_def character_ok_def)
  moreover have "stacks_ok ?d" using write_hp by - (rule stacks_ok_frame [of d]; auto simp: db_ok_def)
  moreover have "items_ok ?d" using write_hp by - (rule items_ok_frame [of d]; auto simp: db_ok_def)
  moreover have "keys_ok ?d" using write_hp by - (rule keys_ok_progression [of d e], simp_all add: db_ok_def)
  ultimately show ?case by (simp add: db_ok_def)
next
  case (write_purchase d cid r price req v e)
  let ?r = "r\<lparr>ch_yen := ch_yen r - price\<rparr>"
  let ?d = "(set_character cid ?r d)
        \<lparr>vending_purchases := vending_purchases d @ [v], economy_events := economy_events d @ [e]\<rparr>"
  have "characters_ok ?d"
    using write_purchase character_okD [OF write_purchase(12,1)]
    by - (rule characters_ok_update [of d ?r], simp_all add: db_ok_def character_ok_def int64_ok_def)
  moreover have "stacks_ok ?d" using write_purchase by - (rule stacks_ok_frame [of d]; auto simp: db_ok_def)
  moreover have "items_ok ?d" using write_purchase by - (rule items_ok_frame [of d]; auto simp: db_ok_def)
  moreover have "keys_ok ?d" using write_purchase by - (rule keys_ok_purchase [of d e v], simp_all add: db_ok_def)
  ultimately show ?case by (simp add: db_ok_def)
next
  case (write_purchase_prize d cid r price req v k i n e)
  let ?r = "r\<lparr>ch_yen := ch_yen r - price\<rparr>"
  let ?d = "(set_inventory cid k (Some n) (set_character cid ?r d))
        \<lparr>vending_purchases := vending_purchases d @ [v], economy_events := economy_events d @ [e]\<rparr>"
  have n: "0 < n" using write_purchase_prize stack_pos [OF write_purchase_prize(15), of cid k]
    by (auto split: option.splits)
  have "characters_ok ?d"
    using write_purchase_prize character_okD [OF write_purchase_prize(15,1)]
    by - (rule characters_ok_update [of d ?r], simp_all add: db_ok_def character_ok_def int64_ok_def)
  moreover have "stacks_ok ?d"
  proof (rule stacks_ok_update [of d _ cid k "Some n"])
    show "0 < m \<and> (\<exists>i. find_item d k = Some i \<and> m \<le> it_max_stack i)" if "Some n = Some m" for m
      using that n write_purchase_prize(7,9) by simp
  qed (use write_purchase_prize(1,15) in \<open>auto simp: db_ok_def\<close>)
  moreover have "items_ok ?d" using write_purchase_prize by - (rule items_ok_frame [of d]; auto simp: db_ok_def)
  moreover have "keys_ok ?d"
    using write_purchase_prize by - (rule keys_ok_purchase [of d e v], simp_all add: db_ok_def)
  ultimately show ?case by (simp add: db_ok_def)
qed

section \<open>Each committed operation is a sequence of writes\<close>

lemma set_commute:
  "set_character c r (d\<lparr>economy_events := es\<rparr>) = (set_character c r d)\<lparr>economy_events := es\<rparr>"
  "set_character c r (d\<lparr>progression_events := ps\<rparr>) = (set_character c r d)\<lparr>progression_events := ps\<rparr>"
  "set_inventory c k q (d\<lparr>economy_events := es\<rparr>) = (set_inventory c k q d)\<lparr>economy_events := es\<rparr>"
  by (simp_all add: set_character_def set_inventory_def)

lemma credit_yen_write:
  assumes "db_ok d" and "credit_yen cid amount key reason d = Inr (b, d')"
  shows "store_write d d'"
proof -
  obtain r where r: "0 < amount" "characters d cid = Some r" "b = ch_yen r + amount" "int64_ok b"
    "economy_key_free (economy_row cid key ''yen_credit'' '''' 0 amount reason) d"
    "d' = (set_character cid (r\<lparr>ch_yen := ch_yen r + amount\<rparr>) d)
       \<lparr>economy_events := economy_events d @ [economy_row cid key ''yen_credit'' '''' 0 amount reason]\<rparr>"
    using credit_yen_Inr [OF assms(2)] by (auto simp: set_commute)
  have "0 \<le> ch_yen r" using character_okD [OF assms(1) r(2)] by (simp add: character_ok_def)
  with r show ?thesis unfolding r(6) by (intro write_yen) simp_all
qed

lemma spend_yen_write:
  assumes "db_ok d" and "spend_yen cid amount key reason d = Inr (b, d')"
  shows "store_write d d'"
proof -
  obtain r where r: "0 < amount" "characters d cid = Some r" "amount \<le> ch_yen r"
    "economy_key_free (economy_row cid key ''yen_spend'' '''' 0 (- amount) reason) d"
    "d' = (set_character cid (r\<lparr>ch_yen := ch_yen r + - amount\<rparr>) d)
       \<lparr>economy_events := economy_events d @ [economy_row cid key ''yen_spend'' '''' 0 (- amount) reason]\<rparr>"
    using spend_yen_Inr [OF assms(2)] by auto
  have "int64_ok (ch_yen r + - amount)"
    using character_okD [OF assms(1) r(2)] r(1,3) by (simp add: character_ok_def int64_ok_def)
  with r show ?thesis unfolding r(5) by (intro write_yen) simp_all
qed

lemma stackD:
  "db_ok d \<Longrightarrow> inventory d (cid, k) = Some q \<Longrightarrow> \<exists>i. find_item d k = Some i \<and> q \<le> it_max_stack i \<and> 0 < q"
  unfolding db_ok_def stacks_ok_def by blast

lemma item_key_nonempty: "db_ok d \<Longrightarrow> find_item d k = Some i \<Longrightarrow> nullif_empty k = Some k"
  by (auto simp: db_ok_def items_ok_def nullif_empty_def)

lemma grant_item_write:
  assumes "db_ok d" and "grant_item cid k q key reason d = Inr (n, d')"
  shows "store_write d d'"
proof -
  obtain i where i: "0 < q" "characters d cid \<noteq> None" "find_item d k = Some i"
    "n = (case inventory d (cid, k) of None \<Rightarrow> q | Some h \<Rightarrow> h + q)" "n \<le> it_max_stack i"
    "economy_key_free (economy_row cid key ''item_grant'' k q 0 reason) d"
    "d' = (set_inventory cid k (Some n) d)
       \<lparr>economy_events := economy_events d @ [economy_row cid key ''item_grant'' k q 0 reason]\<rparr>"
    using grant_item_Inr [OF assms(2)] by (auto simp: set_commute)
  have n: "n = (case inventory d (cid, k) of None \<Rightarrow> 0 | Some h \<Rightarrow> h) + q"
    using i(4) by (simp split: option.splits)
  have pos: "0 < n" using i(1,4) stack_pos [OF assms(1), of cid k] by (auto split: option.splits)
  then have t: "set_inventory cid k (Some n) d = take_item cid k n d" by (simp add: take_item_eq)
  show ?thesis unfolding i(7) t
    using i pos item_key_nonempty [OF assms(1) i(3)] by (intro write_item [OF i(2,3) n]) simp_all
qed

lemma consume_item_write:
  assumes "db_ok d" and "consume_item cid k q reason d = Inr (n, d')"
  shows "store_write d d'"
proof -
  obtain h where h: "0 < q" "characters d cid \<noteq> None" "inventory d (cid, k) = Some h" "q \<le> h" "n = h - q"
    "d' = (take_item cid k n d)\<lparr>economy_events := economy_events d @ [economy_row cid '''' ''item_consume'' k (- q) 0 reason]\<rparr>"
    using consume_item_Inr [OF assms(2)] by blast
  obtain i where i: "find_item d k = Some i" "h \<le> it_max_stack i"
    using stackD [OF assms(1) h(3)] by blast
  have n: "n = (case inventory d (cid, k) of None \<Rightarrow> 0 | Some h \<Rightarrow> h) + - q" using h by simp
  show ?thesis unfolding h(6)
    using h i item_key_nonempty [OF assms(1) i(1)]
    by (intro write_item [OF h(2) i(1) n]) (simp_all add: economy_key_free_def nullif_empty_def)
qed

lemma wrapped_sum_nonneg:
  assumes "0 \<le> a" and "int64_ok a" and "0 < b" and "int64_ok b" and "0 \<le> wrap64 (a + b)"
  shows "wrap64 (a + b) = a + b \<and> int64_ok (a + b)"
proof (cases "int64_ok (a + b)")
  case False
  then have "2 ^ 63 \<le> a + b" using assms by (simp add: int64_ok_def)
  then have "wrap64 (a + b) = a + b - 2 ^ 64"
    using assms by (intro wrap64_overflow) (simp_all add: int64_ok_def)
  with assms show ?thesis by (simp add: int64_ok_def)
qed simp

lemma award_experience_write:
  assumes "db_ok d" and "award_experience cid amount key reason d = Inr (p, d')"
  shows "store_write d d'"
proof -
  obtain r where r: "0 < amount" "int64_ok amount" "characters d cid = Some r"
    "0 \<le> wrap64 (ch_experience r + amount)"
    "progression_key_free (progression_row cid key ''experience'' amount 0 reason) d"
    "d' = (set_character cid (r\<lparr>ch_experience := wrap64 (ch_experience r + amount)\<rparr>) d)
       \<lparr>progression_events := progression_events d @ [progression_row cid key ''experience'' amount 0 reason]\<rparr>"
    using award_experience_Inr [OF assms(2)] by (auto simp: set_commute)
  have "0 \<le> ch_experience r" "int64_ok (ch_experience r)"
    using character_okD [OF assms(1) r(3)] by (simp_all add: character_ok_def)
  then have w: "wrap64 (ch_experience r + amount) = ch_experience r + amount" "int64_ok (ch_experience r + amount)"
    using wrapped_sum_nonneg r(1,2,4) by blast+
  show ?thesis unfolding r(6) w(1)
    using r w by (intro write_experience [OF r(3)]) simp_all
qed

lemma change_hp_write:
  assumes "change_hp_in_tx cid delta kind key reason d = Inr (p, d')"
  shows "store_write d d'"
proof -
  obtain r hp where c: "characters d cid = Some r"
    "hp = min (ch_max_hp r) (max 0 (wrap64 (ch_current_hp r + delta)))" "0 \<le> hp"
    "progression_key_free (progression_row cid key kind 0 (hp - ch_current_hp r) reason) d"
    "d' = (set_character cid (r\<lparr>ch_current_hp := hp\<rparr>) d)\<lparr>progression_events := progression_events d @
       [progression_row cid key kind 0 (hp - ch_current_hp r) reason]\<rparr>"
    using change_hp_Inr [OF assms] by blast
  have "hp \<le> ch_max_hp r" unfolding c(2) by simp
  moreover have "ch_current_hp r + (hp - ch_current_hp r) = hp" by simp
  then have "d' = (set_character cid (r\<lparr>ch_current_hp := ch_current_hp r + (hp - ch_current_hp r)\<rparr>) d)
       \<lparr>progression_events := progression_events d @ [progression_row cid key kind 0 (hp - ch_current_hp r) reason]\<rparr>"
    by (simp only: c(5))
  ultimately have r: "characters d cid = Some r" "0 \<le> hp" "hp \<le> ch_max_hp r"
    "progression_key_free (progression_row cid key kind 0 (hp - ch_current_hp r) reason) d"
    "d' = (set_character cid (r\<lparr>ch_current_hp := ch_current_hp r + (hp - ch_current_hp r)\<rparr>) d)
       \<lparr>progression_events := progression_events d @ [progression_row cid key kind 0 (hp - ch_current_hp r) reason]\<rparr>"
    using c by blast+
  show ?thesis unfolding r(5) using r by (intro write_hp [OF r(1)]) simp_all
qed

lemma use_healing_item_write:
  assumes "db_ok d" and "use_healing_item cid k d = Inr (x, d')"
  shows "store_write\<^sup>*\<^sup>* d d'"
proof -
  obtain p n where x: "x = (p, n)" by (cases x)
  obtain v q r d2 where h: "healing_item d cid k = Some (v, q)" "n = q - 1" "characters d cid = Some r"
    "d2 = (take_item cid k n d)\<lparr>economy_events := economy_events d @ [heal_row cid k]\<rparr>"
    "change_hp_in_tx cid v ''heal'' '''' (''item:'' @ k) d2 = Inr (p, d')"
    using use_healing_item_Inr [OF assms(2) [unfolded x]] by blast
  obtain i where i: "inventory d (cid, k) = Some q" "find_item d k = Some i" "q \<le> it_max_stack i" "0 < q"
    using healing_item_Some [OF h(1)] stackD [OF assms(1), of cid k q] by blast
  have n: "n = (case inventory d (cid, k) of None \<Rightarrow> 0 | Some h \<Rightarrow> h) + - 1" using h(2) i(1) by simp
  have "store_write d d2" unfolding h(4)
    using h i by (intro write_item [OF _ i(2) n]) (simp_all add: economy_key_free_def)
  moreover have "store_write d2 d'" using h(5) by (rule change_hp_write)
  ultimately show ?thesis by (meson converse_rtranclp_into_rtranclp r_into_rtranclp)
qed

lemma vending_event_fields:
  "ee_character (vending_event c q m dr p w) = c" "ee_yen_delta (vending_event c q m dr p w) = - p"
  "ee_quantity_delta (vending_event c q m dr p w) = (if w then 1 else 0)"
  "ee_item (vending_event c q m dr p w) = (if w then Some ''winning_can'' else None)"
  "ee_key (vending_event c q m dr p w) = Some (''vending:'' @ q)"
  by (simp_all add: vending_event_def nullif_empty_def)

lemma find_purchase_updates [simp]:
  "find_purchase (set_character c r d) a b = find_purchase d a b"
  "find_purchase (set_inventory c k q d) a b = find_purchase d a b"
  by (simp_all add: find_purchase_def)

lemma purchase_new_write:
  assumes "db_ok d" and "purchase_new ord cid req machine drink price winning d = Inr (vp, d')"
  shows "store_write d d'"
proof -
  obtain r won d1 d2 v where p: "characters d cid = Some r" "price \<le> ch_yen r"
    "d1 = set_character cid (r\<lparr>ch_yen := ch_yen r - price\<rparr>) d"
    "(if winning then grant_winning_can cid d1 else Inr (False, d1)) = Inr (won, d2)"
    "v = \<lparr>vr_character = cid, vr_request = req, vr_machine = machine, vr_drink = drink,
           vr_price = price, vr_winning_can = won\<rparr>"
    "find_purchase d2 cid req = None" "0 < price"
    "economy_key_free (vending_event cid req machine drink price won) d2"
    "d' = d2\<lparr>vending_purchases := vending_purchases d2 @ [v],
              economy_events := economy_events d2 @ [vending_event cid req machine drink price won]\<rparr>"
    using purchase_new_Inr [OF assms(2)] by blast
  have v: "vr_character v = cid" "vr_request v = req" unfolding p(5) by simp_all
  let ?k = "''winning_can''"
  consider "\<not> won" "d2 = d1"
    | i n where "won" "find_item d1 ?k = Some i"
      "n = (case inventory d1 (cid, ?k) of None \<Rightarrow> 1 | Some q \<Rightarrow> q + 1)"
      "inventory d1 (cid, ?k) \<noteq> None \<longrightarrow> n \<le> it_max_stack i" "d2 = set_inventory cid ?k (Some n) d1"
  proof (cases winning)
    case True
    with p(4) have "grant_winning_can cid d1 = Inr (won, d2)" by simp
    from grant_winning_can_Inr [OF this] that show thesis by blast
  next
    case False
    with p(4) that(1) show thesis by simp
  qed
  then show ?thesis
  proof cases
    case 1
    then have "d' = (set_character cid (r\<lparr>ch_yen := ch_yen r - price\<rparr>) d)\<lparr>vending_purchases := vending_purchases d @ [v],
              economy_events := economy_events d @ [vending_event cid req machine drink price won]\<rparr>"
      unfolding p(9) by (simp add: p(3))
    moreover have "find_purchase d cid req = None" using p(6) by (simp add: 1 p(3))
    moreover have "economy_key_free (vending_event cid req machine drink price won) d"
      using p(8) by (simp add: 1 p(3))
    ultimately show ?thesis using 1(1) v
      by (simp only: write_purchase [OF p(1,7,2)] vending_event_fields if_False)
  next
    case (2 i n)
    have i: "find_item d ?k = Some i" using 2(2) by (simp add: p(3))
    then have "0 < it_max_stack i" using assms(1) by (auto simp: db_ok_def items_ok_def)
    with 2(3,4) have le: "n \<le> it_max_stack i" by (auto split: option.splits)
    have n: "n = (case inventory d (cid, ?k) of None \<Rightarrow> 0 | Some h \<Rightarrow> h) + 1"
      using 2(3) by (simp add: p(3) split: option.splits)
    have "d' = (set_inventory cid ?k (Some n) (set_character cid (r\<lparr>ch_yen := ch_yen r - price\<rparr>) d))
        \<lparr>vending_purchases := vending_purchases d @ [v],
              economy_events := economy_events d @ [vending_event cid req machine drink price won]\<rparr>"
      unfolding p(9) by (simp add: p(3) 2(5))
    moreover have "find_purchase d cid req = None" using p(6) by (simp add: 2(5) p(3))
    moreover have "economy_key_free (vending_event cid req machine drink price won) d"
      using p(8) by (simp add: 2(5) p(3))
    ultimately show ?thesis using 2(1) v
      by (simp only: write_purchase_prize [OF p(1,7,2) _ _ _ i n le] vending_event_fields if_True)
  qed
qed

lemma store_step_writes:
  assumes "store_step d d'" and "db_ok d"
  shows "store_write\<^sup>*\<^sup>* d d'"
  using assms
  by (elim store_stepE)
    (auto intro: credit_yen_write spend_yen_write grant_item_write consume_item_write
        award_experience_write change_hp_write use_healing_item_write purchase_new_write
      simp: apply_damage_def heal_def change_hp_def split: if_splits dest!: purchase_vending_Inr)

lemma store_writes_ok: "store_write\<^sup>*\<^sup>* d d' \<Longrightarrow> db_ok d \<Longrightarrow> db_ok d'"
  by (induction rule: rtranclp_induct) (auto intro: store_write_ok)

section \<open>Journals\<close>

text \<open>
  A journal explains a family of balances when each step only appends entries and moves each
  balance by what the new entries post to it. Over any run the difference of two balances is then
  the sum of the entries in between.
\<close>

locale ledger = transition_system ini stp inv
  for ini :: "'s \<Rightarrow> bool" and stp :: "'s \<Rightarrow> 's \<Rightarrow> bool" and inv :: "'s \<Rightarrow> bool" +
  fixes entries :: "'s \<Rightarrow> 'e list" and posting :: "'k \<Rightarrow> 'e \<Rightarrow> int" and balance :: "'s \<Rightarrow> 'k \<Rightarrow> int"
  assumes posted: "inv s \<Longrightarrow> stp s t \<Longrightarrow>
    \<exists>es. entries t = entries s @ es \<and> (\<forall>k. balance t k = balance s k + sum_list (map (posting k) es))"
begin

lemma run_inv: "stp\<^sup>*\<^sup>* s t \<Longrightarrow> inv s \<Longrightarrow> inv t"
  by (induction rule: rtranclp_induct) (auto intro: inv_step)

lemma history:
  assumes "stp\<^sup>*\<^sup>* s t" and "inv s"
  shows "\<exists>es. entries t = entries s @ es \<and> (\<forall>k. balance t k = balance s k + sum_list (map (posting k) es))"
  using assms
proof (induction rule: rtranclp_induct)
  case base
  show ?case by (intro exI [of _ "[]"]) simp
next
  case (step t u)
  then obtain es where es: "entries t = entries s @ es"
    "\<forall>k. balance t k = balance s k + sum_list (map (posting k) es)" by blast
  have "inv t" using step.hyps(1) step.prems by (rule run_inv)
  then obtain fs where fs: "entries u = entries t @ fs"
    "\<forall>k. balance u k = balance t k + sum_list (map (posting k) fs)"
    using posted step.hyps(2) by blast
  show ?case by (intro exI [of _ "es @ fs"]) (simp add: es fs)
qed

end

definition yen_of :: "db \<Rightarrow> int \<Rightarrow> int" where
  "yen_of d cid = (case characters d cid of Some r \<Rightarrow> ch_yen r | None \<Rightarrow> 0)"

definition yen_posting :: "int \<Rightarrow> economy_event \<Rightarrow> int" where
  "yen_posting cid e = (if ee_character e = cid then ee_yen_delta e else 0)"

definition quantity_of :: "db \<Rightarrow> int \<times> string \<Rightarrow> int" where
  "quantity_of d ck = (case inventory d ck of Some q \<Rightarrow> q | None \<Rightarrow> 0)"

definition item_posting :: "int \<times> string \<Rightarrow> economy_event \<Rightarrow> int" where
  "item_posting ck e = (if ee_character e = fst ck \<and> ee_item e = Some (snd ck) then ee_quantity_delta e else 0)"

definition experience_of :: "db \<Rightarrow> int \<Rightarrow> int" where
  "experience_of d cid = (case characters d cid of Some r \<Rightarrow> ch_experience r | None \<Rightarrow> 0)"

definition experience_posting :: "int \<Rightarrow> progression_event \<Rightarrow> int" where
  "experience_posting cid e = (if pe_character e = cid then pe_experience_delta e else 0)"

definition hp_of :: "db \<Rightarrow> int \<Rightarrow> int" where
  "hp_of d cid = (case characters d cid of Some r \<Rightarrow> ch_current_hp r | None \<Rightarrow> 0)"

definition hp_posting :: "int \<Rightarrow> progression_event \<Rightarrow> int" where
  "hp_posting cid e = (if pe_character e = cid then pe_hp_delta e else 0)"

lemmas posting_defs = yen_of_def yen_posting_def quantity_of_def item_posting_def
  experience_of_def experience_posting_def hp_of_def hp_posting_def

lemma yen_posted: "store_write d d' \<Longrightarrow>
  \<exists>es. economy_events d' = economy_events d @ es \<and> (\<forall>k. yen_of d' k = yen_of d k + sum_list (map (yen_posting k) es))"
  by (erule store_write.cases) (auto simp: posting_defs take_item_eq)

lemma items_posted: "store_write d d' \<Longrightarrow>
  \<exists>es. economy_events d' = economy_events d @ es \<and> (\<forall>k. quantity_of d' k = quantity_of d k + sum_list (map (item_posting k) es))"
  by (erule store_write.cases) (auto simp: posting_defs take_item_eq)

lemma experience_posted: "store_write d d' \<Longrightarrow>
  \<exists>es. progression_events d' = progression_events d @ es \<and> (\<forall>k. experience_of d' k = experience_of d k + sum_list (map (experience_posting k) es))"
  by (erule store_write.cases) (auto simp: posting_defs take_item_eq)

lemma hp_posted: "store_write d d' \<Longrightarrow>
  \<exists>es. progression_events d' = progression_events d @ es \<and> (\<forall>k. hp_of d' k = hp_of d k + sum_list (map (hp_posting k) es))"
  by (erule store_write.cases) (auto simp: posting_defs take_item_eq)

lemma store_transitions: "transition_system db_ok store_write db_ok"
  by unfold_locales (auto intro: store_write_ok)

interpretation yen: ledger db_ok store_write db_ok economy_events yen_posting yen_of
  by (rule ledger.intro [OF store_transitions ledger_axioms.intro]) (rule yen_posted)

interpretation stacks: ledger db_ok store_write db_ok economy_events item_posting quantity_of
  by (rule ledger.intro [OF store_transitions ledger_axioms.intro]) (rule items_posted)

interpretation experience: ledger db_ok store_write db_ok progression_events experience_posting experience_of
  by (rule ledger.intro [OF store_transitions ledger_axioms.intro]) (rule experience_posted)

interpretation hitpoints: ledger db_ok store_write db_ok progression_events hp_posting hp_of
  by (rule ledger.intro [OF store_transitions ledger_axioms.intro]) (rule hp_posted)

lemma store_steps_writes:
  "store_step\<^sup>*\<^sup>* d d' \<Longrightarrow> db_ok d \<Longrightarrow> store_write\<^sup>*\<^sup>* d d'"
proof (induction rule: rtranclp_induct)
  case (step t u)
  then have "db_ok t" using store_writes_ok by blast
  with step show ?case using store_step_writes rtranclp_trans by metis
qed simp

text \<open>
  C26: whatever sequence of committed operations ran in between, a character's yen balance differs
  from the earlier one by exactly the sum of the yen entries appended to the economy journal for
  that character, and the quantity of each item by the sum of its quantity entries; the journal
  only grows.
\<close>

theorem economy_journal_explains:
  assumes "db_ok d" and "store_step\<^sup>*\<^sup>* d d'"
  shows "\<exists>es. economy_events d' = economy_events d @ es
    \<and> (\<forall>cid. yen_of d' cid = yen_of d cid + sum_list (map (yen_posting cid) es))
    \<and> (\<forall>cid k. quantity_of d' (cid, k) = quantity_of d (cid, k) + sum_list (map (item_posting (cid, k)) es))"
  using yen.history [OF store_steps_writes [OF assms(2,1)] assms(1)]
    stacks.history [OF store_steps_writes [OF assms(2,1)] assms(1)] by auto

text \<open>
  C29: in the same way the progression journal explains experience and hit points.
\<close>

theorem progression_journal_explains:
  assumes "db_ok d" and "store_step\<^sup>*\<^sup>* d d'"
  shows "\<exists>es. progression_events d' = progression_events d @ es
    \<and> (\<forall>cid. experience_of d' cid = experience_of d cid + sum_list (map (experience_posting cid) es))
    \<and> (\<forall>cid. hp_of d' cid = hp_of d cid + sum_list (map (hp_posting cid) es))"
  using experience.history [OF store_steps_writes [OF assms(2,1)] assms(1)]
    hitpoints.history [OF store_steps_writes [OF assms(2,1)] assms(1)] by auto


section \<open>Retries\<close>

lemma purchases_posted: "store_write d d' \<Longrightarrow> \<exists>vs. vending_purchases d' = vending_purchases d @ vs"
  by (erule store_write.cases) (auto simp: take_item_eq)

text \<open>The records of a later state extend those of an earlier one.\<close>

definition later :: "db \<Rightarrow> db \<Rightarrow> bool" where
  "later d d' \<longleftrightarrow> set (economy_events d) \<subseteq> set (economy_events d')
     \<and> set (progression_events d) \<subseteq> set (progression_events d')
     \<and> (\<exists>vs. vending_purchases d' = vending_purchases d @ vs)"

lemma later_refl: "later d d" by (simp add: later_def)

lemma later_trans: "later a b \<Longrightarrow> later b c \<Longrightarrow> later a c"
  by (auto simp: later_def)

lemma store_write_later: "store_write d d' \<Longrightarrow> later d d'"
  using yen_posted [of d d'] experience_posted [of d d'] purchases_posted [of d d'] by (auto simp: later_def)

lemma store_steps_later:
  assumes "db_ok d" and "store_step\<^sup>*\<^sup>* d d'"
  shows "later d d'"
  using store_steps_writes [OF assms(2,1)]
  by (induction rule: rtranclp_induct) (auto intro: later_refl later_trans store_write_later)

lemma purchase_persists:
  "later d d' \<Longrightarrow> find_purchase d cid req = Some v \<Longrightarrow> find_purchase d' cid req = Some v"
  by (auto simp: later_def find_purchase_def find_append)

lemma purchase_recorded:
  assumes "purchase_vending_drink ord cid req machine drink price winning d = Inr (vp, d')"
  shows "\<exists>v. find_purchase d' cid (trim_space req) = Some v \<and> vr_machine v = trim_space machine
     \<and> vr_drink v = trim_space drink \<and> 0 < cid \<and> trim_space req \<noteq> '''' \<and> trim_space machine \<noteq> ''''
     \<and> trim_space drink \<noteq> '''' \<and> vp = scan_purchase v (vp_yen vp) (vp_inventory vp)"
proof (cases "find_purchase d cid (trim_space req)")
  case (Some v)
  with assms show ?thesis
    by (auto simp: purchase_vending_drink_def populate_vending_state_def scan_purchase_def Let_def
        split: if_splits option.splits)
next
  case None
  with assms have guard: "0 < cid" "trim_space req \<noteq> ''''" "trim_space machine \<noteq> ''''" "trim_space drink \<noteq> ''''"
    and new: "purchase_new ord cid (trim_space req) (trim_space machine) (trim_space drink) price winning d = Inr (vp, d')"
    by (auto simp: purchase_vending_drink_def Let_def split: if_splits)
  obtain d2 v y won its where r: "v = \<lparr>vr_character = cid, vr_request = trim_space req, vr_machine = trim_space machine,
      vr_drink = trim_space drink, vr_price = price, vr_winning_can = won\<rparr>"
     "find_purchase d2 cid (trim_space req) = None"
     "vending_purchases d' = vending_purchases d2 @ [v]" "vp = scan_purchase v y its"
    using purchase_new_Inr [OF new] by force
  have v: "vr_character v = cid" "vr_request v = trim_space req" "vr_machine v = trim_space machine"
     "vr_drink v = trim_space drink" unfolding r(1) by simp_all
  have "find_purchase d' cid (trim_space req) = Some v"
    using r(2,3) v(1,2) by (simp add: find_purchase_def find_append)
  with v guard r(4) show ?thesis by (intro exI [of _ v]) (simp add: scan_purchase_def)
qed

text \<open>
  C28: a vending request that went through is answered again, whatever happened in between, with the
  recorded machine, drink, price and prize and the balance of the moment, and without charging or
  granting anything; the roll for the prize and the price of the retry are ignored.
\<close>

theorem vending_retry_is_free:
  assumes "db_ok d" and "purchase_vending_drink ord cid req machine drink price winning d = Inr (vp, d1)"
    and "store_step\<^sup>*\<^sup>* d1 d2" and "0 < price'"
  shows "purchase_vending_drink ord cid req machine drink price' winning' d2 =
    (case active_character d2 cid of
       None \<Rightarrow> Inl ErrNoRows
     | Some r \<Rightarrow> Inr (vp\<lparr>vp_yen := ch_yen r, vp_inventory := inventory_of ord d2 cid\<rparr>, d2))"
proof -
  have ok: "db_ok d1"
    using store_writes_ok [OF store_step_writes [OF step_vending [OF assms(2)] assms(1)] assms(1)] .
  obtain v where v: "find_purchase d1 cid (trim_space req) = Some v" "vr_machine v = trim_space machine"
     "vr_drink v = trim_space drink" "0 < cid" "trim_space req \<noteq> ''''" "trim_space machine \<noteq> ''''"
     "trim_space drink \<noteq> ''''" "vp = scan_purchase v (vp_yen vp) (vp_inventory vp)"
    using purchase_recorded [OF assms(2)] by blast
  have f: "find_purchase d2 cid (trim_space req) = Some v"
    using purchase_persists [OF store_steps_later [OF ok assms(3)] v(1)] .
  have "vp\<lparr>vp_yen := y, vp_inventory := its\<rparr> = scan_purchase v y its" for y its
    by (subst v(8)) (simp add: scan_purchase_def)
  with v f assms(4) show ?thesis
    by (simp add: purchase_vending_drink_def populate_vending_state_def Let_def split: option.split)
qed


text \<open>
  An event key of a character is spent by the first economy operation that commits with it:
  whatever happens afterwards, a credit or a grant with that key is refused as a duplicate and
  commits nothing.
\<close>

theorem event_key_is_spent:
  assumes "db_ok d" and "key \<noteq> ''''"
    and "credit_yen cid amount key reason d = Inr (b, d1) \<or> grant_item cid k q key reason d = Inr (b, d1)
      \<or> spend_yen cid amount key reason d = Inr (b, d1)"
    and "store_step\<^sup>*\<^sup>* d1 d2"
    and "0 < amount'" and "int64_ok amount'" and "0 < q'" and "int32_ok q'"
  shows "credit_yen cid amount' key reason' d2 = Inl ErrDuplicateEvent
    \<and> grant_item cid k' q' key reason' d2 = Inl ErrDuplicateEvent"
proof -
  have "store_step d d1" using assms(3) by (auto intro: store_step.intros)
  then have ok: "db_ok d1" using store_writes_ok store_step_writes assms(1) by blast
  have "\<exists>x\<in>set (economy_events d1). ee_character x = cid \<and> ee_key x = Some key"
    using assms(2,3) by (auto simp: nullif_empty_def dest!: credit_yen_Inr grant_item_Inr spend_yen_Inr)
  then have x: "\<exists>x\<in>set (economy_events d2). ee_character x = cid \<and> ee_key x = Some key"
    using store_steps_later [OF ok assms(4)] by (auto simp: later_def)
  have k: "nullif_empty key = Some key" using assms(2) by (simp add: nullif_empty_def)
  have dup: "insert_economy_event e d2 = Inl ErrDuplicateEvent"
    if "ee_character e = cid" "ee_key e = Some key" "int32_ok (ee_quantity_delta e)" "int64_ok (ee_yen_delta e)" for e
    using that x by (simp add: insert_economy_event_def)
  have zero: "int32_ok 0" "int64_ok 0" by (simp_all add: int32_ok_def int64_ok_def)
  show ?thesis
    using assms(5-8) zero by (simp add: credit_yen_def grant_item_def record_economy_event_def dup k)
qed


section \<open>Hit points and experience\<close>

lemma int32_diff: "0 \<le> a \<Longrightarrow> 0 \<le> b \<Longrightarrow> int32_ok a \<Longrightarrow> int32_ok b \<Longrightarrow> int32_ok (a - b)"
  by (simp add: int32_ok_def)

lemma int32_le: "0 \<le> a \<Longrightarrow> a \<le> b \<Longrightarrow> int32_ok b \<Longrightarrow> int32_ok a"
  by (simp add: int32_ok_def)

lemma change_hp_commits:
  assumes "active_character d cid = Some r" and "character_ok r"
    and "hp = min (ch_max_hp r) (max 0 (wrap64 (ch_current_hp r + delta)))"
  shows "change_hp_in_tx cid delta kind '''' reason d =
    Inr (progression_for (ch_experience r) hp (ch_max_hp r),
         (set_character cid (r\<lparr>ch_current_hp := hp\<rparr>) d)\<lparr>progression_events := progression_events d @
           [progression_row cid '''' kind 0 (hp - ch_current_hp r) reason]\<rparr>)"
proof -
  have hp: "0 \<le> hp" "hp \<le> ch_max_hp r" "0 \<le> ch_current_hp r" "ch_current_hp r \<le> ch_max_hp r" "int32_ok (ch_max_hp r)"
    using assms(2) unfolding assms(3) character_ok_def by auto
  then have "int32_ok (hp - ch_current_hp r)" using int32_diff int32_le by blast
  moreover have "int64_ok 0" by (simp add: int64_ok_def)
  ultimately show ?thesis
    using hp(1) unfolding change_hp_in_tx_def assms(1) option.case Let_def assms(3) [symmetric]
    by (simp add: insert_progression_event_def nullif_empty_def)
qed

text \<open>
  Damage and healing without an event key always commit for an active character and saturate:
  hit points drop to no less than zero and rise to no more than the maximum, and experience, yen
  and every other character stay as they are. The sum must fit \<open>int\<close> for healing.
\<close>

theorem hit_points_saturate:
  assumes "db_ok d" and "active_character d cid = Some r" and "0 < amount" and "int64_ok (ch_current_hp r + amount)"
  shows "(\<exists>p d'. apply_damage cid amount '''' reason d = Inr (p, d') \<and> pr_current_hp p = max 0 (ch_current_hp r - amount)
      \<and> characters d' = (characters d)(cid \<mapsto> r\<lparr>ch_current_hp := max 0 (ch_current_hp r - amount)\<rparr>) \<and> inventory d' = inventory d)
    \<and> (\<exists>p d'. heal cid amount '''' reason d = Inr (p, d') \<and> pr_current_hp p = min (ch_max_hp r) (ch_current_hp r + amount)
      \<and> characters d' = (characters d)(cid \<mapsto> r\<lparr>ch_current_hp := min (ch_max_hp r) (ch_current_hp r + amount)\<rparr>) \<and> inventory d' = inventory d)"
proof -
  have r: "character_ok r" using assms(1,2) character_okD by (auto simp: active_character_Some)
  then have h: "0 \<le> ch_current_hp r" "ch_current_hp r \<le> ch_max_hp r" by (simp_all add: character_ok_def)
  have "int64_ok (ch_current_hp r - amount)" using assms(3,4) h(1) by (simp add: int64_ok_def)
  then have w: "wrap64 (ch_current_hp r - amount) = ch_current_hp r - amount"
    "wrap64 (ch_current_hp r + amount) = ch_current_hp r + amount" using assms(4) by simp_all
  have m: "min (ch_max_hp r) (max 0 (ch_current_hp r - amount)) = max 0 (ch_current_hp r - amount)"
    "min (ch_max_hp r) (max 0 (ch_current_hp r + amount)) = min (ch_max_hp r) (ch_current_hp r + amount)"
    using h assms(3) by (simp_all add: min_def max_def)
  note c = change_hp_commits [OF assms(2) r refl, of _ _ reason]
  show ?thesis
    using assms(3) h
    by (simp add: apply_damage_def heal_def change_hp_def c w m progression_for_def)
qed

text \<open>
  C31: a healing amount so large that its sum with the hit points leaves \<open>int\<close> empties them: the
  sum wraps to a negative number before it is clamped.
\<close>

theorem huge_heal_kills:
  assumes "db_ok d" and "active_character d cid = Some r" and "int64_ok amount" and "2 ^ 63 \<le> ch_current_hp r + amount"
  shows "\<exists>p d'. heal cid amount '''' reason d = Inr (p, d') \<and> pr_current_hp p = 0 \<and> hp_of d' cid = 0"
proof -
  have r: "character_ok r" using assms(1,2) character_okD by (auto simp: active_character_Some)
  then have h: "0 \<le> ch_current_hp r" "ch_current_hp r \<le> ch_max_hp r" "int32_ok (ch_max_hp r)" by (simp_all add: character_ok_def)
  then have a: "0 < amount" using assms(4) by (simp add: int32_ok_def)
  have "wrap64 (ch_current_hp r + amount) = ch_current_hp r + amount - 2 ^ 64"
    using assms(3,4) h by (intro wrap64_overflow) (simp_all add: int64_ok_def int32_ok_def)
  then have "max 0 (wrap64 (ch_current_hp r + amount)) = 0"
    using assms(3) h by (simp add: int64_ok_def int32_ok_def)
  with a h change_hp_commits [OF assms(2) r refl, of amount "''heal''" reason] show ?thesis
    by (simp add: heal_def change_hp_def progression_for_def hp_of_def)
qed

text \<open>
  C30: using a healing item on an active, wounded character takes exactly one item from the stack (a
  last one removes the row) and restores its heal amount up to the maximum; without the item, or
  with hit points full, nothing is taken.
\<close>

theorem healing_item_is_used_once:
  assumes "db_ok d" and "active_character d cid = Some r"
  shows "use_healing_item cid k d =
    (case healing_item d cid k of
       None \<Rightarrow> Inl ErrInsufficient
     | Some (v, q) \<Rightarrow>
         if ch_current_hp r = ch_max_hp r then Inl (ErrHpFull q)
         else let hp = min (ch_max_hp r) (max 0 (ch_current_hp r + v)) in
           Inr ((progression_for (ch_experience r) hp (ch_max_hp r), q - 1),
                d\<lparr>characters := (characters d)(cid \<mapsto> r\<lparr>ch_current_hp := hp\<rparr>),
                  inventory := (inventory d)((cid, k) := if q = 1 then None else Some (q - 1)),
                  economy_events := economy_events d @ [heal_row cid k],
                  progression_events := progression_events d @
                    [progression_row cid '''' ''heal'' 0 (hp - ch_current_hp r) (''item:'' @ k)]\<rparr>))"
proof (cases "healing_item d cid k")
  case None
  then show ?thesis by (simp add: use_healing_item_def)
next
  case (Some vq)
  obtain v q where vq: "vq = (v, q)" by (cases vq)
  have r: "character_ok r" using assms(1,2) character_okD by (auto simp: active_character_Some)
  then have h: "0 \<le> ch_current_hp r" "ch_current_hp r \<le> ch_max_hp r" "int32_ok (ch_max_hp r)" by (simp_all add: character_ok_def)
  obtain i where i: "inventory d (cid, k) = Some q" "find_item d k = Some i" "it_effect_value i = Some v"
    using healing_item_Some [OF Some [unfolded vq]] by blast
  have "int32_ok v" using assms(1) i(2,3) by (simp add: db_ok_def items_ok_def)
  then have w: "wrap64 (ch_current_hp r + v) = ch_current_hp r + v"
    using h by (intro wrap64_id) (simp add: int32_ok_def int64_ok_def)
  let ?hp = "min (ch_max_hp r) (max 0 (ch_current_hp r + v))"
  let ?d1 = "(take_item cid k (q - 1) d)\<lparr>economy_events := economy_events d @ [heal_row cid k]\<rparr>"
  have ins: "insert_economy_event (heal_row cid k) (take_item cid k (q - 1) d) = Inr ?d1"
    using assms(2) i(2)
    by (simp add: insert_economy_event_Inr economy_key_free_def active_character_Some take_item_eq int32_ok_def int64_ok_def)
  have a: "active_character ?d1 cid = Some r" using assms(2) by (simp add: active_character_Some take_item_eq)
  define rs where "rs = ''item:'' @ k"
  note c = change_hp_commits [OF a r refl, of v "''heal''" rs, unfolded w]
  show ?thesis
    using h unfolding rs_def [symmetric] use_healing_item_def
    by (simp add: Some vq assms(2) Let_def heal_row_def [symmetric] ins c)
      (simp add: take_item_eq set_character_def set_inventory_def)
qed

section \<open>A concrete store\<close>

definition demo_item :: "string \<Rightarrow> int \<Rightarrow> int \<Rightarrow> item_def" where
  "demo_item k stack hp = \<lparr>it_key = k, it_name = k, it_description = '''', it_category = ''c'', it_max_stack = stack,
     it_usable = (0 < hp), it_effect_kind = (if 0 < hp then Some ''heal_hp'' else None),
     it_effect_value = (if 0 < hp then Some hp else None)\<rparr>"

definition demo_character :: character_row where
  "demo_character = \<lparr>ch_experience = 90, ch_current_hp = 60, ch_max_hp = 100, ch_yen = 500, ch_deleted = False\<rparr>"

definition demo_db :: db where
  "demo_db = \<lparr>characters = [7 \<mapsto> demo_character],
     items = [demo_item ''food'' 5 25, demo_item ''winning_can'' 99 0],
     inventory = [(7, ''food'') \<mapsto> 1], economy_events = [], progression_events = [], vending_purchases = []\<rparr>"

definition demo_ord :: "inventory_item list \<Rightarrow> inventory_item list" where
  "demo_ord its = its"

lemmas demo_defs = demo_db_def demo_character_def demo_item_def

lemma demo_find: "find_item demo_db k = (if k = ''food'' then Some (demo_item ''food'' 5 25)
   else if k = ''winning_can'' then Some (demo_item ''winning_can'' 99 0) else None)"
  by (simp add: find_item_def demo_defs)

lemma demo_characters: "characters demo_db cid = (if cid = 7 then Some demo_character else None)"
  by (simp add: demo_db_def)

lemma demo_ok: "db_ok demo_db"
proof -
  have "character_ok demo_character" by (simp add: character_ok_def demo_character_def int64_ok_def int32_ok_def)
  then have "characters_ok demo_db" by (simp add: characters_ok_def demo_characters)
  moreover have "stacks_ok demo_db"
    by (auto simp: stacks_ok_def demo_find demo_characters) (auto simp: demo_db_def demo_item_def split: if_splits)
  moreover have "items_ok demo_db" by (simp add: items_ok_def demo_find demo_item_def int32_ok_def)
  moreover have "keys_ok demo_db" by (simp add: keys_ok_def demo_db_def)
  ultimately show ?thesis by (simp add: db_ok_def)
qed

lemma demo_active: "active_character demo_db 7 = Some demo_character"
  by (simp add: active_character_Some demo_characters) (simp add: demo_character_def)

lemma demo_credit: "case credit_yen 7 100 ''gift'' ''r'' demo_db of Inr (b, d) \<Rightarrow> b = 600 | Inl _ \<Rightarrow> False"
  by code_simp

lemma demo_purchase:
  "case purchase_vending_drink demo_ord 7 ''q'' ''m'' ''cola'' 110 True demo_db of
     Inr (vp, d) \<Rightarrow> vp_yen vp = 390 \<and> vp_winning_can vp \<and> length (vp_inventory vp) = 2 | Inl _ \<Rightarrow> False"
  by code_simp

lemma credit_example: obtains d1 where "credit_yen 7 100 ''gift'' ''r'' demo_db = Inr (600, d1)" "store_step demo_db d1"
  using demo_credit by (auto split: sum.splits prod.splits intro: step_credit)

lemma purchase_example:
  obtains vp d1 where "purchase_vending_drink demo_ord 7 ''q'' ''m'' ''cola'' 110 True demo_db = Inr (vp, d1)"
    "vp_yen vp = 390" "store_step demo_db d1"
  using demo_purchase by (auto split: sum.splits prod.splits intro: step_vending)

theorem economy_journal_explains_witness:
  "\<exists>d'. store_step demo_db d' \<and> (\<exists>es. economy_events d' = economy_events demo_db @ es
    \<and> yen_of d' 7 = 500 + sum_list (map (yen_posting 7) es)
    \<and> quantity_of d' (7, ''winning_can'') = sum_list (map (item_posting (7, ''winning_can'')) es))"
proof -
  obtain vp d1 where d: "purchase_vending_drink demo_ord 7 ''q'' ''m'' ''cola'' 110 True demo_db = Inr (vp, d1)"
    "store_step demo_db d1" by (rule purchase_example)
  have "yen_of demo_db 7 = 500" "quantity_of demo_db (7, ''winning_can'') = 0"
    by (simp_all add: yen_of_def quantity_of_def demo_defs)
  moreover obtain es where "economy_events d1 = economy_events demo_db @ es"
    "\<forall>cid. yen_of d1 cid = yen_of demo_db cid + sum_list (map (yen_posting cid) es)"
    "\<forall>cid k. quantity_of d1 (cid, k) = quantity_of demo_db (cid, k) + sum_list (map (item_posting (cid, k)) es)"
    using economy_journal_explains [OF demo_ok r_into_rtranclp [of store_step, OF d(2)]] by blast
  ultimately show ?thesis using d(2) by (intro exI [of _ d1] conjI exI [of _ es]) simp_all
qed

theorem progression_journal_explains_witness:
  "\<exists>d'. store_step demo_db d' \<and> (\<exists>es. progression_events d' = progression_events demo_db @ es
    \<and> hp_of d' 7 = 60 + sum_list (map (hp_posting 7) es))"
proof -
  have a: "active_character demo_db 7 = Some demo_character" by (rule demo_active)
  have ok: "character_ok demo_character" using character_okD [OF demo_ok] by (simp add: demo_characters)
  have "\<exists>p d1. apply_damage 7 10 '''' ''r'' demo_db = Inr (p, d1)"
    by (simp add: apply_damage_def change_hp_def change_hp_commits [OF a ok refl])
  then obtain p d1 where d: "apply_damage 7 10 '''' ''r'' demo_db = Inr (p, d1)" by blast
  have "hp_of demo_db 7 = 60" by (simp add: hp_of_def demo_defs)
  with progression_journal_explains [OF demo_ok r_into_rtranclp [of store_step, OF step_damage [OF d]]] step_damage [OF d]
  show ?thesis by metis
qed


theorem vending_retry_is_free_witness:
  "\<exists>vp d1 y. purchase_vending_drink demo_ord 7 ''q'' ''m'' ''cola'' 110 True demo_db = Inr (vp, d1)
    \<and> purchase_vending_drink demo_ord 7 ''q'' ''m'' ''cola'' 130 False d1 =
       Inr (vp\<lparr>vp_yen := y, vp_inventory := inventory_of demo_ord d1 7\<rparr>, d1)"
proof -
  obtain vp d1 where d: "purchase_vending_drink demo_ord 7 ''q'' ''m'' ''cola'' 110 True demo_db = Inr (vp, d1)"
    by (rule purchase_example)
  have "case purchase_vending_drink demo_ord 7 ''q'' ''m'' ''cola'' 110 True demo_db of
     Inr (_, d) \<Rightarrow> active_character d 7 \<noteq> None | Inl _ \<Rightarrow> False" by code_simp
  then obtain r where r: "active_character d1 7 = Some r" using d by auto
  from vending_retry_is_free [OF demo_ok d rtranclp.rtrancl_refl, of 130 False] r d show ?thesis
    by (intro exI [of _ vp] exI [of _ d1] exI [of _ "ch_yen r"]) simp
qed

theorem event_key_is_spent_witness:
  "\<exists>d1. credit_yen 7 100 ''gift'' ''r'' demo_db = Inr (600, d1)
     \<and> credit_yen 7 20 ''gift'' ''r'' d1 = Inl ErrDuplicateEvent
     \<and> grant_item 7 ''food'' 1 ''gift'' ''r'' d1 = Inl ErrDuplicateEvent"
proof -
  obtain d1 where d: "credit_yen 7 100 ''gift'' ''r'' demo_db = Inr (600, d1)" by (rule credit_example)
  have "credit_yen 7 20 ''gift'' ''r'' d1 = Inl ErrDuplicateEvent
     \<and> grant_item 7 ''food'' 1 ''gift'' ''r'' d1 = Inl ErrDuplicateEvent"
    by (rule event_key_is_spent [OF demo_ok _ disjI1 [OF d] rtranclp.rtrancl_refl])
      (simp_all add: int64_ok_def int32_ok_def)
  with d show ?thesis by blast
qed

theorem hit_points_saturate_witness:
  "\<exists>p d' p' d''. apply_damage 7 80 '''' ''r'' demo_db = Inr (p, d') \<and> pr_current_hp p = 0
     \<and> heal 7 80 '''' ''r'' demo_db = Inr (p', d'') \<and> pr_current_hp p' = 100"
  using hit_points_saturate [OF demo_ok demo_active, of 80 "''r''"]
  by (auto simp: demo_character_def int64_ok_def)

theorem huge_heal_kills_witness:
  "\<exists>p d'. heal 7 (2 ^ 63 - 1) '''' ''r'' demo_db = Inr (p, d') \<and> pr_current_hp p = 0 \<and> hp_of d' 7 = 0"
  using huge_heal_kills [OF demo_ok demo_active, of "2 ^ 63 - 1" "''r''"]
  by (auto simp: demo_character_def int64_ok_def)

theorem healing_item_is_used_once_witness:
  "\<exists>d'. use_healing_item 7 ''food'' demo_db = Inr ((progression_for 90 85 100, 0), d')
     \<and> inventory d' (7, ''food'') = None"
proof -
  have h: "healing_item demo_db 7 ''food'' = Some (25, 1)"
    by (simp add: healing_item_def demo_find) (simp add: demo_defs)
  show ?thesis
    using healing_item_is_used_once [OF demo_ok demo_active, of "''food''"]
    by (simp add: h Let_def) (simp add: demo_character_def)
qed

text \<open>
  An award of experience adds exactly its amount, never overflows, and never lowers the level.
\<close>

theorem award_raises_level:
  assumes "db_ok d" and "award_experience cid amount key reason d = Inr (p, d')"
  shows "\<exists>r. active_character d cid = Some r \<and> pr_experience p = ch_experience r + amount \<and> int64_ok (pr_experience p)
    \<and> pr_level p = level_for_experience (ch_experience r + amount)
    \<and> level_for_experience (ch_experience r) \<le> pr_level p \<and> experience_of d' cid = pr_experience p"
proof -
  obtain r where r: "0 < amount" "int64_ok amount" "characters d cid = Some r" "\<not> ch_deleted r"
    "0 \<le> wrap64 (ch_experience r + amount)"
    "p = progression_for (wrap64 (ch_experience r + amount)) (ch_current_hp r) (ch_max_hp r)"
    "characters d' = (characters d)(cid \<mapsto> r\<lparr>ch_experience := wrap64 (ch_experience r + amount)\<rparr>)"
    using award_experience_Inr [OF assms(2)] by auto
  have "0 \<le> ch_experience r" "int64_ok (ch_experience r)"
    using character_okD [OF assms(1) r(3)] by (simp_all add: character_ok_def)
  then have w: "wrap64 (ch_experience r + amount) = ch_experience r + amount" "int64_ok (ch_experience r + amount)"
    using wrapped_sum_nonneg r(1,2,5) by blast+
  have "level_for_experience (ch_experience r) \<le> level_for_experience (ch_experience r + amount)"
    using r(1) by (intro level_for_experience_mono) simp
  then show ?thesis
    using r w by (intro exI [of _ r]) (simp add: active_character_Some progression_for_def experience_of_def)
qed

theorem award_raises_level_witness:
  "\<exists>p d'. award_experience 7 10 ''k'' ''r'' demo_db = Inr (p, d') \<and> pr_level p = 2"
proof -
  have "case award_experience 7 10 ''k'' ''r'' demo_db of Inr _ \<Rightarrow> True | Inl _ \<Rightarrow> False" by code_simp
  then obtain p d' where a: "award_experience 7 10 ''k'' ''r'' demo_db = Inr (p, d')"
    by (auto split: sum.splits)
  from award_raises_level [OF demo_ok a] a demo_active show ?thesis
    by (auto simp: demo_character_def level_for_experience_table)
qed

end
