(* ===== verification/VendingCatalog.thy ===== *)
theory VendingCatalog
  imports Float64
begin

text \<open>
  The vending catalog, \<open>internal/vending/catalog.go\<close>: loading the manifest, the lookups, the
  distance test and the prize draw. The JSON decoder is the parameter \<open>decode\<close>.
\<close>

record product =
  prod_key :: string
  prod_name :: string
  prod_resource :: string
  prod_temperature :: string

record prize =
  prize_key :: string
  prize_name :: string
  prize_resource :: string

record chance =
  ch_numerator :: int
  ch_denominator :: int

record machine =
  mach_id :: string
  mach_world :: string
  mach_model :: string
  mach_tag :: string
  mach_position :: "f64 \<times> f64 \<times> f64"
  mach_rotation :: "f64 \<times> f64 \<times> f64"
  mach_radius :: f64
  mach_source :: string

record vending_manifest =
  vm_schema :: string
  vm_source_game :: string
  vm_currency :: string
  vm_unit_price :: int
  vm_chance :: chance
  vm_products :: "product list"
  vm_prize :: prize
  vm_machines :: "machine list"

record vending_catalog =
  vc_manifest :: vending_manifest
  vc_products :: "string \<rightharpoonup> product"
  vc_machines :: "string \<rightharpoonup> machine"
  vc_product_set :: "product list"

datatype catalog_error =
    CatalogDecode
  | CatalogSchema string
  | CatalogPrice
  | CatalogChance
  | IncompleteProduct
  | DuplicateProduct string
  | IncompleteMachine
  | DuplicateMachine string
  | EmptyCatalog

fun load_products :: "product list \<Rightarrow> (string \<rightharpoonup> product) \<Rightarrow> catalog_error + (string \<rightharpoonup> product)" where
  "load_products [] m = Inr m"
| "load_products (p # ps) m =
     (if prod_key p = '''' \<or> prod_name p = '''' \<or> prod_resource p = '''' then Inl IncompleteProduct
      else if m (prod_key p) \<noteq> None then Inl (DuplicateProduct (prod_key p))
      else load_products ps (m(prod_key p \<mapsto> p)))"

fun load_machines :: "machine list \<Rightarrow> (string \<rightharpoonup> machine) \<Rightarrow> catalog_error + (string \<rightharpoonup> machine)" where
  "load_machines [] m = Inr m"
| "load_machines (x # xs) m =
     (if mach_id x = '''' \<or> mach_world x = '''' \<or> fle (mach_radius x) (Fin 0) then Inl IncompleteMachine
      else if m (mach_id x) \<noteq> None then Inl (DuplicateMachine (mach_id x))
      else load_machines xs (m(mach_id x \<mapsto> x)))"

definition load_vending :: "('b \<Rightarrow> vending_manifest option) \<Rightarrow> 'b \<Rightarrow> catalog_error + vending_catalog" where
  "load_vending decode data =
     (case decode data of
        None \<Rightarrow> Inl CatalogDecode
      | Some m \<Rightarrow>
          if vm_schema m \<noteq> ''new-yokosuka-vending-manifest-v1'' then Inl (CatalogSchema (vm_schema m))
          else if vm_unit_price m \<le> 0 then Inl CatalogPrice
          else if ch_numerator (vm_chance m) \<le> 0 \<or> ch_denominator (vm_chance m) \<le> 0
            \<or> ch_denominator (vm_chance m) \<le> ch_numerator (vm_chance m) then Inl CatalogChance
          else (case load_products (vm_products m) Map.empty of
            Inl e \<Rightarrow> Inl e
          | Inr ps \<Rightarrow>
              (case load_machines (vm_machines m) Map.empty of
                Inl e \<Rightarrow> Inl e
              | Inr ms \<Rightarrow>
                  if vm_products m = [] \<or> vm_machines m = [] then Inl EmptyCatalog
                  else Inr \<lparr>vc_manifest = m, vc_products = ps, vc_machines = ms, vc_product_set = vm_products m\<rparr>)))"

definition catalog_product :: "vending_catalog \<Rightarrow> string \<Rightarrow> product option" where
  "catalog_product c k = vc_products c k"

definition catalog_machine :: "vending_catalog \<Rightarrow> string \<Rightarrow> machine option" where
  "catalog_machine c i = vc_machines c i"

definition unit_price :: "vending_catalog \<Rightarrow> int" where
  "unit_price c = vm_unit_price (vc_manifest c)"

definition is_near :: "machine \<Rightarrow> string \<Rightarrow> f64 \<Rightarrow> f64 \<Rightarrow> bool" where
  "is_near m world x z =
     (if world \<noteq> mach_world m \<or> is_nan x \<or> is_inf x \<or> is_nan z \<or> is_inf z then False
      else case mach_position m of (px, _, pz) \<Rightarrow>
        fle (sq_dist2 x z px pz) (fmul (mach_radius m) (mach_radius m)))"

definition is_winning_draw :: "vending_catalog \<Rightarrow> int \<Rightarrow> bool" where
  "is_winning_draw c v =
     (let denominator = ch_denominator (vm_chance (vc_manifest c)) in
      if v < 0 \<or> denominator \<le> v then False
      else v < ch_numerator (vm_chance (vc_manifest c)))"

section \<open>Loading\<close>

lemma load_products_fresh: "load_products xs m = Inr m' \<Longrightarrow> x \<in> set xs \<Longrightarrow> m (prod_key x) = None"
  by (induction xs m rule: load_products.induct) (auto split: if_splits)

lemma load_products_Inr:
  "load_products xs m = Inr m' \<Longrightarrow>
     m' k = (case find (\<lambda>x. prod_key x = k) xs of Some x \<Rightarrow> Some x | None \<Rightarrow> m k)"
proof (induction xs arbitrary: m)
  case (Cons x xs)
  have g: "m (prod_key x) = None" "load_products xs (m(prod_key x \<mapsto> x)) = Inr m'"
    using Cons.prems by (auto split: if_splits)
  have "find (\<lambda>y. prod_key y = prod_key x) xs = None"
    using load_products_fresh [OF g(2)] by (fastforce simp: find_None_iff)
  with Cons.IH [OF g(2)] show ?case by (auto split: option.split)
qed simp

lemma load_machines_fresh: "load_machines xs m = Inr m' \<Longrightarrow> x \<in> set xs \<Longrightarrow> m (mach_id x) = None"
  by (induction xs m rule: load_machines.induct) (auto split: if_splits)

lemma load_machines_Inr:
  "load_machines xs m = Inr m' \<Longrightarrow>
     m' k = (case find (\<lambda>x. mach_id x = k) xs of Some x \<Rightarrow> Some x | None \<Rightarrow> m k)"
proof (induction xs arbitrary: m)
  case (Cons x xs)
  have g: "m (mach_id x) = None" "load_machines xs (m(mach_id x \<mapsto> x)) = Inr m'"
    using Cons.prems by (auto split: if_splits)
  have "find (\<lambda>y. mach_id y = mach_id x) xs = None"
    using load_machines_fresh [OF g(2)] by (fastforce simp: find_None_iff)
  with Cons.IH [OF g(2)] show ?case by (auto split: option.split)
qed simp

text \<open>
  C35: a vending catalog that loads has a positive price, finds exactly the manifest's products and
  machines by their keys, and draws the prize on exactly \<open>numerator\<close> of the \<open>denominator\<close> values,
  so that with a uniform draw the winning chance is the configured one, strictly between never and
  always.
\<close>

theorem loaded_vending_catalog:
  assumes "load_vending decode data = Inr c"
  shows "\<exists>m. decode data = Some m \<and> vc_manifest c = m \<and> 0 < unit_price c
    \<and> (\<forall>k. catalog_product c k = find (\<lambda>p. prod_key p = k) (vm_products m))
    \<and> (\<forall>k. catalog_machine c k = find (\<lambda>x. mach_id x = k) (vm_machines m))
    \<and> int (card {v. is_winning_draw c v}) = ch_numerator (vm_chance m)
    \<and> {v. is_winning_draw c v} \<subset> {0..<ch_denominator (vm_chance m)} \<and> {v. is_winning_draw c v} \<noteq> {}"
proof -
  obtain m ps ms where m: "decode data = Some m" "0 < vm_unit_price m" "0 < ch_numerator (vm_chance m)"
    "ch_numerator (vm_chance m) < ch_denominator (vm_chance m)"
    "load_products (vm_products m) Map.empty = Inr ps" "load_machines (vm_machines m) Map.empty = Inr ms"
    "c = \<lparr>vc_manifest = m, vc_products = ps, vc_machines = ms, vc_product_set = vm_products m\<rparr>"
    using assms by (auto simp: load_vending_def split: option.splits if_splits sum.splits)
  have w: "{v. is_winning_draw c v} = {0..<ch_numerator (vm_chance m)}"
    using m(3,4) by (auto simp: is_winning_draw_def m(7) Let_def)
  have "{0..<ch_numerator (vm_chance m)} \<subset> {0..<ch_denominator (vm_chance m)}"
    using m(3,4) by (auto simp: psubset_eq set_eq_iff intro!: exI [of _ "ch_numerator (vm_chance m)"])
  with m(1-4) show ?thesis
    unfolding w by (simp add: m(7) unit_price_def catalog_product_def catalog_machine_def
        load_products_Inr [OF m(5)] load_machines_Inr [OF m(6)] split: option.split)
qed

definition demo_product :: product where
  "demo_product = \<lparr>prod_key = ''cola'', prod_name = ''Cola'', prod_resource = ''CAN1'', prod_temperature = ''cold''\<rparr>"

definition demo_machine :: machine where
  "demo_machine = \<lparr>mach_id = ''vm-1'', mach_world = ''exterior'', mach_model = ''m'', mach_tag = ''t'',
     mach_position = (Fin 0, Fin 0, Fin 0), mach_rotation = (Fin 0, Fin 0, Fin 0), mach_radius = Fin 3, mach_source = ''s''\<rparr>"

definition demo_vending_manifest :: vending_manifest where
  "demo_vending_manifest = \<lparr>vm_schema = ''new-yokosuka-vending-manifest-v1'', vm_source_game = ''g'', vm_currency = ''yen'',
     vm_unit_price = 100, vm_chance = \<lparr>ch_numerator = 1, ch_denominator = 20\<rparr>, vm_products = [demo_product],
     vm_prize = \<lparr>prize_key = ''winning_can'', prize_name = ''Winning can'', prize_resource = ''WIN''\<rparr>,
     vm_machines = [demo_machine]\<rparr>"

lemma demo_vending_load: "case load_vending Some demo_vending_manifest of Inl _ \<Rightarrow> False
   | Inr c \<Rightarrow> catalog_product c ''cola'' = Some demo_product"
  by code_simp

theorem loaded_vending_catalog_witness:
  "\<exists>c. load_vending Some demo_vending_manifest = Inr c \<and> unit_price c > 0 \<and> card {v. is_winning_draw c v} = 1"
proof -
  obtain c where c: "load_vending Some demo_vending_manifest = Inr c"
    using demo_vending_load by (auto split: sum.splits)
  from loaded_vending_catalog [OF c] c show ?thesis by (auto simp: demo_vending_manifest_def)
qed

end
