(* ===== verification/GoMap.thy ===== *)
theory GoMap
  imports Float64 "HOL-Library.DAList"
begin

text \<open>
  Go values the realtime components share: maps that the code iterates over (association lists with
  distinct keys, in one of the orders \<open>range\<close> may choose), sets of connections as lists without
  repetitions, the decimal rendering of \<open>fmt.Sprintf\<close>, the character classes of the regular
  expressions, and the functions of package \<open>math\<close>: \<open>math.Sqrt\<close> and \<open>math.Hypot\<close> are defined, the
  trigonometric ones are parameters.
\<close>

section \<open>Maps\<close>

type_synonym 'v gomap = "(string, 'v) alist"

definition mempty :: "'v gomap" where "mempty = DAList.empty"
definition mget :: "'v gomap \<Rightarrow> string \<Rightarrow> 'v option" where "mget m k = DAList.lookup m k"
definition mput :: "string \<Rightarrow> 'v \<Rightarrow> 'v gomap \<Rightarrow> 'v gomap" where "mput k v m = DAList.update k v m"
definition mdel :: "string \<Rightarrow> 'v gomap \<Rightarrow> 'v gomap" where "mdel k m = DAList.delete k m"
definition entries :: "'v gomap \<Rightarrow> (string \<times> 'v) list" where "entries m = DAList.impl_of m"

definition mcount :: "(string \<Rightarrow> 'v \<Rightarrow> bool) \<Rightarrow> 'v gomap \<Rightarrow> int" where
  "mcount P m = int (length (filter (\<lambda>(k, v). P k v) (entries m)))"

definition mput_all :: "(string \<times> 'v) list \<Rightarrow> 'v gomap \<Rightarrow> 'v gomap" where
  "mput_all kvs m = fold (\<lambda>(k, v). mput k v) kvs m"

lemma mget_mempty [simp]: "mget mempty k = None"
  by (simp add: mget_def mempty_def)

lemma mget_mput [simp]: "mget (mput k v m) j = (if j = k then Some v else mget m j)"
  by (simp add: mget_def mput_def lookup_update)

lemma mget_mdel [simp]: "mget (mdel k m) j = (if j = k then None else mget m j)"
  by (simp add: mget_def mdel_def)

lemma distinct_entries [simp]: "distinct (map fst (entries m))"
  by (simp add: entries_def)

lemma in_entries: "(k, v) \<in> set (entries m) \<longleftrightarrow> mget m k = Some v"
proof -
  have "map_of (entries m) k = mget m k" by (simp add: entries_def mget_def lookup.rep_eq)
  with map_of_eq_Some_iff [OF distinct_entries, of m k v] show ?thesis by simp
qed

lemma mget_mput_all: "mget (mput_all kvs m) k = (case map_of (rev kvs) k of Some v \<Rightarrow> Some v | None \<Rightarrow> mget m k)"
proof (induction kvs arbitrary: m)
  case (Cons kv kvs)
  obtain j v where kv: "kv = (j, v)" by (cases kv)
  have "mput_all (kv # kvs) m = mput_all kvs (mput j v m)" by (simp add: mput_all_def kv)
  with Cons.IH [of "mput j v m"] show ?case by (auto simp: kv map_add_def split: option.split)
qed (simp add: mput_all_def)

text \<open>An update of the selected entries, each by a function of its value.\<close>

definition mupdate :: "('v \<Rightarrow> bool) \<Rightarrow> ('v \<Rightarrow> 'v) \<Rightarrow> 'v gomap \<Rightarrow> (string \<times> 'v) list" where
  "mupdate P f m = map (\<lambda>(k, v). (k, f v)) (filter (\<lambda>(k, v). P v) (entries m))"

lemma mget_mupdate:
  "mget (mput_all (mupdate P f m) m) k =
     (case mget m k of Some v \<Rightarrow> Some (if P v then f v else v) | None \<Rightarrow> None)"
proof -
  have d: "distinct (map fst (mupdate P f m))"
  proof -
    have "map fst (mupdate P f m) = map fst (filter (\<lambda>(k, v). P v) (entries m))"
      by (simp add: mupdate_def case_prod_beta comp_def)
    then show ?thesis by (simp add: distinct_map_fst_filter)
  qed
  have "map_of (rev (mupdate P f m)) k = map_of (mupdate P f m) k"
  proof (rule option.exhaust [of "map_of (mupdate P f m) k"])
    assume "map_of (mupdate P f m) k = None"
    then show ?thesis by (metis map_of_eq_None_iff set_rev)
  next
    fix v
    assume v: "map_of (mupdate P f m) k = Some v"
    then have "map_of (rev (mupdate P f m)) k = Some v"
      using d map_of_SomeD [OF v] by (intro map_of_is_SomeI) (simp_all add: rev_map [symmetric])
    with v show ?thesis by simp
  qed
  also have "\<dots> = (case mget m k of Some v \<Rightarrow> if P v then Some (f v) else None | None \<Rightarrow> None)"
  proof (cases "map_of (mupdate P f m) k")
    case None
    then have "k \<notin> fst ` set (mupdate P f m)" by (simp add: map_of_eq_None_iff)
    then have "mget m k = Some v \<Longrightarrow> \<not> P v" for v
      using in_entries [of k v m] by (force simp: mupdate_def image_iff)
    with None show ?thesis by (auto split: option.split)
  next
    case (Some w)
    then have "(k, w) \<in> set (mupdate P f m)" by (rule map_of_SomeD)
    then obtain v where "mget m k = Some v" "P v" "w = f v"
      by (auto simp: mupdate_def in_entries)
    with Some show ?thesis by simp
  qed
  finally show ?thesis by (simp add: mget_mput_all split: option.split)
qed

lemma in_mupdate: "(k, w) \<in> set (mupdate P f m) \<longleftrightarrow> (\<exists>v. mget m k = Some v \<and> P v \<and> w = f v)"
  by (force simp: mupdate_def in_entries)

lemma mcount_pos: "mget m k = Some v \<Longrightarrow> P k v \<Longrightarrow> 0 < mcount P m"
  unfolding mcount_def by (simp add: length_greater_0_conv filter_empty_conv) (use in_entries in force)

section \<open>Sets of connections\<close>

definition set_add :: "string \<Rightarrow> string list \<Rightarrow> string list" where
  "set_add x xs = (if x \<in> set xs then xs else xs @ [x])"

definition set_del :: "string \<Rightarrow> string list \<Rightarrow> string list" where
  "set_del x xs = filter (\<lambda>y. y \<noteq> x) xs"

lemma set_set_add [simp]: "set (set_add x xs) = insert x (set xs)"
  by (auto simp: set_add_def)

lemma set_set_del [simp]: "set (set_del x xs) = set xs - {x}"
  by (auto simp: set_del_def)

lemma distinct_set_add [simp]: "distinct xs \<Longrightarrow> distinct (set_add x xs)"
  by (simp add: set_add_def)

lemma distinct_set_del [simp]: "distinct xs \<Longrightarrow> distinct (set_del x xs)"
  by (simp add: set_del_def)

section \<open>Strings\<close>

definition char_between :: "char \<Rightarrow> char \<Rightarrow> char \<Rightarrow> bool" where
  "char_between lo hi c \<longleftrightarrow> (of_char lo :: nat) \<le> of_char c \<and> (of_char c :: nat) \<le> of_char hi"

definition is_digit_char :: "char \<Rightarrow> bool" where
  "is_digit_char c \<longleftrightarrow> char_between (CHR ''0'') (CHR ''9'') c"

definition is_lower_char :: "char \<Rightarrow> bool" where
  "is_lower_char c \<longleftrightarrow> char_between (CHR ''a'') (CHR ''z'') c"

definition is_alpha_char :: "char \<Rightarrow> bool" where
  "is_alpha_char c \<longleftrightarrow> is_lower_char c \<or> char_between (CHR ''A'') (CHR ''Z'') c"

definition strip_prefix :: "string \<Rightarrow> string \<Rightarrow> string option" where
  "strip_prefix p s = (if take (length p) s = p then Some (drop (length p) s) else None)"

definition digit :: "nat \<Rightarrow> char" where
  "digit n = char_of (48 + n)"

fun decimal :: "nat \<Rightarrow> string" where
  "decimal n = (if n < 10 then [digit n] else decimal (n div 10) @ [digit (n mod 10)])"

declare decimal.simps [simp del]

lemma digit_inj: "m < 10 \<Longrightarrow> n < 10 \<Longrightarrow> digit m = digit n \<Longrightarrow> m = n"
proof -
  assume a: "m < 10" "n < 10" "digit m = digit n"
  then have "of_char (digit m) = (of_char (digit n) :: nat)" by simp
  with a(1,2) show "m = n" by (simp add: digit_def)
qed

lemma decimal_nonempty [simp]: "decimal n \<noteq> []" "[] \<noteq> decimal n"
  by (subst decimal.simps, simp)+

lemma decimal_single: "decimal n = [c] \<longleftrightarrow> n < 10 \<and> c = digit n"
  by (subst decimal.simps) auto

lemma decimal_inj: "decimal m = decimal n \<Longrightarrow> m = n"
proof (induction m arbitrary: n rule: less_induct)
  case (less m)
  show ?case
  proof (cases "m < 10 \<or> n < 10")
    case True
    then have "m < 10 \<and> n < 10 \<and> digit m = digit n"
      using less.prems decimal_single [of m "digit n"] decimal_single [of n "digit m"]
      by (auto simp: decimal.simps [of m] decimal.simps [of n] split: if_splits)
    then show ?thesis using digit_inj by simp
  next
    case False
    have "decimal (m div 10) @ [digit (m mod 10)] = decimal (n div 10) @ [digit (n mod 10)]"
      using less.prems False decimal.simps [of m] decimal.simps [of n] by simp
    then have "decimal (m div 10) = decimal (n div 10)" "digit (m mod 10) = digit (n mod 10)" by simp_all
    then have "m div 10 = n div 10" "m mod 10 = n mod 10"
      using less.IH [of "m div 10" "n div 10"] False digit_inj by simp_all
    then show ?thesis by (metis div_mult_mod_eq)
  qed
qed

definition int_decimal :: "int \<Rightarrow> string" where
  "int_decimal n = (if n < 0 then CHR ''-'' # decimal (nat (- n)) else decimal (nat n))"

section \<open>Square roots\<close>

fun isqrt :: "nat \<Rightarrow> nat" where
  "isqrt n = (if n = 0 then 0 else let s = 2 * isqrt (n div 4) in if (s + 1) * (s + 1) \<le> n then s + 1 else s)"

declare isqrt.simps [simp del]

lemma isqrt_bounds: "isqrt n * isqrt n \<le> n \<and> n < (isqrt n + 1) * (isqrt n + 1)"
proof (induction n rule: less_induct)
  case (less n)
  show ?case
  proof (cases "n = 0")
    case False
    define r where "r = isqrt (n div 4)"
    have ih: "r * r \<le> n div 4" "n div 4 < (r + 1) * (r + 1)" using less [of "n div 4"] False by (simp_all add: r_def)
    have lo: "(2 * r) * (2 * r) \<le> n" using ih(1) by simp
    have hi: "n < (2 * r + 2) * (2 * r + 2)" using ih(2) by (simp add: algebra_simps)
    have e: "isqrt n = (if (2 * r + 1) * (2 * r + 1) \<le> n then 2 * r + 1 else 2 * r)"
      using False by (simp add: isqrt.simps [of n] Let_def r_def)
    show ?thesis using lo hi unfolding e by (auto simp: algebra_simps)
  qed (simp add: isqrt.simps)
qed

text \<open>
  The correctly rounded square root: the argument is scaled so that the root has 53 bits before the
  point, and the integer root is rounded to the nearest. The root of a negative number is NaN.
\<close>

fun fsqrt :: "f64 \<Rightarrow> f64" where
  "fsqrt (Fin a) =
     (if a = 0 then Fin 0 else if a < 0 then NaN
      else let e = flog2 a div 2 - 52; y = a / pow2 (2 * e); s = int (isqrt (nat \<lfloor>y\<rfloor>)) in
        Fin (of_int (if y < (of_int s + 1 / 2) * (of_int s + 1 / 2) then s else s + 1) * pow2 e))"
| "fsqrt PInf = PInf"
| "fsqrt NInf = NaN"
| "fsqrt NaN = NaN"

definition fmax :: "f64 \<Rightarrow> f64 \<Rightarrow> f64" where
  "fmax x y = (if flt x y then y else x)"

definition hypot :: "f64 \<Rightarrow> f64 \<Rightarrow> f64" where
  "hypot x y =
     (if is_inf x \<or> is_inf y then PInf
      else if is_nan x \<or> is_nan y then NaN
      else let p = fabs x; q = fabs y;
               p' = (if flt p q then q else p); q' = (if flt p q then p else q) in
        if feq p' (Fin 0) then Fin 0
        else let r = fdiv q' p' in fmul p' (fsqrt (fadd (Fin 1) (fmul r r))))"

record trig =
  tr_sin :: "f64 \<Rightarrow> f64"
  tr_cos :: "f64 \<Rightarrow> f64"
  tr_atan2 :: "f64 \<Rightarrow> f64 \<Rightarrow> f64"

end
