(* ===== verification/VehicleSpawns.thy ===== *)
theory VehicleSpawns
  imports GoMap
begin

text \<open>
  The authored spawns of forklifts and cargo, \<open>internal/realtime/vehicle_spawns.go\<close>, with the
  patterns and tables of \<open>hub.go\<close> that validate ids and worlds. The JSON decoder is the parameter
  \<open>decode\<close>; a panic during package initialisation is the result \<open>None\<close>.
\<close>

definition valid_worlds :: "string list" where
  "valid_worlds = [
     ''exterior'', ''interior'', ''yamanose'', ''sakuragaoka'', ''dobuita'', ''cinema'', ''mfsy'', ''mksg'',
     ''mfbt'', ''ms08'', ''ma00'', ''ma00race'', ''arcade'', ''op00'', ''dkty'', ''dski'',
     ''dtky'', ''dcha'', ''tatq'', ''dbyo'', ''djaz'', ''dpiz'', ''drme'', ''dsli'',
     ''durn'', ''dykz'', ''dcbn'', ''daza'', ''dbhb'', ''dgct'', ''dkpa'', ''drht'',
     ''drsa'', ''dsba'', ''dslt'', ''dsus'', ''s2ak00'', ''s2ar02'', ''s2ar03'', ''s2wb00'',
     ''s2we00'', ''s2wk00'', ''s2wn00'', ''s2wr00'', ''s2ws00'', ''s2wt00'', ''s2aka3'', ''s2aks0'',
     ''s2aks1'', ''s2akt0'', ''s2akt1'', ''s2akt2'', ''s2akt3'', ''s2aky0'', ''s2ar01'', ''s2ara0'',
     ''s2arc0'', ''s2arm0'', ''s2arsf'', ''s2arz0'', ''s2wb01'', ''s2wecf'', ''s2weg0'', ''s2wem1'',
     ''s2wes1'', ''s2wesm'', ''s2wet0'', ''s2wka0'', ''s2wrs2'', ''s2wsg1'', ''s2wsy0'', ''s2wta0'']"

definition valid_movements :: "string list" where
  "valid_movements = [''idle'', ''walk'', ''backpedal'', ''run'']"

text \<open>\<open>^[A-Za-z][A-Za-z0-9]{0,31}$\<close>, \<open>^forklift-[a-f0-9]{12}$\<close> and \<open>^cargo-[a-z0-9-]{1,40}$\<close>.\<close>

definition token_pattern :: "string \<Rightarrow> bool" where
  "token_pattern s =
     (case s of [] \<Rightarrow> False
      | c # cs \<Rightarrow> is_alpha_char c \<and> length cs \<le> 31 \<and> list_all (\<lambda>d. is_alpha_char d \<or> is_digit_char d) cs)"

definition is_hex_char :: "char \<Rightarrow> bool" where
  "is_hex_char c \<longleftrightarrow> char_between (CHR ''a'') (CHR ''f'') c \<or> is_digit_char c"

definition dynamic_forklift_pattern :: "string \<Rightarrow> bool" where
  "dynamic_forklift_pattern s =
     (case strip_prefix ''forklift-'' s of None \<Rightarrow> False | Some r \<Rightarrow> length r = 12 \<and> list_all is_hex_char r)"

definition cargo_id_pattern :: "string \<Rightarrow> bool" where
  "cargo_id_pattern s =
     (case strip_prefix ''cargo-'' s of None \<Rightarrow> False
      | Some r \<Rightarrow> 1 \<le> length r \<and> length r \<le> 40
          \<and> list_all (\<lambda>c. is_lower_char c \<or> is_digit_char c \<or> c = CHR ''-'') r)"

record spawn_position =
  sp_x :: f64
  sp_y :: f64
  sp_z :: f64

record forklift_spawn =
  fs_id :: string
  fs_model :: string
  fs_position :: spawn_position
  fs_yaw :: f64

record cargo_spawn =
  cs_id :: string
  cs_position :: spawn_position

record spawn_world =
  sw_forklifts :: "forklift_spawn list"
  sw_cargo :: "cargo_spawn list"
  sw_cargo_enabled :: bool

record spawn_manifest =
  sm_schema :: string
  sm_forklift_model :: string
  sm_worlds :: "spawn_world gomap"

definition spawn_number_ok :: "f64 \<Rightarrow> bool" where
  "spawn_number_ok v \<longleftrightarrow> \<not> (is_nan v \<or> is_inf v)"

definition spawn_position_ok :: "spawn_position \<Rightarrow> bool" where
  "spawn_position_ok p \<longleftrightarrow> spawn_number_ok (sp_x p) \<and> spawn_number_ok (sp_y p) \<and> spawn_number_ok (sp_z p)"

fun check_forklifts :: "string \<Rightarrow> forklift_spawn list \<Rightarrow> (string \<rightharpoonup> string) \<Rightarrow> (string \<rightharpoonup> string) option" where
  "check_forklifts world [] ids = Some ids"
| "check_forklifts world (s # ss) ids =
     (if \<not> spawn_position_ok (fs_position s) \<or> \<not> spawn_number_ok (fs_yaw s) then None
      else if \<not> has_prefix (fs_id s) ''forklift-'' then None
      else if ids (fs_id s) \<noteq> None then None
      else check_forklifts world ss (ids(fs_id s \<mapsto> world)))"

fun check_cargo :: "string \<Rightarrow> cargo_spawn list \<Rightarrow> (string \<rightharpoonup> string) \<Rightarrow> (string \<rightharpoonup> string) option" where
  "check_cargo world [] ids = Some ids"
| "check_cargo world (s # ss) ids =
     (if \<not> spawn_position_ok (cs_position s) then None
      else if \<not> cargo_id_pattern (cs_id s) then None
      else if ids (cs_id s) \<noteq> None then None
      else check_cargo world ss (ids(cs_id s \<mapsto> world)))"

fun check_worlds :: "(string \<times> spawn_world) list \<Rightarrow> (string \<rightharpoonup> string) \<Rightarrow> (string \<rightharpoonup> string) option" where
  "check_worlds [] ids = Some ids"
| "check_worlds ((world, w) # ws) ids =
     (if world \<notin> set valid_worlds then None
      else case check_forklifts world (sw_forklifts w) ids of
        None \<Rightarrow> None
      | Some ids1 \<Rightarrow>
          (case check_cargo world (sw_cargo w) ids1 of
            None \<Rightarrow> None
          | Some ids2 \<Rightarrow> check_worlds ws ids2))"

definition must_load_spawns :: "('b \<Rightarrow> spawn_manifest option) \<Rightarrow> 'b \<Rightarrow> spawn_manifest option" where
  "must_load_spawns decode data =
     (case decode data of
        None \<Rightarrow> None
      | Some m \<Rightarrow>
          if sm_schema m \<noteq> ''new-yokosuka-vehicle-spawns-v1'' then None
          else if trim_space (sm_forklift_model m) = '''' then None
          else case check_worlds (entries (sm_worlds m)) Map.empty of None \<Rightarrow> None | Some _ \<Rightarrow> Some m)"

definition configured_forklift_ids :: "spawn_manifest \<Rightarrow> string list" where
  "configured_forklift_ids m = concat (map (\<lambda>(_, w). map fs_id (sw_forklifts w)) (entries (sm_worlds m)))"

definition configured_cargo_position :: "spawn_manifest \<Rightarrow> string \<Rightarrow> string \<Rightarrow> spawn_position option" where
  "configured_cargo_position m world i =
     (case mget (sm_worlds m) world of
        None \<Rightarrow> None
      | Some w \<Rightarrow> (case find (\<lambda>s. cs_id s = i) (sw_cargo w) of None \<Rightarrow> None | Some s \<Rightarrow> Some (cs_position s)))"

text \<open>The package variables: the manifest and the three cargo positions whose absence panics.\<close>

definition load_spawns :: "('b \<Rightarrow> spawn_manifest option) \<Rightarrow> 'b \<Rightarrow> spawn_manifest option" where
  "load_spawns decode data =
     (case must_load_spawns decode data of
        None \<Rightarrow> None
      | Some m \<Rightarrow>
          if configured_cargo_position m ''ma00'' ''cargo-job-1'' = None
           \<or> configured_cargo_position m ''ma00'' ''cargo-job-2'' = None
           \<or> configured_cargo_position m ''ma00'' ''cargo-job-3'' = None
          then None else Some m)"

definition valid_forklift_id :: "spawn_manifest \<Rightarrow> string \<Rightarrow> bool" where
  "valid_forklift_id m i \<longleftrightarrow> i \<in> set (configured_forklift_ids m) \<or> dynamic_forklift_pattern i"

section \<open>What loading establishes\<close>

lemma check_forklifts_Some:
  "check_forklifts world ss ids = Some ids' \<Longrightarrow>
     distinct (map fs_id ss) \<and> (\<forall>s\<in>set ss. ids (fs_id s) = None \<and> spawn_position_ok (fs_position s) \<and> has_prefix (fs_id s) ''forklift-'')
   \<and> (\<forall>k. ids' k = None \<longleftrightarrow> ids k = None \<and> k \<notin> fs_id ` set ss)"
proof (induction ss arbitrary: ids)
  case (Cons s ss)
  have g: "spawn_position_ok (fs_position s)" "has_prefix (fs_id s) ''forklift-''" "ids (fs_id s) = None"
    "check_forklifts world ss (ids(fs_id s \<mapsto> world)) = Some ids'"
    using Cons.prems by (auto split: if_splits)
  from Cons.IH [OF g(4)] g(1-3) show ?case by (fastforce split: if_splits)
qed simp

lemma check_cargo_Some:
  "check_cargo world ss ids = Some ids' \<Longrightarrow>
     distinct (map cs_id ss) \<and> (\<forall>s\<in>set ss. ids (cs_id s) = None \<and> spawn_position_ok (cs_position s) \<and> cargo_id_pattern (cs_id s))
   \<and> (\<forall>k. ids' k = None \<longleftrightarrow> ids k = None \<and> k \<notin> cs_id ` set ss)"
proof (induction ss arbitrary: ids)
  case (Cons s ss)
  have g: "spawn_position_ok (cs_position s)" "cargo_id_pattern (cs_id s)" "ids (cs_id s) = None"
    "check_cargo world ss (ids(cs_id s \<mapsto> world)) = Some ids'"
    using Cons.prems by (auto split: if_splits)
  from Cons.IH [OF g(4)] g(1-3) show ?case by (fastforce split: if_splits)
qed simp

definition world_ids :: "spawn_world \<Rightarrow> string list" where
  "world_ids w = map fs_id (sw_forklifts w) @ map cs_id (sw_cargo w)"

lemma check_worlds_Some:
  "check_worlds ws ids = Some ids' \<Longrightarrow>
     distinct (concat (map (\<lambda>(_, w). world_ids w) ws))
   \<and> (\<forall>(world, w)\<in>set ws. world \<in> set valid_worlds
        \<and> (\<forall>s\<in>set (sw_forklifts w). ids (fs_id s) = None \<and> spawn_position_ok (fs_position s) \<and> has_prefix (fs_id s) ''forklift-'')
        \<and> (\<forall>s\<in>set (sw_cargo w). ids (cs_id s) = None \<and> spawn_position_ok (cs_position s) \<and> cargo_id_pattern (cs_id s)))"
proof (induction ws arbitrary: ids)
  case (Cons x ws)
  obtain world w where x: "x = (world, w)" by (cases x)
  obtain ids1 ids2 where g: "world \<in> set valid_worlds" "check_forklifts world (sw_forklifts w) ids = Some ids1"
    "check_cargo world (sw_cargo w) ids1 = Some ids2" "check_worlds ws ids2 = Some ids'"
    using Cons.prems by (auto simp: x split: if_splits option.splits)
  note f = check_forklifts_Some [OF g(2)] and c = check_cargo_Some [OF g(3)] and ih = Cons.IH [OF g(4)]
  have old: "ids2 k = None \<Longrightarrow> ids k = None \<and> k \<notin> set (world_ids w)" for k
    using f c by (auto simp: world_ids_def)
  have "y \<notin> fs_id ` set (sw_forklifts w)" if y: "y \<in> cs_id ` set (sw_cargo w)" for y
  proof -
    obtain s where s: "s \<in> set (sw_cargo w)" "y = cs_id s" using y by (rule imageE) simp
    show ?thesis unfolding s(2) using conjunct1 [OF bspec [OF conjunct1 [OF conjunct2 [OF c]] s(1)]] f by simp
  qed
  then have "fs_id ` set (sw_forklifts w) \<inter> cs_id ` set (sw_cargo w) = {}" by blast
  then have "distinct (world_ids w)" using f c by (simp add: world_ids_def)
  moreover have "set (world_ids w) \<inter> set (concat (map (\<lambda>(_, w). world_ids w) ws)) = {}"
  proof -
    have "k \<notin> set (world_ids w)" if "(v, u) \<in> set ws" "k \<in> set (world_ids u)" for v u k
    proof -
      have "ids2 k = None" using ih that by (fastforce simp: world_ids_def)
      then show ?thesis using old by blast
    qed
    then show ?thesis by fastforce
  qed
  moreover have "\<forall>s\<in>set (sw_cargo w). ids (cs_id s) = None" using f c by auto
  ultimately show ?case using ih f c g(1) old by (fastforce simp: x)
qed simp

text \<open>
  A spawn manifest that survives package initialisation names each spawn once, over all worlds
  and both kinds, places it at finite coordinates of a known world, and its cargo ids are ids that
  clients can claim.
\<close>

theorem loaded_spawns:
  assumes "load_spawns decode data = Some m"
  shows "decode data = Some m
    \<and> distinct (concat (map (\<lambda>(_, w). world_ids w) (entries (sm_worlds m))))
    \<and> (\<forall>world w. mget (sm_worlds m) world = Some w \<longrightarrow> world \<in> set valid_worlds
        \<and> (\<forall>s\<in>set (sw_forklifts w). spawn_position_ok (fs_position s) \<and> valid_forklift_id m (fs_id s))
        \<and> (\<forall>s\<in>set (sw_cargo w). spawn_position_ok (cs_position s) \<and> cargo_id_pattern (cs_id s)))"
proof -
  obtain ids where m: "decode data = Some m" "check_worlds (entries (sm_worlds m)) Map.empty = Some ids"
    using assms by (auto simp: load_spawns_def must_load_spawns_def split: option.splits if_splits)
  have v: "s \<in> set (sw_forklifts w) \<Longrightarrow> mget (sm_worlds m) world = Some w \<Longrightarrow> valid_forklift_id m (fs_id s)" for s w world
    by (force simp: valid_forklift_id_def configured_forklift_ids_def in_entries [symmetric])
  from check_worlds_Some [OF m(2)] m(1) v show ?thesis
    by (fastforce simp: in_entries [symmetric])
qed

definition demo_position :: spawn_position where
  "demo_position = \<lparr>sp_x = Fin 1, sp_y = Fin 0, sp_z = Fin 2\<rparr>"

definition demo_spawns :: spawn_manifest where
  "demo_spawns = \<lparr>sm_schema = ''new-yokosuka-vehicle-spawns-v1'', sm_forklift_model = ''m'',
     sm_worlds = mput ''ma00'' \<lparr>sw_forklifts = [\<lparr>fs_id = ''forklift-1'', fs_model = ''m'', fs_position = demo_position, fs_yaw = Fin 0\<rparr>],
       sw_cargo = map (\<lambda>i. \<lparr>cs_id = i, cs_position = demo_position\<rparr>) [''cargo-job-1'', ''cargo-job-2'', ''cargo-job-3''],
       sw_cargo_enabled = True\<rparr> mempty\<rparr>"

lemma demo_spawns_load: "load_spawns (\<lambda>d. if d = () then Some demo_spawns else None) () \<noteq> None"
  by code_simp

theorem loaded_spawns_witness:
  "\<exists>m. load_spawns Some m = Some m \<and> cargo_id_pattern ''cargo-job-2'' \<and> valid_forklift_id m ''forklift-1''"
proof -
  have "case load_spawns Some demo_spawns of None \<Rightarrow> False | Some m \<Rightarrow> mget (sm_worlds m) ''ma00'' \<noteq> None \<and>
     (case mget (sm_worlds m) ''ma00'' of None \<Rightarrow> False | Some w \<Rightarrow> map fs_id (sw_forklifts w) = [''forklift-1''] \<and> ''cargo-job-2'' \<in> cs_id ` set (sw_cargo w))"
    by code_simp
  then obtain m w where m: "load_spawns Some demo_spawns = Some m" "mget (sm_worlds m) ''ma00'' = Some w"
     "map fs_id (sw_forklifts w) = [''forklift-1'']" "''cargo-job-2'' \<in> cs_id ` set (sw_cargo w)"
    by (auto split: option.splits)
  note l = loaded_spawns [OF m(1)]
  have "m = demo_spawns" using l by simp
  moreover have "cargo_id_pattern ''cargo-job-2''" using l m(2,4) by auto
  moreover have "valid_forklift_id m ''forklift-1''" using l m(2,3) by force
  ultimately show ?thesis using m(1) by blast
qed

end
