(* ===== verification/TravelAccess.thy ===== *)
theory TravelAccess
  imports Calendar Float64
begin

text \<open>
  Timed transition access, \<open>internal/travelaccess/access.go\<close>: the rules that open a controlled
  interior during a window of the game day, the catalog that indexes them and its queries.

  The JSON decoder is the parameter \<open>decode\<close> of \<open>load_access\<close>; the fields of the manifest that the
  code only carries for the browser (generator sources, story fallback, evidence, presentation
  associations) are left out of the records. A Go set \<open>map[string]struct{}\<close> is a predicate.
\<close>

record access_source =
  src_world :: string
  src_area :: string
  src_door :: int
  src_layer :: int
  src_position :: "f64 \<times> f64 \<times> f64"
  src_max_distance :: f64

record access_destination =
  dst_world :: string
  dst_area :: string
  dst_entry :: int

record open_window =
  win_kind :: string
  win_start :: int
  win_end :: int
  win_day_boundary :: int
  win_boundary :: string

record rule =
  rule_id :: string
  rule_transition :: string
  rule_source :: access_source
  rule_destination :: access_destination
  rule_window :: open_window
  rule_lifetime_ms :: int
  rule_denial :: string

record access_manifest =
  am_schema :: string
  am_always_accessible :: "string list"
  am_always_policy :: string
  am_rules :: "rule list"

record access_catalog =
  ac_manifest :: access_manifest
  ac_by_transition :: "string \<rightharpoonup> rule"
  ac_controlled :: "string \<Rightarrow> bool"
  ac_always :: "string \<Rightarrow> bool"

datatype access_error =
    BadDecode
  | BadSchema string
  | NoRules
  | InvalidInterior string
  | DuplicateInterior string
  | NoInteriors
  | RuleWithoutId
  | IncompleteRoute string
  | NonFinitePosition string
  | InvalidProximity string
  | InvalidWindow string
  | InvalidPolicy string
  | DuplicateTransition string

definition access_schema :: string where
  "access_schema = ''new-yokosuka-timed-transition-access-v1''"

definition not_finite :: "f64 \<Rightarrow> bool" where
  "not_finite x \<longleftrightarrow> is_nan x \<or> is_inf x"

definition validate_rule :: "rule \<Rightarrow> access_error option" where
  "validate_rule r =
     (let t = rule_transition r; s = rule_source r; d = rule_destination r; w = rule_window r in
      if trim_space (rule_id r) = '''' \<or> trim_space t = '''' then Some RuleWithoutId
      else if src_world s = '''' \<or> src_area s = '''' \<or> dst_world d = '''' \<or> dst_area d = '''' then Some (IncompleteRoute t)
      else if (case src_position s of (x, y, z) \<Rightarrow> not_finite x \<or> not_finite y \<or> not_finite z)
      then Some (NonFinitePosition t)
      else if fle (src_max_distance s) (Fin 0) \<or> is_nan (src_max_distance s) \<or> is_inf (src_max_distance s)
      then Some (InvalidProximity t)
      else if win_kind w \<noteq> ''native-clock-window'' \<or> win_boundary w \<noteq> ''start-inclusive, end-exclusive''
        \<or> win_day_boundary w < 0 \<or> win_day_boundary w > 23
        \<or> win_start w < 0 \<or> win_end w \<le> win_start w \<or> win_end w > 2 * 24 * 60
      then Some (InvalidWindow t)
      else if rule_lifetime_ms r \<le> 0 \<or> trim_space (rule_denial r) = '''' then Some (InvalidPolicy t)
      else None)"

fun load_interiors :: "string list \<Rightarrow> (string \<Rightarrow> bool) \<Rightarrow> access_error + (string \<Rightarrow> bool)" where
  "load_interiors [] acc = Inr acc"
| "load_interiors (w # ws) acc =
     (if trim_space w = '''' \<or> trim_space w \<noteq> w then Inl (InvalidInterior w)
      else if acc w then Inl (DuplicateInterior w)
      else load_interiors ws (acc(w := True)))"

definition is_always_accessible :: "access_catalog \<Rightarrow> string \<Rightarrow> bool" where
  "is_always_accessible c w = ac_always c w"

fun load_rules :: "rule list \<Rightarrow> access_catalog \<Rightarrow> access_error + access_catalog" where
  "load_rules [] c = Inr c"
| "load_rules (r # rs) c =
     (case validate_rule r of
        Some e \<Rightarrow> Inl e
      | None \<Rightarrow>
          if ac_by_transition c (rule_transition r) \<noteq> None then Inl (DuplicateTransition (rule_transition r))
          else let c1 = c\<lparr>ac_by_transition := (ac_by_transition c)(rule_transition r \<mapsto> r)\<rparr>;
                   w = dst_world (rule_destination r);
                   c2 = (if is_always_accessible c1 w then c1
                         else c1\<lparr>ac_controlled := (ac_controlled c1)(w := True)\<rparr>)
               in load_rules rs c2)"

definition load_access :: "('b \<Rightarrow> access_manifest option) \<Rightarrow> 'b \<Rightarrow> access_error + access_catalog" where
  "load_access decode data =
     (case decode data of
        None \<Rightarrow> Inl BadDecode
      | Some m \<Rightarrow>
          if am_schema m \<noteq> access_schema then Inl (BadSchema (am_schema m))
          else if am_rules m = [] then Inl NoRules
          else (case load_interiors (am_always_accessible m) (\<lambda>_. False) of
            Inl e \<Rightarrow> Inl e
          | Inr always \<Rightarrow>
              if am_always_accessible m = [] \<or> trim_space (am_always_policy m) = '''' then Inl NoInteriors
              else load_rules (am_rules m)
                \<lparr>ac_manifest = m, ac_by_transition = Map.empty, ac_controlled = (\<lambda>_. False), ac_always = always\<rparr>))"

definition catalog_rule :: "access_catalog \<Rightarrow> string \<Rightarrow> rule option" where
  "catalog_rule c t = ac_by_transition c t"

definition controls_destination :: "access_catalog \<Rightarrow> string \<Rightarrow> bool" where
  "controls_destination c w = ac_controlled c w"

text \<open>
  A game time is a number of nanoseconds since the Unix epoch, in UTC; the Durations cannot
  overflow, being at most two days.
\<close>

definition since_boundary :: "rule \<Rightarrow> int \<Rightarrow> int" where
  "since_boundary r t =
     hour_of t * (3600 * second_ns) + minute_of t * (60 * second_ns) + second_of t * second_ns + t mod second_ns
     + (if hour_of t < win_day_boundary (rule_window r) then 24 * (3600 * second_ns) else 0)"

definition rule_open :: "rule \<Rightarrow> int \<Rightarrow> bool" where
  "rule_open r t \<longleftrightarrow> win_start (rule_window r) * (60 * second_ns) \<le> since_boundary r t
     \<and> since_boundary r t < win_end (rule_window r) * (60 * second_ns)"

definition is_rule_open :: "access_catalog \<Rightarrow> rule \<Rightarrow> int \<Rightarrow> bool" where
  "is_rule_open c r t \<longleftrightarrow> is_always_accessible c (dst_world (rule_destination r)) \<or> rule_open r t"

definition within_range :: "rule \<Rightarrow> f64 \<Rightarrow> f64 \<Rightarrow> bool" where
  "within_range r x z =
     (case src_position (rule_source r) of (px, _, pz) \<Rightarrow>
        fle (sq_dist2 x z px pz) (fmul (src_max_distance (rule_source r)) (src_max_distance (rule_source r))))"

definition authorization_lifetime :: "rule \<Rightarrow> int" where
  "authorization_lifetime r = wrap64 (rule_lifetime_ms r * milli_ns)"

section \<open>Opening hours\<close>


section \<open>Range\<close>

text \<open>
  C34: for coordinates within the protocol's bound the distance test decides the disc around the door
  up to one square unit: nobody farther away than that passes, nobody closer than that is refused.
\<close>

theorem range_test_is_the_disc:
  assumes "src_position (rule_source r) = (Fin px, py, Fin pz)" and "src_max_distance (rule_source r) = Fin m"
    and "\<bar>x\<bar> \<le> 1000000" and "\<bar>z\<bar> \<le> 1000000" and "\<bar>px\<bar> \<le> 1000000" and "\<bar>pz\<bar> \<le> 1000000" and "0 < m" and "m \<le> 10000"
  shows "(within_range r (Fin x) (Fin z) \<longrightarrow> (x - px) * (x - px) + (z - pz) * (z - pz) \<le> m * m + 1)
    \<and> ((x - px) * (x - px) + (z - pz) * (z - pz) \<le> m * m - 1 \<longrightarrow> within_range r (Fin x) (Fin z))"
proof -
  obtain s where s: "sq_dist2 (Fin x) (Fin z) (Fin px) (Fin pz) = Fin s"
    "\<bar>s - ((x - px) * (x - px) + (z - pz) * (z - pz))\<bar> \<le> 1 / 64"
    using sq_dist2_error [OF assms(3,4,5,6)] by blast
  have "m * m \<le> 10000 * 10000" using assms(7,8) by (intro mult_mono) auto
  then have "\<bar>m * m\<bar> < pow2 (27 + 1)" using assms(7) by (simp add: pow2_def abs_mult)
  then obtain q where q: "fl (m * m) = Fin q" "\<bar>q - m * m\<bar> \<le> pow2 (27 - 53)"
    using fl_error_abs [of "m * m" 27] by auto
  have "pow2 (27 - 53) \<le> 1 / 64" by (simp add: pow2_def)
  with q(2) have "\<bar>q - m * m\<bar> \<le> 1 / 64" by (rule order_trans)
  moreover have "within_range r (Fin x) (Fin z) \<longleftrightarrow> s \<le> q"
    by (simp add: within_range_def assms(1,2) s(1) q(1))
  ultimately show ?thesis using s(2) unfolding abs_le_iff by linarith
qed

section \<open>Loading\<close>

lemma load_interiors_Inr:
  "load_interiors ws acc = Inr s \<Longrightarrow> s w \<longleftrightarrow> acc w \<or> w \<in> set ws"
  by (induction ws acc rule: load_interiors.induct) (auto split: if_splits)

lemma load_rules_Inr:
  "load_rules rs c = Inr c' \<Longrightarrow>
     ac_manifest c' = ac_manifest c \<and> ac_always c' = ac_always c
   \<and> (\<forall>r\<in>set rs. validate_rule r = None \<and> ac_by_transition c (rule_transition r) = None)
   \<and> distinct (map rule_transition rs)
   \<and> (\<forall>t. ac_by_transition c' t = (case find (\<lambda>r. rule_transition r = t) rs of Some r \<Rightarrow> Some r | None \<Rightarrow> ac_by_transition c t))
   \<and> (\<forall>w. ac_controlled c' w \<longleftrightarrow> ac_controlled c w \<or> (\<exists>r\<in>set rs. dst_world (rule_destination r) = w) \<and> \<not> ac_always c w)"
proof (induction rs arbitrary: c)
  case (Cons r rs)
  let ?c = "c\<lparr>ac_by_transition := (ac_by_transition c)(rule_transition r \<mapsto> r)\<rparr>"
  let ?w = "dst_world (rule_destination r)"
  let ?d = "if is_always_accessible ?c ?w then ?c else ?c\<lparr>ac_controlled := (ac_controlled c)(?w := True)\<rparr>"
  have g: "validate_rule r = None" "ac_by_transition c (rule_transition r) = None" "load_rules rs ?d = Inr c'"
    using Cons.prems by (auto simp: Let_def split: option.splits if_splits)
  note ih = Cons.IH [OF g(3)]
  have d: "ac_manifest ?d = ac_manifest c" "ac_always ?d = ac_always c"
    "ac_by_transition ?d = (ac_by_transition c)(rule_transition r \<mapsto> r)"
    "ac_controlled ?d w \<longleftrightarrow> ac_controlled c w \<or> w = ?w \<and> \<not> ac_always c w" for w
    by (auto simp: is_always_accessible_def)
  have "find (\<lambda>s. rule_transition s = rule_transition r) rs = None"
    using ih unfolding d by (auto simp: find_None_iff)
  with ih g(1,2) show ?case unfolding d
    by (auto simp: fun_upd_def split: option.splits if_splits)
qed simp

text \<open>
  A catalog that loads indexes exactly the manifest's rules by their transition ids, which are
  pairwise different, every rule being valid; it controls exactly the destinations of its rules
  that are not always accessible.
\<close>

theorem loaded_catalog:
  assumes "load_access decode data = Inr c"
  shows "\<exists>m. decode data = Some m \<and> ac_manifest c = m
    \<and> distinct (map rule_transition (am_rules m)) \<and> (\<forall>r\<in>set (am_rules m). validate_rule r = None)
    \<and> (\<forall>t. catalog_rule c t = find (\<lambda>r. rule_transition r = t) (am_rules m))
    \<and> (\<forall>w. is_always_accessible c w \<longleftrightarrow> w \<in> set (am_always_accessible m))
    \<and> (\<forall>w. controls_destination c w \<longleftrightarrow>
         (\<exists>r\<in>set (am_rules m). dst_world (rule_destination r) = w) \<and> w \<notin> set (am_always_accessible m))"
proof -
  obtain m always where m: "decode data = Some m" "load_interiors (am_always_accessible m) (\<lambda>_. False) = Inr always"
    "load_rules (am_rules m)
       \<lparr>ac_manifest = m, ac_by_transition = Map.empty, ac_controlled = (\<lambda>_. False), ac_always = always\<rparr> = Inr c"
    using assms by (auto simp: load_access_def split: option.splits if_splits sum.splits)
  have a: "always w \<longleftrightarrow> w \<in> set (am_always_accessible m)" for w
    using load_interiors_Inr [OF m(2)] by simp
  from load_rules_Inr [OF m(3)] show ?thesis
    using m(1) by (auto simp: catalog_rule_def is_always_accessible_def controls_destination_def a split: option.split)
qed

section \<open>A concrete manifest\<close>

definition demo_rule :: rule where
  "demo_rule = \<lparr>rule_id = ''r'', rule_transition = ''t'',
     rule_source = \<lparr>src_world = ''dobuita'', src_area = ''D000'', src_door = 30, src_layer = 14,
       src_position = (Fin 1, Fin 0, Fin 2), src_max_distance = Fin 10\<rparr>,
     rule_destination = \<lparr>dst_world = ''dcha'', dst_area = ''DCHA'', dst_entry = 0\<rparr>,
     rule_window = \<lparr>win_kind = ''native-clock-window'', win_start = 480, win_end = 1170, win_day_boundary = 6,
       win_boundary = ''start-inclusive, end-exclusive''\<rparr>,
     rule_lifetime_ms = 15000, rule_denial = ''Closed.''\<rparr>"

definition demo_manifest :: access_manifest where
  "demo_manifest = \<lparr>am_schema = access_schema, am_always_accessible = [''arcade''], am_always_policy = ''p'',
     am_rules = [demo_rule]\<rparr>"

lemma demo_load: "case load_access Some demo_manifest of Inl _ \<Rightarrow> False
   | Inr c \<Rightarrow> controls_destination c ''dcha'' \<and> \<not> controls_destination c ''arcade''"
  by code_simp


theorem range_test_is_the_disc_witness: "within_range demo_rule (Fin 4) (Fin 6)"
  using range_test_is_the_disc [of demo_rule 1 "Fin 0" 2 10 4 6] by (simp add: demo_rule_def)

theorem loaded_catalog_witness:
  "\<exists>c. load_access Some demo_manifest = Inr c \<and> ac_manifest c = demo_manifest \<and> controls_destination c ''dcha''"
proof -
  obtain c where c: "load_access Some demo_manifest = Inr c"
    using demo_load by (auto split: sum.splits)
  from loaded_catalog [OF c] c demo_load show ?thesis by auto
qed

end
