(* ===== verification/ClientLimits.thy ===== *)
theory ClientLimits
  imports Calendar Float64
begin

text \<open>
  The per-connection limits of \<open>internal/realtime/client.go\<close>: the token bucket for state updates,
  the sliding windows for chat and forklift sounds, the minimum distance of vending purchases and
  diagnostics. Each function is called with the state that \<open>rateMu\<close> guards and the time.

  The locale \<open>window_limiter\<close> is the contract of a sliding window: it is interpreted for the
  sounds and, twice, for the two windows of the chat.
\<close>

record limits =
  presence_tokens :: f64
  presence_last :: int
  chat_times :: "int list"
  sound_times :: "int list"
  last_vending :: "int option"
  last_diagnostic :: "int option"

definition new_limits :: "int \<Rightarrow> limits" where
  "new_limits now = \<lparr>presence_tokens = Fin 5, presence_last = now, chat_times = [], sound_times = [],
     last_vending = None, last_diagnostic = None\<rparr>"

text \<open>\<open>Duration.Seconds\<close>: whole seconds plus the rounded fraction; Go's \<open>/\<close> truncates.\<close>

definition duration_seconds :: "int \<Rightarrow> f64" where
  "duration_seconds d =
     (let sec = sgn d * (\<bar>d\<bar> div second_ns); nsec = d - sec * second_ns in
      fadd (f64_of_int sec) (fdiv (f64_of_int nsec) (Fin 1000000000)))"

definition allow_presence :: "int \<Rightarrow> limits \<Rightarrow> bool \<times> limits" where
  "allow_presence now l =
     (let elapsed = duration_seconds (time_sub now (presence_last l));
          tokens = fadd (presence_tokens l) (fmul elapsed (Fin 20));
          tokens' = (if flt (Fin 5) tokens then Fin 5 else tokens);
          l1 = l\<lparr>presence_last := now, presence_tokens := tokens'\<rparr> in
      if flt tokens' (Fin 1) then (False, l1)
      else (True, l1\<lparr>presence_tokens := fsub tokens' (Fin 1)\<rparr>))"

definition minute_ns :: int where "minute_ns = 60 * second_ns"

definition kept_after :: "int \<Rightarrow> int list \<Rightarrow> int list" where
  "kept_after cutoff ts = filter (\<lambda>t. cutoff < t) ts"

datatype chat_verdict = ChatAllowed | ChatMinuteLimit | ChatBurstLimit

definition allow_chat_times :: "int \<Rightarrow> int list \<Rightarrow> chat_verdict \<times> int list" where
  "allow_chat_times now ts =
     (let kept = kept_after (now - minute_ns) ts in
      if 15 \<le> length kept then (ChatMinuteLimit, kept)
      else if 3 \<le> length (kept_after (now - 10 * second_ns) kept) then (ChatBurstLimit, kept)
      else (ChatAllowed, kept @ [now]))"

definition allow_chat :: "int \<Rightarrow> limits \<Rightarrow> chat_verdict \<times> limits" where
  "allow_chat now l =
     (let (v, ts) = allow_chat_times now (chat_times l) in (v, l\<lparr>chat_times := ts\<rparr>))"

definition allow_sound_times :: "int \<Rightarrow> int list \<Rightarrow> bool \<times> int list" where
  "allow_sound_times now ts =
     (let kept = kept_after (now - second_ns) ts in
      if 8 \<le> length kept then (False, kept) else (True, kept @ [now]))"

definition allow_forklift_sound :: "int \<Rightarrow> limits \<Rightarrow> bool \<times> limits" where
  "allow_forklift_sound now l =
     (let (ok, ts) = allow_sound_times now (sound_times l) in (ok, l\<lparr>sound_times := ts\<rparr>))"

definition too_soon :: "int \<Rightarrow> int option \<Rightarrow> bool" where
  "too_soon now prev = (case prev of None \<Rightarrow> False | Some t \<Rightarrow> time_sub now t < second_ns)"

definition allow_vending :: "int \<Rightarrow> limits \<Rightarrow> bool \<times> limits" where
  "allow_vending now l =
     (if too_soon now (last_vending l) then (False, l) else (True, l\<lparr>last_vending := Some now\<rparr>))"

definition allow_diagnostic :: "int \<Rightarrow> limits \<Rightarrow> bool \<times> limits" where
  "allow_diagnostic now l =
     (if too_soon now (last_diagnostic l) then (False, l) else (True, l\<lparr>last_diagnostic := Some now\<rparr>))"

section \<open>Sliding windows\<close>

text \<open>The instants at which a sequence of calls was admitted.\<close>

fun admitted :: "(int \<Rightarrow> 's \<Rightarrow> bool \<times> 's) \<Rightarrow> 's \<Rightarrow> int list \<Rightarrow> int list" where
  "admitted adm s [] = []"
| "admitted adm s (t # ts) = (case adm t s of (ok, s') \<Rightarrow> if ok then t # admitted adm s' ts else admitted adm s' ts)"

definition in_window :: "int \<Rightarrow> int \<Rightarrow> int list \<Rightarrow> nat" where
  "in_window w u ts = length (filter (\<lambda>t. u - w < t \<and> t \<le> u) ts)"

lemma in_window_append [simp]: "in_window w u (xs @ ys) = in_window w u xs + in_window w u ys"
  by (simp add: in_window_def)

lemma in_window_Cons: "in_window w u (x # xs) = (if u - w < x \<and> x \<le> u then 1 else 0) + in_window w u xs"
  by (simp add: in_window_def)

lemma in_window_Nil [simp]: "in_window w u [] = 0"
  by (simp add: in_window_def)

lemma in_window_kept: "in_window w u (kept_after c ts) \<le> in_window w u ts"
  by (induction ts) (auto simp: kept_after_def in_window_def)

lemma in_window_kept_eq: "c \<le> u - w \<Longrightarrow> in_window w u (kept_after c ts) = in_window w u ts"
  by (induction ts) (auto simp: kept_after_def in_window_def)

lemma length_kept_kept: "length (kept_after d (kept_after c ts)) \<le> length (kept_after d ts)"
  by (induction ts) (auto simp: kept_after_def)

lemma in_window_later: "\<forall>x\<in>set xs. u < x \<Longrightarrow> in_window w u xs = 0"
  by (induction xs) (auto simp: in_window_Cons)

lemma in_window_bound: "t \<le> u \<Longrightarrow> in_window w u ts \<le> length (kept_after (t - w) ts)"
  by (induction ts) (auto simp: kept_after_def in_window_def)

locale window_limiter =
  fixes admit :: "int \<Rightarrow> int list \<Rightarrow> bool \<times> int list" and width :: int and bound :: nat
  assumes admit_keeps: "\<exists>c. c \<le> now - width \<and>
      snd (admit now ts) = kept_after c ts @ (if fst (admit now ts) then [now] else [])"
    and admit_room: "fst (admit now ts) \<Longrightarrow> length (kept_after (now - width) ts) < bound"
    and width_nonneg: "0 < width"
begin

lemma admitted_later:
  "sorted ts \<Longrightarrow> \<forall>x\<in>set ts. t \<le> x \<Longrightarrow> x \<in> set (admitted admit s ts) \<Longrightarrow> t \<le> x"
proof (induction ts arbitrary: s)
  case (Cons a ts)
  then show ?case by (auto split: prod.splits if_splits)
qed simp

lemma window_bound_from:
  assumes "sorted ts" and "\<forall>u. in_window width u h \<le> bound"
  shows "in_window width u (h @ admitted admit h ts) \<le> bound"
  using assms
proof (induction ts arbitrary: h u)
  case (Cons t ts)
  obtain ok h' where a: "admit t h = (ok, h')" by (cases "admit t h")
  obtain c where c: "c \<le> t - width" "h' = kept_after c h @ (if ok then [t] else [])"
    using admit_keeps [of t h] a by auto
  have room: "ok \<Longrightarrow> length (kept_after (t - width) h) < bound" using admit_room [of t h] a by simp
  have later: "\<forall>x\<in>set (admitted admit h' ts). t \<le> x"
    using Cons.prems(1) admitted_later [of ts t] by auto
  have h': "\<forall>v. in_window width v h' \<le> bound"
  proof
    fix v
    show "in_window width v h' \<le> bound"
    proof (cases "t \<le> v \<and> ok")
      case True
      have "in_window width v (kept_after c h) \<le> length (kept_after (t - width) (kept_after c h))"
        using True by (intro in_window_bound) simp
      also have "\<dots> \<le> length (kept_after (t - width) h)"
        by (rule length_kept_kept)
      finally show ?thesis using True room c(2) by (simp add: in_window_Cons)
    next
      case False
      then have "in_window width v h' = in_window width v (kept_after c h)"
        unfolding c(2) by (auto simp: in_window_Cons)
      also have "\<dots> \<le> bound" using in_window_kept Cons.prems(2) order_trans by blast
      finally show ?thesis .
    qed
  qed
  have ih: "in_window width u (h' @ admitted admit h' ts) \<le> bound"
    using Cons.IH [OF _ h'] Cons.prems(1) by simp
  show ?case
  proof (cases "t \<le> u")
    case True
    then have "in_window width u (kept_after c h) = in_window width u h"
      using c(1) by (intro in_window_kept_eq) simp
    then show ?thesis using ih by (auto simp: a c(2) in_window_Cons split: if_splits)
  next
    case False
    then have "in_window width u (admitted admit h' ts) = 0" using later by (intro in_window_later) auto
    then show ?thesis using False Cons.prems(2) by (auto simp: a in_window_Cons)
  qed
qed simp

lemma window_bound: "sorted ts \<Longrightarrow> in_window width u (admitted admit [] ts) \<le> bound"
  using window_bound_from [of ts "[]" u] by simp

end

definition admit_chat :: "int \<Rightarrow> int list \<Rightarrow> bool \<times> int list" where
  "admit_chat now ts = (let (v, ts') = allow_chat_times now ts in (v = ChatAllowed, ts'))"

interpretation sounds: window_limiter allow_sound_times second_ns 8
proof
  show "\<exists>c. c \<le> now - second_ns \<and> snd (allow_sound_times now ts) =
      kept_after c ts @ (if fst (allow_sound_times now ts) then [now] else [])" for now ts
    by (intro exI [of _ "now - second_ns"]) (simp add: allow_sound_times_def Let_def)
qed (auto simp: allow_sound_times_def Let_def second_ns_def split: if_splits)

lemma admit_chat_keeps:
  "w \<le> minute_ns \<Longrightarrow> \<exists>c. c \<le> now - w \<and>
     snd (admit_chat now ts) = kept_after c ts @ (if fst (admit_chat now ts) then [now] else [])"
  by (intro exI [of _ "now - minute_ns"]) (simp add: admit_chat_def allow_chat_times_def Let_def)

interpretation chat_minute: window_limiter admit_chat minute_ns 15
  by unfold_locales
    (auto intro!: admit_chat_keeps simp: minute_ns_def second_ns_def,
     auto simp: admit_chat_def allow_chat_times_def Let_def minute_ns_def second_ns_def split: if_splits)

lemma kept_twice: "c \<le> d \<Longrightarrow> kept_after d (kept_after c ts) = kept_after d ts"
  unfolding kept_after_def filter_filter by (rule filter_cong) auto

interpretation chat_burst: window_limiter admit_chat "10 * second_ns" 3
proof
  show "\<exists>c. c \<le> now - 10 * second_ns \<and> snd (admit_chat now ts) =
      kept_after c ts @ (if fst (admit_chat now ts) then [now] else [])" for now ts
    by (rule admit_chat_keeps) (simp add: minute_ns_def second_ns_def)
  show "length (kept_after (now - 10 * second_ns) ts) < 3" if "fst (admit_chat now ts)" for now ts
  proof -
    have "kept_after (now - 10 * second_ns) (kept_after (now - minute_ns) ts) = kept_after (now - 10 * second_ns) ts"
      by (rule kept_twice) (simp add: minute_ns_def second_ns_def)
    with that show ?thesis by (simp add: admit_chat_def allow_chat_times_def Let_def split: if_splits)
  qed
qed (simp add: second_ns_def)

text \<open>
  C36: however a connection times its messages, no window of a minute ever contains more than 15
  accepted chat messages, none of ten seconds more than 3, and no second more than 8 accepted
  forklift sounds.
\<close>

theorem flood_limits_hold:
  assumes "sorted ts"
  shows "in_window minute_ns u (admitted admit_chat [] ts) \<le> 15
    \<and> in_window (10 * second_ns) u (admitted admit_chat [] ts) \<le> 3
    \<and> in_window second_ns u (admitted allow_sound_times [] ts) \<le> 8"
  using chat_minute.window_bound [OF assms] chat_burst.window_bound [OF assms] sounds.window_bound [OF assms] by blast

theorem flood_limits_hold_witness:
  "in_window second_ns 9 (admitted allow_sound_times [] [0, 1, 2, 3, 4, 5, 6, 7, 8, 9]) \<le> 8
    \<and> length (admitted admit_chat [] [0, 1, 2, 3, 4, 5, 6, 7, 8, 9]) = 3"
proof -
  have "length (admitted admit_chat [] [0, 1, 2, 3, 4, 5, 6, 7, 8, 9]) = 3" by code_simp
  with flood_limits_hold [of "[0, 1, 2, 3, 4, 5, 6, 7, 8, 9]" 9] show ?thesis by simp
qed

text \<open>
  The windows refuse nobody else: a message is refused exactly when the minute before it already
  holds 15 accepted ones or the ten seconds before it hold 3, and a refused attempt does not count.
\<close>

theorem refusals_are_justified:
  "(fst (allow_chat now l) = ChatAllowed) =
     (length (kept_after (now - minute_ns) (chat_times l)) < 15
      \<and> length (kept_after (now - 10 * second_ns) (chat_times l)) < 3)
   \<and> chat_times (snd (allow_chat now l)) = kept_after (now - minute_ns) (chat_times l)
       @ (if fst (allow_chat now l) = ChatAllowed then [now] else [])"
proof -
  have "kept_after (now - 10 * second_ns) (kept_after (now - minute_ns) ts) = kept_after (now - 10 * second_ns) ts" for ts
    by (rule kept_twice) (simp add: minute_ns_def second_ns_def)
  then show ?thesis by (auto simp: allow_chat_def allow_chat_times_def Let_def)
qed

end
