(* ===== verification/Hub.thy ===== *)
theory Hub
  imports VehicleSpawns TravelAccess ClientLimits
begin

text \<open>
  The data of the realtime hub: the messages of \<open>internal/protocol/messages.go\<close> its handlers read
  and send, and the state of \<open>internal/realtime/hub.go\<close> behind \<open>h.mu\<close>, with the helpers on rooms.

  A connection is identified by its random 128-bit id, which is never used twice (\<open>clients\<close> holds
  the ids that are registered, \<open>objects\<close> the \<open>Client\<close> of each id that ever was): the pointer test
  \<open>h.clients[client.id] != client\<close> is \<open>id \<notin> clients\<close>. A handler maps the hub to the hub and the
  list of its effects in the order of the code: messages handed to the connections' queues, and the
  timers it arms. Queues, sockets, logging and the activity log are outside the model; so are the
  optional subsystems the hub only passes on to (NPC engine, chat store, script engine).
\<close>

section \<open>Messages\<close>

record presence_msg =
  pm_world :: string
  pm_character :: string
  pm_avatar :: string
  pm_x :: f64
  pm_y :: f64
  pm_z :: f64
  pm_yaw :: f64
  pm_movement :: string
  pm_animation :: "string option"
  pm_animation_revision :: int
  pm_sequence :: int
  pm_vehicle :: "string option"
  pm_lift :: f64
  pm_steering :: f64
  pm_wheel_roll :: f64
  pm_qx :: f64
  pm_qy :: f64
  pm_qz :: f64
  pm_qw :: f64

record player_state =
  ps_id :: string
  ps_name :: string
  ps_world :: string
  ps_character :: string
  ps_avatar :: string
  ps_x :: f64
  ps_y :: f64
  ps_z :: f64
  ps_yaw :: f64
  ps_movement :: string
  ps_animation :: "string option"
  ps_animation_revision :: int
  ps_animation_elapsed :: int
  ps_sequence :: int
  ps_updated_at :: int
  ps_vehicle :: "string option"
  ps_lift :: f64
  ps_steering :: f64
  ps_wheel_roll :: f64
  ps_qx :: f64
  ps_qy :: f64
  ps_qz :: f64
  ps_qw :: f64

record forklift_state =
  fk_id :: string
  fk_world :: string
  fk_x :: f64
  fk_y :: f64
  fk_z :: f64
  fk_yaw :: f64
  fk_qx :: f64
  fk_qy :: f64
  fk_qz :: f64
  fk_qw :: f64
  fk_lift :: f64
  fk_steering :: f64
  fk_wheel_roll :: f64
  fk_vx :: f64
  fk_vy :: f64
  fk_vz :: f64
  fk_avx :: f64
  fk_avy :: f64
  fk_avz :: f64
  fk_owner :: string
  fk_righting_until :: int
  fk_expires_at :: int
  fk_updated_at :: int

record forklift_spawn_msg =
  fsm_x :: f64
  fsm_y :: f64
  fsm_z :: f64
  fsm_yaw :: f64

record forklift_update =
  fu_state :: forklift_state
  fu_release :: bool
  fu_righting :: bool

record cargo_state =
  cg_id :: string
  cg_world :: string
  cg_x :: f64
  cg_y :: f64
  cg_z :: f64
  cg_qx :: f64
  cg_qy :: f64
  cg_qz :: f64
  cg_qw :: f64
  cg_vx :: f64
  cg_vy :: f64
  cg_vz :: f64
  cg_avx :: f64
  cg_avy :: f64
  cg_avz :: f64
  cg_sleeping :: bool
  cg_auto_right :: bool
  cg_owner :: string
  cg_claim_expires :: int
  cg_updated_at :: int

record cargo_update =
  cu_state :: cargo_state
  cu_touching :: bool

record transition_request =
  tq_request :: string
  tq_transition :: string
  tq_door :: int
  tq_source :: string
  tq_destination :: string

record transition_result =
  tr_request :: string
  tr_transition :: string
  tr_source :: string
  tr_destination :: string
  tr_authorized :: bool
  tr_authorization :: string
  tr_reason :: string
  tr_message :: string
  tr_server_ms :: int
  tr_game_ms :: int
  tr_expires_ms :: int

record transition_commit =
  tc_request :: string
  tc_authorization :: string

record commit_result =
  cr_request :: string
  cr_transition :: string
  cr_destination :: string
  cr_committed :: bool
  cr_reason :: string
  cr_message :: string

record online_player =
  op_id :: string
  op_name :: string
  op_world :: string

datatype server_msg =
    MsgPlayerLeft string int
  | MsgPlayerState player_state
  | MsgPlayerEntered string string string
  | MsgSnapshot "player_state list" "forklift_state list" "cargo_state list"
  | MsgForkliftState forklift_state
  | MsgForkliftSound string string
  | MsgForkliftRemoved string
  | MsgCargoState cargo_state
  | MsgCargoRemoved string
  | MsgTransitionResult transition_result
  | MsgCommitResult commit_result
  | MsgClientCount int
  | MsgSystem string int
  | MsgPlayerDirectory "online_player list"
  | MsgSessionReplaced
  | MsgWelcome string string int

datatype effect =
    Send string server_msg
  | ForkliftExpiryTimer string int
  | CargoReleaseTimer string string int
  | CargoAutoRightTimer string int
  | CargoCleanupTimer string int
  | CargoReplenishTimer string int
  | FlushLocation string
  | CloseClient string
  | CancelScript string

section \<open>State\<close>

record location =
  loc_world :: string
  loc_x :: f64
  loc_y :: f64
  loc_z :: f64
  loc_yaw :: f64

text \<open>The \<open>Client\<close>, with the limits behind \<open>rateMu\<close> and the location behind \<open>locationMu\<close>.\<close>

record client =
  cl_name :: string
  cl_announced :: bool
  cl_connected_at :: int
  cl_account :: int
  cl_account_type :: string
  cl_character :: int
  cl_avatar :: string
  cl_initial_world :: string
  cl_persistent :: bool
  cl_limits :: limits
  cl_script_world :: string
  cl_current_world :: string
  cl_dirty :: "location option"
  cl_location_version :: int
  cl_playtime_save :: int

record stored_presence =
  sp_state :: player_state
  sp_animation_started :: "int option"

record transition_grant =
  tg_request :: string
  tg_authorization :: string
  tg_rule :: rule
  tg_expires :: int

record authorized_arrival =
  aa_source :: string
  aa_destination :: string

record hub =
  clients :: "string list"
  objects :: "string \<rightharpoonup> client"
  names :: "string gomap"
  rooms :: "string \<rightharpoonup> string list"
  presences :: "string \<rightharpoonup> stored_presence"
  departed_worlds :: "string \<rightharpoonup> string"
  transition_grants :: "string \<rightharpoonup> transition_grant"
  authorized_arrivals :: "string \<rightharpoonup> authorized_arrival"
  forklift_owners :: "string \<rightharpoonup> string"
  forklifts :: "forklift_state gomap"
  cargo :: "cargo_state gomap"
  cargo_spawns :: "string \<rightharpoonup> spawn_position"
  cargo_away_since :: "string \<rightharpoonup> int"
  cargo_untouched :: "string \<rightharpoonup> int"
  cargo_last_touched :: "string \<rightharpoonup> int"
  cargo_replaced :: "string \<Rightarrow> bool"
  next_cargo_id :: int
  max_clients :: int
  guest_counter :: int
  active_characters :: "int \<rightharpoonup> string"
  pending_locations :: "string list"

text \<open>What the hub reads and never writes.\<close>

record hub_env =
  env_trig :: trig
  env_spawns :: spawn_manifest
  env_access :: access_catalog
  env_lower :: "string \<Rightarrow> string"
  env_valid_avatar :: "string \<Rightarrow> bool"

type_synonym outcome = "hub \<times> effect list"

section \<open>Constants and initial state\<close>

definition abandoned_forklift_lifetime :: int where "abandoned_forklift_lifetime = 5 * minute_ns"
definition forklift_maximum_lift :: f64 where "forklift_maximum_lift = fl (32 / 10)"
definition cargo_claim_release_delay :: int where "cargo_claim_release_delay = 500 * milli_ns"
definition cargo_replenish_delay :: int where "cargo_replenish_delay = 3 * second_ns"
definition cargo_auto_right_delay :: int where "cargo_auto_right_delay = 2 * second_ns"
definition cargo_cleanup_age :: int where "cargo_cleanup_age = 10 * minute_ns"
definition cargo_cleanup_threshold :: int where "cargo_cleanup_threshold = 50"
definition cargo_upright_dot_threshold :: f64 where "cargo_upright_dot_threshold = fl (65 / 100)"

definition forklift_release_expiry :: "string \<Rightarrow> int \<Rightarrow> int" where
  "forklift_release_expiry world now =
     (if world \<noteq> ''ma00race'' \<and> world \<noteq> ''ma00'' then 0 else unix_milli (now + abandoned_forklift_lifetime))"

definition initial_cargo_spawn_positions :: "hub_env \<Rightarrow> (string \<rightharpoonup> spawn_position)" where
  "initial_cargo_spawn_positions env =
     foldl (\<lambda>m s. m(cs_id s \<mapsto> cs_position s)) Map.empty
       (concat (map (\<lambda>(_, w). sw_cargo w) (entries (sm_worlds (env_spawns env)))))"

text \<open>The last case is a panic that package initialisation has already raised (\<open>load_spawns\<close>).\<close>

definition cargo_spawn_for_world :: "hub_env \<Rightarrow> string \<Rightarrow> spawn_position" where
  "cargo_spawn_for_world env world =
     (case mget (sm_worlds (env_spawns env)) world of
        Some w \<Rightarrow> if sw_cargo w \<noteq> [] then cs_position (hd (sw_cargo w))
                  else (case configured_cargo_position (env_spawns env) ''ma00'' ''cargo-job-1'' of
                          Some p \<Rightarrow> p | None \<Rightarrow> \<lparr>sp_x = Fin 0, sp_y = Fin 0, sp_z = Fin 0\<rparr>)
      | None \<Rightarrow> (case configured_cargo_position (env_spawns env) ''ma00'' ''cargo-job-1'' of
                          Some p \<Rightarrow> p | None \<Rightarrow> \<lparr>sp_x = Fin 0, sp_y = Fin 0, sp_z = Fin 0\<rparr>))"

type_synonym quaternion = "f64 \<times> f64 \<times> f64 \<times> f64"

definition forklift_orientation_for_yaw :: "hub_env \<Rightarrow> f64 \<Rightarrow> quaternion" where
  "forklift_orientation_for_yaw env yaw =
     (Fin 0, tr_sin (env_trig env) (fdiv yaw (Fin 2)), Fin 0, tr_cos (env_trig env) (fdiv yaw (Fin 2)))"

definition zero_forklift :: forklift_state where
  "zero_forklift = \<lparr>fk_id = '''', fk_world = '''', fk_x = Fin 0, fk_y = Fin 0, fk_z = Fin 0, fk_yaw = Fin 0,
     fk_qx = Fin 0, fk_qy = Fin 0, fk_qz = Fin 0, fk_qw = Fin 0, fk_lift = Fin 0, fk_steering = Fin 0,
     fk_wheel_roll = Fin 0, fk_vx = Fin 0, fk_vy = Fin 0, fk_vz = Fin 0, fk_avx = Fin 0, fk_avy = Fin 0, fk_avz = Fin 0,
     fk_owner = '''', fk_righting_until = 0, fk_expires_at = 0, fk_updated_at = 0\<rparr>"

definition zero_cargo :: cargo_state where
  "zero_cargo = \<lparr>cg_id = '''', cg_world = '''', cg_x = Fin 0, cg_y = Fin 0, cg_z = Fin 0,
     cg_qx = Fin 0, cg_qy = Fin 0, cg_qz = Fin 0, cg_qw = Fin 0, cg_vx = Fin 0, cg_vy = Fin 0, cg_vz = Fin 0,
     cg_avx = Fin 0, cg_avy = Fin 0, cg_avz = Fin 0, cg_sleeping = False, cg_auto_right = False,
     cg_owner = '''', cg_claim_expires = 0, cg_updated_at = 0\<rparr>"

definition set_fk_orientation :: "quaternion \<Rightarrow> forklift_state \<Rightarrow> forklift_state" where
  "set_fk_orientation q s = (case q of (x, y, z, w) \<Rightarrow> s\<lparr>fk_qx := x, fk_qy := y, fk_qz := z, fk_qw := w\<rparr>)"

definition initial_forklift_state :: "hub_env \<Rightarrow> string \<Rightarrow> string \<Rightarrow> f64 \<Rightarrow> f64 \<Rightarrow> f64 \<Rightarrow> int \<Rightarrow> forklift_state" where
  "initial_forklift_state env i world x z yaw now =
     set_fk_orientation (forklift_orientation_for_yaw env yaw)
       (zero_forklift\<lparr>fk_id := i, fk_world := world, fk_x := x, fk_z := z, fk_yaw := yaw, fk_updated_at := now\<rparr>)"

definition initial_forklift_states :: "hub_env \<Rightarrow> int \<Rightarrow> forklift_state gomap" where
  "initial_forklift_states env now =
     mput_all
       (concat (map (\<lambda>(world, w). map (\<lambda>s. (fs_id s,
            (initial_forklift_state env (fs_id s) world (sp_x (fs_position s)) (sp_z (fs_position s)) (fs_yaw s) (unix_milli now))
              \<lparr>fk_y := sp_y (fs_position s)\<rparr>)) (sw_forklifts w))
          (entries (sm_worlds (env_spawns env))))) mempty"

definition initial_cargo_states :: "hub_env \<Rightarrow> int \<Rightarrow> cargo_state gomap" where
  "initial_cargo_states env now =
     mput_all
       (concat (map (\<lambda>(world, w). map (\<lambda>s. (cs_id s,
            zero_cargo\<lparr>cg_id := cs_id s, cg_world := world, cg_x := sp_x (cs_position s), cg_y := sp_y (cs_position s),
              cg_z := sp_z (cs_position s), cg_qw := Fin 1, cg_sleeping := True, cg_updated_at := unix_milli now\<rparr>)) (sw_cargo w))
          (entries (sm_worlds (env_spawns env))))) mempty"

definition new_hub :: "hub_env \<Rightarrow> int \<Rightarrow> int \<Rightarrow> int \<Rightarrow> hub" where
  "new_hub env maximum now1 now2 =
     \<lparr>clients = [], objects = Map.empty, names = mempty, rooms = Map.empty, presences = Map.empty,
      departed_worlds = Map.empty, transition_grants = Map.empty, authorized_arrivals = Map.empty,
      forklift_owners = Map.empty, forklifts = initial_forklift_states env now1,
      cargo = initial_cargo_states env now2, cargo_spawns = initial_cargo_spawn_positions env,
      cargo_away_since = Map.empty, cargo_untouched = Map.empty, cargo_last_touched = Map.empty,
      cargo_replaced = (\<lambda>_. False), next_cargo_id = 4, max_clients = (if maximum \<le> 0 then 100 else maximum),
      guest_counter = 0, active_characters = Map.empty, pending_locations = []\<rparr>"

section \<open>Rooms and recipients\<close>

definition state_at :: "stored_presence \<Rightarrow> int \<Rightarrow> player_state" where
  "state_at p now =
     (case (ps_animation (sp_state p), sp_animation_started p) of
        (Some _, Some started) \<Rightarrow>
          (sp_state p)\<lparr>ps_animation_elapsed :=
             (if time_sub now started < 0 then 0 else time_sub now started div milli_ns)\<rparr>
      | _ \<Rightarrow> sp_state p)"

definition send_many :: "string list \<Rightarrow> server_msg \<Rightarrow> effect list" where
  "send_many ids m = map (\<lambda>i. Send i m) ids"

definition room_recipients :: "hub \<Rightarrow> string \<Rightarrow> string \<Rightarrow> string list" where
  "room_recipients h world exclude =
     (case rooms h world of None \<Rightarrow> [] | Some r \<Rightarrow> filter (\<lambda>i. i \<noteq> exclude) r)"

definition all_clients :: "hub \<Rightarrow> string \<Rightarrow> string list" where
  "all_clients h exclude = filter (\<lambda>i. i \<noteq> exclude) (clients h)"

definition remove_from_room :: "string \<Rightarrow> string \<Rightarrow> hub \<Rightarrow> string list \<times> hub" where
  "remove_from_room cid world h =
     (case rooms h world of
        None \<Rightarrow> ([], h)
      | Some room \<Rightarrow>
          let room' = set_del cid room in
          if room' = [] then ([], h\<lparr>rooms := (rooms h)(world := None)\<rparr>)
          else (room', h\<lparr>rooms := (rooms h)(world \<mapsto> room')\<rparr>))"

definition release_forklift :: "string \<Rightarrow> string option \<Rightarrow> hub \<Rightarrow> hub" where
  "release_forklift player vehicle h =
     (case vehicle of
        None \<Rightarrow> h
      | Some v \<Rightarrow> if forklift_owners h v = Some player
                  then h\<lparr>forklift_owners := (forklift_owners h)(v := None)\<rparr> else h)"

definition presence_world :: "hub \<Rightarrow> string \<Rightarrow> string option" where
  "presence_world h i = map_option (\<lambda>p. ps_world (sp_state p)) (presences h i)"

definition presence_vehicle :: "hub \<Rightarrow> string \<Rightarrow> string option" where
  "presence_vehicle h i = (case presences h i of None \<Rightarrow> None | Some p \<Rightarrow> ps_vehicle (sp_state p))"

end
