(* ===== verification/Forklift.thy ===== *)
theory Forklift
  imports Hub
begin

text \<open>
  Shared forklifts, \<open>internal/realtime/forklift.go\<close>: the validation of vehicle data, sounds, state
  updates, spawning of dynamic forklifts and the two timers that expire and respawn them. A handler
  that returns \<open>false\<close> without touching the hub is \<open>None\<close>.
\<close>

section \<open>Validation\<close>

definition normalize_quaternion :: "f64 \<Rightarrow> f64 \<Rightarrow> f64 \<Rightarrow> f64 \<Rightarrow> quaternion option" where
  "normalize_quaternion x y z w =
     (let length_squared = fadd (fadd (fadd (fmul x x) (fmul y y)) (fmul z z)) (fmul w w) in
      if is_nan length_squared \<or> is_inf length_squared \<or> flt length_squared (Fin (1 / 4))
        \<or> flt (Fin (9 / 4)) length_squared then None
      else let inverse_length = fdiv (Fin 1) (fsqrt length_squared) in
        Some (fmul x inverse_length, fmul y inverse_length, fmul z inverse_length, fmul w inverse_length))"

definition normalize_forklift_orientation :: "hub_env \<Rightarrow> f64 \<Rightarrow> f64 \<Rightarrow> f64 \<Rightarrow> f64 \<Rightarrow> f64 \<Rightarrow> quaternion option" where
  "normalize_forklift_orientation env x y z w yaw =
     (if feq x (Fin 0) \<and> feq y (Fin 0) \<and> feq z (Fin 0) \<and> feq w (Fin 0)
      then Some (forklift_orientation_for_yaw env yaw)
      else normalize_quaternion x y z w)"

definition no_vehicle_orientation :: quaternion where
  "no_vehicle_orientation = (Fin 0, Fin 0, Fin 0, Fin 1)"

text \<open>The vehicle of a presence report; \<open>None\<close> is a report that is refused.\<close>

definition normalize_vehicle_presence :: "hub_env \<Rightarrow> presence_msg \<Rightarrow> (string option \<times> quaternion) option" where
  "normalize_vehicle_presence env m =
     (case pm_vehicle m of
        None \<Rightarrow> Some (None, no_vehicle_orientation)
      | Some v \<Rightarrow>
          let i = trim_space v in
          if i = '''' then Some (None, no_vehicle_orientation)
          else if \<not> valid_forklift_id (env_spawns env) i then None
          else if flt (pm_lift m) (Fin 0) \<or> flt forklift_maximum_lift (pm_lift m)
            \<or> flt (fl (7 / 10)) (fabs (pm_steering m)) \<or> flt (Fin 1000000) (fabs (pm_wheel_roll m)) then None
          else (case normalize_forklift_orientation env (pm_qx m) (pm_qy m) (pm_qz m) (pm_qw m) (pm_yaw m) of
            None \<Rightarrow> None
          | Some q \<Rightarrow> Some (Some i, q)))"

section \<open>Dynamic forklifts\<close>

definition dynamic_forklift_spawn_limit :: "string \<Rightarrow> int" where
  "dynamic_forklift_spawn_limit world =
     (if world = ''mfsy'' then 20 else if world = ''ma00race'' then 20 else 1)"

definition dynamic_forklift_count :: "hub \<Rightarrow> string \<Rightarrow> int" where
  "dynamic_forklift_count h world = mcount (\<lambda>i s. fk_world s = world \<and> dynamic_forklift_pattern i) (forklifts h)"

text \<open>
  The expiry timer; the second component tells whether the timer of a base forklift's respawn, one
  second later, is armed.
\<close>

definition forklift_expiry :: "hub_env \<Rightarrow> string \<Rightarrow> int \<Rightarrow> hub \<Rightarrow> outcome \<times> bool" where
  "forklift_expiry env i expires_at h =
     (case mget (forklifts h) i of
        None \<Rightarrow> ((h, []), False)
      | Some s \<Rightarrow>
          if fk_owner s \<noteq> '''' \<or> fk_expires_at s \<noteq> expires_at then ((h, []), False)
          else ((h\<lparr>forklifts := mdel i (forklifts h)\<rparr>,
                 send_many (room_recipients h (fk_world s) '''') (MsgForkliftRemoved i)),
                i \<in> set (configured_forklift_ids (env_spawns env))))"

definition forklift_respawn :: "hub_env \<Rightarrow> string \<Rightarrow> int \<Rightarrow> hub \<Rightarrow> outcome" where
  "forklift_respawn env i now h =
     (case mget (initial_forklift_states env now) i of
        None \<Rightarrow> (h, [])
      | Some replacement \<Rightarrow>
          if mget (forklifts h) i \<noteq> None then (h, [])
          else (h\<lparr>forklifts := mput i replacement (forklifts h)\<rparr>,
                send_many (room_recipients h (fk_world replacement) '''') (MsgForkliftState replacement)))"

definition handle_forklift_spawn :: "hub_env \<Rightarrow> string \<Rightarrow> forklift_spawn_msg \<Rightarrow> string option \<Rightarrow> int \<Rightarrow> int \<Rightarrow> hub \<Rightarrow> outcome option" where
  "handle_forklift_spawn env cid m random now1 now2 h =
     (if \<not> (coordinate_ok (fsm_x m) \<and> coordinate_ok (fsm_y m) \<and> coordinate_ok (fsm_z m) \<and> coordinate_ok (fsm_yaw m)) then None
      else case random of
        None \<Rightarrow> None
      | Some raw_id \<Rightarrow>
          (case presence_world h cid of
            None \<Rightarrow> None
          | Some world \<Rightarrow>
              if dynamic_forklift_spawn_limit world \<le> dynamic_forklift_count h world then None
              else let i = ''forklift-'' @ raw_id;
                       s = set_fk_orientation (forklift_orientation_for_yaw env (fsm_yaw m))
                         (zero_forklift\<lparr>fk_id := i, fk_world := world, fk_x := fsm_x m, fk_y := fsm_y m, fk_z := fsm_z m,
                            fk_yaw := fsm_yaw m, fk_expires_at := unix_milli (now2 + abandoned_forklift_lifetime),
                            fk_updated_at := unix_milli now1\<rparr>) in
                Some (h\<lparr>forklifts := mput i s (forklifts h)\<rparr>,
                      send_many (room_recipients h world '''') (MsgForkliftState s)
                      @ [ForkliftExpiryTimer i (fk_expires_at s)])))"

section \<open>Sounds and updates\<close>

definition client_forklift_sound_cues :: "string list" where
  "client_forklift_sound_cues = [''horn'', ''flip_impact'']"

definition handle_forklift_sound :: "hub_env \<Rightarrow> string \<Rightarrow> string \<Rightarrow> string \<Rightarrow> hub \<Rightarrow> outcome option" where
  "handle_forklift_sound env cid forklift_id cue h =
     (if \<not> valid_forklift_id (env_spawns env) forklift_id \<or> cue \<notin> set client_forklift_sound_cues then None
      else case (presences h cid, mget (forklifts h) forklift_id) of
        (Some p, Some s) \<Rightarrow>
          if ps_vehicle (sp_state p) = Some forklift_id \<and> forklift_owners h forklift_id = Some cid
            \<and> fk_owner s = cid \<and> fk_world s = ps_world (sp_state p)
          then Some (h, send_many (room_recipients h (fk_world s) cid) (MsgForkliftSound forklift_id cue))
          else None
      | _ \<Rightarrow> None)"

definition forklift_numbers_ok :: "forklift_state \<Rightarrow> bool" where
  "forklift_numbers_ok s \<longleftrightarrow>
     list_all coordinate_ok
       [fk_x s, fk_y s, fk_z s, fk_yaw s, fk_lift s, fk_steering s, fk_wheel_roll s, fk_vx s, fk_vy s, fk_vz s,
        fk_avx s, fk_avy s, fk_avz s, fk_qx s, fk_qy s, fk_qz s, fk_qw s]"

definition owner_of :: "hub \<Rightarrow> string \<Rightarrow> string" where
  "owner_of h i = map_get_or '''' (forklift_owners h) i"

text \<open>The state that is stored for an accepted update.\<close>

definition updated_forklift :: "forklift_update \<Rightarrow> quaternion \<Rightarrow> string \<Rightarrow> string \<Rightarrow> string \<Rightarrow> int \<Rightarrow> forklift_state" where
  "updated_forklift m q world owner cid now =
     (set_fk_orientation q (fu_state m))
       \<lparr>fk_world := world,
        fk_owner := (if \<not> fu_release m \<and> owner = cid then cid else ''''),
        fk_righting_until := (if fu_righting m then unix_milli now + 900 else 0),
        fk_expires_at := (if fu_release m then forklift_release_expiry world now else 0),
        fk_updated_at := unix_milli now\<rparr>"

definition handle_forklift_update :: "hub_env \<Rightarrow> string \<Rightarrow> forklift_update \<Rightarrow> int \<Rightarrow> hub \<Rightarrow> outcome option" where
  "handle_forklift_update env cid m now h =
     (let s0 = fu_state m; i = fk_id s0 in
      if \<not> valid_forklift_id (env_spawns env) i then None
      else if \<not> forklift_numbers_ok s0 then None
      else if flt (fk_lift s0) (Fin 0) \<or> flt forklift_maximum_lift (fk_lift s0)
        \<or> flt (fl (7 / 10)) (fabs (fk_steering s0)) then None
      else case normalize_forklift_orientation env (fk_qx s0) (fk_qy s0) (fk_qz s0) (fk_qw s0) (fk_yaw s0) of
        None \<Rightarrow> None
      | Some q \<Rightarrow>
          (case (presence_world h cid, mget (forklifts h) i) of
            (Some world, Some previous) \<Rightarrow>
              if fk_world previous \<noteq> world then None
              else let owner = owner_of h i in
                if fu_release m \<and> owner \<noteq> cid then None
                else if \<not> fu_release m \<and> owner \<noteq> '''' \<and> owner \<noteq> cid then None
                else let s = updated_forklift m q world owner cid now in
                  Some (h\<lparr>forklift_owners := (if fu_release m then (forklift_owners h)(i := None) else forklift_owners h),
                          forklifts := mput i s (forklifts h)\<rparr>,
                        send_many (room_recipients h world '''') (MsgForkliftState s)
                        @ (if 0 < fk_expires_at s then [ForkliftExpiryTimer i (fk_expires_at s)] else []))
          | _ \<Rightarrow> None))"

section \<open>What the operations keep\<close>

lemma set_fk_orientation_fields [simp]:
  "fk_id (set_fk_orientation q s) = fk_id s" "fk_world (set_fk_orientation q s) = fk_world s"
  "fk_owner (set_fk_orientation q s) = fk_owner s" "fk_expires_at (set_fk_orientation q s) = fk_expires_at s"
  by (cases q; simp add: set_fk_orientation_def)+

text \<open>
  A forklift that a player owns is changed by nobody else: an update of another player is
  refused as a whole, and an accepted update of the owner touches only that forklift and, when it
  releases it, the ownership.
\<close>

theorem forklift_update_exclusive:
  assumes "handle_forklift_update env cid m now h = Some (h', es)"
  shows "(forklift_owners h (fk_id (fu_state m)) = None \<or> owner_of h (fk_id (fu_state m)) \<in> {'''', cid})
    \<and> (\<forall>j. j \<noteq> fk_id (fu_state m) \<longrightarrow> mget (forklifts h') j = mget (forklifts h) j \<and> forklift_owners h' j = forklift_owners h j)
    \<and> forklift_owners h' (fk_id (fu_state m)) = (if fu_release m then None else forklift_owners h (fk_id (fu_state m)))
    \<and> (\<exists>s. mget (forklifts h') (fk_id (fu_state m)) = Some s \<and> fk_id s = fk_id (fu_state m)
         \<and> presence_world h cid = Some (fk_world s)
         \<and> fk_owner s = (if fu_release m \<or> owner_of h (fk_id (fu_state m)) \<noteq> cid then '''' else cid))"
  using assms
  by (auto simp: handle_forklift_update_def Let_def updated_forklift_def owner_of_def
      split: if_splits option.splits)

end
