(* ===== verification/Cargo.thy ===== *)
theory Cargo
  imports Forklift
begin

text \<open>
  Shared cargo, \<open>internal/realtime/cargo.go\<close>: claims, updates by the claim holder, and the four
  timers that release claims, right a crate, replace a crate that was carried off, and remove stale
  ones. A timer that finds its trigger outdated changes nothing; a handler that returns \<open>false\<close> is
  \<open>None\<close>.
\<close>

section \<open>Releasing the claims of a connection\<close>

definition release_mark :: "int \<Rightarrow> cargo_state \<Rightarrow> cargo_state" where
  "release_mark now s = s\<lparr>cg_claim_expires := unix_milli (now + cargo_claim_release_delay), cg_updated_at := unix_milli now\<rparr>"

definition stamp :: "string list \<Rightarrow> int \<Rightarrow> (string \<rightharpoonup> int) \<Rightarrow> (string \<rightharpoonup> int)" where
  "stamp ids t m = (\<lambda>k. if k \<in> set ids then Some t else m k)"

definition mark_client_cargo_for_release :: "string \<Rightarrow> int \<Rightarrow> hub \<Rightarrow> cargo_state list \<times> hub" where
  "mark_client_cargo_for_release player now h =
     (let released = mupdate (\<lambda>s. cg_owner s = player) (release_mark now) (cargo h);
          untouched_since = from_unix_milli (unix_milli now) in
      (map snd released,
       h\<lparr>cargo := mput_all released (cargo h),
         cargo_untouched := stamp (map fst released) untouched_since (cargo_untouched h),
         cargo_last_touched := stamp (map fst released) untouched_since (cargo_last_touched h)\<rparr>))"

text \<open>The messages and timers that follow such a release, once per crate.\<close>

definition cargo_release_effects :: "string list \<Rightarrow> cargo_state list \<Rightarrow> effect list" where
  "cargo_release_effects recipients released =
     concat (map (\<lambda>s. send_many recipients (MsgCargoState s)
        @ (if cg_owner s = '''' \<or> cg_claim_expires s \<le> 0 then []
           else [CargoReleaseTimer (cg_id s) (cg_owner s) (cg_claim_expires s)])
        @ [CargoAutoRightTimer (cg_id s) (from_unix_milli (cg_updated_at s)),
           CargoCleanupTimer (cg_id s) (from_unix_milli (cg_updated_at s))]) released)"

definition cargo_claim_release :: "string \<Rightarrow> string \<Rightarrow> int \<Rightarrow> int \<Rightarrow> hub \<Rightarrow> outcome" where
  "cargo_claim_release i owner expires_at now h =
     (case mget (cargo h) i of
        None \<Rightarrow> (h, [])
      | Some s \<Rightarrow>
          if cg_owner s \<noteq> owner \<or> cg_claim_expires s \<noteq> expires_at then (h, [])
          else if presence_world h owner = Some (cg_world s) then (h, [])
          else let s' = s\<lparr>cg_owner := '''', cg_claim_expires := 0, cg_updated_at := unix_milli now\<rparr> in
            (h\<lparr>cargo := mput i s' (cargo h)\<rparr>, send_many (room_recipients h (cg_world s') '''') (MsgCargoState s')))"

section \<open>Geometry\<close>

definition cargo_spawn_for_state :: "hub_env \<Rightarrow> hub \<Rightarrow> cargo_state \<Rightarrow> spawn_position" where
  "cargo_spawn_for_state env h s =
     (case cargo_spawns h (cg_id s) of Some p \<Rightarrow> p | None \<Rightarrow> cargo_spawn_for_world env (cg_world s))"

definition cargo_outside_spawn :: "hub_env \<Rightarrow> hub \<Rightarrow> cargo_state \<Rightarrow> bool" where
  "cargo_outside_spawn env h s =
     (let p = cargo_spawn_for_state env h s in
      flt (Fin 9) (sq_dist3 (cg_x s) (cg_y s) (cg_z s) (sp_x p) (sp_y p) (sp_z p)))"

definition cargo_bottom_faces_down :: "cargo_state \<Rightarrow> bool" where
  "cargo_bottom_faces_down s =
     (let up_dot = fsub (Fin 1) (fmul (Fin 2) (fadd (fmul (cg_qx s) (cg_qx s)) (fmul (cg_qz s) (cg_qz s)))) in
      fle cargo_upright_dot_threshold up_dot)"

definition upright_cargo_orientation :: "hub_env \<Rightarrow> cargo_state \<Rightarrow> f64 \<times> f64" where
  "upright_cargo_orientation env s =
     (let yaw = tr_atan2 (env_trig env)
            (fmul (Fin 2) (fadd (fmul (cg_qw s) (cg_qy s)) (fmul (cg_qx s) (cg_qz s))))
            (fsub (Fin 1) (fmul (Fin 2) (fadd (fmul (cg_qy s) (cg_qy s)) (fmul (cg_qz s) (cg_qz s))))) in
      (tr_sin (env_trig env) (fdiv yaw (Fin 2)), tr_cos (env_trig env) (fdiv yaw (Fin 2))))"

section \<open>Auto-righting\<close>

text \<open>The result is the start of the untouched period, where one starts.\<close>

definition update_cargo_auto_right :: "cargo_state \<Rightarrow> bool \<Rightarrow> int \<Rightarrow> hub \<Rightarrow> int option \<times> hub" where
  "update_cargo_auto_right s touching now h =
     (if touching then (None, h\<lparr>cargo_untouched := (cargo_untouched h)(cg_id s := None)\<rparr>)
      else case cargo_untouched h (cg_id s) of
        Some _ \<Rightarrow> (None, h)
      | None \<Rightarrow> (Some now, h\<lparr>cargo_untouched := (cargo_untouched h)(cg_id s \<mapsto> now)\<rparr>))"

definition righted_cargo :: "hub_env \<Rightarrow> cargo_state \<Rightarrow> int \<Rightarrow> cargo_state" where
  "righted_cargo env s now =
     (let s1 = s\<lparr>cg_owner := '''', cg_claim_expires := 0, cg_auto_right := True\<rparr>;
          s2 = (if cargo_bottom_faces_down s1 then s1
                else case upright_cargo_orientation env s1 of
                  (qy, qw) \<Rightarrow> s1\<lparr>cg_qy := qy, cg_qw := qw, cg_qx := Fin 0, cg_qz := Fin 0\<rparr>) in
      s2\<lparr>cg_vx := Fin 0, cg_vy := Fin 0, cg_vz := Fin 0, cg_avx := Fin 0, cg_avy := Fin 0, cg_avz := Fin 0,
         cg_sleeping := True, cg_updated_at := unix_milli now\<rparr>)"

definition auto_right_cargo :: "hub_env \<Rightarrow> string \<Rightarrow> int \<Rightarrow> int \<Rightarrow> hub \<Rightarrow> outcome" where
  "auto_right_cargo env i untouched_since now h =
     (case (mget (cargo h) i, cargo_untouched h i) of
        (Some s, Some current_since) \<Rightarrow>
          if current_since \<noteq> untouched_since \<or> time_sub now current_since < cargo_auto_right_delay then (h, [])
          else let s' = righted_cargo env s now in
            (h\<lparr>cargo_untouched := (cargo_untouched h)(i := None), cargo := mput i s' (cargo h)\<rparr>,
             send_many (room_recipients h (cg_world s') '''') (MsgCargoState s'))
      | _ \<Rightarrow> (h, []))"

section \<open>Cleanup\<close>

definition world_cargo_count :: "hub \<Rightarrow> string \<Rightarrow> int" where
  "world_cargo_count h world = mcount (\<lambda>_ s. cg_world s = world) (cargo h)"

definition cleanup_stale_cargo :: "string \<Rightarrow> int \<Rightarrow> int \<Rightarrow> hub \<Rightarrow> outcome" where
  "cleanup_stale_cargo i expected_last_touched now h =
     (case (mget (cargo h) i, cargo_last_touched h i) of
        (Some s, Some last_touched) \<Rightarrow>
          if last_touched \<noteq> expected_last_touched \<or> cg_owner s \<noteq> '''' \<or> time_sub now last_touched < cargo_cleanup_age
          then (h, [])
          else if world_cargo_count h (cg_world s) \<le> cargo_cleanup_threshold then (h, [])
          else
            (h\<lparr>cargo := mdel i (cargo h), cargo_spawns := (cargo_spawns h)(i := None),
               cargo_away_since := (cargo_away_since h)(i := None), cargo_untouched := (cargo_untouched h)(i := None),
               cargo_last_touched := (cargo_last_touched h)(i := None), cargo_replaced := (cargo_replaced h)(i := False)\<rparr>,
             send_many (room_recipients h (cg_world s) '''') (MsgCargoRemoved i))
      | _ \<Rightarrow> (h, []))"

section \<open>Replenishment\<close>

definition update_cargo_replenishment :: "hub_env \<Rightarrow> cargo_state \<Rightarrow> int \<Rightarrow> hub \<Rightarrow> int option \<times> hub" where
  "update_cargo_replenishment env s now h =
     (if cargo_replaced h (cg_id s) then (None, h\<lparr>cargo_away_since := (cargo_away_since h)(cg_id s := None)\<rparr>)
      else if \<not> cargo_outside_spawn env h s then (None, h\<lparr>cargo_away_since := (cargo_away_since h)(cg_id s := None)\<rparr>)
      else case cargo_away_since h (cg_id s) of
        Some _ \<Rightarrow> (None, h)
      | None \<Rightarrow> (Some now, h\<lparr>cargo_away_since := (cargo_away_since h)(cg_id s \<mapsto> now)\<rparr>))"

definition cargo_job_id :: "int \<Rightarrow> string" where
  "cargo_job_id n = ''cargo-job-'' @ decimal (nat n)"

text \<open>
  The loop that draws the next free id: the id and the advanced counter, a \<open>uint64\<close>. The fuel of
  its call is one more than the number of crates, which is enough (\<open>fresh_cargo_id_found\<close>).
\<close>

fun fresh_cargo_id :: "nat \<Rightarrow> int \<Rightarrow> cargo_state gomap \<Rightarrow> (string \<times> int) option" where
  "fresh_cargo_id 0 n m = None"
| "fresh_cargo_id (Suc fuel) n m =
     (if mget m (cargo_job_id n) = None then Some (cargo_job_id n, wrapu64 (n + 1))
      else fresh_cargo_id fuel (wrapu64 (n + 1)) m)"

definition replenish_cargo :: "hub_env \<Rightarrow> string \<Rightarrow> int \<Rightarrow> int \<Rightarrow> hub \<Rightarrow> outcome option" where
  "replenish_cargo env source_id away_since now h =
     (case (mget (cargo h) source_id, cargo_away_since h source_id) of
        (Some source, Some current_since) \<Rightarrow>
          if current_since \<noteq> away_since \<or> cargo_replaced h source_id
            \<or> time_sub now current_since < cargo_replenish_delay \<or> \<not> cargo_outside_spawn env h source
          then Some (h, [])
          else let spawn = cargo_spawn_for_state env h source in
            (case fresh_cargo_id (Suc (length (entries (cargo h)))) (next_cargo_id h) (cargo h) of
              None \<Rightarrow> None
            | Some (i, n) \<Rightarrow>
                let replacement = zero_cargo\<lparr>cg_id := i, cg_world := cg_world source, cg_qw := Fin 1, cg_sleeping := True,
                      cg_updated_at := unix_milli now, cg_x := sp_x spawn, cg_y := sp_y spawn, cg_z := sp_z spawn\<rparr> in
                Some (h\<lparr>next_cargo_id := n, cargo := mput i replacement (cargo h),
                        cargo_spawns := (cargo_spawns h)(i \<mapsto> spawn),
                        cargo_last_touched := (cargo_last_touched h)(i \<mapsto> now),
                        cargo_replaced := (cargo_replaced h)(source_id := True),
                        cargo_away_since := (cargo_away_since h)(source_id := None)\<rparr>,
                      send_many (room_recipients h (cg_world replacement) '''') (MsgCargoState replacement)
                      @ [CargoCleanupTimer i now]))
      | _ \<Rightarrow> Some (h, []))"

section \<open>Claims and updates\<close>

definition handle_cargo_claim :: "string \<Rightarrow> string \<Rightarrow> int \<Rightarrow> hub \<Rightarrow> outcome option" where
  "handle_cargo_claim cid cargo_id now h =
     (if \<not> cargo_id_pattern cargo_id then None
      else case (presences h cid, mget (cargo h) cargo_id) of
        (Some p, Some s) \<Rightarrow>
          let ps = sp_state p in
          if cg_world s \<noteq> ps_world ps \<or> ps_vehicle ps = None then None
          else if flt (Fin 36) (sq_dist3 (ps_x ps) (ps_y ps) (ps_z ps) (cg_x s) (cg_y s) (cg_z s)) then None
          else let s1 = (if cg_owner s \<noteq> '''' \<and> 0 < cg_claim_expires s \<and> cg_claim_expires s \<le> unix_milli now
                         then s\<lparr>cg_owner := '''', cg_claim_expires := 0\<rparr> else s) in
            if cg_owner s1 \<noteq> '''' \<and> cg_owner s1 \<noteq> cid then None
            else let s2 = s1\<lparr>cg_owner := cid, cg_claim_expires := 0, cg_auto_right := False, cg_updated_at := unix_milli now\<rparr> in
              Some (h\<lparr>cargo := mput (cg_id s2) s2 (cargo h),
                      cargo_untouched := (cargo_untouched h)(cg_id s2 := None),
                      cargo_last_touched := (cargo_last_touched h)(cg_id s2 \<mapsto> now)\<rparr>,
                    send_many (room_recipients h (cg_world s2) '''') (MsgCargoState s2))
      | _ \<Rightarrow> None)"

definition cargo_numbers_ok :: "cargo_state \<Rightarrow> bool" where
  "cargo_numbers_ok s \<longleftrightarrow>
     list_all coordinate_ok
       [cg_x s, cg_y s, cg_z s, cg_qx s, cg_qy s, cg_qz s, cg_qw s, cg_vx s, cg_vy s, cg_vz s, cg_avx s, cg_avy s, cg_avz s]
   \<and> \<not> flt (Fin 100) (hypot (hypot (cg_vx s) (cg_vy s)) (cg_vz s))
   \<and> \<not> flt (Fin 100) (hypot (hypot (cg_avx s) (cg_avy s)) (cg_avz s))"

definition updated_cargo :: "cargo_update \<Rightarrow> quaternion \<Rightarrow> cargo_state \<Rightarrow> string \<Rightarrow> int \<Rightarrow> cargo_state" where
  "updated_cargo m q previous cid now =
     (case q of (qx, qy, qz, qw) \<Rightarrow>
       (cu_state m)\<lparr>cg_id := cg_id previous, cg_world := cg_world previous, cg_qx := qx, cg_qy := qy, cg_qz := qz, cg_qw := qw,
          cg_owner := cid, cg_auto_right := False,
          cg_claim_expires := (if cu_touching m then 0
             else if 0 < cg_claim_expires previous then cg_claim_expires previous
             else unix_milli (now + cargo_claim_release_delay)),
          cg_updated_at := unix_milli now\<rparr>)"

definition touch_cargo :: "string \<Rightarrow> bool \<Rightarrow> int \<Rightarrow> (string \<rightharpoonup> int) \<Rightarrow> (string \<rightharpoonup> int)" where
  "touch_cargo i touching now m =
     (if touching then m(i \<mapsto> now) else case m i of Some _ \<Rightarrow> m | None \<Rightarrow> m(i \<mapsto> now))"

definition handle_cargo_update :: "hub_env \<Rightarrow> string \<Rightarrow> cargo_update \<Rightarrow> int \<Rightarrow> hub \<Rightarrow> outcome option" where
  "handle_cargo_update env cid m now h =
     (let s0 = cu_state m in
      if \<not> cargo_id_pattern (cg_id s0) then None
      else if \<not> cargo_numbers_ok s0 then None
      else case normalize_quaternion (cg_qx s0) (cg_qy s0) (cg_qz s0) (cg_qw s0) of
        None \<Rightarrow> None
      | Some q \<Rightarrow>
          (case (presence_world h cid, mget (cargo h) (cg_id s0)) of
            (Some world, Some previous) \<Rightarrow>
              if cg_world previous \<noteq> world \<or> cg_owner previous \<noteq> cid then None
              else let s = updated_cargo m q previous cid now;
                       h1 = h\<lparr>cargo := mput (cg_id s) s (cargo h),
                              cargo_last_touched := touch_cargo (cg_id s) (cu_touching m) now (cargo_last_touched h)\<rparr>;
                       (start_right, h2) = update_cargo_auto_right s (cu_touching m) now h1;
                       (start_away, h3) = update_cargo_replenishment env s now h2 in
                Some (h3,
                  send_many (room_recipients h3 (cg_world s) '''') (MsgCargoState s)
                  @ (if cu_touching m then [] else
                      (if cg_owner s = '''' \<or> cg_claim_expires s \<le> 0 then []
                       else [CargoReleaseTimer (cg_id s) (cg_owner s) (cg_claim_expires s)]))
                  @ (case start_away of None \<Rightarrow> [] | Some t \<Rightarrow> [CargoReplenishTimer (cg_id s) t])
                  @ (case start_right of None \<Rightarrow> []
                     | Some t \<Rightarrow> [CargoAutoRightTimer (cg_id s) t,
                         CargoCleanupTimer (cg_id s) (map_get_or 0 (cargo_last_touched h3) (cg_id s))]))
          | _ \<Rightarrow> None))"

end
