(* ===== verification/Transitions.thy ===== *)
theory Transitions
  imports Cargo
begin

text \<open>
  Doors, \<open>internal/realtime/transitions.go\<close>, with \<open>leaveWorld\<close> of \<open>hub.go\<close>: a request is checked
  against the catalog, the player's position and the game clock and yields a single-use grant; a
  commit consumes it, reserves the arrival and takes the player out of the world; the presence
  report that follows is admitted by \<open>allow_presence_destination\<close>.

  \<open>HandleTransitionCommit\<close> releases the hub's mutex between consuming the grant and leaving the
  world: \<open>transition_commit_begin\<close> and \<open>transition_commit_finish\<close> are its two critical sections.
\<close>

definition transition_request_id_valid :: "string \<Rightarrow> bool" where
  "transition_request_id_valid r = (let trimmed = trim_space r in trimmed = r \<and> 0 < length trimmed \<and> length trimmed \<le> 128)"

definition lookup_presence :: "hub \<Rightarrow> string \<Rightarrow> player_state option" where
  "lookup_presence h i = map_option sp_state (presences h i)"

definition set_transition_grant :: "string \<Rightarrow> transition_grant option \<Rightarrow> hub \<Rightarrow> hub" where
  "set_transition_grant cid g h = h\<lparr>transition_grants := (transition_grants h)(cid := g)\<rparr>"

section \<open>Leaving a world\<close>

text \<open>A forklift of the manifest goes back to its place, any other one disappears.\<close>

definition base_forklift :: "hub_env \<Rightarrow> string option \<Rightarrow> int \<Rightarrow> forklift_state option" where
  "base_forklift env vehicle now =
     (case vehicle of None \<Rightarrow> None | Some v \<Rightarrow> mget (initial_forklift_states env now) v)"

definition reset_vehicle :: "hub_env \<Rightarrow> string option \<Rightarrow> int \<Rightarrow> hub \<Rightarrow> hub" where
  "reset_vehicle env vehicle now h =
     (case vehicle of
        None \<Rightarrow> h
      | Some v \<Rightarrow> (case base_forklift env vehicle now of
          Some s \<Rightarrow> h\<lparr>forklifts := mput (fk_id s) s (forklifts h)\<rparr>
        | None \<Rightarrow> h\<lparr>forklifts := mdel v (forklifts h)\<rparr>))"

definition drop_travel :: "string \<Rightarrow> bool \<Rightarrow> hub \<Rightarrow> hub" where
  "drop_travel cid preserve_arrival h =
     (if preserve_arrival then h
      else h\<lparr>transition_grants := (transition_grants h)(cid := None),
             authorized_arrivals := (authorized_arrivals h)(cid := None)\<rparr>)"

definition leave_world :: "hub_env \<Rightarrow> string \<Rightarrow> bool \<Rightarrow> int \<Rightarrow> int \<Rightarrow> hub \<Rightarrow> bool \<times> outcome" where
  "leave_world env cid preserve_arrival now now2 h0 =
     (let h = drop_travel cid preserve_arrival h0 in
      case lookup_presence h cid of
        None \<Rightarrow> (False, h, [])
      | Some previous \<Rightarrow>
          let h1 = h\<lparr>presences := (presences h)(cid := None),
                     departed_worlds := (departed_worlds h)(cid \<mapsto> ps_world previous)\<rparr>;
              (released, h2) = mark_client_cargo_for_release cid now h1;
              base = base_forklift env (ps_vehicle previous) now2;
              h3 = reset_vehicle env (ps_vehicle previous) now2 h2;
              h4 = release_forklift cid (ps_vehicle previous) h3;
              (recipients, h5) = remove_from_room cid (ps_world previous) h4 in
          (True, h5,
           send_many recipients (MsgPlayerLeft cid (unix_milli now))
           @ (case ps_vehicle previous of None \<Rightarrow> [] | Some v \<Rightarrow> send_many recipients (MsgForkliftSound v ''shutdown''))
           @ (case base of Some s \<Rightarrow> send_many recipients (MsgForkliftState s) | None \<Rightarrow> [])
           @ (case (ps_vehicle previous, base) of
                (Some v, None) \<Rightarrow> if v \<noteq> '''' then send_many recipients (MsgForkliftRemoved v) else []
              | _ \<Rightarrow> [])
           @ cargo_release_effects recipients released))"

definition handle_leave_world :: "hub_env \<Rightarrow> string \<Rightarrow> int \<Rightarrow> int \<Rightarrow> hub \<Rightarrow> outcome" where
  "handle_leave_world env cid now now2 h = snd (leave_world env cid False now now2 h)"

section \<open>Requests\<close>

text \<open>
  The first reason for which a request is refused, in the order of the code. The game time is that
  of the clock's snapshot, in milliseconds.
\<close>

datatype verdict =
    Refused string string
  | Granted rule

definition judge_request :: "hub_env \<Rightarrow> string \<Rightarrow> transition_request \<Rightarrow> int \<Rightarrow> hub \<Rightarrow> verdict" where
  "judge_request env cid q game_ms h =
     (if \<not> transition_request_id_valid (tq_request q)
      then Refused ''invalid_request'' ''This entrance request was invalid.''
      else case catalog_rule (env_access env) (tq_transition q) of
        None \<Rightarrow> Refused ''unknown_transition'' ''This entrance is not recognized by the server.''
      | Some r \<Rightarrow>
          if tq_source q \<noteq> src_world (rule_source r)
          then Refused ''source_mismatch'' ''You are not at this entrance.''
          else if tq_door q \<noteq> src_door (rule_source r)
          then Refused ''door_mismatch'' ''This door does not match the requested entrance.''
          else if tq_destination q \<noteq> dst_world (rule_destination r)
          then Refused ''destination_mismatch'' ''This entrance does not lead to that destination.''
          else (case lookup_presence h cid of
            None \<Rightarrow> Refused ''no_presence'' ''Your current position is not available yet.''
          | Some p \<Rightarrow>
              if ps_world p \<noteq> src_world (rule_source r)
              then Refused ''source_mismatch'' ''You are not in the entrance's source area.''
              else if ps_vehicle p \<noteq> None
              then Refused ''not_on_foot'' ''Exit the vehicle before using this door.''
              else if \<not> within_range r (ps_x p) (ps_z p)
              then Refused ''too_far'' ''Move closer to the door.''
              else if \<not> is_rule_open (env_access env) r (from_unix_milli game_ms)
              then Refused ''closed'' (rule_denial r)
              else Granted r))"

definition request_result :: "transition_request \<Rightarrow> int \<Rightarrow> int \<Rightarrow> string \<Rightarrow> string \<Rightarrow> transition_result" where
  "request_result q server_ms game_ms reason message =
     \<lparr>tr_request = tq_request q, tr_transition = tq_transition q, tr_source = tq_source q,
      tr_destination = tq_destination q, tr_authorized = False, tr_authorization = '''',
      tr_reason = reason, tr_message = message, tr_server_ms = server_ms, tr_game_ms = game_ms, tr_expires_ms = 0\<rparr>"

definition handle_transition_request ::
  "hub_env \<Rightarrow> string \<Rightarrow> transition_request \<Rightarrow> int \<Rightarrow> int \<Rightarrow> string option \<Rightarrow> int \<Rightarrow> hub \<Rightarrow> outcome option" where
  "handle_transition_request env cid q server_ms game_ms random now h =
     (if cid \<notin> set (clients h) then None
      else let h1 = set_transition_grant cid None h in
        Some (case judge_request env cid q game_ms h1 of
          Refused reason message \<Rightarrow>
            (h1, [Send cid (MsgTransitionResult (request_result q server_ms game_ms reason message))])
        | Granted r \<Rightarrow>
            (case random of
              None \<Rightarrow>
                (h1, [Send cid (MsgTransitionResult (request_result q server_ms game_ms ''invalid_request''
                        ''The entrance could not be authorized.''))])
            | Some authorization_id \<Rightarrow>
                let g = \<lparr>tg_request = tq_request q, tg_authorization = authorization_id, tg_rule = r,
                         tg_expires = now + authorization_lifetime r\<rparr> in
                (set_transition_grant cid (Some g) h1,
                 [Send cid (MsgTransitionResult
                    ((request_result q server_ms game_ms ''authorized'' ''Entrance authorized.'')
                       \<lparr>tr_authorized := True, tr_authorization := authorization_id,
                        tr_expires_ms := unix_milli (tg_expires g)\<rparr>))]))))"

section \<open>Commits\<close>

definition commit_reply :: "transition_commit \<Rightarrow> commit_result" where
  "commit_reply c = \<lparr>cr_request = tc_request c, cr_transition = '''', cr_destination = '''', cr_committed = False,
     cr_reason = ''invalid_authorization'', cr_message = ''This entrance authorization is no longer valid.''\<rparr>"

definition grant_matches :: "transition_grant \<Rightarrow> transition_commit \<Rightarrow> bool" where
  "grant_matches g c \<longleftrightarrow> tg_request g = tc_request c \<and> tg_authorization g = tc_authorization c"

text \<open>Why a matching grant does not carry; \<open>None\<close> when it does.\<close>

definition commit_obstacle :: "string \<Rightarrow> transition_grant \<Rightarrow> int \<Rightarrow> hub \<Rightarrow> (string \<times> string) option" where
  "commit_obstacle cid g now h =
     (if tg_expires g \<le> now then Some (''authorization_expired'', ''The door took too long to open. Try it again.'')
      else case lookup_presence h cid of
        None \<Rightarrow> Some (''source_mismatch'', ''You are no longer at this entrance.'')
      | Some p \<Rightarrow>
          if ps_world p \<noteq> src_world (rule_source (tg_rule g))
          then Some (''source_mismatch'', ''You are no longer at this entrance.'')
          else if ps_vehicle p \<noteq> None then Some (''not_on_foot'', ''Exit the vehicle before using this door.'')
          else if \<not> within_range (tg_rule g) (ps_x p) (ps_z p)
          then Some (''too_far'', ''You moved too far from the door. Try it again.'')
          else None)"

definition reserve_arrival :: "string \<Rightarrow> transition_grant \<Rightarrow> hub \<Rightarrow> hub" where
  "reserve_arrival cid g h =
     (set_transition_grant cid None h)
       \<lparr>authorized_arrivals := (authorized_arrivals h)
          (cid \<mapsto> \<lparr>aa_source = src_world (rule_source (tg_rule g)), aa_destination = dst_world (rule_destination (tg_rule g))\<rparr>)\<rparr>"

text \<open>The grant with which the handler goes on to leave the world, if it does.\<close>

definition transition_commit_begin ::
  "string \<Rightarrow> transition_commit \<Rightarrow> int \<Rightarrow> hub \<Rightarrow> (outcome \<times> transition_grant option) option" where
  "transition_commit_begin cid c now h =
     (if cid \<notin> set (clients h) then None
      else Some (case transition_grants h cid of
        None \<Rightarrow> ((h, [Send cid (MsgCommitResult (commit_reply c))]), None)
      | Some g \<Rightarrow>
          if \<not> grant_matches g c then ((h, [Send cid (MsgCommitResult (commit_reply c))]), None)
          else (case commit_obstacle cid g now h of
            Some (reason, message) \<Rightarrow>
              ((set_transition_grant cid None h,
                [Send cid (MsgCommitResult ((commit_reply c)
                   \<lparr>cr_transition := rule_transition (tg_rule g), cr_destination := dst_world (rule_destination (tg_rule g)),
                    cr_reason := reason, cr_message := message\<rparr>))]), None)
          | None \<Rightarrow> ((reserve_arrival cid g h, []), Some g))))"

definition transition_commit_finish ::
  "hub_env \<Rightarrow> string \<Rightarrow> transition_commit \<Rightarrow> transition_grant \<Rightarrow> int \<Rightarrow> int \<Rightarrow> hub \<Rightarrow> outcome" where
  "transition_commit_finish env cid c g now now2 h =
     (let reply = (commit_reply c)\<lparr>cr_transition := rule_transition (tg_rule g),
            cr_destination := dst_world (rule_destination (tg_rule g))\<rparr> in
      case leave_world env cid True now now2 h of
        (True, h1, es) \<Rightarrow>
          (h1, es @ [Send cid (MsgCommitResult (reply\<lparr>cr_committed := True, cr_reason := ''committed'',
             cr_message := ''Travel committed.''\<rparr>))])
      | (False, h1, es) \<Rightarrow>
          (h1\<lparr>authorized_arrivals := (authorized_arrivals h1)(cid := None)\<rparr>,
           es @ [Send cid (MsgCommitResult (reply\<lparr>cr_reason := ''connection_closed'',
             cr_message := ''The source area was left before travel could begin.''\<rparr>))]))"

text \<open>The handler when nothing runs between its two critical sections.\<close>

definition handle_transition_commit ::
  "hub_env \<Rightarrow> string \<Rightarrow> transition_commit \<Rightarrow> int \<Rightarrow> int \<Rightarrow> int \<Rightarrow> hub \<Rightarrow> outcome option" where
  "handle_transition_commit env cid c now1 now2 now3 h =
     (case transition_commit_begin cid c now1 h of
        None \<Rightarrow> None
      | Some ((h1, es), None) \<Rightarrow> Some (h1, es)
      | Some ((h1, es), Some g) \<Rightarrow>
          (case transition_commit_finish env cid c g now2 now3 h1 of (h2, es2) \<Rightarrow> Some (h2, es @ es2)))"

section \<open>Admission of a presence report\<close>

definition drop_departed :: "string \<Rightarrow> hub \<Rightarrow> hub" where
  "drop_departed cid h = h\<lparr>departed_worlds := (departed_worlds h)(cid := None)\<rparr>"

definition allow_controlled :: "hub_env \<Rightarrow> string \<Rightarrow> string \<Rightarrow> hub \<Rightarrow> bool \<times> hub" where
  "allow_controlled env cid world h =
     (let source = (case lookup_presence h cid of
            Some p \<Rightarrow> ps_world p | None \<Rightarrow> map_get_or '''' (departed_worlds h) cid) in
      if \<not> controls_destination (env_access env) world then
        let h1 = drop_departed cid h in
        (True, (case transition_grants h1 cid of
                  Some g \<Rightarrow> if world \<noteq> src_world (rule_source (tg_rule g)) then set_transition_grant cid None h1 else h1
                | None \<Rightarrow> h1))
      else if source = world then (True, drop_departed cid h)
      else case objects h cid of
        Some c \<Rightarrow> if \<not> cl_announced c \<and> cl_initial_world c = world then (True, drop_departed cid h) else (False, h)
      | None \<Rightarrow> (False, h))"

definition allow_presence_destination :: "hub_env \<Rightarrow> string \<Rightarrow> string \<Rightarrow> hub \<Rightarrow> bool \<times> hub" where
  "allow_presence_destination env cid world h =
     (case authorized_arrivals h cid of
        None \<Rightarrow> allow_controlled env cid world h
      | Some arrival \<Rightarrow>
          let without = h\<lparr>authorized_arrivals := (authorized_arrivals h)(cid := None)\<rparr> in
          if world = aa_destination arrival then (True, drop_departed cid without)
          else if world = aa_source arrival then (False, h)
          else allow_controlled env cid world without)"

end
