(* ===== verification/Presence.thy ===== *)
theory Presence
  imports Transitions
begin

text \<open>
  Connections and presence, \<open>internal/realtime/hub.go\<close>: registration with its capacity and
  duplicate-session rules, guest names, presence reports, disconnects and the directory. The location
  marking of \<open>client.go\<close> is included, the writes to storage are effects.
\<close>

section \<open>Locations of a client\<close>

definition update_object :: "string \<Rightarrow> (client \<Rightarrow> client) \<Rightarrow> hub \<Rightarrow> hub" where
  "update_object i f h =
     (case objects h i of None \<Rightarrow> h | Some c \<Rightarrow> h\<lparr>objects := (objects h)(i \<mapsto> f c)\<rparr>)"

definition mark_location :: "location \<Rightarrow> client \<Rightarrow> client" where
  "mark_location l c =
     (if \<not> cl_persistent c then c
      else let world_changed = cl_current_world c \<noteq> loc_world l;
               c1 = c\<lparr>cl_current_world := loc_world l, cl_dirty := Some l,
                      cl_location_version := wrapu64 (cl_location_version c + 1)\<rparr> in
        if world_changed then c1\<lparr>cl_script_world := ''''\<rparr> else c1)"

text \<open>
  A flush reads the location with its version, saves it outside the lock, and clears it unless it
  was marked again in between.
\<close>

definition flush_begin :: "client \<Rightarrow> int \<Rightarrow> (location \<times> int \<times> int) option" where
  "flush_begin c now =
     (if \<not> cl_persistent c then None
      else case cl_dirty c of None \<Rightarrow> None
      | Some l \<Rightarrow> Some (l, cl_location_version c, time_sub now (cl_playtime_save c)))"

definition flush_finish :: "int \<Rightarrow> int \<Rightarrow> client \<Rightarrow> client" where
  "flush_finish version now c =
     (let c1 = (if cl_location_version c = version then c\<lparr>cl_dirty := None\<rparr> else c) in c1\<lparr>cl_playtime_save := now\<rparr>)"

section \<open>Presence reports\<close>

definition presence_numbers :: "presence_msg \<Rightarrow> f64 list" where
  "presence_numbers m =
     [pm_x m, pm_y m, pm_z m, pm_yaw m, pm_lift m, pm_steering m, pm_wheel_roll m, pm_qx m, pm_qy m, pm_qz m, pm_qw m]"

definition avatar_of :: "presence_msg \<Rightarrow> string" where
  "avatar_of m = (if pm_avatar m = '''' then pm_character m else pm_avatar m)"

text \<open>The animation of an acceptable report.\<close>

definition validate_presence :: "hub_env \<Rightarrow> presence_msg \<Rightarrow> string option option" where
  "validate_presence env m =
     (if pm_world m \<notin> set valid_worlds then None
      else if pm_movement m \<notin> set valid_movements then None
      else if \<not> env_valid_avatar env (avatar_of m) \<or> pm_sequence m = 0 then None
      else if \<not> list_all coordinate_ok (presence_numbers m) then None
      else case pm_animation m of
        None \<Rightarrow> Some None
      | Some a \<Rightarrow>
          let normalized = trim_space a in
          if normalized = '''' then Some None
          else if \<not> token_pattern normalized then None
          else Some (Some normalized))"

text \<open>Reports arrive in order: the sequence grows, the animation changes with its revision.\<close>

definition stale_report :: "player_state option \<Rightarrow> presence_msg \<Rightarrow> string option \<Rightarrow> bool" where
  "stale_report previous m animation =
     (case previous of
        None \<Rightarrow> False
      | Some p \<Rightarrow>
          pm_sequence m \<le> ps_sequence p
        \<or> pm_animation_revision m < ps_animation_revision p
        \<or> pm_animation_revision m = ps_animation_revision p \<and> animation \<noteq> None \<and> animation \<noteq> ps_animation p)"

text \<open>The vehicle the report gets: it must exist in the reported world and be free or the player's.\<close>

definition granted_vehicle :: "hub \<Rightarrow> string \<Rightarrow> string \<Rightarrow> string option \<Rightarrow> string option" where
  "granted_vehicle h cid world vehicle =
     (case vehicle of
        None \<Rightarrow> None
      | Some v \<Rightarrow>
          (case mget (forklifts h) v of
            None \<Rightarrow> None
          | Some s \<Rightarrow>
              if fk_world s \<noteq> world then None
              else (case forklift_owners h v of
                Some owner \<Rightarrow> if owner \<noteq> cid then None else Some v
              | None \<Rightarrow> Some v)))"

text \<open>Leaving the previous vehicle; a missing forklift is read as Go's zero value.\<close>

definition release_previous_vehicle ::
  "string \<Rightarrow> player_state option \<Rightarrow> string option \<Rightarrow> int \<Rightarrow> hub \<Rightarrow> forklift_state option \<times> hub" where
  "release_previous_vehicle cid previous vehicle now h =
     (case previous of
        None \<Rightarrow> (None, h)
      | Some p \<Rightarrow>
          if ps_vehicle p = vehicle then (None, h)
          else (case ps_vehicle p of
            None \<Rightarrow> (None, release_forklift cid None h)
          | Some v \<Rightarrow>
              let s = (case mget (forklifts h) v of Some s \<Rightarrow> s | None \<Rightarrow> zero_forklift);
                  released = s\<lparr>fk_owner := '''', fk_expires_at := forklift_release_expiry (fk_world s) now,
                               fk_updated_at := unix_milli now\<rparr> in
              (Some released, release_forklift cid (Some v) (h\<lparr>forklifts := mput (fk_id released) released (forklifts h)\<rparr>))))"

definition enter_vehicle :: "string \<Rightarrow> presence_msg \<Rightarrow> string option \<Rightarrow> quaternion \<Rightarrow> int \<Rightarrow> hub \<Rightarrow> hub" where
  "enter_vehicle cid m vehicle q now h =
     (case vehicle of
        None \<Rightarrow> h
      | Some v \<Rightarrow>
          let s = (case mget (forklifts h) v of Some s \<Rightarrow> s | None \<Rightarrow> zero_forklift);
              s1 = (set_fk_orientation q s)\<lparr>fk_id := v, fk_x := pm_x m, fk_y := pm_y m, fk_z := pm_z m, fk_yaw := pm_yaw m,
                     fk_lift := pm_lift m, fk_steering := pm_steering m, fk_wheel_roll := pm_wheel_roll m,
                     fk_owner := cid, fk_expires_at := 0, fk_updated_at := unix_milli now\<rparr> in
          h\<lparr>forklift_owners := (forklift_owners h)(v \<mapsto> cid), forklifts := mput v s1 (forklifts h)\<rparr>)"

definition reported_state ::
  "string \<Rightarrow> client \<Rightarrow> presence_msg \<Rightarrow> string option \<Rightarrow> string option \<Rightarrow> quaternion \<Rightarrow> int \<Rightarrow> player_state" where
  "reported_state cid c m animation vehicle q now =
     (case q of (qx, qy, qz, qw) \<Rightarrow>
       \<lparr>ps_id = cid, ps_name = cl_name c, ps_world = pm_world m,
        ps_character = (if cl_persistent c then int_decimal (cl_character c) else avatar_of m),
        ps_avatar = avatar_of m, ps_x = pm_x m, ps_y = pm_y m, ps_z = pm_z m, ps_yaw = pm_yaw m,
        ps_movement = pm_movement m, ps_animation = animation, ps_animation_revision = pm_animation_revision m,
        ps_animation_elapsed = 0, ps_sequence = pm_sequence m, ps_updated_at = unix_milli now, ps_vehicle = vehicle,
        ps_lift = pm_lift m, ps_steering = pm_steering m, ps_wheel_roll = pm_wheel_roll m,
        ps_qx = qx, ps_qy = qy, ps_qz = qz, ps_qw = qw\<rparr>)"

definition animation_start :: "stored_presence option \<Rightarrow> presence_msg \<Rightarrow> string option \<Rightarrow> int \<Rightarrow> int option" where
  "animation_start previous m animation now =
     (case (animation, previous) of
        (None, _) \<Rightarrow> None
      | (Some _, None) \<Rightarrow> Some now
      | (Some _, Some p) \<Rightarrow>
          if pm_animation_revision m \<noteq> ps_animation_revision (sp_state p) \<or> animation \<noteq> ps_animation (sp_state p)
          then Some now else sp_animation_started p)"

definition join_room :: "string \<Rightarrow> string \<Rightarrow> hub \<Rightarrow> hub" where
  "join_room cid world h =
     h\<lparr>rooms := (rooms h)(world \<mapsto> set_add cid (case rooms h world of None \<Rightarrow> [] | Some r \<Rightarrow> r))\<rparr>"

definition world_snapshot :: "string \<Rightarrow> string \<Rightarrow> int \<Rightarrow> hub \<Rightarrow> server_msg" where
  "world_snapshot cid world now h =
     MsgSnapshot
       (concat (map (\<lambda>i. case presences h i of None \<Rightarrow> [] | Some p \<Rightarrow> [state_at p now]) (room_recipients h world cid)))
       (map snd (filter (\<lambda>(_, s). fk_world s = world) (entries (forklifts h))))
       (map snd (filter (\<lambda>(_, s). cg_world s = world) (entries (cargo h))))"

definition room_changed :: "player_state option \<Rightarrow> presence_msg \<Rightarrow> bool" where
  "room_changed previous m \<longleftrightarrow> (case previous of None \<Rightarrow> False | Some p \<Rightarrow> ps_world p \<noteq> pm_world m)"

text \<open>Everything that is checked before the admission: the client, the animation and the vehicle.\<close>

definition check_presence ::
  "hub_env \<Rightarrow> string \<Rightarrow> presence_msg \<Rightarrow> hub \<Rightarrow> (client \<times> string option \<times> string option \<times> quaternion) option" where
  "check_presence env cid m h =
     (case validate_presence env m of
        None \<Rightarrow> None
      | Some animation \<Rightarrow>
        if cid \<notin> set (clients h) then None
        else (case objects h cid of
          None \<Rightarrow> None
        | Some c \<Rightarrow>
          if stale_report (map_option sp_state (presences h cid)) m animation then None
          else (case normalize_vehicle_presence env m of
            None \<Rightarrow> None
          | Some (wanted, orientation) \<Rightarrow>
            let vehicle = granted_vehicle h cid (pm_world m) wanted in
            Some (c, animation, vehicle, if vehicle = None then no_vehicle_orientation else orientation))))"

definition change_vehicle ::
  "string \<Rightarrow> presence_msg \<Rightarrow> player_state option \<Rightarrow> string option \<Rightarrow> quaternion \<Rightarrow> int \<Rightarrow> hub \<Rightarrow> forklift_state option \<times> hub" where
  "change_vehicle cid m previous vehicle q now h =
     (case release_previous_vehicle cid previous vehicle now h of
        (released, h1) \<Rightarrow> (released, enter_vehicle cid m vehicle q now h1))"

definition entered_vehicle :: "player_state option \<Rightarrow> string option \<Rightarrow> string option" where
  "entered_vehicle previous vehicle =
     (case vehicle of None \<Rightarrow> None
      | Some v \<Rightarrow> if (case previous of None \<Rightarrow> True | Some p \<Rightarrow> ps_vehicle p \<noteq> Some v) then Some v else None)"

definition announce :: "string \<Rightarrow> presence_msg \<Rightarrow> hub \<Rightarrow> hub" where
  "announce cid m =
     update_object cid (\<lambda>c. c\<lparr>cl_announced := True, cl_avatar := (if cl_persistent c then avatar_of m else cl_avatar c)\<rparr>)"

definition change_room ::
  "string \<Rightarrow> presence_msg \<Rightarrow> player_state option \<Rightarrow> int \<Rightarrow> hub \<Rightarrow> cargo_state list \<times> string list \<times> hub" where
  "change_room cid m previous now h =
     (if room_changed previous m then
        case mark_client_cargo_for_release cid now h of (released, h1) \<Rightarrow>
        case remove_from_room cid (ps_world (the previous)) h1 of (old_recipients, h2) \<Rightarrow>
          (released, old_recipients, join_room cid (pm_world m) h2)
      else ([], [], if previous = None then join_room cid (pm_world m) h else h))"

definition note_location :: "string \<Rightarrow> presence_msg \<Rightarrow> string option \<Rightarrow> hub \<Rightarrow> hub" where
  "note_location cid m vehicle h =
     (if vehicle = None
      then update_object cid (mark_location
        \<lparr>loc_world = pm_world m, loc_x = pm_x m, loc_y = pm_y m, loc_z = pm_z m, loc_yaw = pm_yaw m\<rparr>) h
      else h)"

definition handle_presence :: "hub_env \<Rightarrow> string \<Rightarrow> presence_msg \<Rightarrow> int \<Rightarrow> hub \<Rightarrow> bool \<times> outcome" where
  "handle_presence env cid m now h =
     (case check_presence env cid m h of
        None \<Rightarrow> (False, h, [])
      | Some (c, animation, vehicle, q) \<Rightarrow>
        let stored = presences h cid; previous = map_option sp_state stored in
        (case allow_presence_destination env cid (pm_world m) h of
          (False, h1) \<Rightarrow> (False, h1, [])
        | (True, h1) \<Rightarrow>
          let (released, h2) = change_vehicle cid m previous vehicle q now h1;
              stored' = \<lparr>sp_state = reported_state cid c m animation vehicle q now,
                sp_animation_started = animation_start stored m animation now\<rparr>;
              (released_cargo, old_recipients, h3) = change_room cid m previous now (announce cid m h2);
              h4 = h3\<lparr>presences := (presences h3)(cid \<mapsto> stored')\<rparr>;
              recipients = room_recipients h4 (pm_world m) cid;
              moved = room_changed previous m in
          (True, note_location cid m vehicle h4,
            (if moved then [FlushLocation cid] else [])
            @ (case released of None \<Rightarrow> []
               | Some s \<Rightarrow>
                   let to = (if moved then old_recipients else recipients) in
                   send_many to (MsgForkliftState s) @ send_many to (MsgForkliftSound (fk_id s) ''shutdown'')
                   @ (if 0 < fk_expires_at s then [ForkliftExpiryTimer (fk_id s) (fk_expires_at s)] else []))
            @ (if moved then send_many old_recipients (MsgPlayerLeft cid (unix_milli now))
                 @ cargo_release_effects old_recipients released_cargo else [])
            @ (if previous = None \<or> moved then [Send cid (world_snapshot cid (pm_world m) now h4)] else [])
            @ send_many recipients (MsgPlayerState (state_at stored' now))
            @ (case entered_vehicle previous vehicle of None \<Rightarrow> []
               | Some v \<Rightarrow> send_many recipients (MsgForkliftSound v ''startup''))
            @ (if \<not> cl_announced c then send_many (all_clients h4 cid) (MsgPlayerEntered cid (cl_name c) (pm_world m))
               else []))))"

section \<open>Registration\<close>

record character_info =
  ci_id :: int
  ci_name :: string
  ci_avatar :: string
  ci_world :: string

record connection =
  cn_account :: int
  cn_account_type :: string
  cn_character :: "character_info option"

definition guest_name_taken :: "hub_env \<Rightarrow> hub \<Rightarrow> string \<Rightarrow> bool" where
  "guest_name_taken env h name \<longleftrightarrow> mget (names h) (env_lower env name) \<noteq> None"

text \<open>The 128 random attempts; a draw is a 16-bit number, or a failure of the random source.\<close>

fun random_guest_name :: "hub_env \<Rightarrow> hub \<Rightarrow> int option list \<Rightarrow> string option" where
  "random_guest_name env h [] = None"
| "random_guest_name env h (None # draws) = random_guest_name env h draws"
| "random_guest_name env h (Some r # draws) =
     (let name = ''Guest'' @ int_decimal (1000 + r mod 9000) in
      if \<not> guest_name_taken env h name then Some name else random_guest_name env h draws)"

text \<open>
  The counting loop after them, with the advanced counter, a \<open>uint64\<close>; one more round than there are
  names is enough (\<open>guest_name_found\<close>).
\<close>

fun counted_guest_name :: "nat \<Rightarrow> hub_env \<Rightarrow> int \<Rightarrow> hub \<Rightarrow> (string \<times> int) option" where
  "counted_guest_name 0 env n h = None"
| "counted_guest_name (Suc fuel) env n h =
     (let n' = wrapu64 (n + 1); name = ''Guest'' @ int_decimal (wrapu64 (10000 + n')) in
      if \<not> guest_name_taken env h name then Some (name, n') else counted_guest_name fuel env n' h)"

definition allocate_guest_name :: "hub_env \<Rightarrow> int option list \<Rightarrow> hub \<Rightarrow> (string \<times> hub) option" where
  "allocate_guest_name env draws h =
     (case random_guest_name env h draws of
        Some name \<Rightarrow> Some (name, h)
      | None \<Rightarrow>
          (case counted_guest_name (Suc (length (entries (names h)))) env (guest_counter h) h of
            None \<Rightarrow> None
          | Some (name, n) \<Rightarrow> Some (name, h\<lparr>guest_counter := n\<rparr>)))"

definition new_client :: "string \<Rightarrow> connection \<Rightarrow> int \<Rightarrow> client" where
  "new_client name cn now =
     (let c = \<lparr>cl_name = name, cl_announced = False, cl_connected_at = now, cl_account = 0, cl_account_type = '''',
               cl_character = 0, cl_avatar = '''', cl_initial_world = '''', cl_persistent = False,
               cl_limits = new_limits now, cl_script_world = '''', cl_current_world = '''', cl_dirty = None,
               cl_location_version = 0, cl_playtime_save = now\<rparr> in
      case cn_character cn of
        None \<Rightarrow> c
      | Some ch \<Rightarrow> c\<lparr>cl_name := ci_name ch, cl_account := cn_account cn, cl_account_type := cn_account_type cn,
          cl_character := ci_id ch, cl_avatar := ci_avatar ch, cl_initial_world := ci_world ch,
          cl_current_world := ci_world ch, cl_persistent := True\<rparr>)"

text \<open>The session that a character already has, and the hub without an entry that points nowhere.\<close>

definition replaced_session :: "connection \<Rightarrow> hub \<Rightarrow> string option \<times> hub" where
  "replaced_session cn h =
     (case cn_character cn of
        None \<Rightarrow> (None, h)
      | Some ch \<Rightarrow>
          (case active_characters h (ci_id ch) of
            None \<Rightarrow> (None, h)
          | Some active \<Rightarrow>
              if active \<in> set (clients h) then (Some active, h)
              else if active \<noteq> '''' then (None, h\<lparr>active_characters := (active_characters h)(ci_id ch := None)\<rparr>)
              else (None, h)))"

datatype register_error = ErrCapacity | ErrRandom | ErrNoName

definition add_client :: "hub_env \<Rightarrow> string \<Rightarrow> client \<Rightarrow> hub \<Rightarrow> hub" where
  "add_client env i c h =
     h\<lparr>clients := set_add i (clients h), objects := (objects h)(i \<mapsto> c),
       active_characters := (if cl_persistent c then (active_characters h)(cl_character c \<mapsto> i) else active_characters h),
       names := mput (env_lower env (cl_name c)) i (names h)\<rparr>"

definition register ::
  "hub_env \<Rightarrow> connection \<Rightarrow> string option \<Rightarrow> int option list \<Rightarrow> int \<Rightarrow> hub \<Rightarrow> (register_error + string \<times> effect list) \<times> hub" where
  "register env cn random draws now h =
     (let (replaced, h1) = replaced_session cn h in
      if max_clients h1 \<le> int (length (clients h1)) \<and> replaced = None then (Inl ErrCapacity, h1)
      else case random of
        None \<Rightarrow> (Inl ErrRandom, h1)
      | Some i \<Rightarrow>
          (case allocate_guest_name env draws h1 of
            None \<Rightarrow> (Inl ErrNoName, h1)
          | Some (guest, h2) \<Rightarrow>
              let c = new_client guest cn now;
                  h3 = add_client env i c h2;
                  connected = int (length (clients h3)) in
              (Inr (i,
                 (case replaced of None \<Rightarrow> [] | Some r \<Rightarrow> [Send r MsgSessionReplaced])
                 @ [Send i (MsgWelcome i (cl_name c) connected)]
                 @ send_many (all_clients h3 i) (MsgClientCount connected)), h3)))"

section \<open>Disconnects\<close>

definition forget_client :: "hub_env \<Rightarrow> string \<Rightarrow> client \<Rightarrow> hub \<Rightarrow> hub" where
  "forget_client env cid c h =
     (let h1 = h\<lparr>clients := set_del cid (clients h), departed_worlds := (departed_worlds h)(cid := None),
                 transition_grants := (transition_grants h)(cid := None),
                 authorized_arrivals := (authorized_arrivals h)(cid := None)\<rparr>;
          key = env_lower env (cl_name c);
          h2 = (if mget (names h1) key = Some cid then h1\<lparr>names := mdel key (names h1)\<rparr> else h1);
          h3 = (if cl_persistent c \<and> active_characters h2 (cl_character c) = Some cid
                then h2\<lparr>active_characters := (active_characters h2)(cl_character c := None)\<rparr> else h2) in
      if cl_persistent c then h3\<lparr>pending_locations := set_add cid (pending_locations h3)\<rparr> else h3)"

definition abandoned_forklift :: "hub \<Rightarrow> string \<Rightarrow> int \<Rightarrow> int \<Rightarrow> forklift_state" where
  "abandoned_forklift h v now2 now3 =
     (case mget (forklifts h) v of Some s \<Rightarrow> s | None \<Rightarrow> zero_forklift)
       \<lparr>fk_owner := '''', fk_vx := Fin 0, fk_vy := Fin 0, fk_vz := Fin 0, fk_avx := Fin 0, fk_avy := Fin 0, fk_avz := Fin 0,
        fk_expires_at := unix_milli (now2 + abandoned_forklift_lifetime), fk_updated_at := unix_milli now3\<rparr>"

definition session_replaced :: "hub \<Rightarrow> string \<Rightarrow> client \<Rightarrow> bool" where
  "session_replaced h cid c \<longleftrightarrow> cl_persistent c
     \<and> (case active_characters h (cl_character c) of None \<Rightarrow> False | Some a \<Rightarrow> a \<noteq> '''' \<and> a \<noteq> cid)"

definition unregister :: "hub_env \<Rightarrow> string \<Rightarrow> int \<Rightarrow> int \<Rightarrow> int \<Rightarrow> int \<Rightarrow> hub \<Rightarrow> outcome" where
  "unregister env cid now1 now2 now3 now4 h =
     (if cid \<notin> set (clients h) then (h, [CloseClient cid])
      else case objects h cid of None \<Rightarrow> (h, [CloseClient cid]) | Some c \<Rightarrow>
      let h1 = forget_client env cid c h; replaced = session_replaced h1 cid c in
      (case lookup_presence h1 cid of
        None \<Rightarrow>
          (h1, [CancelScript cid, FlushLocation cid, CloseClient cid]
             @ send_many (all_clients h1 '''') (MsgClientCount (int (length (clients h1)))))
      | Some old \<Rightarrow>
          let (released, h2) = mark_client_cargo_for_release cid now1 (h1\<lparr>presences := (presences h1)(cid := None)\<rparr>);
              abandoned = map_option (\<lambda>v. abandoned_forklift h2 v now2 now3) (ps_vehicle old);
              h3 = (case abandoned of None \<Rightarrow> h2 | Some s \<Rightarrow> h2\<lparr>forklifts := mput (fk_id s) s (forklifts h2)\<rparr>);
              (recipients, h4) = remove_from_room cid (ps_world old) (release_forklift cid (ps_vehicle old) h3) in
          (h4, [CancelScript cid, FlushLocation cid, CloseClient cid]
             @ send_many recipients (MsgPlayerLeft cid (unix_milli now4))
             @ (case abandoned of None \<Rightarrow> []
                | Some s \<Rightarrow> send_many recipients (MsgForkliftState s)
                    @ [ForkliftExpiryTimer (fk_id s) (fk_expires_at s)]
                    @ send_many recipients (MsgForkliftSound (fk_id s) ''shutdown''))
             @ cargo_release_effects recipients released
             @ send_many (all_clients h4 '''') (MsgClientCount (int (length (clients h4))))
             @ (if replaced then []
                else send_many (all_clients h4 '''') (MsgSystem (cl_name c @ '' has left the game.'') (unix_milli now4))))))"

definition location_flushed :: "string \<Rightarrow> hub \<Rightarrow> hub" where
  "location_flushed cid h = h\<lparr>pending_locations := set_del cid (pending_locations h)\<rparr>"

end
