(* ===== verification/Sessions.thy ===== *)
theory Sessions
  imports Presence
begin

text \<open>
  The invariants of the hub and what its helpers leave alone. The state falls into three groups of
  fields, sessions, vehicles and cargo; \<open>same_sessions\<close>, \<open>same_vehicles\<close> and \<open>same_cargo\<close> say that a
  group is untouched, and each part of the invariant depends on one or two groups.
\<close>

section \<open>Frames\<close>

definition same_sessions :: "hub \<Rightarrow> hub \<Rightarrow> bool" where
  "same_sessions h h' \<longleftrightarrow> clients h' = clients h \<and> objects h' = objects h \<and> names h' = names h \<and> rooms h' = rooms h
     \<and> presences h' = presences h \<and> departed_worlds h' = departed_worlds h
     \<and> transition_grants h' = transition_grants h \<and> authorized_arrivals h' = authorized_arrivals h
     \<and> active_characters h' = active_characters h \<and> max_clients h' = max_clients h"

definition same_vehicles :: "hub \<Rightarrow> hub \<Rightarrow> bool" where
  "same_vehicles h h' \<longleftrightarrow> forklift_owners h' = forklift_owners h \<and> forklifts h' = forklifts h"

definition same_cargo :: "hub \<Rightarrow> hub \<Rightarrow> bool" where
  "same_cargo h h' \<longleftrightarrow> cargo h' = cargo h \<and> cargo_spawns h' = cargo_spawns h
     \<and> cargo_away_since h' = cargo_away_since h \<and> cargo_untouched h' = cargo_untouched h
     \<and> cargo_last_touched h' = cargo_last_touched h \<and> cargo_replaced h' = cargo_replaced h"

lemmas frame_defs = same_sessions_def same_vehicles_def same_cargo_def

lemma mark_client_cargo_frame [simp]:
  "same_sessions h (snd (mark_client_cargo_for_release p t h))" "same_vehicles h (snd (mark_client_cargo_for_release p t h))"
  by (simp_all add: frame_defs mark_client_cargo_for_release_def Let_def)

lemma mark_client_cargo_fields [simp]:
  "clients (snd (mark_client_cargo_for_release p t h)) = clients h"
  "objects (snd (mark_client_cargo_for_release p t h)) = objects h"
  "names (snd (mark_client_cargo_for_release p t h)) = names h"
  "rooms (snd (mark_client_cargo_for_release p t h)) = rooms h"
  "presences (snd (mark_client_cargo_for_release p t h)) = presences h"
  "departed_worlds (snd (mark_client_cargo_for_release p t h)) = departed_worlds h"
  "transition_grants (snd (mark_client_cargo_for_release p t h)) = transition_grants h"
  "authorized_arrivals (snd (mark_client_cargo_for_release p t h)) = authorized_arrivals h"
  "active_characters (snd (mark_client_cargo_for_release p t h)) = active_characters h"
  "max_clients (snd (mark_client_cargo_for_release p t h)) = max_clients h"
  "forklift_owners (snd (mark_client_cargo_for_release p t h)) = forklift_owners h"
  "forklifts (snd (mark_client_cargo_for_release p t h)) = forklifts h"
  by (simp_all add: mark_client_cargo_for_release_def Let_def)

lemma release_forklift_eq:
  "release_forklift p v h =
     h\<lparr>forklift_owners := (\<lambda>f. if v = Some f \<and> forklift_owners h f = Some p then None else forklift_owners h f)\<rparr>"
  by (auto simp: release_forklift_def fun_eq_iff split: option.split)

lemma release_forklift_fields [simp]:
  "clients (release_forklift p v h) = clients h" "objects (release_forklift p v h) = objects h"
  "names (release_forklift p v h) = names h" "rooms (release_forklift p v h) = rooms h"
  "presences (release_forklift p v h) = presences h" "departed_worlds (release_forklift p v h) = departed_worlds h"
  "transition_grants (release_forklift p v h) = transition_grants h"
  "authorized_arrivals (release_forklift p v h) = authorized_arrivals h"
  "active_characters (release_forklift p v h) = active_characters h" "max_clients (release_forklift p v h) = max_clients h"
  "forklifts (release_forklift p v h) = forklifts h" "cargo (release_forklift p v h) = cargo h"
  "cargo_spawns (release_forklift p v h) = cargo_spawns h" "cargo_away_since (release_forklift p v h) = cargo_away_since h"
  "cargo_untouched (release_forklift p v h) = cargo_untouched h" "cargo_replaced (release_forklift p v h) = cargo_replaced h"
  "cargo_last_touched (release_forklift p v h) = cargo_last_touched h"
  by (simp_all add: release_forklift_eq)

definition room_after_removal :: "string \<Rightarrow> string \<Rightarrow> hub \<Rightarrow> string \<Rightarrow> string list option" where
  "room_after_removal cid world h w =
     (if w \<noteq> world then rooms h w
      else case rooms h world of None \<Rightarrow> None
      | Some r \<Rightarrow> if set_del cid r = [] then None else Some (set_del cid r))"

lemma remove_from_room_eq:
  "snd (remove_from_room cid world h) = h\<lparr>rooms := room_after_removal cid world h\<rparr>"
  by (cases "rooms h world")
    (auto simp: remove_from_room_def Let_def room_after_removal_def fun_eq_iff intro!: hub.equality)

lemma remove_from_room_fields [simp]:
  "clients (snd (remove_from_room p w h)) = clients h" "objects (snd (remove_from_room p w h)) = objects h"
  "names (snd (remove_from_room p w h)) = names h" "presences (snd (remove_from_room p w h)) = presences h"
  "departed_worlds (snd (remove_from_room p w h)) = departed_worlds h"
  "transition_grants (snd (remove_from_room p w h)) = transition_grants h"
  "authorized_arrivals (snd (remove_from_room p w h)) = authorized_arrivals h"
  "active_characters (snd (remove_from_room p w h)) = active_characters h"
  "max_clients (snd (remove_from_room p w h)) = max_clients h"
  "forklift_owners (snd (remove_from_room p w h)) = forklift_owners h"
  "forklifts (snd (remove_from_room p w h)) = forklifts h" "cargo (snd (remove_from_room p w h)) = cargo h"
  "cargo_spawns (snd (remove_from_room p w h)) = cargo_spawns h"
  "cargo_away_since (snd (remove_from_room p w h)) = cargo_away_since h"
  "cargo_untouched (snd (remove_from_room p w h)) = cargo_untouched h"
  "cargo_replaced (snd (remove_from_room p w h)) = cargo_replaced h"
  "cargo_last_touched (snd (remove_from_room p w h)) = cargo_last_touched h"
  "rooms (snd (remove_from_room p w h)) = room_after_removal p w h"
  by (simp_all add: remove_from_room_eq)

section \<open>The invariants\<close>

text \<open>Connections: everything the hub keeps under a connection's id belongs to a registered one.\<close>

definition clients_ok :: "hub \<Rightarrow> bool" where
  "clients_ok h \<longleftrightarrow> distinct (clients h) \<and> (\<forall>i\<in>set (clients h). objects h i \<noteq> None \<and> i \<noteq> '''')
     \<and> dom (presences h) \<subseteq> set (clients h) \<and> dom (departed_worlds h) \<subseteq> set (clients h)
     \<and> dom (transition_grants h) \<subseteq> set (clients h) \<and> dom (authorized_arrivals h) \<subseteq> set (clients h)"

text \<open>Rooms: a world's room holds exactly the players present in it, once each, and is never empty.\<close>

definition in_room :: "hub \<Rightarrow> string \<Rightarrow> string \<Rightarrow> bool" where
  "in_room h i w \<longleftrightarrow> (\<exists>r. rooms h w = Some r \<and> i \<in> set r)"

definition rooms_ok :: "hub \<Rightarrow> bool" where
  "rooms_ok h \<longleftrightarrow> (\<forall>w r. rooms h w = Some r \<longrightarrow> r \<noteq> [] \<and> distinct r)
     \<and> (\<forall>i w. in_room h i w \<longleftrightarrow> presence_world h i = Some w)"

text \<open>Vehicles: the owner of a forklift is a present player who drives it.\<close>

definition vehicles_ok :: "hub \<Rightarrow> bool" where
  "vehicles_ok h \<longleftrightarrow> (\<forall>f p. forklift_owners h f = Some p \<longrightarrow> presence_vehicle h p = Some f)
     \<and> (\<forall>f s. mget (forklifts h) f = Some s \<longrightarrow> fk_id s = f
          \<and> (fk_owner s \<noteq> '''' \<longrightarrow> forklift_owners h f = Some (fk_owner s)))"

text \<open>Cargo: the bookkeeping is about existing crates, and a crate nobody holds has no pending release.\<close>

definition cargo_ok :: "hub \<Rightarrow> bool" where
  "cargo_ok h \<longleftrightarrow> (\<forall>i s. mget (cargo h) i = Some s \<longrightarrow> cg_id s = i \<and> (cg_owner s = '''' \<longrightarrow> cg_claim_expires s = 0))
     \<and> (\<forall>i. mget (cargo h) i = None \<longrightarrow> cargo_spawns h i = None \<and> cargo_away_since h i = None
          \<and> cargo_untouched h i = None \<and> cargo_last_touched h i = None \<and> \<not> cargo_replaced h i)"

text \<open>Grants come from the catalog.\<close>

definition grants_ok :: "hub_env \<Rightarrow> hub \<Rightarrow> bool" where
  "grants_ok env h \<longleftrightarrow> (\<forall>i g. transition_grants h i = Some g \<longrightarrow> (\<exists>t. catalog_rule (env_access env) t = Some (tg_rule g)))"

text \<open>Characters: the active session of a character is a connection playing it.\<close>

definition characters_active_ok :: "hub \<Rightarrow> bool" where
  "characters_active_ok h \<longleftrightarrow> (\<forall>c i. active_characters h c = Some i \<longrightarrow> i \<in> set (clients h)
     \<and> (\<exists>cl. objects h i = Some cl \<and> cl_persistent cl \<and> cl_character cl = c))"

lemma same_sessions_presence: "same_sessions h h' \<Longrightarrow> presence_world h' = presence_world h \<and> presence_vehicle h' = presence_vehicle h"
  by (simp add: same_sessions_def presence_world_def presence_vehicle_def fun_eq_iff)

lemma clients_ok_frame: "same_sessions h h' \<Longrightarrow> clients_ok h \<Longrightarrow> clients_ok h'"
  by (simp add: same_sessions_def clients_ok_def)

lemma rooms_ok_frame: "same_sessions h h' \<Longrightarrow> rooms_ok h \<Longrightarrow> rooms_ok h'"
  using same_sessions_presence [of h h'] by (simp add: same_sessions_def rooms_ok_def in_room_def)

lemma vehicles_ok_frame: "same_sessions h h' \<Longrightarrow> same_vehicles h h' \<Longrightarrow> vehicles_ok h \<Longrightarrow> vehicles_ok h'"
  using same_sessions_presence [of h h'] by (simp add: same_vehicles_def vehicles_ok_def)

lemma cargo_ok_frame: "same_cargo h h' \<Longrightarrow> cargo_ok h \<Longrightarrow> cargo_ok h'"
  by (simp add: same_cargo_def cargo_ok_def)

lemma grants_ok_frame: "same_sessions h h' \<Longrightarrow> grants_ok env h \<Longrightarrow> grants_ok env h'"
  by (simp add: same_sessions_def grants_ok_def)

lemma characters_active_ok_frame: "same_sessions h h' \<Longrightarrow> characters_active_ok h \<Longrightarrow> characters_active_ok h'"
  by (simp add: same_sessions_def characters_active_ok_def)

end
