(* ===== verification/Upkeep.thy ===== *)
theory Upkeep
  imports Sessions
begin

text \<open>
  The operations on forklifts and crates keep the invariants of the hub: for each, which fields it
  leaves alone and that the part of the invariant it does touch holds again.
\<close>

section \<open>Forklift operations\<close>

lemma initial_forklift_fields:
  assumes "mget (initial_forklift_states env now) i = Some s"
  shows "fk_id s = i \<and> fk_owner s = ''''"
proof -
  have "(i, s) \<in> set (concat (map (\<lambda>(world, w). map (\<lambda>s. (fs_id s,
            (initial_forklift_state env (fs_id s) world (sp_x (fs_position s)) (sp_z (fs_position s)) (fs_yaw s) (unix_milli now))
              \<lparr>fk_y := sp_y (fs_position s)\<rparr>)) (sw_forklifts w))
          (entries (sm_worlds (env_spawns env)))))"
    using assms by (auto simp: initial_forklift_states_def mget_mput_all split: option.splits dest!: map_of_SomeD)
  then show ?thesis by (auto simp: initial_forklift_state_def zero_forklift_def)
qed

lemma initial_cargo_fields:
  assumes "mget (initial_cargo_states env now) i = Some s"
  shows "cg_id s = i \<and> cg_owner s = '''' \<and> cg_claim_expires s = 0"
proof -
  have "(i, s) \<in> set (concat (map (\<lambda>(world, w). map (\<lambda>s. (cs_id s,
            zero_cargo\<lparr>cg_id := cs_id s, cg_world := world, cg_x := sp_x (cs_position s), cg_y := sp_y (cs_position s),
              cg_z := sp_z (cs_position s), cg_qw := Fin 1, cg_sleeping := True, cg_updated_at := unix_milli now\<rparr>)) (sw_cargo w))
          (entries (sm_worlds (env_spawns env)))))"
    using assms by (auto simp: initial_cargo_states_def mget_mput_all split: option.splits dest!: map_of_SomeD)
  then show ?thesis by (auto simp: zero_cargo_def)
qed

lemma vehicles_ok_put:
  "vehicles_ok h \<Longrightarrow> fk_id s = i \<Longrightarrow> fk_owner s = '''' \<or> forklift_owners h i = Some (fk_owner s) \<Longrightarrow>
   vehicles_ok (h\<lparr>forklifts := mput i s (forklifts h)\<rparr>)"
  by (auto simp: vehicles_ok_def presence_vehicle_def)

lemma vehicles_ok_del: "vehicles_ok h \<Longrightarrow> vehicles_ok (h\<lparr>forklifts := mdel i (forklifts h)\<rparr>)"
  by (auto simp: vehicles_ok_def presence_vehicle_def)

lemma forklift_update_frame:
  "handle_forklift_update env cid m now h = Some (h', es) \<Longrightarrow> same_sessions h h' \<and> same_cargo h h'"
  by (auto simp: handle_forklift_update_def Let_def frame_defs split: if_splits option.splits)

lemma forklift_update_vehicles:
  assumes "handle_forklift_update env cid m now h = Some (h', es)" and "vehicles_ok h"
  shows "vehicles_ok h'"
proof -
  let ?f = "fk_id (fu_state m)"
  obtain world q where h': "h' = h\<lparr>forklift_owners := (if fu_release m then (forklift_owners h)(?f := None) else forklift_owners h),
       forklifts := mput ?f (updated_forklift m q world (owner_of h ?f) cid now) (forklifts h)\<rparr>"
    using assms(1) by (auto simp: handle_forklift_update_def Let_def split: if_splits option.splits)
  have s: "fk_id (updated_forklift m q world o1 cid now) = ?f"
    "fk_owner (updated_forklift m q world o1 cid now) = (if \<not> fu_release m \<and> o1 = cid then cid else '''')" for o1
    by (simp_all add: updated_forklift_def)
  have "owner_of h ?f = cid \<Longrightarrow> cid \<noteq> '''' \<Longrightarrow> forklift_owners h ?f = Some cid"
    by (auto simp: owner_of_def map_get_or_def split: option.splits)
  with assms(2) show ?thesis
    unfolding h' vehicles_ok_def by (auto simp: s presence_vehicle_def)
qed

lemma forklift_spawn_frame:
  "handle_forklift_spawn env cid m random now1 now2 h = Some (h', es) \<Longrightarrow> same_sessions h h' \<and> same_cargo h h'"
  by (auto simp: handle_forklift_spawn_def Let_def frame_defs split: if_splits option.splits)

lemma forklift_spawn_vehicles:
  "handle_forklift_spawn env cid m random now1 now2 h = Some (h', es) \<Longrightarrow> vehicles_ok h \<Longrightarrow> vehicles_ok h'"
  by (auto simp: handle_forklift_spawn_def Let_def zero_forklift_def intro!: vehicles_ok_put split: if_splits option.splits)

lemma forklift_expiry_frame:
  "forklift_expiry env i x h = ((h', es), again) \<Longrightarrow> same_sessions h h' \<and> same_cargo h h'"
  by (auto simp: forklift_expiry_def frame_defs split: if_splits option.splits)

lemma forklift_expiry_vehicles:
  "forklift_expiry env i x h = ((h', es), again) \<Longrightarrow> vehicles_ok h \<Longrightarrow> vehicles_ok h'"
  by (auto simp: forklift_expiry_def intro!: vehicles_ok_del split: if_splits option.splits)

lemma forklift_respawn_frame:
  "forklift_respawn env i now h = (h', es) \<Longrightarrow> same_sessions h h' \<and> same_cargo h h'"
  by (auto simp: forklift_respawn_def frame_defs split: if_splits option.splits)

lemma forklift_respawn_vehicles:
  "forklift_respawn env i now h = (h', es) \<Longrightarrow> vehicles_ok h \<Longrightarrow> vehicles_ok h'"
  by (auto simp: forklift_respawn_def intro!: vehicles_ok_put dest: initial_forklift_fields split: if_splits option.splits)

section \<open>Cargo operations\<close>

lemma mark_client_cargo_ok:
  assumes "cargo_ok h" and "p \<noteq> ''''"
  shows "cargo_ok (snd (mark_client_cargo_for_release p t h))"
proof -
  let ?kvs = "mupdate (\<lambda>s. cg_owner s = p) (release_mark t) (cargo h)"
  have ids: "mget (cargo h) k = None \<Longrightarrow> k \<notin> fst ` set ?kvs" for k
    by (auto simp: in_mupdate)
  show ?thesis
    using assms ids unfolding cargo_ok_def mark_client_cargo_for_release_def Let_def
    by (simp add: mget_mupdate stamp_def release_mark_def split: option.splits if_splits)
qed

lemma cargo_ok_put:
  "cargo_ok h \<Longrightarrow> cg_id s = i \<Longrightarrow> (cg_owner s = '''' \<Longrightarrow> cg_claim_expires s = 0) \<Longrightarrow>
   cargo_ok (h\<lparr>cargo := mput i s (cargo h)\<rparr>)"
  by (auto simp: cargo_ok_def)

lemma cargo_claim_release_frame:
  "cargo_claim_release i p x now h = (h', es) \<Longrightarrow> same_sessions h h' \<and> same_vehicles h h'"
  by (auto simp: cargo_claim_release_def Let_def frame_defs split: if_splits option.splits)

lemma cargo_claim_release_ok:
  "cargo_claim_release i p x now h = (h', es) \<Longrightarrow> cargo_ok h \<Longrightarrow> cargo_ok h'"
  by (auto simp: cargo_claim_release_def Let_def cargo_ok_def split: if_splits option.splits)

lemma righted_cargo_fields [simp]:
  "cg_id (righted_cargo env s now) = cg_id s" "cg_owner (righted_cargo env s now) = ''''"
  "cg_claim_expires (righted_cargo env s now) = 0" "cg_world (righted_cargo env s now) = cg_world s"
  by (simp_all add: righted_cargo_def Let_def split: prod.split)

lemma auto_right_cargo_frame:
  "auto_right_cargo env i u now h = (h', es) \<Longrightarrow> same_sessions h h' \<and> same_vehicles h h'"
  by (auto simp: auto_right_cargo_def Let_def frame_defs split: if_splits option.splits)

lemma auto_right_cargo_ok:
  "auto_right_cargo env i u now h = (h', es) \<Longrightarrow> cargo_ok h \<Longrightarrow> cargo_ok h'"
  by (auto simp: auto_right_cargo_def Let_def cargo_ok_def split: if_splits option.splits)

lemma cleanup_stale_cargo_frame:
  "cleanup_stale_cargo i t now h = (h', es) \<Longrightarrow> same_sessions h h' \<and> same_vehicles h h'"
  by (auto simp: cleanup_stale_cargo_def Let_def frame_defs split: if_splits option.splits)

lemma cleanup_stale_cargo_ok:
  "cleanup_stale_cargo i t now h = (h', es) \<Longrightarrow> cargo_ok h \<Longrightarrow> cargo_ok h'"
  by (auto simp: cleanup_stale_cargo_def Let_def cargo_ok_def split: if_splits option.splits)

lemma replenish_cargo_frame:
  "replenish_cargo env i t now h = Some (h', es) \<Longrightarrow> same_sessions h h' \<and> same_vehicles h h'"
  by (auto simp: replenish_cargo_def Let_def frame_defs split: if_splits option.splits)

lemma fresh_cargo_id_unused: "fresh_cargo_id fuel n m = Some (i, n') \<Longrightarrow> mget m i = None"
  by (induction fuel n m rule: fresh_cargo_id.induct) (auto split: if_splits)

lemma replenish_cargo_ok:
  "replenish_cargo env i t now h = Some (h', es) \<Longrightarrow> cargo_ok h \<Longrightarrow> cargo_ok h'"
  by (auto simp: replenish_cargo_def Let_def cargo_ok_def zero_cargo_def split: if_splits option.splits)

lemma cargo_claim_frame:
  "handle_cargo_claim cid i now h = Some (h', es) \<Longrightarrow> same_sessions h h' \<and> same_vehicles h h'"
  by (auto simp: handle_cargo_claim_def Let_def frame_defs split: if_splits option.splits)

lemma cargo_claim_ok:
  "handle_cargo_claim cid i now h = Some (h', es) \<Longrightarrow> cargo_ok h \<Longrightarrow> cargo_ok h'"
  by (auto simp: handle_cargo_claim_def Let_def cargo_ok_def split: if_splits option.splits)

lemma update_cargo_auto_right_ok:
  "cargo_ok h \<Longrightarrow> mget (cargo h) (cg_id s) \<noteq> None \<Longrightarrow> cargo_ok (snd (update_cargo_auto_right s touching now h))"
  by (auto simp: update_cargo_auto_right_def cargo_ok_def split: option.splits)

lemma update_cargo_replenishment_ok:
  "cargo_ok h \<Longrightarrow> mget (cargo h) (cg_id s) \<noteq> None \<Longrightarrow> cargo_ok (snd (update_cargo_replenishment env s now h))"
  by (auto simp: update_cargo_replenishment_def cargo_ok_def split: option.splits)

lemma update_cargo_auto_right_frame:
  "same_sessions h (snd (update_cargo_auto_right s touching now h)) \<and> same_vehicles h (snd (update_cargo_auto_right s touching now h))
   \<and> cargo (snd (update_cargo_auto_right s touching now h)) = cargo h"
  by (auto simp: update_cargo_auto_right_def frame_defs split: option.splits)

lemma update_cargo_replenishment_frame:
  "same_sessions h (snd (update_cargo_replenishment env s now h)) \<and> same_vehicles h (snd (update_cargo_replenishment env s now h))
   \<and> cargo (snd (update_cargo_replenishment env s now h)) = cargo h"
  by (auto simp: update_cargo_replenishment_def frame_defs split: option.splits)

lemma updated_cargo_fields [simp]:
  "cg_id (updated_cargo m q previous cid now) = cg_id previous" "cg_world (updated_cargo m q previous cid now) = cg_world previous"
  "cg_owner (updated_cargo m q previous cid now) = cid"
  by (cases q; simp add: updated_cargo_def)+

text \<open>An accepted update in one equation.\<close>

lemma cargo_update_inv:
  assumes "handle_cargo_update env cid m now h = Some (h', es)"
  obtains previous q h1 where "mget (cargo h) (cg_id (cu_state m)) = Some previous"
    and "presence_world h cid = Some (cg_world previous)" and "cg_owner previous = cid" and "cargo_numbers_ok (cu_state m)"
    and "normalize_quaternion (cg_qx (cu_state m)) (cg_qy (cu_state m)) (cg_qz (cu_state m)) (cg_qw (cu_state m)) = Some q"
    and "h1 = h\<lparr>cargo := mput (cg_id previous) (updated_cargo m q previous cid now) (cargo h),
            cargo_last_touched := touch_cargo (cg_id previous) (cu_touching m) now (cargo_last_touched h)\<rparr>"
    and "h' = snd (update_cargo_replenishment env (updated_cargo m q previous cid now) now
            (snd (update_cargo_auto_right (updated_cargo m q previous cid now) (cu_touching m) now h1)))"
  using assms that
  by (auto simp: handle_cargo_update_def Let_def split: if_splits option.splits prod.splits)

lemma cargo_update_frame:
  assumes "handle_cargo_update env cid m now h = Some (h', es)"
  shows "same_sessions h h' \<and> same_vehicles h h'"
proof (rule cargo_update_inv [OF assms], goal_cases)
  case (1 previous q h1)
  let ?s = "updated_cargo m q previous cid now"
  have "same_sessions h h1 \<and> same_vehicles h h1" by (simp add: 1(6) frame_defs)
  then show ?thesis
    unfolding 1(7) using update_cargo_auto_right_frame [of h1 ?s "cu_touching m" now]
      update_cargo_replenishment_frame [of "snd (update_cargo_auto_right ?s (cu_touching m) now h1)" env ?s now]
    by (simp add: frame_defs)
qed

lemma cargo_update_ok:
  assumes "handle_cargo_update env cid m now h = Some (h', es)" and ok: "cargo_ok h" and "cid \<noteq> ''''"
  shows "cargo_ok h'"
proof (rule cargo_update_inv [OF assms(1)], goal_cases)
  case (1 previous q h1)
  let ?s = "updated_cargo m q previous cid now"
  have i: "cg_id previous = cg_id (cu_state m)" using 1(1) ok by (simp add: cargo_ok_def)
  have "cargo_ok h1"
    using ok 1(1) i assms(3) by (auto simp: 1(6) cargo_ok_def touch_cargo_def split: option.splits)
  moreover have "mget (cargo h1) (cg_id ?s) \<noteq> None" by (simp add: 1(6))
  ultimately show ?thesis
    unfolding 1(7) using update_cargo_auto_right_frame [of h1 ?s "cu_touching m" now]
    by (intro update_cargo_replenishment_ok update_cargo_auto_right_ok) simp_all
qed

end
