(* ===== verification/Departures.thy ===== *)
theory Departures
  imports Upkeep
begin

text \<open>
  The invariant of the hub, \<open>hub_ok\<close>, and that leaving a world and passing a door keep it. Lemmas
  named \<open>_inv\<close> say what a handler's result is on each of its branches, lemmas named \<open>_ok\<close> that the
  invariant survives.
\<close>

section \<open>Names\<close>

definition names_ok :: "hub_env \<Rightarrow> hub \<Rightarrow> bool" where
  "names_ok env h \<longleftrightarrow> (\<forall>k i. mget (names h) k = Some i \<longrightarrow> i \<in> set (clients h)
     \<and> (\<exists>c. objects h i = Some c \<and> env_lower env (cl_name c) = k))"

lemma names_ok_frame: "same_sessions h h' \<Longrightarrow> names_ok env h \<Longrightarrow> names_ok env h'"
  by (simp add: same_sessions_def names_ok_def)

definition hub_ok :: "hub_env \<Rightarrow> hub \<Rightarrow> bool" where
  "hub_ok env h \<longleftrightarrow> clients_ok h \<and> rooms_ok h \<and> vehicles_ok h \<and> cargo_ok h \<and> grants_ok env h
     \<and> characters_active_ok h \<and> names_ok env h"

lemma hub_ok_vehicles:
  "same_sessions h h' \<Longrightarrow> same_cargo h h' \<Longrightarrow> vehicles_ok h' \<Longrightarrow> hub_ok env h \<Longrightarrow> hub_ok env h'"
  unfolding hub_ok_def
  by (blast intro: clients_ok_frame rooms_ok_frame cargo_ok_frame grants_ok_frame characters_active_ok_frame names_ok_frame)

lemma hub_ok_cargo:
  "same_sessions h h' \<Longrightarrow> same_vehicles h h' \<Longrightarrow> cargo_ok h' \<Longrightarrow> hub_ok env h \<Longrightarrow> hub_ok env h'"
  unfolding hub_ok_def
  by (blast intro: clients_ok_frame rooms_ok_frame vehicles_ok_frame grants_ok_frame characters_active_ok_frame names_ok_frame)

section \<open>Leaving a world\<close>

text \<open>The hub after a player's presence has been taken out of its world, up to the vehicles and the cargo.\<close>

definition without_presence :: "string \<Rightarrow> string \<Rightarrow> hub \<Rightarrow> hub \<Rightarrow> bool" where
  "without_presence cid world h h' \<longleftrightarrow> presences h' = (presences h)(cid := None)
     \<and> rooms h' = room_after_removal cid world h"

lemma without_presence_world:
  "without_presence cid w h h' \<Longrightarrow> presence_world h' i = (if i = cid then None else presence_world h i)"
  by (simp add: without_presence_def presence_world_def)

lemma without_presence_vehicle:
  "without_presence cid w h h' \<Longrightarrow> presence_vehicle h' i = (if i = cid then None else presence_vehicle h i)"
  by (simp add: without_presence_def presence_vehicle_def)

lemma set_del_Nil: "set_del x xs = [] \<longleftrightarrow> set xs \<subseteq> {x}"
  by (auto simp: set_del_def filter_empty_conv)

lemma in_room_after_removal:
  "rooms h' = room_after_removal cid w h \<Longrightarrow> in_room h' i v \<longleftrightarrow> in_room h i v \<and> \<not> (i = cid \<and> v = w)"
  by (auto simp: in_room_def room_after_removal_def set_del_Nil split: option.splits if_splits)

lemma room_after_removal_shape:
  assumes "rooms_ok h" and "room_after_removal cid w h v = Some r"
  shows "r \<noteq> [] \<and> distinct r"
proof (cases "v = w")
  case True
  then show ?thesis using assms by (auto simp: rooms_ok_def room_after_removal_def split: option.splits if_splits)
next
  case False
  then show ?thesis using assms by (auto simp: rooms_ok_def room_after_removal_def)
qed

lemma rooms_ok_without_presence:
  assumes "rooms_ok h" and "presence_world h cid = Some w" and "without_presence cid w h h'"
  shows "rooms_ok h'"
proof -
  have r: "rooms h' = room_after_removal cid w h" using assms(3) by (simp add: without_presence_def)
  have "in_room h' i v \<longleftrightarrow> presence_world h' i = Some v" for i v
    using assms(1,2) in_room_after_removal [OF r] without_presence_world [OF assms(3)]
    by (auto simp: rooms_ok_def)
  with room_after_removal_shape [OF assms(1), of cid w] show ?thesis
    by (simp add: rooms_ok_def r)
qed

text \<open>
  Vehicles when a presence goes: its forklift is released, and the stored state of its forklift is
  replaced by one without an owner or deleted.
\<close>

definition vehicle_left :: "string \<Rightarrow> string option \<Rightarrow> hub \<Rightarrow> hub \<Rightarrow> bool" where
  "vehicle_left cid v h h' \<longleftrightarrow> forklift_owners h' = forklift_owners (release_forklift cid v h)
     \<and> (forklifts h' = forklifts h \<and> v = None
        \<or> (\<exists>s. forklifts h' = mput (fk_id s) s (forklifts h) \<and> fk_owner s = '''' \<and> (mget (forklifts h) (the v) \<noteq> None \<longrightarrow> fk_id s = the v))
        \<or> forklifts h' = mdel (the v) (forklifts h))"

lemma vehicles_ok_left:
  assumes "vehicles_ok h" and "presence_vehicle h cid = v" and "vehicle_left cid v h h'" and "cid \<noteq> ''''"
    and others: "\<And>i. i \<noteq> cid \<Longrightarrow> presence_vehicle h' i = presence_vehicle h i"
  shows "vehicles_ok h'"
proof -
  have o: "forklift_owners h' f = (if v = Some f \<and> forklift_owners h f = Some cid then None else forklift_owners h f)" for f
    using assms(3) by (simp add: vehicle_left_def release_forklift_eq)
  have free: "forklift_owners h' f = Some p \<Longrightarrow> p \<noteq> cid \<and> forklift_owners h f = Some p" for f p
    using assms(1,2) o by (auto simp: vehicles_ok_def split: if_splits)
  have kept: "mget (forklifts h') f = Some s \<Longrightarrow> fk_owner s \<noteq> '''' \<Longrightarrow> mget (forklifts h) f = Some s \<and> Some f \<noteq> v" for f s
    using assms(1,3) by (auto simp: vehicles_ok_def vehicle_left_def split: if_splits)
  have ids: "mget (forklifts h') f = Some s \<Longrightarrow> fk_id s = f" for f s
    using assms(1,3) by (auto simp: vehicles_ok_def vehicle_left_def split: if_splits)
  have driven: "forklift_owners h' f = Some p \<Longrightarrow> presence_vehicle h' p = Some f" for f p
    using free [of f p] others [of p] assms(1) by (auto simp: vehicles_ok_def)
  have owned: "mget (forklifts h') f = Some s \<Longrightarrow> fk_owner s \<noteq> '''' \<Longrightarrow> forklift_owners h' f = Some (fk_owner s)" for f s
    using kept [of f s] o [of f] assms(1) by (auto simp: vehicles_ok_def)
  show ?thesis unfolding vehicles_ok_def using ids driven owned by blast
qed

lemma base_forklift_fields: "base_forklift env v now = Some s \<Longrightarrow> v = Some (fk_id s) \<and> fk_owner s = ''''"
  using initial_forklift_fields by (auto simp: base_forklift_def split: option.splits)

lemma reset_vehicle_fields [simp]:
  "clients (reset_vehicle env v now h) = clients h" "objects (reset_vehicle env v now h) = objects h"
  "names (reset_vehicle env v now h) = names h" "rooms (reset_vehicle env v now h) = rooms h"
  "presences (reset_vehicle env v now h) = presences h" "departed_worlds (reset_vehicle env v now h) = departed_worlds h"
  "transition_grants (reset_vehicle env v now h) = transition_grants h"
  "authorized_arrivals (reset_vehicle env v now h) = authorized_arrivals h"
  "active_characters (reset_vehicle env v now h) = active_characters h" "max_clients (reset_vehicle env v now h) = max_clients h"
  "forklift_owners (reset_vehicle env v now h) = forklift_owners h"
  "same_cargo h (reset_vehicle env v now h)"
  by (simp_all add: reset_vehicle_def same_cargo_def split: option.splits)

lemma reset_vehicle_left:
  "forklifts h' = forklifts (reset_vehicle env v now h) \<Longrightarrow> forklift_owners h' = forklift_owners (release_forklift cid v h) \<Longrightarrow>
   vehicle_left cid v h h'"
  by (auto simp: vehicle_left_def reset_vehicle_def dest: base_forklift_fields split: option.splits)

lemma drop_travel_fields [simp]:
  "clients (drop_travel cid keep h) = clients h" "objects (drop_travel cid keep h) = objects h"
  "names (drop_travel cid keep h) = names h" "rooms (drop_travel cid keep h) = rooms h"
  "presences (drop_travel cid keep h) = presences h" "departed_worlds (drop_travel cid keep h) = departed_worlds h"
  "active_characters (drop_travel cid keep h) = active_characters h" "max_clients (drop_travel cid keep h) = max_clients h"
  "transition_grants (drop_travel cid keep h) = (if keep then transition_grants h else (transition_grants h)(cid := None))"
  "authorized_arrivals (drop_travel cid keep h) = (if keep then authorized_arrivals h else (authorized_arrivals h)(cid := None))"
  "same_vehicles h (drop_travel cid keep h)" "same_cargo h (drop_travel cid keep h)"
  by (simp_all add: drop_travel_def frame_defs)

lemma leave_world_absent:
  "presences h cid = None \<Longrightarrow> leave_world env cid keep now now2 h = (False, drop_travel cid keep h, [])"
  by (simp add: leave_world_def lookup_presence_def Let_def)

lemma leave_world_present:
  assumes "presences h cid = Some p"
  shows "\<exists>es. leave_world env cid keep now now2 h = (True,
     snd (remove_from_room cid (ps_world (sp_state p)) (release_forklift cid (ps_vehicle (sp_state p))
       (reset_vehicle env (ps_vehicle (sp_state p)) now2 (snd (mark_client_cargo_for_release cid now
         ((drop_travel cid keep h)\<lparr>presences := (presences h)(cid := None),
            departed_worlds := (departed_worlds h)(cid \<mapsto> ps_world (sp_state p))\<rparr>)))))), es)"
  using assms by (simp add: leave_world_def lookup_presence_def Let_def split: prod.split)

text \<open>What leaving a world changes, field by field.\<close>

lemma leave_world_fields:
  assumes "leave_world env cid keep now now2 h = (left, h', es)"
  shows "clients h' = clients h" "objects h' = objects h" "names h' = names h"
    "active_characters h' = active_characters h" "max_clients h' = max_clients h"
    "transition_grants h' = (if keep then transition_grants h else (transition_grants h)(cid := None))"
    "authorized_arrivals h' = (if keep then authorized_arrivals h else (authorized_arrivals h)(cid := None))"
    "departed_worlds h' = (case presences h cid of None \<Rightarrow> departed_worlds h
       | Some p \<Rightarrow> (departed_worlds h)(cid \<mapsto> ps_world (sp_state p)))"
    "presences h' = (presences h)(cid := None)"
    "left \<longleftrightarrow> presences h cid \<noteq> None"
  using assms leave_world_absent [of h cid env keep now now2] leave_world_present [of h cid _ env keep now now2]
  by (cases "presences h cid"; fastforce simp: fun_upd_idem)+

lemma room_after_removal_cong: "rooms h = rooms h' \<Longrightarrow> room_after_removal cid w h = room_after_removal cid w h'"
  by (simp add: room_after_removal_def fun_eq_iff)

lemma reset_vehicle_cong:
  "forklifts h = forklifts h' \<Longrightarrow> forklifts (reset_vehicle env v now h) = forklifts (reset_vehicle env v now h')"
  by (simp add: reset_vehicle_def split: option.split)

lemma mark_client_cargo_cong:
  "same_cargo h h' \<Longrightarrow> same_cargo (snd (mark_client_cargo_for_release p t h)) (snd (mark_client_cargo_for_release p t h'))"
  by (simp add: same_cargo_def mark_client_cargo_for_release_def Let_def)

lemma same_cargo_refl: "same_cargo h h" and same_vehicles_refl: "same_vehicles h h"
  by (simp_all add: frame_defs)

lemma leave_world_parts:
  assumes "leave_world env cid keep now now2 h = (left, h', es)" and "presences h cid = Some p"
  shows "without_presence cid (ps_world (sp_state p)) h h'"
    "vehicle_left cid (ps_vehicle (sp_state p)) h h'"
    "same_cargo (snd (mark_client_cargo_for_release cid now h)) h'"
proof -
  define h1 where "h1 = (drop_travel cid keep h)\<lparr>presences := (presences h)(cid := None),
            departed_worlds := (departed_worlds h)(cid \<mapsto> ps_world (sp_state p))\<rparr>"
  define h2 where "h2 = snd (mark_client_cargo_for_release cid now h1)"
  have h': "h' = snd (remove_from_room cid (ps_world (sp_state p)) (release_forklift cid (ps_vehicle (sp_state p))
       (reset_vehicle env (ps_vehicle (sp_state p)) now2 h2)))"
    using leave_world_present [OF assms(2), of env keep now now2] assms(1) by (simp add: h1_def h2_def)
  have h1: "rooms h1 = rooms h" "forklift_owners h1 = forklift_owners h" "forklifts h1 = forklifts h" "same_cargo h h1"
    using drop_travel_fields(11,12) [of h cid keep] by (simp_all add: h1_def frame_defs)
  have h2: "rooms h2 = rooms h" "forklift_owners h2 = forklift_owners h" "forklifts h2 = forklifts h"
    "presences h2 = (presences h)(cid := None)"
    by (simp_all add: h2_def h1) (simp add: h1_def)
  show "without_presence cid (ps_world (sp_state p)) h h'"
    by (simp add: h' without_presence_def h2(4)) (rule room_after_removal_cong, simp add: h2)
  have "forklifts h' = forklifts (reset_vehicle env (ps_vehicle (sp_state p)) now2 h)"
    using reset_vehicle_cong [of h2 h env "ps_vehicle (sp_state p)" now2] by (simp add: h' h2)
  moreover have "forklift_owners h' = forklift_owners (release_forklift cid (ps_vehicle (sp_state p)) h)"
    by (simp add: h' h2 release_forklift_eq cong: if_cong)
  ultimately show "vehicle_left cid (ps_vehicle (sp_state p)) h h'" by (rule reset_vehicle_left)
  have "same_cargo h2 h'"
    using reset_vehicle_fields(12) [of h2 env "ps_vehicle (sp_state p)" now2] by (simp add: h' same_cargo_def)
  moreover have "same_cargo (snd (mark_client_cargo_for_release cid now h)) h2"
    unfolding h2_def by (rule mark_client_cargo_cong) (rule h1)
  ultimately show "same_cargo (snd (mark_client_cargo_for_release cid now h)) h'" by (simp add: same_cargo_def)
qed

lemma leave_world_ok:
  assumes "leave_world env cid keep now now2 h = (left, h', es)" and ok: "hub_ok env h"
  shows "hub_ok env h'"
proof (cases "presences h cid")
  case None
  then have h': "h' = drop_travel cid keep h" using assms(1) leave_world_absent by simp
  show ?thesis using ok
    unfolding h' hub_ok_def
    by (auto simp: drop_travel_def clients_ok_def rooms_ok_def in_room_def vehicles_ok_def cargo_ok_def grants_ok_def
        characters_active_ok_def names_ok_def presence_world_def presence_vehicle_def)
next
  case (Some p)
  note parts = leave_world_parts [OF assms(1) Some]
  note f = leave_world_fields [OF assms(1)]
  have cid: "cid \<in> set (clients h)" "cid \<noteq> ''''" using ok Some by (auto simp: hub_ok_def clients_ok_def)
  have w: "presence_world h cid = Some (ps_world (sp_state p))" by (simp add: presence_world_def Some)
  have v: "presence_vehicle h cid = ps_vehicle (sp_state p)" by (simp add: presence_vehicle_def Some)
  have "clients_ok h'" using ok cid Some by (auto simp: hub_ok_def clients_ok_def f)
  moreover have "rooms_ok h'" using ok w parts(1) by (auto simp: hub_ok_def intro: rooms_ok_without_presence)
  moreover have "vehicles_ok h'"
    using ok v parts(2) cid without_presence_vehicle [OF parts(1)]
    by - (rule vehicles_ok_left [of h cid _ h'], simp_all add: hub_ok_def)
  moreover have "cargo_ok h'"
    using ok cid cargo_ok_frame [OF parts(3)] mark_client_cargo_ok by (simp add: hub_ok_def)
  moreover have "grants_ok env h'" using ok by (auto simp: hub_ok_def grants_ok_def f)
  moreover have "characters_active_ok h'" using ok by (simp add: hub_ok_def characters_active_ok_def f)
  moreover have "names_ok env h'" using ok by (simp add: hub_ok_def names_ok_def f)
  ultimately show ?thesis by (simp add: hub_ok_def)
qed

section \<open>Doors\<close>

definition same_but_travel :: "hub \<Rightarrow> hub \<Rightarrow> bool" where
  "same_but_travel h h' \<longleftrightarrow> clients h' = clients h \<and> objects h' = objects h \<and> names h' = names h \<and> rooms h' = rooms h
     \<and> presences h' = presences h \<and> active_characters h' = active_characters h \<and> max_clients h' = max_clients h
     \<and> same_vehicles h h' \<and> same_cargo h h'"

lemma hub_ok_travel:
  assumes "same_but_travel h h'" and "hub_ok env h"
    and "dom (departed_worlds h') \<subseteq> set (clients h)" and "dom (transition_grants h') \<subseteq> set (clients h)"
    and "dom (authorized_arrivals h') \<subseteq> set (clients h)" and "grants_ok env h'"
  shows "hub_ok env h'"
  using assms
  by (simp add: same_but_travel_def frame_defs hub_ok_def clients_ok_def rooms_ok_def in_room_def vehicles_ok_def cargo_ok_def
      characters_active_ok_def names_ok_def presence_world_def presence_vehicle_def)

text \<open>What a granted request established.\<close>

lemma judge_granted:
  "judge_request env cid q game_ms h = Granted r \<Longrightarrow>
     catalog_rule (env_access env) (tq_transition q) = Some r \<and> tq_source q = src_world (rule_source r)
   \<and> tq_destination q = dst_world (rule_destination r) \<and> is_rule_open (env_access env) r (from_unix_milli game_ms)
   \<and> (\<exists>p. lookup_presence h cid = Some p \<and> ps_world p = src_world (rule_source r) \<and> ps_vehicle p = None
        \<and> within_range r (ps_x p) (ps_z p))"
  by (auto simp: judge_request_def Let_def split: if_splits option.splits)

lemma lookup_set_grant [simp]: "lookup_presence (set_transition_grant i g h) = lookup_presence h"
  by (simp add: set_transition_grant_def lookup_presence_def fun_eq_iff)

lemma set_set_grant [simp]: "set_transition_grant i g (set_transition_grant i g' h) = set_transition_grant i g h"
  by (simp add: set_transition_grant_def)

lemma judge_set_grant [simp]: "judge_request env cid q ms (set_transition_grant i g h) = judge_request env cid q ms h"
  by (simp only: judge_request_def lookup_set_grant)

lemma transition_request_inv:
  assumes "handle_transition_request env cid q server_ms game_ms random now h = Some (h', es)"
  obtains g where "cid \<in> set (clients h)" and "h' = set_transition_grant cid g h"
    and "g = None \<or> (\<exists>r a. judge_request env cid q game_ms h = Granted r \<and> random = Some a
      \<and> g = Some \<lparr>tg_request = tq_request q, tg_authorization = a, tg_rule = r, tg_expires = now + authorization_lifetime r\<rparr>)"
  using assms that
  by (auto simp: handle_transition_request_def Let_def split: if_splits option.splits verdict.splits)

lemma set_transition_grant_travel: "same_but_travel h (set_transition_grant cid g h)"
  by (simp add: same_but_travel_def frame_defs set_transition_grant_def)

lemma reserve_arrival_travel: "same_but_travel h (reserve_arrival cid g h)"
  by (simp add: same_but_travel_def frame_defs set_transition_grant_def reserve_arrival_def)

lemma set_transition_grant_ok:
  assumes "hub_ok env h" and "cid \<in> set (clients h)" and "\<And>a. g = Some a \<Longrightarrow> \<exists>t. catalog_rule (env_access env) t = Some (tg_rule a)"
  shows "hub_ok env (set_transition_grant cid g h)"
  using assms
  by - (rule hub_ok_travel [OF set_transition_grant_travel],
      auto simp: hub_ok_def clients_ok_def grants_ok_def set_transition_grant_def)

lemma reserve_arrival_ok:
  assumes "hub_ok env h" and "cid \<in> set (clients h)"
  shows "hub_ok env (reserve_arrival cid g h)"
  using assms
  by - (rule hub_ok_travel [OF reserve_arrival_travel],
      auto simp: hub_ok_def clients_ok_def grants_ok_def set_transition_grant_def reserve_arrival_def)

lemma transition_request_ok:
  assumes "handle_transition_request env cid q server_ms game_ms random now h = Some (h', es)" and ok: "hub_ok env h"
  shows "hub_ok env h'"
  by (rule transition_request_inv [OF assms(1)]) (force intro!: set_transition_grant_ok [OF ok] dest!: judge_granted)

text \<open>The four outcomes of the first half of a commit.\<close>

lemma transition_commit_begin_inv:
  assumes "transition_commit_begin cid c now h = Some ((h', es), left)"
  obtains (refused) "cid \<in> set (clients h)" "h' = h" "left = None"
    | (void) "cid \<in> set (clients h)" "h' = set_transition_grant cid None h" "left = None"
    | (accepted) g where "cid \<in> set (clients h)" "h' = reserve_arrival cid g h" "left = Some g"
        "transition_grants h cid = Some g" "grant_matches g c" "commit_obstacle cid g now h = None"
proof (cases "transition_grants h cid")
  case None
  with assms show ?thesis by (auto simp: transition_commit_begin_def split: if_splits intro: that(1))
next
  case (Some g)
  show ?thesis
  proof (cases "grant_matches g c")
    case False
    with assms Some show ?thesis by (auto simp: transition_commit_begin_def split: if_splits intro: that(1))
  next
    case True
    with assms Some show ?thesis
      by (cases "commit_obstacle cid g now h")
        (auto simp: transition_commit_begin_def split: if_splits intro: that(2,3))
  qed
qed

lemma transition_commit_begin_ok:
  assumes "transition_commit_begin cid c now h = Some ((h', es), g)" and ok: "hub_ok env h"
  shows "hub_ok env h'"
  using assms(1) by (cases rule: transition_commit_begin_inv) (use ok in \<open>auto intro!: set_transition_grant_ok reserve_arrival_ok\<close>)

lemma transition_commit_finish_ok:
  assumes "transition_commit_finish env cid c g now now2 h = (h', es)" and ok: "hub_ok env h"
  shows "hub_ok env h'"
proof -
  obtain left h1 es1 where l: "leave_world env cid True now now2 h = (left, h1, es1)" by (metis surj_pair)
  have h1: "hub_ok env h1" by (rule leave_world_ok [OF l ok])
  have h': "h' = (if left then h1 else h1\<lparr>authorized_arrivals := (authorized_arrivals h1)(cid := None)\<rparr>)"
    using assms(1) l by (auto simp: transition_commit_finish_def Let_def split: bool.splits)
  have "same_but_travel h1 (h1\<lparr>authorized_arrivals := (authorized_arrivals h1)(cid := None)\<rparr>)"
    by (simp add: same_but_travel_def frame_defs)
  then have "hub_ok env (h1\<lparr>authorized_arrivals := (authorized_arrivals h1)(cid := None)\<rparr>)"
    using h1 by - (rule hub_ok_travel, auto simp: hub_ok_def clients_ok_def grants_ok_def)
  with h1 show ?thesis by (simp add: h')
qed

end
