(* ===== verification/PresenceUpkeep.thy ===== *)
theory PresenceUpkeep
  imports Departures
begin

text \<open>
  Presence reports, registration and disconnects keep the invariant of the hub. \<open>accepted_presence\<close>,
  \<open>register_inv\<close> and \<open>unregister_fields\<close> give the fields of the resulting hub.
\<close>

section \<open>Admission\<close>

lemma allow_controlled_travel:
  "allow_controlled env cid w h = (b, h') \<Longrightarrow> same_but_travel h h' \<and> departed_worlds h' \<subseteq>\<^sub>m departed_worlds h
   \<and> transition_grants h' \<subseteq>\<^sub>m transition_grants h \<and> authorized_arrivals h' \<subseteq>\<^sub>m authorized_arrivals h"
  by (auto simp: allow_controlled_def Let_def drop_departed_def set_transition_grant_def same_but_travel_def frame_defs
      map_le_def split: if_splits option.splits)

lemma allow_presence_travel:
  assumes "allow_presence_destination env cid w h = (b, h')"
  shows "same_but_travel h h' \<and> departed_worlds h' \<subseteq>\<^sub>m departed_worlds h
    \<and> transition_grants h' \<subseteq>\<^sub>m transition_grants h \<and> authorized_arrivals h' \<subseteq>\<^sub>m authorized_arrivals h"
proof -
  define d where "d = h\<lparr>authorized_arrivals := (authorized_arrivals h)(cid := None)\<rparr>"
  have d: "same_but_travel h d \<and> departed_worlds d = departed_worlds h \<and> transition_grants d = transition_grants h
      \<and> authorized_arrivals d \<subseteq>\<^sub>m authorized_arrivals h"
    by (simp add: d_def same_but_travel_def frame_defs map_le_def)
  have trans: "same_but_travel h d \<Longrightarrow> same_but_travel d h' \<Longrightarrow> same_but_travel h h'"
    by (simp add: same_but_travel_def frame_defs)
  show ?thesis
  proof (cases "authorized_arrivals h cid")
    case None
    with assms allow_controlled_travel [of env cid w h] show ?thesis by (simp add: allow_presence_destination_def)
  next
    case (Some a)
    consider "w = aa_destination a" | "w \<noteq> aa_destination a" "w = aa_source a" | "w \<noteq> aa_destination a" "w \<noteq> aa_source a" by blast
    then show ?thesis
    proof cases
      case 3
      with assms Some have "allow_controlled env cid w d = (b, h')"
        by (simp add: allow_presence_destination_def Let_def d_def)
      from allow_controlled_travel [OF this] d trans show ?thesis by (auto intro: map_le_trans)
    qed (use assms Some in \<open>auto simp: allow_presence_destination_def Let_def drop_departed_def same_but_travel_def frame_defs map_le_def split: if_splits\<close>)
  qed
qed

lemma allow_presence_ok:
  assumes "allow_presence_destination env cid w h = (b, h')" and ok: "hub_ok env h"
  shows "hub_ok env h'"
proof -
  note t = allow_presence_travel [OF assms(1)]
  have "dom (departed_worlds h') \<subseteq> set (clients h)" "dom (transition_grants h') \<subseteq> set (clients h)"
    "dom (authorized_arrivals h') \<subseteq> set (clients h)"
    using t ok unfolding hub_ok_def clients_ok_def by (meson map_le_implies_dom_le subset_trans)+
  moreover have "grants_ok env h'"
    using t ok unfolding hub_ok_def grants_ok_def map_le_def by (metis domI)
  ultimately show ?thesis using t ok by - (rule hub_ok_travel, simp_all)
qed

section \<open>Presence reports\<close>

lemma update_object_fields [simp]:
  "clients (update_object i f h) = clients h" "names (update_object i f h) = names h" "rooms (update_object i f h) = rooms h"
  "presences (update_object i f h) = presences h" "departed_worlds (update_object i f h) = departed_worlds h"
  "transition_grants (update_object i f h) = transition_grants h" "authorized_arrivals (update_object i f h) = authorized_arrivals h"
  "active_characters (update_object i f h) = active_characters h" "max_clients (update_object i f h) = max_clients h"
  "forklift_owners (update_object i f h) = forklift_owners h" "forklifts (update_object i f h) = forklifts h"
  "cargo (update_object i f h) = cargo h" "cargo_spawns (update_object i f h) = cargo_spawns h"
  "cargo_away_since (update_object i f h) = cargo_away_since h" "cargo_untouched (update_object i f h) = cargo_untouched h"
  "cargo_last_touched (update_object i f h) = cargo_last_touched h" "cargo_replaced (update_object i f h) = cargo_replaced h"
  "objects (update_object i f h) = (\<lambda>j. if j = i then map_option f (objects h i) else objects h j)"
  by (auto simp: update_object_def fun_eq_iff split: option.split)

lemma release_previous_vehicle_frame [simp]:
  "same_sessions h (snd (release_previous_vehicle cid previous vehicle now h))"
  "same_cargo h (snd (release_previous_vehicle cid previous vehicle now h))"
  by (auto simp: release_previous_vehicle_def frame_defs Let_def split: option.split)

lemma enter_vehicle_frame [simp]:
  "same_sessions h (enter_vehicle cid m vehicle q now h)" "same_cargo h (enter_vehicle cid m vehicle q now h)"
  by (auto simp: enter_vehicle_def frame_defs Let_def split: option.split)

definition same_identity :: "client \<Rightarrow> client \<Rightarrow> bool" where
  "same_identity c c' \<longleftrightarrow> cl_name c' = cl_name c \<and> cl_persistent c' = cl_persistent c \<and> cl_character c' = cl_character c
     \<and> cl_initial_world c' = cl_initial_world c"

lemma mark_location_identity [simp]: "same_identity c (mark_location l c)"
  by (simp add: mark_location_def same_identity_def Let_def)

lemma announce_fields [simp]:
  "clients (announce i m h) = clients h" "names (announce i m h) = names h" "rooms (announce i m h) = rooms h"
  "presences (announce i m h) = presences h" "departed_worlds (announce i m h) = departed_worlds h"
  "transition_grants (announce i m h) = transition_grants h" "authorized_arrivals (announce i m h) = authorized_arrivals h"
  "active_characters (announce i m h) = active_characters h" "max_clients (announce i m h) = max_clients h"
  "same_vehicles h (announce i m h)" "same_cargo h (announce i m h)"
  by (simp_all add: announce_def frame_defs)

lemma note_location_fields [simp]:
  "clients (note_location i m v h) = clients h" "names (note_location i m v h) = names h" "rooms (note_location i m v h) = rooms h"
  "presences (note_location i m v h) = presences h" "departed_worlds (note_location i m v h) = departed_worlds h"
  "transition_grants (note_location i m v h) = transition_grants h" "authorized_arrivals (note_location i m v h) = authorized_arrivals h"
  "active_characters (note_location i m v h) = active_characters h" "max_clients (note_location i m v h) = max_clients h"
  "same_vehicles h (note_location i m v h)" "same_cargo h (note_location i m v h)"
  by (simp_all add: note_location_def frame_defs)

definition same_identities :: "hub \<Rightarrow> hub \<Rightarrow> bool" where
  "same_identities h h' \<longleftrightarrow> (\<forall>i c. objects h i = Some c \<longrightarrow> (\<exists>c'. objects h' i = Some c' \<and> same_identity c c'))"

lemma same_identities_refl: "objects h' = objects h \<Longrightarrow> same_identities h h'"
  by (auto simp: same_identities_def same_identity_def)

lemma same_identity_trans: "same_identity c c' \<Longrightarrow> same_identity c' c'' \<Longrightarrow> same_identity c c''"
  by (simp add: same_identity_def)

lemma same_identities_trans: "same_identities h h1 \<Longrightarrow> same_identities h1 h2 \<Longrightarrow> same_identities h h2"
  unfolding same_identities_def by (meson same_identity_trans)

lemma announce_identities: "same_identities h (announce i m h)"
  by (auto simp: announce_def same_identities_def same_identity_def)

lemma note_location_identities: "same_identities h (note_location i m v h)"
  using mark_location_identity by (cases v) (auto simp: note_location_def same_identities_def, auto simp: same_identity_def)

lemma same_identities_characters:
  assumes "same_identities h h'" "active_characters h' = active_characters h" "clients h' = clients h" "characters_active_ok h"
  shows "characters_active_ok h'"
  using assms unfolding same_identities_def same_identity_def characters_active_ok_def by metis

lemma same_identities_names:
  assumes "same_identities h h'" "names h' = names h" "clients h' = clients h" "names_ok env h"
  shows "names_ok env h'"
  using assms unfolding same_identities_def same_identity_def names_ok_def by metis

lemma same_identities_clients:
  assumes "same_identities h h'" "clients h' = clients h" "clients_ok h" "dom (presences h') \<subseteq> set (clients h)"
    "dom (departed_worlds h') \<subseteq> set (clients h)" "dom (transition_grants h') \<subseteq> set (clients h)"
    "dom (authorized_arrivals h') \<subseteq> set (clients h)"
  shows "clients_ok h'"
  using assms unfolding same_identities_def clients_ok_def by (metis not_Some_eq)

lemma join_room_fields [simp]:
  "clients (join_room i w h) = clients h" "objects (join_room i w h) = objects h" "names (join_room i w h) = names h"
  "presences (join_room i w h) = presences h" "departed_worlds (join_room i w h) = departed_worlds h"
  "transition_grants (join_room i w h) = transition_grants h" "authorized_arrivals (join_room i w h) = authorized_arrivals h"
  "active_characters (join_room i w h) = active_characters h" "max_clients (join_room i w h) = max_clients h"
  "same_vehicles h (join_room i w h)" "same_cargo h (join_room i w h)"
  by (simp_all add: join_room_def frame_defs)

lemma in_room_join: "in_room (join_room i w h) j v \<longleftrightarrow> in_room h j v \<or> (j = i \<and> v = w)"
  by (cases "rooms h w") (auto simp: join_room_def in_room_def)

lemma change_room_fields:
  assumes "change_room cid m previous now h = (released, old, h')"
  shows "clients h' = clients h" "objects h' = objects h" "names h' = names h" "presences h' = presences h"
    "departed_worlds h' = departed_worlds h" "transition_grants h' = transition_grants h"
    "authorized_arrivals h' = authorized_arrivals h" "active_characters h' = active_characters h"
    "max_clients h' = max_clients h" "same_vehicles h h'"
    "same_cargo (if room_changed previous m then snd (mark_client_cargo_for_release cid now h) else h) h'"
  using assms
  by (auto simp: change_room_def frame_defs join_room_def room_changed_def remove_from_room_def Let_def
      mark_client_cargo_for_release_def split: prod.splits if_splits option.splits)

text \<open>The rooms after a report, with the previous state of the player.\<close>

lemma change_room_in_room:
  assumes "change_room cid m previous now h = (released, old, h')" and "previous = None \<Longrightarrow> \<not> in_room h cid v"
    and "\<And>p. previous = Some p \<Longrightarrow> in_room h cid v \<longleftrightarrow> ps_world p = v"
  shows "in_room h' i v \<longleftrightarrow> (if i = cid then v = pm_world m else in_room h i v)"
proof (cases "room_changed previous m")
  case True
  then obtain p where p: "previous = Some p" "ps_world p \<noteq> pm_world m" by (auto simp: room_changed_def split: option.splits)
  obtain h2 where h2: "h2 = snd (remove_from_room cid (ps_world p) (snd (mark_client_cargo_for_release cid now h)))" by blast
  have "rooms h2 = room_after_removal cid (ps_world p) h" unfolding h2 by (simp, rule room_after_removal_cong, simp)
  from in_room_after_removal [OF this] have "in_room h2 i v \<longleftrightarrow> in_room h i v \<and> \<not> (i = cid \<and> v = ps_world p)" .
  moreover have "h' = join_room cid (pm_world m) h2"
    using assms(1) True p by (auto simp: change_room_def h2 split: prod.splits)
  ultimately show ?thesis using assms(3) [OF p(1)] by (auto simp: in_room_join)
next
  case False
  then have "h' = (if previous = None then join_room cid (pm_world m) h else h)" using assms(1) by (simp add: change_room_def)
  then show ?thesis using assms(2,3) False by (cases previous) (auto simp: in_room_join room_changed_def)
qed

text \<open>Changing vehicles: the owner relation follows the vehicle that the new presence will show.\<close>

lemma release_previous_vehicle_owners:
  assumes "release_previous_vehicle cid (map_option sp_state (presences h cid)) vehicle now h = (released, h2)"
    and ok: "vehicles_ok h" and "cid \<noteq> ''''"
  shows "forklift_owners h2 f = Some p \<Longrightarrow> forklift_owners h f = Some p \<and> (p = cid \<longrightarrow> vehicle = Some f)"
    and "mget (forklifts h2) f = Some s \<Longrightarrow> fk_id s = f \<and> (fk_owner s \<noteq> '''' \<longrightarrow> forklift_owners h2 f = Some (fk_owner s))"
proof -
  have driven: "forklift_owners h f = Some p \<Longrightarrow> presence_vehicle h p = Some f" for f p
    using ok by (simp add: vehicles_ok_def)
  have stored: "mget (forklifts h) f = Some s \<Longrightarrow> fk_id s = f \<and> (fk_owner s \<noteq> '''' \<longrightarrow> forklift_owners h f = Some (fk_owner s))" for f s
    using ok by (simp add: vehicles_ok_def)
  show "forklift_owners h2 f = Some p \<Longrightarrow> forklift_owners h f = Some p \<and> (p = cid \<longrightarrow> vehicle = Some f)"
    using assms(1) driven [of f p]
    by (auto simp: release_previous_vehicle_def release_forklift_eq Let_def presence_vehicle_def split: option.splits if_splits)
  show "mget (forklifts h2) f = Some s \<Longrightarrow> fk_id s = f \<and> (fk_owner s \<noteq> '''' \<longrightarrow> forklift_owners h2 f = Some (fk_owner s))"
    using assms(1,3) stored [of f] stored
    by (auto simp: release_previous_vehicle_def release_forklift_eq Let_def split: option.splits if_splits)
qed

lemma change_vehicle_vehicles:
  assumes "change_vehicle cid m (map_option sp_state (presences h cid)) vehicle q now h = (released, h1)"
    and "vehicles_ok h" and "cid \<noteq> ''''" and "same_vehicles h1 h'"
    and pv: "\<And>i. presence_vehicle h' i = (if i = cid then vehicle else presence_vehicle h i)"
  shows "vehicles_ok h'"
proof -
  obtain h2 where h2: "release_previous_vehicle cid (map_option sp_state (presences h cid)) vehicle now h = (released, h2)"
    and h1: "h1 = enter_vehicle cid m vehicle q now h2"
    using assms(1) by (auto simp: change_vehicle_def split: prod.splits)
  note r = release_previous_vehicle_owners [OF h2 assms(2,3)]
  have owners: "forklift_owners h' f = (if vehicle = Some f then Some cid else forklift_owners h2 f)" for f
    using assms(4) by (auto simp: h1 enter_vehicle_def same_vehicles_def Let_def split: option.split)
  have "forklift_owners h' f = Some p \<Longrightarrow> presence_vehicle h' p = Some f" for f p
    using r(1) [of f p] assms(2) by (auto simp: owners pv vehicles_ok_def split: if_splits)
  moreover have "mget (forklifts h') f = Some s \<Longrightarrow> fk_id s = f \<and> (fk_owner s \<noteq> '''' \<longrightarrow> forklift_owners h' f = Some (fk_owner s))" for f s
    using r(2) [of f s] assms(4)
    by (auto simp: owners h1 enter_vehicle_def same_vehicles_def Let_def split: option.splits if_splits)
  ultimately show ?thesis by (simp add: vehicles_ok_def)
qed

lemma check_presence_inv:
  assumes "check_presence env cid m h = Some (c, animation, vehicle, q)"
  obtains wanted orientation where "cid \<in> set (clients h)" and "objects h cid = Some c" and "validate_presence env m = Some animation"
    and "\<not> stale_report (map_option sp_state (presences h cid)) m animation"
    and "normalize_vehicle_presence env m = Some (wanted, orientation)" and "vehicle = granted_vehicle h cid (pm_world m) wanted"
  using assms that by (auto simp: check_presence_def Let_def split: if_splits option.splits)

text \<open>The three outcomes of a presence report; the last one with every field of the resulting hub.\<close>

lemma handle_presence_inv:
  assumes "handle_presence env cid m now h = (accepted, h', es)"
  obtains (unchanged) "\<not> accepted" "h' = h"
    | (refused) "\<not> accepted" "cid \<in> set (clients h)" "pm_world m \<in> set valid_worlds"
        "allow_presence_destination env cid (pm_world m) h = (False, h')"
    | (stored) c animation vehicle q h1 released h2 released_cargo old h3
      where accepted "check_presence env cid m h = Some (c, animation, vehicle, q)"
        "allow_presence_destination env cid (pm_world m) h = (True, h1)"
        "change_vehicle cid m (map_option sp_state (presences h cid)) vehicle q now h1 = (released, h2)"
        "change_room cid m (map_option sp_state (presences h cid)) now (announce cid m h2) = (released_cargo, old, h3)"
        "h' = note_location cid m vehicle (h3\<lparr>presences := (presences h3)(cid \<mapsto>
           \<lparr>sp_state = reported_state cid c m animation vehicle q now,
            sp_animation_started = animation_start (presences h cid) m animation now\<rparr>)\<rparr>)"
proof (cases "check_presence env cid m h")
  case None
  with assms show ?thesis by (intro unchanged) (simp_all add: handle_presence_def)
next
  case (Some r)
  obtain c animation vehicle q where r: "r = (c, animation, vehicle, q)" by (cases r)
  obtain ok h1 where a: "allow_presence_destination env cid (pm_world m) h = (ok, h1)" by (cases "allow_presence_destination env cid (pm_world m) h")
  show ?thesis
  proof (cases ok)
    case False
    obtain wanted orientation where "cid \<in> set (clients h)" "validate_presence env m = Some animation"
      by (rule check_presence_inv [OF Some [unfolded r]])
    with assms Some r a False show ?thesis
      by (intro refused) (auto simp: handle_presence_def Let_def validate_presence_def split: if_splits)
  next
    case True
    obtain released h2 where cv: "change_vehicle cid m (map_option sp_state (presences h cid)) vehicle q now h1 = (released, h2)"
      by (metis surj_pair)
    obtain cargo old h3 where cr: "change_room cid m (map_option sp_state (presences h cid)) now (announce cid m h2) = (cargo, old, h3)"
      by (metis prod_cases3)
    show ?thesis
      by (rule stored [OF _ _ _ cv cr])
        (use assms Some r a True cv cr in \<open>auto simp: handle_presence_def Let_def\<close>)
  qed
qed

lemma change_vehicle_frame:
  "change_vehicle cid m previous vehicle q now h = (released, h') \<Longrightarrow> same_sessions h h' \<and> same_cargo h h'"
  using release_previous_vehicle_frame [of h cid previous vehicle now]
    enter_vehicle_frame [of "snd (release_previous_vehicle cid previous vehicle now h)" cid m vehicle q now]
  by (auto simp: change_vehicle_def frame_defs split: prod.splits)

text \<open>What an accepted report leaves behind.\<close>

lemma accepted_presence:
  assumes "handle_presence env cid m now h = (True, h', es)"
  obtains c animation vehicle q h1 h2 where
    "check_presence env cid m h = Some (c, animation, vehicle, q)"
    "allow_presence_destination env cid (pm_world m) h = (True, h1)"
    "\<exists>released. change_vehicle cid m (map_option sp_state (presences h cid)) vehicle q now h1 = (released, h2)"
    "clients h' = clients h" "same_identities h h'" "names h' = names h" "active_characters h' = active_characters h"
    "max_clients h' = max_clients h"
    "departed_worlds h' = departed_worlds h1" "transition_grants h' = transition_grants h1"
    "authorized_arrivals h' = authorized_arrivals h1" "same_vehicles h2 h'"
    "same_cargo (if room_changed (map_option sp_state (presences h cid)) m
       then snd (mark_client_cargo_for_release cid now h) else h) h'"
    "presences h' = (presences h)(cid \<mapsto> \<lparr>sp_state = reported_state cid c m animation vehicle q now,
            sp_animation_started = animation_start (presences h cid) m animation now\<rparr>)"
proof (cases rule: handle_presence_inv [OF assms, case_names unchanged refused stored])
  case (stored c animation vehicle q h1 released h2 released_cargo old h3)
  note a = allow_presence_travel [OF stored(3)]
  note v = change_vehicle_frame [OF stored(4)]
  note r = change_room_fields [OF stored(5)]
  have id: "same_identities h h'"
  proof -
    have "same_identities h h2" using a v by (intro same_identities_refl) (simp add: same_but_travel_def same_sessions_def)
    moreover have "same_identities h2 (announce cid m h2)" by (rule announce_identities)
    moreover have "same_identities (announce cid m h2) (h3\<lparr>presences := p\<rparr>)" for p
      by (intro same_identities_refl) (simp add: r)
    ultimately show ?thesis using note_location_identities stored(6) by (meson same_identities_trans)
  qed
  have "same_cargo h h1" "same_cargo h1 h2" "same_cargo h2 (announce cid m h2)" using a v by (auto simp: same_but_travel_def)
  then have ca: "same_cargo h (announce cid m h2)" by (simp add: same_cargo_def)
  let ?c = "room_changed (map_option sp_state (presences h cid)) m"
  have "same_cargo (if ?c then snd (mark_client_cargo_for_release cid now h) else h)
      (if ?c then snd (mark_client_cargo_for_release cid now (announce cid m h2)) else announce cid m h2)"
    using ca mark_client_cargo_cong [OF ca] by simp
  then have "same_cargo (if ?c then snd (mark_client_cargo_for_release cid now h) else h) h3"
    using r(11) by (simp add: same_cargo_def)
  then have c: "same_cargo (if ?c then snd (mark_client_cargo_for_release cid now h) else h) h'"
    using note_location_fields(11) [of "h3\<lparr>presences := p\<rparr>" cid m vehicle for p] unfolding stored(6)
    by (simp add: same_cargo_def)
  have sv: "same_vehicles h2 h'"
    using announce_fields(10) [of h2 cid m] r(10) note_location_fields(10) [of "h3\<lparr>presences := p\<rparr>" cid m vehicle for p]
    unfolding stored(6) by (simp add: same_vehicles_def)
  show ?thesis
    by (rule that [OF stored(2,3) _ _ id _ _ _ _ _ _ sv c])
      (use a v stored(4) r in \<open>simp_all add: stored(6) same_but_travel_def same_sessions_def\<close>)
qed simp_all

lemma join_room_shape:
  assumes "\<And>v r. rooms h v = Some r \<Longrightarrow> r \<noteq> [] \<and> distinct r"
  shows "rooms (join_room i w h) v = Some r \<Longrightarrow> r \<noteq> [] \<and> distinct r"
  using assms [of v] assms [of w]
  by (cases "rooms h w") (auto simp: join_room_def set_add_def split: if_splits)

lemma change_room_shape:
  assumes "change_room cid m previous now h = (released, old, h')" and "rooms_ok h" and "rooms h' v = Some r"
  shows "r \<noteq> [] \<and> distinct r"
proof -
  have shape: "\<And>v r. rooms h v = Some r \<Longrightarrow> r \<noteq> [] \<and> distinct r" using assms(2) by (simp add: rooms_ok_def)
  show ?thesis
  proof (cases "room_changed previous m")
    case True
    let ?h2 = "snd (remove_from_room cid (ps_world (the previous)) (snd (mark_client_cargo_for_release cid now h)))"
    have "rooms ?h2 = room_after_removal cid (ps_world (the previous)) h" by (simp, rule room_after_removal_cong, simp)
    then have "rooms ?h2 v = Some r \<Longrightarrow> r \<noteq> [] \<and> distinct r" for v r using room_after_removal_shape [OF assms(2)] by simp
    moreover have "h' = join_room cid (pm_world m) ?h2" using assms(1) True by (auto simp: change_room_def split: prod.splits)
    ultimately show ?thesis using join_room_shape [of ?h2 cid "pm_world m" v r] assms(3) by blast
  next
    case False
    then have h': "h' = (if previous = None then join_room cid (pm_world m) h else h)" using assms(1) by (simp add: change_room_def)
    show ?thesis using join_room_shape [OF shape, where i = cid and w = "pm_world m" and v = v and r = r] shape [of v r] assms(3) unfolding h' by (cases previous) auto
  qed
qed

lemma reported_state_fields [simp]:
  "ps_world (reported_state cid c m animation vehicle q now) = pm_world m"
  "ps_vehicle (reported_state cid c m animation vehicle q now) = vehicle"
  "ps_sequence (reported_state cid c m animation vehicle q now) = pm_sequence m"
  "ps_animation (reported_state cid c m animation vehicle q now) = animation"
  "ps_animation_revision (reported_state cid c m animation vehicle q now) = pm_animation_revision m"
  "ps_name (reported_state cid c m animation vehicle q now) = cl_name c"
  "ps_id (reported_state cid c m animation vehicle q now) = cid"
  by (cases q; simp add: reported_state_def)+

lemma presence_rooms:
  assumes p: "handle_presence env cid m now h = (True, h', es)" and ok: "rooms_ok h"
  shows "rooms_ok h'"
proof (cases rule: handle_presence_inv [OF p, case_names unchanged refused stored])
  case (stored c animation vehicle q h1 released h2 released_cargo old h3)
  note a = allow_presence_travel [OF stored(3)]
  note v = change_vehicle_frame [OF stored(4)]
  let ?g = "announce cid m h2"
  have rooms: "rooms ?g = rooms h" and pres: "presences ?g = presences h" using a v by (simp_all add: same_but_travel_def same_sessions_def)
  then have okg: "rooms_ok ?g" using ok by (simp add: rooms_ok_def in_room_def presence_world_def)
  have "in_room ?g i v \<longleftrightarrow> presence_world h i = Some v" for i v using ok rooms by (simp add: rooms_ok_def in_room_def)
  then have in3: "in_room h3 i v \<longleftrightarrow> (if i = cid then v = pm_world m else presence_world h i = Some v)" for i v
    using change_room_in_room [OF stored(5), of v i] by (cases "presences h cid") (simp_all add: presence_world_def)
  have "rooms h' = rooms h3" by (simp add: stored(6))
  moreover have "presence_world h' i = (if i = cid then Some (pm_world m) else presence_world h i)" for i
    using change_room_fields(4) [OF stored(5)] pres by (simp add: presence_world_def stored(6))
  ultimately show ?thesis
    using change_room_shape [OF stored(5) okg] in3 by (auto simp: rooms_ok_def in_room_def)
qed simp_all

lemma handle_presence_ok:
  assumes p: "handle_presence env cid m now h = (accepted, h', es)" and ok: "hub_ok env h"
  shows "hub_ok env h'"
proof (cases accepted)
  case False
  then show ?thesis using handle_presence_inv [OF p] ok allow_presence_ok by metis
next
  case True
  have p: "handle_presence env cid m now h = (True, h', es)" using p True by simp
  show ?thesis
  proof (rule accepted_presence [OF p], goal_cases)
    case (1 c animation vehicle q h1 h2)
    obtain released where cv: "change_vehicle cid m (map_option sp_state (presences h cid)) vehicle q now h1 = (released, h2)"
      using 1(3) by blast
    have cid: "cid \<in> set (clients h)" by (rule check_presence_inv [OF 1(1)])
    have ne: "cid \<noteq> ''''" using cid ok by (simp add: hub_ok_def clients_ok_def)
    have ok1: "hub_ok env h1" by (rule allow_presence_ok [OF 1(2) ok])
    have c1: "clients h1 = clients h" "presences h1 = presences h" using allow_presence_travel [OF 1(2)] by (simp_all add: same_but_travel_def)
    have "clients_ok h'"
      using ok ok1 cid c1 by (intro same_identities_clients [OF 1(5,4)]) (auto simp: hub_ok_def clients_ok_def 1)
    moreover have "rooms_ok h'" using presence_rooms [OF p] ok by (simp add: hub_ok_def)
    moreover have "vehicles_ok h'"
      by (rule change_vehicle_vehicles [where cid = cid and h = h1 and ?h1.0 = h2 and vehicle = vehicle])
        (use cv c1 ok1 ne 1 in \<open>simp_all add: hub_ok_def presence_vehicle_def\<close>)
    moreover have "cargo_ok h'"
      using cargo_ok_frame [OF 1(13)] ok mark_client_cargo_ok [where h = h and p = cid and t = now] ne by (auto simp: hub_ok_def split: if_splits)
    moreover have "grants_ok env h'" using ok1 1(10) by (simp add: hub_ok_def grants_ok_def)
    moreover have "characters_active_ok h'" using same_identities_characters [OF 1(5,7,4)] ok by (simp add: hub_ok_def)
    moreover have "names_ok env h'" using same_identities_names [OF 1(5,6,4)] ok by (simp add: hub_ok_def)
    ultimately show ?thesis by (simp add: hub_ok_def)
  qed
qed

section \<open>Connections\<close>

lemma replaced_session_fields:
  assumes "replaced_session cn h = (r, h')"
  shows "h' = h\<lparr>active_characters := active_characters h'\<rparr>" "active_characters h' \<subseteq>\<^sub>m active_characters h"
    "r = Some i \<Longrightarrow> i \<in> set (clients h) \<and> (\<exists>ch. cn_character cn = Some ch \<and> active_characters h (ci_id ch) = Some i)"
  using assms by (auto simp: replaced_session_def map_le_def split: option.splits if_splits)

lemma allocate_guest_name_fields:
  "allocate_guest_name env draws h = Some (name, h') \<Longrightarrow> h' = h\<lparr>guest_counter := guest_counter h'\<rparr>"
  by (auto simp: allocate_guest_name_def split: option.splits)

text \<open>An accepted connection in one equation.\<close>

lemma register_inv:
  assumes "register env cn random draws now h = (Inr (i, es), h')"
  obtains replaced h1 n name where "random = Some i" and "replaced_session cn h = (replaced, h1)"
    and "int (length (clients h)) < max_clients h \<or> replaced \<noteq> None"
    and "h' = add_client env i (new_client name cn now) (h1\<lparr>guest_counter := n\<rparr>)"
proof -
  obtain replaced h1 where r: "replaced_session cn h = (replaced, h1)" by (metis surj_pair)
  have h1: "clients h1 = clients h" "max_clients h1 = max_clients h"
    using replaced_session_fields(1) [OF r] by (metis hub.select_convs(1) hub.surjective hub.update_convs(20), metis hub.select_convs(18) hub.surjective hub.update_convs(20))
  show ?thesis
    using assms r h1 that [OF _ r]
    by (auto simp: register_def Let_def split: if_splits option.splits dest!: allocate_guest_name_fields) metis+
qed

lemma register_failed:
  assumes "register env cn random draws now h = (Inl e, h')"
  obtains r where "replaced_session cn h = (r, h')"
proof -
  obtain replaced h1 where r: "replaced_session cn h = (replaced, h1)" by (metis surj_pair)
  show ?thesis using assms r that by (auto simp: register_def Let_def split: if_splits option.splits)
qed

lemma hub_ok_characters:
  assumes "hub_ok env h" and "a \<subseteq>\<^sub>m active_characters h"
  shows "hub_ok env (h\<lparr>active_characters := a, guest_counter := n\<rparr>)"
  using assms
  by (simp add: hub_ok_def clients_ok_def rooms_ok_def in_room_def vehicles_ok_def cargo_ok_def grants_ok_def
      characters_active_ok_def names_ok_def presence_world_def presence_vehicle_def map_le_def dom_def) metis

lemma new_client_fields [simp]:
  "cl_persistent (new_client name cn now) \<longleftrightarrow> cn_character cn \<noteq> None"
  "cn_character cn = Some ch \<Longrightarrow> cl_character (new_client name cn now) = ci_id ch"
  "cn_character cn = Some ch \<Longrightarrow> cl_initial_world (new_client name cn now) = ci_world ch"
  "cn_character cn = None \<Longrightarrow> cl_initial_world (new_client name cn now) = ''''"
  "\<not> cl_announced (new_client name cn now)"
  by (simp_all add: new_client_def Let_def split: option.split)

lemma add_client_ok:
  assumes "hub_ok env h" and "objects h i = None" and "i \<noteq> ''''"
  shows "hub_ok env (add_client env i c h)"
proof -
  have clients: "clients_ok h" "rooms_ok h" "vehicles_ok h" "cargo_ok h" "grants_ok env h" "characters_active_ok h" "names_ok env h"
    using assms(1) by (simp_all add: hub_ok_def)
  have fresh: "i \<notin> set (clients h)" using clients(1) assms(2) by (auto simp: clients_ok_def)
  have "clients_ok (add_client env i c h)"
    using clients(1) assms(3) by (auto simp: clients_ok_def add_client_def)
  moreover have "rooms_ok (add_client env i c h)"
    using clients(2) by (simp add: rooms_ok_def in_room_def presence_world_def add_client_def)
  moreover have "vehicles_ok (add_client env i c h)"
    using clients(3) by (simp add: vehicles_ok_def presence_vehicle_def add_client_def)
  moreover have "cargo_ok (add_client env i c h)" using clients(4) by (simp add: cargo_ok_def add_client_def)
  moreover have "grants_ok env (add_client env i c h)" using clients(5) by (simp add: grants_ok_def add_client_def)
  moreover have "characters_active_ok (add_client env i c h)"
    using clients(6) fresh by (auto simp: characters_active_ok_def add_client_def)
  moreover have "names_ok env (add_client env i c h)"
    using clients(7) fresh by (auto simp: names_ok_def add_client_def)
  ultimately show ?thesis by (simp add: hub_ok_def)
qed

lemma replaced_session_ok:
  assumes "replaced_session cn h = (r, h1)" and "hub_ok env h"
  shows "hub_ok env (h1\<lparr>guest_counter := n\<rparr>)"
proof -
  have "h1\<lparr>guest_counter := n\<rparr> = h\<lparr>active_characters := active_characters h1, guest_counter := n\<rparr>"
    by (subst replaced_session_fields(1) [OF assms(1)]) simp
  with hub_ok_characters [OF assms(2) replaced_session_fields(2) [OF assms(1)]] show ?thesis by simp
qed

lemma register_ok:
  assumes r: "register env cn random draws now h = (res, h')" and ok: "hub_ok env h"
    and fresh: "\<And>i. random = Some i \<Longrightarrow> i \<noteq> '''' \<and> objects h i = None"
  shows "hub_ok env h'"
proof (cases res)
  case (Inl e)
  with r have "register env cn random draws now h = (Inl e, h')" by simp
  then show ?thesis
  proof (rule register_failed)
    fix x assume "replaced_session cn h = (x, h')"
    from replaced_session_ok [OF this ok, of "guest_counter h'"] show ?thesis by simp
  qed
next
  case (Inr p)
  with r obtain i es where "register env cn random draws now h = (Inr (i, es), h')" by (cases p) simp
  then show ?thesis
  proof (rule register_inv)
    fix replaced h1 n name
    assume a: "random = Some i" "replaced_session cn h = (replaced, h1)"
      "h' = add_client env i (new_client name cn now) (h1\<lparr>guest_counter := n\<rparr>)"
    have "objects h1 = objects h" by (subst replaced_session_fields(1) [OF a(2)]) simp
    with fresh [OF a(1)] show ?thesis unfolding a(3) by (intro add_client_ok replaced_session_ok [OF a(2) ok]) simp_all
  qed
qed

text \<open>Disconnecting.\<close>

lemma forget_client_fields [simp]:
  "clients (forget_client env cid c h) = set_del cid (clients h)" "objects (forget_client env cid c h) = objects h"
  "rooms (forget_client env cid c h) = rooms h" "presences (forget_client env cid c h) = presences h"
  "departed_worlds (forget_client env cid c h) = (departed_worlds h)(cid := None)"
  "transition_grants (forget_client env cid c h) = (transition_grants h)(cid := None)"
  "authorized_arrivals (forget_client env cid c h) = (authorized_arrivals h)(cid := None)"
  "max_clients (forget_client env cid c h) = max_clients h"
  "active_characters (forget_client env cid c h) =
     (if cl_persistent c \<and> active_characters h (cl_character c) = Some cid
      then (active_characters h)(cl_character c := None) else active_characters h)"
  "names (forget_client env cid c h) = (if mget (names h) (env_lower env (cl_name c)) = Some cid
      then mdel (env_lower env (cl_name c)) (names h) else names h)"
  "same_vehicles h (forget_client env cid c h)" "same_cargo h (forget_client env cid c h)"
  by (simp_all add: forget_client_def Let_def frame_defs)

lemma abandoned_forklift_fields [simp]:
  "fk_owner (abandoned_forklift h v now2 now3) = ''''"
  "fk_id (abandoned_forklift h v now2 now3) = (case mget (forklifts h) v of Some s \<Rightarrow> fk_id s | None \<Rightarrow> '''')"
  by (simp_all add: abandoned_forklift_def zero_forklift_def split: option.split)

text \<open>What a disconnect leaves behind.\<close>

lemma unregister_present:
  assumes "unregister env cid now1 now2 now3 now4 h = (h', es)"
    and "cid \<in> set (clients h)" and "objects h cid = Some c" and "presences h cid = Some p"
  obtains h1 h2 where "h1 = (forget_client env cid c h)\<lparr>presences := (presences h)(cid := None)\<rparr>"
    and "h2 = snd (mark_client_cargo_for_release cid now1 h1)"
    and "h' = snd (remove_from_room cid (ps_world (sp_state p)) (release_forklift cid (ps_vehicle (sp_state p))
       (case ps_vehicle (sp_state p) of None \<Rightarrow> h2
        | Some v \<Rightarrow> h2\<lparr>forklifts := mput (fk_id (abandoned_forklift h2 v now2 now3)) (abandoned_forklift h2 v now2 now3) (forklifts h2)\<rparr>)))"
proof -
  define h1 where "h1 = (forget_client env cid c h)\<lparr>presences := (presences h)(cid := None)\<rparr>"
  obtain released h2 where h2: "mark_client_cargo_for_release cid now1 h1 = (released, h2)" by (metis surj_pair)
  show ?thesis
    by (rule that [OF h1_def, of h2])
      (use assms h2 in \<open>auto simp: unregister_def Let_def lookup_presence_def h1_def split: prod.splits option.splits\<close>)
qed

lemma unregister_gone:
  assumes "unregister env cid now1 now2 now3 now4 h = (h', es)"
  shows "cid \<notin> set (clients h) \<or> objects h cid = None \<Longrightarrow> h' = h"
    and "cid \<in> set (clients h) \<Longrightarrow> objects h cid = Some c \<Longrightarrow> presences h cid = None \<Longrightarrow> h' = forget_client env cid c h"
  using assms by (auto simp: unregister_def Let_def lookup_presence_def split: option.splits)

lemma unregister_fields:
  assumes "unregister env cid now1 now2 now3 now4 h = (h', es)"
    and "cid \<in> set (clients h)" and "objects h cid = Some c" and "presences h cid = Some p"
  shows "clients h' = set_del cid (clients h)" "objects h' = objects h" "presences h' = (presences h)(cid := None)"
    "departed_worlds h' = (departed_worlds h)(cid := None)" "transition_grants h' = (transition_grants h)(cid := None)"
    "authorized_arrivals h' = (authorized_arrivals h)(cid := None)" "max_clients h' = max_clients h"
    "active_characters h' = active_characters (forget_client env cid c h)"
    "names h' = names (forget_client env cid c h)"
    "without_presence cid (ps_world (sp_state p)) h h'"
    "vehicles_ok h \<Longrightarrow> vehicle_left cid (ps_vehicle (sp_state p)) h h'"
    "same_cargo (snd (mark_client_cargo_for_release cid now1 h)) h'"
proof -
  obtain h1 h2 where h1: "h1 = (forget_client env cid c h)\<lparr>presences := (presences h)(cid := None)\<rparr>"
    and h2: "h2 = snd (mark_client_cargo_for_release cid now1 h1)"
    and h': "h' = snd (remove_from_room cid (ps_world (sp_state p)) (release_forklift cid (ps_vehicle (sp_state p))
       (case ps_vehicle (sp_state p) of None \<Rightarrow> h2
        | Some v \<Rightarrow> h2\<lparr>forklifts := mput (fk_id (abandoned_forklift h2 v now2 now3)) (abandoned_forklift h2 v now2 now3) (forklifts h2)\<rparr>)))"
    by (rule unregister_present [OF assms])
  show "clients h' = set_del cid (clients h)" "objects h' = objects h" "presences h' = (presences h)(cid := None)"
    "departed_worlds h' = (departed_worlds h)(cid := None)" "transition_grants h' = (transition_grants h)(cid := None)"
    "authorized_arrivals h' = (authorized_arrivals h)(cid := None)" "max_clients h' = max_clients h"
    "active_characters h' = active_characters (forget_client env cid c h)"
    "names h' = names (forget_client env cid c h)"
    by (simp_all add: h' h2 h1 split: option.split)
  have "rooms h2 = rooms h" by (simp add: h2 h1)
  then show "without_presence cid (ps_world (sp_state p)) h h'"
    by (auto simp: h' h2 h1 without_presence_def split: option.split intro!: room_after_removal_cong)
  have v: "forklifts h2 = forklifts h" "forklift_owners h2 = forklift_owners h"
    using forget_client_fields(11) [of h env cid c] by (simp_all add: h2 h1 same_vehicles_def)
  show "vehicle_left cid (ps_vehicle (sp_state p)) h h'" if ok: "vehicles_ok h"
  proof -
    have "mget (forklifts h) v \<noteq> None \<Longrightarrow> fk_id (abandoned_forklift h2 v now2 now3) = v" for v
      using ok v by (auto simp: vehicles_ok_def)
    with v show ?thesis
      by (cases "ps_vehicle (sp_state p)")
        (auto simp: h' vehicle_left_def release_forklift_eq simp del: abandoned_forklift_fields(2) cong: if_cong)
  qed
  have "same_cargo h h1" using forget_client_fields(12) [of h env cid c] by (simp add: h1 same_cargo_def)
  from mark_client_cargo_cong [OF this] show "same_cargo (snd (mark_client_cargo_for_release cid now1 h)) h'"
    by (auto simp: h' h2 same_cargo_def split: option.split)
qed

lemma forget_client_ok:
  assumes "characters_active_ok h" and "names_ok env h" and c: "objects h cid = Some c"
    and "clients h' = set_del cid (clients h)" and "objects h' = objects h"
    and "active_characters h' = active_characters (forget_client env cid c h)"
    and "names h' = names (forget_client env cid c h)"
  shows "characters_active_ok h'" and "names_ok env h'"
proof -
  show "characters_active_ok h'"
  proof -
    have "active_characters h a = Some cid \<Longrightarrow> cl_persistent c \<and> cl_character c = a" for a
      using assms(1) c unfolding characters_active_ok_def by (metis option.inject)
    note own = this
    have "active_characters h a = Some i \<and> i \<noteq> cid" if a: "active_characters h' a = Some i" for a i
    proof -
      have h: "active_characters h a = Some i" using a by (simp add: assms(6) split: if_splits)
      have "i \<noteq> cid"
      proof
        assume "i = cid"
        with own h have "cl_persistent c" "a = cl_character c" by blast+
        with a h \<open>i = cid\<close> show False by (simp add: assms(6))
      qed
      with h show ?thesis by simp
    qed
    with assms(1) show ?thesis unfolding characters_active_ok_def assms(4,5) set_set_del by blast
  qed
  show "names_ok env h'"
  proof -
    have own: "mget (names h) k = Some cid \<Longrightarrow> k = env_lower env (cl_name c)" for k
      using assms(2) c unfolding names_ok_def by (metis option.inject)
    have "mget (names h') k = Some i \<Longrightarrow> mget (names h) k = Some i \<and> i \<noteq> cid" for k i
      using own [of k] by (auto simp: assms(7) split: if_splits)
    with assms(2) show ?thesis unfolding names_ok_def assms(4,5) set_set_del by blast
  qed
qed

lemma unregister_ok:
  assumes u: "unregister env cid now1 now2 now3 now4 h = (h', es)" and ok: "hub_ok env h"
  shows "hub_ok env h'"
proof -
  consider "cid \<notin> set (clients h) \<or> objects h cid = None"
    | c where "cid \<in> set (clients h)" "objects h cid = Some c" "presences h cid = None"
    | c p where "cid \<in> set (clients h)" "objects h cid = Some c" "presences h cid = Some p"
    by (cases "objects h cid"; cases "presences h cid") auto
  then show ?thesis
  proof cases
    case 1
    with unregister_gone(1) [OF u] ok show ?thesis by simp
  next
    case (2 c)
    have h': "h' = forget_client env cid c h" using unregister_gone(2) [OF u 2] .
    have "clients_ok h'" using ok 2 by (auto simp: h' hub_ok_def clients_ok_def)
    moreover have "rooms_ok h'" using ok by (simp add: h' hub_ok_def rooms_ok_def in_room_def presence_world_def)
    moreover have "vehicles_ok h'"
      using ok forget_client_fields(11) [of h env cid c] by (simp add: h' hub_ok_def vehicles_ok_def presence_vehicle_def same_vehicles_def)
    moreover have "cargo_ok h'" using ok cargo_ok_frame [OF forget_client_fields(12)] by (simp add: h' hub_ok_def)
    moreover have "grants_ok env h'" using ok by (auto simp: h' hub_ok_def grants_ok_def)
    moreover have "characters_active_ok h'" "names_ok env h'"
      using ok forget_client_ok [of h env cid c h'] 2 by (simp_all add: h' hub_ok_def)
    ultimately show ?thesis by (simp add: hub_ok_def)
  next
    case (3 c p)
    note f = unregister_fields [OF u 3]
    have cid: "cid \<noteq> ''''" using ok 3 by (auto simp: hub_ok_def clients_ok_def)
    have w: "presence_world h cid = Some (ps_world (sp_state p))" by (simp add: presence_world_def 3)
    have v: "presence_vehicle h cid = ps_vehicle (sp_state p)" by (simp add: presence_vehicle_def 3)
    have "clients_ok h'" using ok by (auto simp: hub_ok_def clients_ok_def f)
    moreover have "rooms_ok h'" using ok w f(10) by (auto simp: hub_ok_def intro: rooms_ok_without_presence)
    moreover have "vehicles_ok h'"
      using ok v f(11) cid without_presence_vehicle [OF f(10)]
      by - (rule vehicles_ok_left [of h cid _ h'], simp_all add: hub_ok_def)
    moreover have "cargo_ok h'" using ok cid cargo_ok_frame [OF f(12)] mark_client_cargo_ok by (simp add: hub_ok_def)
    moreover have "grants_ok env h'" using ok by (auto simp: hub_ok_def grants_ok_def f)
    moreover have "characters_active_ok h'" "names_ok env h'"
      using ok forget_client_ok [OF _ _ 3(2) f(1,2,8,9)] by (simp_all add: hub_ok_def)
    ultimately show ?thesis by (simp add: hub_ok_def)
  qed
qed

end
