(* ===== verification/HubMachine.thy ===== *)
theory HubMachine
  imports PresenceUpkeep
begin

text \<open>
  Every interleaving of the hub's critical sections: a step relation over the handlers and timers,
  and the proof that each step keeps the invariant of the hub (\<open>hub_ok\<close>), the provenance of every
  right to travel (\<open>travel_ok\<close>) and the journals of grants and commits (\<open>journal_ok\<close>). The hub is an
  instance of \<open>transition_system\<close>.
\<close>

section \<open>The machine\<close>

text \<open>
  The hub with the commits between their two critical sections, and the journals of the grants
  issued and of the commits accepted: connection, authorization, rule and, for grants, the game time.
\<close>

record machine =
  m_hub :: hub
  m_pending :: "(string \<times> transition_commit \<times> transition_grant) list"
  m_grants :: "(string \<times> string \<times> rule \<times> int) list"
  m_commits :: "(string \<times> string \<times> rule) list"

definition started :: "hub_env \<Rightarrow> machine \<Rightarrow> bool" where
  "started env m \<longleftrightarrow> (\<exists>maximum now1 now2. m = \<lparr>m_hub = new_hub env maximum now1 now2, m_pending = [], m_grants = [], m_commits = []\<rparr>)"

definition grant_auths :: "machine \<Rightarrow> string list" where
  "grant_auths m = map (\<lambda>(_, a, _). a) (m_grants m)"

definition commit_auths :: "machine \<Rightarrow> string list" where
  "commit_auths m = map (\<lambda>(_, a, _). a) (m_commits m)"

text \<open>One critical section of the hub. The ids that \<open>crypto/rand\<close> draws are new.\<close>

inductive hub_step :: "hub_env \<Rightarrow> machine \<Rightarrow> machine \<Rightarrow> bool" for env where
  step_register:
    "register env cn random draws now (m_hub m) = (res, h') \<Longrightarrow> (\<And>i. random = Some i \<Longrightarrow> i \<noteq> '''' \<and> objects (m_hub m) i = None)
     \<Longrightarrow> hub_step env m (m\<lparr>m_hub := h'\<rparr>)"
| step_unregister: "unregister env cid now1 now2 now3 now4 (m_hub m) = (h', es) \<Longrightarrow> hub_step env m (m\<lparr>m_hub := h'\<rparr>)"
| step_presence: "handle_presence env cid report now (m_hub m) = (accepted, h', es) \<Longrightarrow> hub_step env m (m\<lparr>m_hub := h'\<rparr>)"
| step_leave: "handle_leave_world env cid now now2 (m_hub m) = (h', es) \<Longrightarrow> hub_step env m (m\<lparr>m_hub := h'\<rparr>)"
| step_request:
    "handle_transition_request env cid q server_ms game_ms random now (m_hub m) = Some (h', es)
     \<Longrightarrow> (\<And>a. random = Some a \<Longrightarrow> a \<notin> set (grant_auths m))
     \<Longrightarrow> hub_step env m (m\<lparr>m_hub := h',
           m_grants := (case transition_grants h' cid of None \<Rightarrow> m_grants m
              | Some g \<Rightarrow> (cid, tg_authorization g, tg_rule g, game_ms) # m_grants m)\<rparr>)"
| step_commit:
    "transition_commit_begin cid c now (m_hub m) = Some ((h', es), left)
     \<Longrightarrow> hub_step env m (m\<lparr>m_hub := h',
           m_pending := (case left of None \<Rightarrow> m_pending m | Some g \<Rightarrow> (cid, c, g) # m_pending m),
           m_commits := (case left of None \<Rightarrow> m_commits m | Some g \<Rightarrow> (cid, tg_authorization g, tg_rule g) # m_commits m)\<rparr>)"
| step_finish:
    "(cid, c, g) \<in> set (m_pending m) \<Longrightarrow> transition_commit_finish env cid c g now now2 (m_hub m) = (h', es)
     \<Longrightarrow> hub_step env m (m\<lparr>m_hub := h', m_pending := remove1 (cid, c, g) (m_pending m)\<rparr>)"
| step_forklift_update: "handle_forklift_update env cid fu now (m_hub m) = Some (h', es) \<Longrightarrow> hub_step env m (m\<lparr>m_hub := h'\<rparr>)"
| step_forklift_spawn: "handle_forklift_spawn env cid fs random now1 now2 (m_hub m) = Some (h', es) \<Longrightarrow> hub_step env m (m\<lparr>m_hub := h'\<rparr>)"
| step_forklift_sound: "handle_forklift_sound env cid i cue (m_hub m) = Some (h', es) \<Longrightarrow> hub_step env m (m\<lparr>m_hub := h'\<rparr>)"
| step_forklift_expiry: "forklift_expiry env i t (m_hub m) = ((h', es), again) \<Longrightarrow> hub_step env m (m\<lparr>m_hub := h'\<rparr>)"
| step_forklift_respawn: "forklift_respawn env i now (m_hub m) = (h', es) \<Longrightarrow> hub_step env m (m\<lparr>m_hub := h'\<rparr>)"
| step_cargo_claim: "handle_cargo_claim cid i now (m_hub m) = Some (h', es) \<Longrightarrow> hub_step env m (m\<lparr>m_hub := h'\<rparr>)"
| step_cargo_update: "handle_cargo_update env cid cu now (m_hub m) = Some (h', es) \<Longrightarrow> hub_step env m (m\<lparr>m_hub := h'\<rparr>)"
| step_cargo_release: "cargo_claim_release i p t now (m_hub m) = (h', es) \<Longrightarrow> hub_step env m (m\<lparr>m_hub := h'\<rparr>)"
| step_cargo_right: "auto_right_cargo env i t now (m_hub m) = (h', es) \<Longrightarrow> hub_step env m (m\<lparr>m_hub := h'\<rparr>)"
| step_cargo_cleanup: "cleanup_stale_cargo i t now (m_hub m) = (h', es) \<Longrightarrow> hub_step env m (m\<lparr>m_hub := h'\<rparr>)"
| step_cargo_replenish: "replenish_cargo env i t now (m_hub m) = Some (h', es) \<Longrightarrow> hub_step env m (m\<lparr>m_hub := h'\<rparr>)"
| step_flush: "hub_step env m (m\<lparr>m_hub := update_object cid (flush_finish version now) (m_hub m)\<rparr>)"
| step_flushed: "hub_step env m (m\<lparr>m_hub := location_flushed cid (m_hub m)\<rparr>)"
| step_limits: "hub_step env m (m\<lparr>m_hub := update_object cid (\<lambda>c. c\<lparr>cl_limits := l\<rparr>) (m_hub m)\<rparr>)"

section \<open>The invariant of the hub is kept\<close>

lemma update_object_ok:
  assumes "hub_ok env h" and f: "\<And>c. same_identity c (f c)"
  shows "hub_ok env (update_object i f h)"
proof -
  have id: "same_identities h (update_object i f h)" using f by (auto simp: same_identities_def same_identity_def)
  have "clients_ok (update_object i f h)"
    using assms(1) by (intro same_identities_clients [OF id]) (auto simp: hub_ok_def clients_ok_def)
  moreover have "characters_active_ok (update_object i f h)" "names_ok env (update_object i f h)"
    using assms(1) same_identities_characters [OF id] same_identities_names [OF id] by (simp_all add: hub_ok_def)
  ultimately show ?thesis
    using assms(1) by (simp add: hub_ok_def rooms_ok_def in_room_def vehicles_ok_def cargo_ok_def grants_ok_def
        presence_world_def presence_vehicle_def)
qed

lemma flush_finish_identity: "same_identity c (flush_finish v now c)"
  by (simp add: flush_finish_def same_identity_def)

lemma forklift_sound_same: "handle_forklift_sound env cid i cue h = Some (h', es) \<Longrightarrow> h' = h"
  by (auto simp: handle_forklift_sound_def split: if_splits option.splits)

lemma hub_ok_parts: "hub_ok env h \<Longrightarrow> vehicles_ok h \<and> cargo_ok h"
  by (simp add: hub_ok_def)

lemma sound_and_claims_ok:
  assumes "hub_ok env h"
  shows "handle_forklift_update env cid fu now h = Some (h', es) \<Longrightarrow> hub_ok env h'"
    and "handle_forklift_spawn env cid fs random now1 now2 h = Some (h', es) \<Longrightarrow> hub_ok env h'"
    and "forklift_expiry env i t h = ((h', es), again) \<Longrightarrow> hub_ok env h'"
    and "forklift_respawn env i now h = (h', es) \<Longrightarrow> hub_ok env h'"
    and "handle_cargo_claim cid i now h = Some (h', es) \<Longrightarrow> hub_ok env h'"
    and "cargo_claim_release i p t now h = (h', es) \<Longrightarrow> hub_ok env h'"
    and "auto_right_cargo env i t now h = (h', es) \<Longrightarrow> hub_ok env h'"
    and "cleanup_stale_cargo i t now h = (h', es) \<Longrightarrow> hub_ok env h'"
    and "replenish_cargo env i t now h = Some (h', es) \<Longrightarrow> hub_ok env h'"
  using assms hub_ok_parts [OF assms]
  by (meson hub_ok_vehicles hub_ok_cargo forklift_update_frame forklift_update_vehicles forklift_spawn_frame forklift_spawn_vehicles
      forklift_expiry_frame forklift_expiry_vehicles forklift_respawn_frame forklift_respawn_vehicles cargo_claim_frame cargo_claim_ok
      cargo_claim_release_frame cargo_claim_release_ok auto_right_cargo_frame auto_right_cargo_ok cleanup_stale_cargo_frame
      cleanup_stale_cargo_ok replenish_cargo_frame replenish_cargo_ok)+

lemma cargo_update_hub_ok:
  assumes "handle_cargo_update env cid m now h = Some (h', es)" and "hub_ok env h"
  shows "hub_ok env h'"
proof -
  have "cid \<noteq> ''''"
  proof (rule cargo_update_inv [OF assms(1)])
    fix previous assume "presence_world h cid = Some (cg_world previous)"
    then have "cid \<in> dom (presences h)" by (auto simp: presence_world_def)
    with assms(2) show ?thesis by (auto simp: hub_ok_def clients_ok_def)
  qed
  with assms show ?thesis using cargo_update_ok cargo_update_frame hub_ok_cargo hub_ok_parts by meson
qed

lemmas hub_handlers_ok = unregister_ok handle_presence_ok transition_request_ok transition_commit_begin_ok
  transition_commit_finish_ok sound_and_claims_ok cargo_update_hub_ok

lemma handle_leave_world_ok: "handle_leave_world env cid now now2 h = (h', es) \<Longrightarrow> hub_ok env h \<Longrightarrow> hub_ok env h'"
  by (metis handle_leave_world_def leave_world_ok prod.collapse snd_conv)

lemma location_flushed_ok: "hub_ok env h \<Longrightarrow> hub_ok env (location_flushed cid h)"
  by (simp add: location_flushed_def hub_ok_def clients_ok_def rooms_ok_def in_room_def vehicles_ok_def cargo_ok_def grants_ok_def
        characters_active_ok_def names_ok_def presence_world_def presence_vehicle_def)

lemma m_hub_updates:
  "m_hub (m\<lparr>m_hub := h\<rparr>) = h" "m_hub (m\<lparr>m_hub := h, m_grants := gs\<rparr>) = h" "m_hub (m\<lparr>m_hub := h, m_pending := ps\<rparr>) = h"
  "m_hub (m\<lparr>m_hub := h, m_pending := ps, m_commits := cs\<rparr>) = h"
  by simp_all

lemma hub_step_ok: "hub_step env m m' \<Longrightarrow> hub_ok env (m_hub m) \<Longrightarrow> hub_ok env (m_hub m')"
proof (induction rule: hub_step.induct)
  case (step_register cid random draws now m res h')
  then show ?case by (simp add: register_ok [OF step_register(1)])
next
  case (step_flush m cid version now)
  then show ?case by (simp add: update_object_ok flush_finish_identity)
next
  case (step_limits m cid l)
  then show ?case by (simp add: update_object_ok same_identity_def)
next
  case (step_flushed m cid)
  then show ?case by (simp add: location_flushed_ok)
next
  case (step_forklift_sound cid i cue m h' es)
  then show ?case using forklift_sound_same by force
qed (simp only: m_hub_updates,
    rule hub_handlers_ok handle_leave_world_ok, assumption, assumption)+

lemma initial_spawn_positions_dom:
  "initial_cargo_spawn_positions env i \<noteq> None \<Longrightarrow> mget (initial_cargo_states env now) i \<noteq> None"
proof -
  let ?ss = "concat (map (\<lambda>(_, w). sw_cargo w) (entries (sm_worlds (env_spawns env))))"
  assume a: "initial_cargo_spawn_positions env i \<noteq> None"
  have "foldl (\<lambda>m s. m(cs_id s \<mapsto> cs_position s)) m ss i \<noteq> None \<Longrightarrow> m i \<noteq> None \<or> i \<in> cs_id ` set ss" for m ss
  proof (induction ss arbitrary: m)
    case (Cons s ss)
    from Cons.IH [of "m(cs_id s \<mapsto> cs_position s)"] Cons.prems show ?case by (auto split: if_splits)
  qed simp
  from this [of Map.empty ?ss] a have "i \<in> cs_id ` set ?ss" by (simp add: initial_cargo_spawn_positions_def)
  then obtain s world w where "(world, w) \<in> set (entries (sm_worlds (env_spawns env)))" "s \<in> set (sw_cargo w)" "cs_id s = i"
    by auto
  then show "mget (initial_cargo_states env now) i \<noteq> None"
    by (force simp: initial_cargo_states_def mget_mput_all map_of_eq_None_iff split: option.splits)
qed

lemma new_hub_ok: "hub_ok env (new_hub env maximum now1 now2)"
proof -
  have "vehicles_ok (new_hub env maximum now1 now2)"
    by (auto simp: vehicles_ok_def new_hub_def dest: initial_forklift_fields)
  moreover have "mget (initial_cargo_states env now2) i = None \<Longrightarrow> initial_cargo_spawn_positions env i = None" for i
    using initial_spawn_positions_dom [of env i now2] by blast
  then have "cargo_ok (new_hub env maximum now1 now2)"
    using initial_cargo_fields by (simp add: cargo_ok_def new_hub_def)
  ultimately show ?thesis
    by (simp add: hub_ok_def new_hub_def clients_ok_def rooms_ok_def in_room_def grants_ok_def characters_active_ok_def names_ok_def
        presence_world_def)
qed

section \<open>Travel\<close>

text \<open>Where a player is, or was before leaving a world without entering another.\<close>

definition whereabouts :: "hub \<Rightarrow> string \<Rightarrow> string \<Rightarrow> bool" where
  "whereabouts h i w \<longleftrightarrow> presence_world h i = Some w \<or> departed_worlds h i = Some w"

definition admitted :: "machine \<Rightarrow> string \<Rightarrow> string \<Rightarrow> bool" where
  "admitted m i w \<longleftrightarrow> (\<exists>c. objects (m_hub m) i = Some c \<and> cl_initial_world c = w)
     \<or> (\<exists>a r. (i, a, r) \<in> set (m_commits m) \<and> dst_world (rule_destination r) = w)"

definition travel_ok :: "hub_env \<Rightarrow> machine \<Rightarrow> bool" where
  "travel_ok env m \<longleftrightarrow>
     (\<forall>i w. whereabouts (m_hub m) i w \<longrightarrow> controls_destination (env_access env) w \<longrightarrow> admitted m i w)
   \<and> (\<forall>i a. authorized_arrivals (m_hub m) i = Some a \<longrightarrow> (\<exists>k r. (i, k, r) \<in> set (m_commits m)
        \<and> dst_world (rule_destination r) = aa_destination a))
   \<and> (\<forall>i g. transition_grants (m_hub m) i = Some g \<longrightarrow> (\<exists>ms. (i, tg_authorization g, tg_rule g, ms) \<in> set (m_grants m)))"

text \<open>No player is anywhere new and no right to travel is new.\<close>

definition shrinks :: "hub \<Rightarrow> hub \<Rightarrow> bool" where
  "shrinks h h' \<longleftrightarrow> same_identities h h' \<and> (\<forall>i w. whereabouts h' i w \<longrightarrow> whereabouts h i w)
   \<and> authorized_arrivals h' \<subseteq>\<^sub>m authorized_arrivals h \<and> transition_grants h' \<subseteq>\<^sub>m transition_grants h"

lemma map_le_Some: "m' \<subseteq>\<^sub>m m \<Longrightarrow> m' i = Some a \<Longrightarrow> m i = Some a"
  by (auto simp: map_le_def dom_def)

lemma map_le_delete [simp]: "m(k := None) \<subseteq>\<^sub>m m"
  by (simp add: map_le_def)

lemma travel_ok_shrink:
  assumes "travel_ok env m" and "shrinks (m_hub m) (m_hub m')" and "m_grants m' = m_grants m" and "m_commits m' = m_commits m"
  shows "travel_ok env m'"
proof -
  have "admitted m i w \<Longrightarrow> admitted m' i w" for i w
    using assms(2) unfolding shrinks_def admitted_def same_identities_def same_identity_def assms(4) by metis
  moreover have "authorized_arrivals (m_hub m') i = Some a \<Longrightarrow> authorized_arrivals (m_hub m) i = Some a" for i a
    using assms(2) map_le_Some unfolding shrinks_def by metis
  moreover have "transition_grants (m_hub m') i = Some g \<Longrightarrow> transition_grants (m_hub m) i = Some g" for i g
    using assms(2) map_le_Some unfolding shrinks_def by metis
  ultimately show ?thesis using assms(1,2) unfolding travel_ok_def shrinks_def assms(3,4) by blast
qed

lemma same_sessions_shrinks: "same_sessions h h' \<Longrightarrow> shrinks h h'"
  using same_sessions_presence [of h h'] by (simp add: shrinks_def same_sessions_def whereabouts_def same_identities_refl)

lemma allow_controlled_because:
  assumes "allow_controlled env cid w h = (True, h')" and "controls_destination (env_access env) w" and "w \<noteq> ''''"
  shows "whereabouts h cid w \<or> (\<exists>c. objects h cid = Some c \<and> cl_initial_world c = w)"
proof (cases "presences h cid")
  case None
  with assms show ?thesis
    by (cases "departed_worlds h cid")
      (auto simp: allow_controlled_def Let_def lookup_presence_def whereabouts_def split: if_splits option.splits)
next
  case (Some p)
  with assms show ?thesis
    by (auto simp: allow_controlled_def Let_def lookup_presence_def whereabouts_def presence_world_def split: if_splits option.splits)
qed

lemma allow_presence_because:
  assumes "allow_presence_destination env cid w h = (True, h')" and "controls_destination (env_access env) w" and "w \<noteq> ''''"
  shows "whereabouts h cid w \<or> (\<exists>c. objects h cid = Some c \<and> cl_initial_world c = w)
    \<or> (\<exists>a. authorized_arrivals h cid = Some a \<and> aa_destination a = w)"
proof (cases "authorized_arrivals h cid")
  case None
  with assms allow_controlled_because show ?thesis by (simp add: allow_presence_destination_def)
next
  case (Some a)
  let ?d = "h\<lparr>authorized_arrivals := (authorized_arrivals h)(cid := None)\<rparr>"
  show ?thesis
  proof (cases "w = aa_destination a")
    case False
    then have "allow_controlled env cid w ?d = (True, h')"
      using assms(1) Some by (auto simp: allow_presence_destination_def Let_def split: if_splits)
    from allow_controlled_because [OF this assms(2,3)] show ?thesis by (auto simp: whereabouts_def presence_world_def)
  qed (use Some in auto)
qed

lemma valid_world_nonempty: "w \<in> set valid_worlds \<Longrightarrow> w \<noteq> ''''"
  by (auto simp: valid_worlds_def)

lemma validated_world: "validate_presence env m = Some a \<Longrightarrow> pm_world m \<in> set valid_worlds"
  by (simp add: validate_presence_def split: if_splits)

lemma allow_presence_shrinks: "allow_presence_destination env cid w h = (b, h') \<Longrightarrow> shrinks h h'"
  using allow_presence_travel [of env cid w h b h']
  by (auto simp: shrinks_def same_but_travel_def whereabouts_def presence_world_def intro: same_identities_refl dest: map_le_Some)

lemma shrinks_refl: "shrinks h h"
  by (simp add: shrinks_def same_identities_refl)

lemma shrinks_trans: "shrinks h h1 \<Longrightarrow> shrinks h1 h2 \<Longrightarrow> shrinks h h2"
  unfolding shrinks_def by (meson map_le_trans same_identities_trans)

lemma travel_presence:
  assumes p: "handle_presence env cid report now (m_hub m) = (accepted, h', es)" and ok: "travel_ok env m"
  shows "travel_ok env (m\<lparr>m_hub := h'\<rparr>)"
proof (cases accepted)
  case False
  have "shrinks (m_hub m) h'"
    by (rule handle_presence_inv [OF p]) (use False in \<open>auto intro: allow_presence_shrinks shrinks_refl\<close>)
  then show ?thesis using ok by - (rule travel_ok_shrink, simp_all)
next
  case True
  have p: "handle_presence env cid report now (m_hub m) = (True, h', es)" using p True by simp
  show ?thesis
  proof (rule accepted_presence [OF p], goal_cases)
    case (1 c animation vehicle q h1 h2)
    have w: "pm_world report \<noteq> ''''"
      by (rule check_presence_inv [OF 1(1)]) (auto dest: validated_world valid_world_nonempty)
    note le = allow_presence_travel [OF 1(2)]
    have pw: "presence_world h' i = (if i = cid then Some (pm_world report) else presence_world (m_hub m) i)" for i
      by (simp add: presence_world_def 1(14))
    have dw: "departed_worlds h' i = Some v \<Longrightarrow> departed_worlds (m_hub m) i = Some v" for i v
      using le unfolding 1(9) by (auto simp: map_le_def dom_def)
    have here: "admitted m cid (pm_world report)" if "controls_destination (env_access env) (pm_world report)"
      using allow_presence_because [OF 1(2) that w]
    proof (elim disjE exE conjE)
      fix a assume a: "authorized_arrivals (m_hub m) cid = Some a" "aa_destination a = pm_world report"
      with ok obtain k r where "(cid, k, r) \<in> set (m_commits m)" "dst_world (rule_destination r) = aa_destination a"
        unfolding travel_ok_def by blast
      with a show ?thesis unfolding admitted_def by auto
    qed (use ok that in \<open>auto simp: travel_ok_def admitted_def\<close>)
    have mono: "admitted m i v \<Longrightarrow> admitted (m\<lparr>m_hub := h'\<rparr>) i v" for i v
      using 1(5) unfolding admitted_def same_identities_def same_identity_def by (simp, metis)
    have "admitted (m\<lparr>m_hub := h'\<rparr>) i v" if "whereabouts h' i v" "controls_destination (env_access env) v" for i v
      using that here ok dw unfolding whereabouts_def pw travel_ok_def by (auto intro!: mono split: if_splits)
    moreover have "authorized_arrivals h' \<subseteq>\<^sub>m authorized_arrivals (m_hub m)" "transition_grants h' \<subseteq>\<^sub>m transition_grants (m_hub m)"
      using le by (simp_all add: 1)
    ultimately show ?thesis using ok unfolding travel_ok_def map_le_def by (simp, metis domI)
  qed
qed

lemma leave_world_shrinks: "leave_world env cid keep now now2 h = (left, h', es) \<Longrightarrow> shrinks h h'"
  using leave_world_fields [of env cid keep now now2 h left h' es]
  by (auto simp: shrinks_def whereabouts_def presence_world_def map_le_def intro: same_identities_refl split: option.splits if_splits)

lemma handle_leave_world_shrinks: "handle_leave_world env cid now now2 h = (h', es) \<Longrightarrow> shrinks h h'"
  by (metis handle_leave_world_def leave_world_shrinks prod.collapse snd_conv)

lemma finish_shrinks:
  assumes "transition_commit_finish env cid c g now now2 h = (h', es)"
  shows "shrinks h h'"
proof -
  obtain left h1 es1 where l: "leave_world env cid True now now2 h = (left, h1, es1)" by (metis surj_pair)
  have h': "h' = h1 \<or> h' = h1\<lparr>authorized_arrivals := (authorized_arrivals h1)(cid := None)\<rparr>"
    using assms l by (auto simp: transition_commit_finish_def Let_def split: bool.splits)
  have "shrinks h1 h'"
    using h' by (auto simp: shrinks_refl) (simp add: shrinks_def whereabouts_def presence_world_def same_identities_refl)
  with leave_world_shrinks [OF l] show ?thesis by (rule shrinks_trans)
qed

lemma travel_request:
  assumes "handle_transition_request env cid q server_ms game_ms random now (m_hub m) = Some (h', es)" and ok: "travel_ok env m"
  shows "travel_ok env (m\<lparr>m_hub := h', m_grants := (case transition_grants h' cid of None \<Rightarrow> m_grants m
              | Some g \<Rightarrow> (cid, tg_authorization g, tg_rule g, game_ms) # m_grants m)\<rparr>)" (is "travel_ok env ?m")
proof (rule transition_request_inv [OF assms(1)], goal_cases)
  case (1 g)
  have f: "whereabouts h' i w \<longleftrightarrow> whereabouts (m_hub m) i w" "authorized_arrivals h' = authorized_arrivals (m_hub m)"
    "objects h' = objects (m_hub m)" for i w
    by (simp_all add: 1 whereabouts_def presence_world_def set_transition_grant_def)
  have ad: "admitted ?m i w \<longleftrightarrow> admitted m i w" for i w by (simp add: admitted_def f)
  have "\<exists>ms. (i, tg_authorization b, tg_rule b, ms) \<in> set (m_grants ?m)" if "transition_grants h' i = Some b" for i b
  proof (cases "i = cid")
    case True
    with that show ?thesis by auto
  next
    case False
    with that have "transition_grants (m_hub m) i = Some b" by (simp add: 1 set_transition_grant_def)
    with ok obtain ms where "(i, tg_authorization b, tg_rule b, ms) \<in> set (m_grants m)" unfolding travel_ok_def by blast
    then show ?thesis by (auto split: option.split)
  qed
  with ok show ?case unfolding travel_ok_def ad by (simp add: f)
qed

lemma travel_commit:
  assumes "transition_commit_begin cid c now (m_hub m) = Some ((h', es), left)" and ok: "travel_ok env m"
  shows "travel_ok env (m\<lparr>m_hub := h', m_pending := ps,
           m_commits := (case left of None \<Rightarrow> m_commits m | Some g \<Rightarrow> (cid, tg_authorization g, tg_rule g) # m_commits m)\<rparr>)"
  using assms(1)
proof (cases rule: transition_commit_begin_inv)
  case refused
  then show ?thesis using ok by - (rule travel_ok_shrink, auto intro: same_sessions_shrinks simp: same_sessions_def)
next
  case void
  then have "shrinks (m_hub m) h'"
    by (simp add: shrinks_def set_transition_grant_def whereabouts_def presence_world_def same_identities_refl)
  with void show ?thesis using ok by - (rule travel_ok_shrink, simp_all)
next
  case (accepted g)
  let ?m = "m\<lparr>m_hub := h', m_pending := ps, m_commits := (cid, tg_authorization g, tg_rule g) # m_commits m\<rparr>"
  have f: "whereabouts h' i w \<longleftrightarrow> whereabouts (m_hub m) i w" "objects h' = objects (m_hub m)"
    "transition_grants h' i = Some b \<Longrightarrow> transition_grants (m_hub m) i = Some b" for i w b
    by (simp_all add: accepted whereabouts_def presence_world_def reserve_arrival_def set_transition_grant_def split: if_splits)
  have ad: "admitted m i w \<Longrightarrow> admitted ?m i w" for i w by (auto simp: admitted_def f)
  have "\<exists>k r. (i, k, r) \<in> set (m_commits ?m) \<and> dst_world (rule_destination r) = aa_destination a"
    if "authorized_arrivals h' i = Some a" for i a
  proof (cases "i = cid")
    case True
    with that have "aa_destination a = dst_world (rule_destination (tg_rule g))" by (simp add: accepted reserve_arrival_def)
      (metis authorized_arrival.select_convs(2))
    with True show ?thesis by auto
  next
    case False
    with that have "authorized_arrivals (m_hub m) i = Some a" by (simp add: accepted reserve_arrival_def)
    with ok show ?thesis unfolding travel_ok_def by fastforce
  qed
  moreover have "\<forall>i w. whereabouts h' i w \<longrightarrow> controls_destination (env_access env) w \<longrightarrow> admitted ?m i w"
    using ok ad unfolding travel_ok_def f by blast
  moreover have "\<exists>ms. (i, tg_authorization b, tg_rule b, ms) \<in> set (m_grants ?m)" if "transition_grants h' i = Some b" for i b
    using f(3) [OF that] ok unfolding travel_ok_def by simp
  ultimately have "travel_ok env ?m" unfolding travel_ok_def by simp
  then show ?thesis by (simp add: accepted(3))
qed

lemma replaced_session_sessions:
  assumes "replaced_session cn h = (r, h')"
  shows "presences h' = presences h" "departed_worlds h' = departed_worlds h" "authorized_arrivals h' = authorized_arrivals h"
    "transition_grants h' = transition_grants h" "objects h' = objects h" "clients h' = clients h" "max_clients h' = max_clients h"
  by (subst replaced_session_fields(1) [OF assms], simp)+

lemma register_fields:
  assumes "register env cn random draws now h = (res, h')"
  shows "presences h' = presences h" "departed_worlds h' = departed_worlds h" "authorized_arrivals h' = authorized_arrivals h"
    "transition_grants h' = transition_grants h" "max_clients h' = max_clients h"
    "objects h' = objects h \<or> (\<exists>i c. random = Some i \<and> objects h' = (objects h)(i \<mapsto> c))"
proof -
  have "presences h' = presences h \<and> departed_worlds h' = departed_worlds h \<and> authorized_arrivals h' = authorized_arrivals h
    \<and> transition_grants h' = transition_grants h \<and> max_clients h' = max_clients h
    \<and> (objects h' = objects h \<or> (\<exists>i c. random = Some i \<and> objects h' = (objects h)(i \<mapsto> c)))"
  proof (cases res)
    case (Inl e)
    with assms have "register env cn random draws now h = (Inl e, h')" by simp
    then show ?thesis by (rule register_failed) (simp add: replaced_session_sessions)
  next
    case (Inr x)
    with assms obtain i es where "register env cn random draws now h = (Inr (i, es), h')" by (cases x) simp
    then show ?thesis by (rule register_inv) (auto simp: add_client_def replaced_session_sessions)
  qed
  then show "presences h' = presences h" "departed_worlds h' = departed_worlds h" "authorized_arrivals h' = authorized_arrivals h"
    "transition_grants h' = transition_grants h" "max_clients h' = max_clients h"
    "objects h' = objects h \<or> (\<exists>i c. random = Some i \<and> objects h' = (objects h)(i \<mapsto> c))" by simp_all
qed

lemma register_shrinks:
  assumes "register env cn random draws now h = (res, h')" and fresh: "\<And>i. random = Some i \<Longrightarrow> objects h i = None"
  shows "shrinks h h'"
proof -
  note f = register_fields [OF assms(1)]
  have "same_identities h h'" using f(6) fresh by (auto simp: same_identities_def same_identity_def)
  then show ?thesis by (simp add: shrinks_def f whereabouts_def presence_world_def)
qed

lemma unregister_shrinks:
  assumes "unregister env cid now1 now2 now3 now4 h = (h', es)"
  shows "shrinks h h'"
proof -
  consider "cid \<notin> set (clients h) \<or> objects h cid = None"
    | c where "cid \<in> set (clients h)" "objects h cid = Some c" "presences h cid = None"
    | c p where "cid \<in> set (clients h)" "objects h cid = Some c" "presences h cid = Some p"
    by (cases "objects h cid"; cases "presences h cid") auto
  then show ?thesis
  proof cases
    case 1
    with unregister_gone(1) [OF assms(1)] show ?thesis by (simp add: shrinks_def same_identities_refl)
  next
    case (2 c)
    with unregister_gone(2) [OF assms(1) 2] show ?thesis
      by (simp add: shrinks_def whereabouts_def presence_world_def same_identities_refl)
  next
    case (3 c p)
    with unregister_fields [OF assms(1) 3] show ?thesis
      by (simp add: shrinks_def whereabouts_def presence_world_def same_identities_refl)
  qed
qed

lemmas vehicle_cargo_frames = forklift_update_frame [THEN conjunct1] forklift_spawn_frame [THEN conjunct1]
  forklift_expiry_frame [THEN conjunct1] forklift_respawn_frame [THEN conjunct1] cargo_claim_frame [THEN conjunct1]
  cargo_update_frame [THEN conjunct1] cargo_claim_release_frame [THEN conjunct1] auto_right_cargo_frame [THEN conjunct1]
  cleanup_stale_cargo_frame [THEN conjunct1] replenish_cargo_frame [THEN conjunct1]

lemma update_object_shrinks: "(\<And>c. same_identity c (f c)) \<Longrightarrow> shrinks h (update_object i f h)"
  by (auto simp: shrinks_def whereabouts_def presence_world_def same_identities_def same_identity_def)

lemma location_flushed_shrinks: "shrinks h (location_flushed cid h)"
  by (simp add: shrinks_def location_flushed_def whereabouts_def presence_world_def same_identities_refl)

lemma forklift_sound_shrinks: "handle_forklift_sound env cid i cue h = Some (h', es) \<Longrightarrow> shrinks h h'"
  by (auto dest!: forklift_sound_same intro: shrinks_refl)

lemmas handler_shrinks = vehicle_cargo_frames [THEN same_sessions_shrinks] handle_leave_world_shrinks finish_shrinks
  unregister_shrinks forklift_sound_shrinks

text \<open>A step is a presence report, a request, a commit, or gives no one a right to travel.\<close>

lemma hub_step_kinds:
  assumes "hub_step env m m'"
  obtains (quiet) "shrinks (m_hub m) (m_hub m')" "m_grants m' = m_grants m" "m_commits m' = m_commits m"
    | (presence) cid report now accepted h' es where "m' = m\<lparr>m_hub := h'\<rparr>"
        "handle_presence env cid report now (m_hub m) = (accepted, h', es)"
    | (request) cid q server_ms game_ms random now h' es where
        "m' = m\<lparr>m_hub := h', m_grants := (case transition_grants h' cid of None \<Rightarrow> m_grants m
              | Some g \<Rightarrow> (cid, tg_authorization g, tg_rule g, game_ms) # m_grants m)\<rparr>"
        "handle_transition_request env cid q server_ms game_ms random now (m_hub m) = Some (h', es)"
        "\<And>a. random = Some a \<Longrightarrow> a \<notin> set (grant_auths m)"
    | (commit) cid c now h' es left where
        "m' = m\<lparr>m_hub := h',
           m_pending := (case left of None \<Rightarrow> m_pending m | Some g \<Rightarrow> (cid, c, g) # m_pending m),
           m_commits := (case left of None \<Rightarrow> m_commits m | Some g \<Rightarrow> (cid, tg_authorization g, tg_rule g) # m_commits m)\<rparr>"
        "transition_commit_begin cid c now (m_hub m) = Some ((h', es), left)"
  using assms
proof (cases rule: hub_step.cases)
  case (step_register cn random draws now res h')
  then show ?thesis by (intro quiet) (simp_all add: register_shrinks [OF step_register(2)])
next
  case (step_flush cid version now)
  then show ?thesis by (intro quiet) (simp_all add: update_object_shrinks flush_finish_identity)
next
  case (step_limits cid l)
  then show ?thesis by (intro quiet) (simp_all add: update_object_shrinks same_identity_def)
next
  case (step_flushed cid)
  then show ?thesis by (intro quiet) (simp_all add: location_flushed_shrinks)
next
  case (step_presence cid report now accepted h' es)
  then show ?thesis by (rule presence)
next
  case (step_request cid q server_ms game_ms random now h' es)
  then show ?thesis by (rule request)
next
  case (step_commit cid c now h' es left)
  then show ?thesis by (rule commit)
qed (rule quiet, simp_all add: handler_shrinks)

lemma travel_step: "hub_step env m m' \<Longrightarrow> travel_ok env m \<Longrightarrow> travel_ok env m'"
  by (erule hub_step_kinds) (auto intro: travel_ok_shrink travel_presence travel_request travel_commit)

section \<open>Grants and commits\<close>

text \<open>Every grant was issued at an open door, and carries at most one commit.\<close>

definition journal_ok :: "hub_env \<Rightarrow> machine \<Rightarrow> bool" where
  "journal_ok env m \<longleftrightarrow> distinct (grant_auths m) \<and> distinct (commit_auths m)
   \<and> (\<forall>i a r ms. (i, a, r, ms) \<in> set (m_grants m) \<longrightarrow> is_rule_open (env_access env) r (from_unix_milli ms)
        \<and> (\<exists>t. catalog_rule (env_access env) t = Some r))
   \<and> (\<forall>i a r. (i, a, r) \<in> set (m_commits m) \<longrightarrow> (\<exists>ms. (i, a, r, ms) \<in> set (m_grants m)))
   \<and> (\<forall>i g. transition_grants (m_hub m) i = Some g \<longrightarrow> tg_authorization g \<notin> set (commit_auths m))"

lemma presence_grants:
  assumes "handle_presence env cid report now h = (accepted, h', es)"
  shows "transition_grants h' \<subseteq>\<^sub>m transition_grants h"
proof (cases accepted)
  case True
  with assms have "handle_presence env cid report now h = (True, h', es)" by simp
  then show ?thesis by (rule accepted_presence) (use allow_presence_travel in fastforce)
next
  case False
  show ?thesis by (rule handle_presence_inv [OF assms]) (use False allow_presence_travel in auto)
qed

lemma journal_ok_less_grants:
  assumes "journal_ok env m" and "transition_grants (m_hub m') \<subseteq>\<^sub>m transition_grants (m_hub m)"
    and "m_grants m' = m_grants m" and "m_commits m' = m_commits m"
  shows "journal_ok env m'"
proof -
  have "transition_grants (m_hub m') i = Some g \<Longrightarrow> transition_grants (m_hub m) i = Some g" for i g
    using assms(2) by (rule map_le_Some)
  moreover have auths: "grant_auths m' = grant_auths m" "commit_auths m' = commit_auths m"
    by (simp_all add: grant_auths_def commit_auths_def assms)
  ultimately show ?thesis using assms(1) unfolding journal_ok_def auths assms(3,4) by blast
qed

lemma journal_request:
  assumes r: "handle_transition_request env cid q server_ms game_ms random now (m_hub m) = Some (h', es)"
    and fresh: "\<And>a. random = Some a \<Longrightarrow> a \<notin> set (grant_auths m)" and ok: "journal_ok env m"
  shows "journal_ok env (m\<lparr>m_hub := h', m_grants := (case transition_grants h' cid of None \<Rightarrow> m_grants m
              | Some g \<Rightarrow> (cid, tg_authorization g, tg_rule g, game_ms) # m_grants m)\<rparr>)"
proof (rule transition_request_inv [OF r], goal_cases)
  case (1 g)
  show ?case
  proof (cases g)
    case None
    with ok 1(2) show ?thesis
      by - (rule journal_ok_less_grants [OF ok], simp_all add: set_transition_grant_def)
  next
    case (Some b)
    with 1(3) obtain rl a where j: "judge_request env cid q game_ms (m_hub m) = Granted rl" "random = Some a"
      "tg_authorization b = a" "tg_rule b = rl" by auto
    have sub: "set (commit_auths m) \<subseteq> set (grant_auths m)"
    proof
      fix x assume "x \<in> set (commit_auths m)"
      then obtain i r where "(i, x, r) \<in> set (m_commits m)" by (auto simp: commit_auths_def)
      with ok obtain ms where "(i, x, r, ms) \<in> set (m_grants m)" unfolding journal_ok_def by blast
      then show "x \<in> set (grant_auths m)" by (force simp: grant_auths_def)
    qed
    have new: "a \<notin> set (grant_auths m)" "a \<notin> set (commit_auths m)" using fresh [OF j(2)] sub by auto
    let ?m = "m\<lparr>m_hub := h', m_grants := (cid, a, rl, game_ms) # m_grants m\<rparr>"
    have "distinct (grant_auths ?m)" using ok new by (simp add: journal_ok_def grant_auths_def)
    moreover have c: "commit_auths ?m = commit_auths m" by (simp add: commit_auths_def)
    moreover have "tg_authorization b' \<notin> set (commit_auths m)" if "transition_grants h' i = Some b'" for i b'
      using that ok new j(3) Some by (auto simp: 1(2) set_transition_grant_def journal_ok_def split: if_splits)
    ultimately have "journal_ok env ?m"
      using ok judge_granted [OF j(1)] unfolding journal_ok_def by (simp, blast)
    then show ?thesis by (simp add: 1(2) Some set_transition_grant_def j)
  qed
qed

lemma journal_commit:
  assumes c: "transition_commit_begin cid c now (m_hub m) = Some ((h', es), left)" and ok: "journal_ok env m" and tr: "travel_ok env m"
  shows "journal_ok env (m\<lparr>m_hub := h', m_pending := ps,
           m_commits := (case left of None \<Rightarrow> m_commits m | Some g \<Rightarrow> (cid, tg_authorization g, tg_rule g) # m_commits m)\<rparr>)"
  using c
proof (cases rule: transition_commit_begin_inv)
  case (accepted g)
  let ?m = "m\<lparr>m_hub := h', m_pending := ps, m_commits := (cid, tg_authorization g, tg_rule g) # m_commits m\<rparr>"
  have grants: "\<exists>ms. (i, tg_authorization b, tg_rule b, ms) \<in> set (m_grants m)" if "transition_grants (m_hub m) i = Some b" for i b
    using tr that unfolding travel_ok_def by blast
  have dist: "distinct (grant_auths m)" using ok by (simp add: journal_ok_def)
  have own: "i = cid" if held: "transition_grants (m_hub m) i = Some b" and same: "tg_authorization b = tg_authorization g" for i b
  proof -
    obtain ms where m: "(i, tg_authorization b, tg_rule b, ms) \<in> set (m_grants m)" using grants [OF held] by blast
    obtain ms' where m': "(cid, tg_authorization g, tg_rule g, ms') \<in> set (m_grants m)" using grants [OF accepted(4)] by blast
    have "inj_on (\<lambda>(_, a, _). a) (set (m_grants m))" using dist by (simp add: grant_auths_def distinct_map)
    from inj_onD [OF this _ m m'] same show ?thesis by simp
  qed
  have "distinct (commit_auths ?m)" using ok accepted(4) by (simp add: journal_ok_def commit_auths_def)
  moreover have "tg_authorization b \<notin> set (commit_auths ?m)" if "transition_grants h' i = Some b" for i b
  proof -
    have i: "i \<noteq> cid" "transition_grants (m_hub m) i = Some b"
      using that by (auto simp: accepted reserve_arrival_def set_transition_grant_def split: if_splits)
    then show ?thesis using own [OF i(2)] ok by (auto simp: journal_ok_def commit_auths_def)
  qed
  moreover have "\<exists>ms. (cid, tg_authorization g, tg_rule g, ms) \<in> set (m_grants m)" by (rule grants) (rule accepted)
  moreover have "grant_auths ?m = grant_auths m" by (simp add: grant_auths_def)
  ultimately have "journal_ok env ?m" using ok unfolding journal_ok_def by (intro conjI; simp)
  then show ?thesis by (simp add: accepted)
qed (use ok in \<open>auto intro!: journal_ok_less_grants [OF ok] simp: set_transition_grant_def\<close>)

lemma journal_step: "hub_step env m m' \<Longrightarrow> travel_ok env m \<Longrightarrow> journal_ok env m \<Longrightarrow> journal_ok env m'"
proof (erule hub_step_kinds, goal_cases)
  case 1 then show ?case by (auto intro: journal_ok_less_grants simp: shrinks_def)
next
  case (2 cid report now accepted h' es)
  then show ?case by - (rule journal_ok_less_grants, auto dest: presence_grants)
next
  case (3 cid q server_ms game_ms random now h' es)
  then show ?case by (simp add: journal_request)
next
  case (4 cid c now h' es left)
  then show ?case by (simp add: journal_commit)
qed

definition machine_ok :: "hub_env \<Rightarrow> machine \<Rightarrow> bool" where
  "machine_ok env m \<longleftrightarrow> hub_ok env (m_hub m) \<and> travel_ok env m \<and> journal_ok env m"

lemma started_ok: "started env m \<Longrightarrow> machine_ok env m"
  by (auto simp: started_def machine_ok_def new_hub_ok travel_ok_def journal_ok_def grant_auths_def commit_auths_def whereabouts_def
      presence_world_def) (simp_all add: new_hub_def)

interpretation hub_run: transition_system "started env" "hub_step env" "machine_ok env" for env
  by unfold_locales (erule started_ok, auto simp: machine_ok_def hub_step_ok travel_step journal_step)

end
