(* ===== verification/HubRuns.thy ===== *)
theory HubRuns
  imports HubMachine
begin

text \<open>
  What holds in every run of the hub, whatever the order of its critical sections: who may be in a
  controlled world, that authorizations are single-use, and the exactness of the hub's indices. The
  concrete runs at the end are computed by an interpreter of steps, \<open>acts\<close>.
\<close>

section \<open>Properties of every run\<close>

text \<open>
  C1: a player is in a world that a door controls only because the player's stored location was
  there at login, or because of a commit of the player's: the grant behind it was issued for a rule
  of the catalog to that world, while the rule was open on the game clock.
\<close>

theorem controlled_worlds_need_a_door:
  assumes "reach (started env) (hub_step env) m" and "presence_world (m_hub m) i = Some w"
    and "controls_destination (env_access env) w"
  shows "(\<exists>c. objects (m_hub m) i = Some c \<and> cl_initial_world c = w)
    \<or> (\<exists>a r ms t. (i, a, r) \<in> set (m_commits m) \<and> (i, a, r, ms) \<in> set (m_grants m) \<and> dst_world (rule_destination r) = w
        \<and> catalog_rule (env_access env) t = Some r \<and> is_rule_open (env_access env) r (from_unix_milli ms))"
proof -
  have ok: "travel_ok env m" "journal_ok env m" using hub_run.reachable_inv [OF assms(1)] by (simp_all add: machine_ok_def)
  have "admitted m i w" using ok(1) assms(2,3) unfolding travel_ok_def whereabouts_def by blast
  then show ?thesis using ok(2) unfolding admitted_def journal_ok_def by blast
qed

text \<open>
  C2: an authorization is spent once: no two commits of a run carry the same one, each commit was
  granted to the connection that makes it, for the same rule, and the grant a connection still
  holds has not been committed.
\<close>

theorem authorizations_are_single_use:
  assumes "reach (started env) (hub_step env) m"
  shows "distinct (commit_auths m)
    \<and> (\<forall>i a r. (i, a, r) \<in> set (m_commits m) \<longrightarrow> (\<exists>ms. (i, a, r, ms) \<in> set (m_grants m)))
    \<and> (\<forall>i g. transition_grants (m_hub m) i = Some g \<longrightarrow> tg_authorization g \<notin> set (commit_auths m))"
  using hub_run.reachable_inv [OF assms] unfolding machine_ok_def journal_ok_def by blast

text \<open>
  C3: the rooms are exactly the presences: a player is in the room of a world if and only if the
  player's presence says so, once, rooms are never kept empty, and only registered connections have
  a presence.
\<close>

theorem rooms_are_the_presences:
  assumes "reach (started env) (hub_step env) m"
  shows "(\<forall>i w. (\<exists>r. rooms (m_hub m) w = Some r \<and> i \<in> set r) \<longleftrightarrow> presence_world (m_hub m) i = Some w)
    \<and> (\<forall>w r. rooms (m_hub m) w = Some r \<longrightarrow> r \<noteq> [] \<and> distinct r)
    \<and> dom (presences (m_hub m)) \<subseteq> set (clients (m_hub m))"
  using hub_run.reachable_inv [OF assms]
  unfolding machine_ok_def hub_ok_def rooms_ok_def clients_ok_def in_room_def by blast

text \<open>
  C4: the owner of a forklift is a present player whose presence shows that forklift, so nobody owns
  two, and a stored forklift that names an owner names the one who owns it.
\<close>

theorem forklift_owners_drive_them:
  assumes "reach (started env) (hub_step env) m"
  shows "(\<forall>f p. forklift_owners (m_hub m) f = Some p \<longrightarrow> presence_vehicle (m_hub m) p = Some f)
    \<and> (\<forall>f g p. forklift_owners (m_hub m) f = Some p \<longrightarrow> forklift_owners (m_hub m) g = Some p \<longrightarrow> f = g)
    \<and> (\<forall>f s. mget (forklifts (m_hub m)) f = Some s \<longrightarrow> fk_owner s \<noteq> '''' \<longrightarrow> forklift_owners (m_hub m) f = Some (fk_owner s))"
proof -
  have "\<forall>f p. forklift_owners (m_hub m) f = Some p \<longrightarrow> presence_vehicle (m_hub m) p = Some f"
    and s: "\<forall>f s. mget (forklifts (m_hub m)) f = Some s \<longrightarrow> fk_owner s \<noteq> '''' \<longrightarrow> forklift_owners (m_hub m) f = Some (fk_owner s)"
    using hub_run.reachable_inv [OF assms] unfolding machine_ok_def hub_ok_def vehicles_ok_def by blast+
  then show ?thesis by (metis option.inject)
qed

text \<open>
  C5: nothing is kept about a crate that is gone, a crate is stored under its own id, and a crate
  nobody holds has no claim that could expire.
\<close>

theorem cargo_bookkeeping_is_exact:
  assumes "reach (started env) (hub_step env) m"
  shows "(\<forall>i. mget (cargo (m_hub m)) i = None \<longrightarrow> cargo_spawns (m_hub m) i = None \<and> cargo_away_since (m_hub m) i = None
        \<and> cargo_untouched (m_hub m) i = None \<and> cargo_last_touched (m_hub m) i = None \<and> \<not> cargo_replaced (m_hub m) i)
    \<and> (\<forall>i s. mget (cargo (m_hub m)) i = Some s \<longrightarrow> cg_id s = i \<and> (cg_owner s = '''' \<longrightarrow> cg_claim_expires s = 0))"
  using hub_run.reachable_inv [OF assms] unfolding machine_ok_def hub_ok_def cargo_ok_def by blast

text \<open>
  C6: the session a character counts as active belongs to a registered connection that plays this
  character, so one connection is active for at most one character; the owner of a name is a
  registered connection of that name.
\<close>

theorem sessions_are_live:
  assumes "reach (started env) (hub_step env) m"
  shows "(\<forall>c i. active_characters (m_hub m) c = Some i \<longrightarrow> i \<in> set (clients (m_hub m))
        \<and> (\<exists>cl. objects (m_hub m) i = Some cl \<and> cl_persistent cl \<and> cl_character cl = c))
    \<and> (\<forall>k i. mget (names (m_hub m)) k = Some i \<longrightarrow> i \<in> set (clients (m_hub m))
        \<and> (\<exists>cl. objects (m_hub m) i = Some cl \<and> env_lower env (cl_name cl) = k))
    \<and> dom (transition_grants (m_hub m)) \<union> dom (authorized_arrivals (m_hub m)) \<union> dom (departed_worlds (m_hub m))
        \<subseteq> set (clients (m_hub m))"
  using hub_run.reachable_inv [OF assms]
  unfolding machine_ok_def hub_ok_def characters_active_ok_def names_ok_def clients_ok_def by blast

lemma handle_presence_accepts:
  assumes "check_presence env cid m h = Some (c, animation, vehicle, q)"
    and "allow_presence_destination env cid (pm_world m) h = (True, h1)"
  obtains h' es where "handle_presence env cid m now h = (True, h', es)"
proof -
  have "fst (handle_presence env cid m now h)"
    using assms by (simp add: handle_presence_def Let_def split: prod.split)
  then show ?thesis using that by (metis prod.collapse)
qed

text \<open>
  C7: travel that was committed completes: a player with a reserved arrival whose report passes the
  checks made of every report and names the reserved destination is admitted there, whatever the
  game clock says by then, and the reservation is used up.
\<close>

theorem committed_travel_completes:
  assumes "authorized_arrivals h cid = Some a" and "pm_world m = aa_destination a" and "check_presence env cid m h \<noteq> None"
  shows "\<exists>h' es. handle_presence env cid m now h = (True, h', es) \<and> presence_world h' cid = Some (aa_destination a)
    \<and> authorized_arrivals h' cid = None"
proof -
  obtain c animation vehicle q where cp: "check_presence env cid m h = Some (c, animation, vehicle, q)" using assms(3) by auto
  obtain h1 where al: "allow_presence_destination env cid (pm_world m) h = (True, h1)" and a1: "authorized_arrivals h1 cid = None"
    using assms(1,2) by (simp add: allow_presence_destination_def Let_def drop_departed_def)
  obtain h' es where p: "handle_presence env cid m now h = (True, h', es)" by (rule handle_presence_accepts [OF cp al])
  have "presence_world h' cid = Some (pm_world m) \<and> authorized_arrivals h' cid = None"
    by (rule accepted_presence [OF p]) (use a1 al in \<open>simp add: presence_world_def\<close>)
  with p assms(2) show ?thesis by auto
qed

section \<open>A concrete run\<close>

text \<open>An interpreter of some of the steps, for runs that evaluate.\<close>

datatype action =
    ActRegister connection "string option" int
  | ActUnregister string int
  | ActPresence string presence_msg int
  | ActLeave string int
  | ActRequest string transition_request int "string option" int
  | ActCommit string transition_commit int
  | ActFinish int
  | ActForklift string forklift_update int
  | ActClaim string string int

fun act :: "hub_env \<Rightarrow> action \<Rightarrow> machine \<Rightarrow> machine option" where
  "act env (ActRegister cn random now) m =
     (if (case random of None \<Rightarrow> True | Some i \<Rightarrow> i \<noteq> '''' \<and> objects (m_hub m) i = None)
      then Some (m\<lparr>m_hub := snd (register env cn random [Some 0] now (m_hub m))\<rparr>) else None)"
| "act env (ActUnregister cid now) m = Some (m\<lparr>m_hub := fst (unregister env cid now now now now (m_hub m))\<rparr>)"
| "act env (ActPresence cid report now) m = Some (m\<lparr>m_hub := fst (snd (handle_presence env cid report now (m_hub m)))\<rparr>)"
| "act env (ActLeave cid now) m = Some (m\<lparr>m_hub := fst (handle_leave_world env cid now now (m_hub m))\<rparr>)"
| "act env (ActRequest cid q game_ms random now) m =
     (case handle_transition_request env cid q 0 game_ms random now (m_hub m) of
        None \<Rightarrow> None
      | Some (h', es) \<Rightarrow>
          if (case random of None \<Rightarrow> True | Some a \<Rightarrow> a \<notin> set (grant_auths m))
          then Some (m\<lparr>m_hub := h', m_grants := (case transition_grants h' cid of None \<Rightarrow> m_grants m
             | Some g \<Rightarrow> (cid, tg_authorization g, tg_rule g, game_ms) # m_grants m)\<rparr>) else None)"
| "act env (ActCommit cid c now) m =
     (case transition_commit_begin cid c now (m_hub m) of
        None \<Rightarrow> None
      | Some ((h', es), left) \<Rightarrow> Some (m\<lparr>m_hub := h',
           m_pending := (case left of None \<Rightarrow> m_pending m | Some g \<Rightarrow> (cid, c, g) # m_pending m),
           m_commits := (case left of None \<Rightarrow> m_commits m | Some g \<Rightarrow> (cid, tg_authorization g, tg_rule g) # m_commits m)\<rparr>))"
| "act env (ActFinish now) m =
     (case m_pending m of
        [] \<Rightarrow> None
      | (cid, c, g) # ps \<Rightarrow> Some (m\<lparr>m_hub := fst (transition_commit_finish env cid c g now now (m_hub m)), m_pending := ps\<rparr>))"
| "act env (ActForklift cid u now) m = map_option (\<lambda>(h', es). m\<lparr>m_hub := h'\<rparr>) (handle_forklift_update env cid u now (m_hub m))"
| "act env (ActClaim cid i now) m = map_option (\<lambda>(h', es). m\<lparr>m_hub := h'\<rparr>) (handle_cargo_claim cid i now (m_hub m))"

lemma act_step: "act env a m = Some m' \<Longrightarrow> hub_step env m m'"
proof (cases a)
  case (ActRegister cn random now)
  assume "act env a m = Some m'"
  then show ?thesis
    unfolding ActRegister by (auto split: if_splits option.splits intro!: step_register [OF prod.collapse [symmetric]])
next
  case (ActFinish now)
  assume "act env a m = Some m'"
  then obtain cid c g ps where p: "m_pending m = (cid, c, g) # ps"
    and m': "m' = m\<lparr>m_hub := fst (transition_commit_finish env cid c g now now (m_hub m)), m_pending := remove1 (cid, c, g) (m_pending m)\<rparr>"
    unfolding ActFinish by (auto split: list.splits)
  show ?thesis unfolding m' by (rule step_finish [OF _ prod.collapse [symmetric]]) (simp add: p)
next
  case (ActUnregister cid now)
  assume "act env a m = Some m'"
  then show ?thesis unfolding ActUnregister by (auto intro: step_unregister [OF prod.collapse [symmetric]])
next
  case (ActPresence cid report now)
  assume "act env a m = Some m'"
  then have "m' = m\<lparr>m_hub := fst (snd (handle_presence env cid report now (m_hub m)))\<rparr>" unfolding ActPresence by simp
  then show ?thesis by (metis prod.collapse step_presence)
next
  case (ActLeave cid now)
  assume "act env a m = Some m'"
  then show ?thesis unfolding ActLeave by (auto intro: step_leave [OF prod.collapse [symmetric]])
next
  case (ActRequest cid q game_ms random now)
  assume "act env a m = Some m'"
  then obtain h' es where r: "handle_transition_request env cid q 0 game_ms random now (m_hub m) = Some (h', es)"
    and fresh: "case random of None \<Rightarrow> True | Some a \<Rightarrow> a \<notin> set (grant_auths m)"
    and m': "m' = m\<lparr>m_hub := h', m_grants := (case transition_grants h' cid of None \<Rightarrow> m_grants m
             | Some g \<Rightarrow> (cid, tg_authorization g, tg_rule g, game_ms) # m_grants m)\<rparr>"
    unfolding ActRequest
    by (cases "handle_transition_request env cid q 0 game_ms random now (m_hub m)") (auto split: if_splits)
  show ?thesis unfolding m' by (rule step_request [OF r]) (use fresh in simp)
next
  case (ActCommit cid c now)
  assume "act env a m = Some m'"
  then obtain h' es left where r: "transition_commit_begin cid c now (m_hub m) = Some ((h', es), left)"
    and m': "m' = m\<lparr>m_hub := h', m_pending := (case left of None \<Rightarrow> m_pending m | Some g \<Rightarrow> (cid, c, g) # m_pending m),
           m_commits := (case left of None \<Rightarrow> m_commits m | Some g \<Rightarrow> (cid, tg_authorization g, tg_rule g) # m_commits m)\<rparr>"
    unfolding ActCommit by (cases "transition_commit_begin cid c now (m_hub m)") auto
  show ?thesis unfolding m' by (rule step_commit [OF r])
qed (auto intro: step_forklift_update step_cargo_claim)

fun acts :: "hub_env \<Rightarrow> action list \<Rightarrow> machine \<Rightarrow> machine option" where
  "acts env [] m = Some m"
| "acts env (a # as) m = (case act env a m of None \<Rightarrow> None | Some m' \<Rightarrow> acts env as m')"

lemma acts_reach: "acts env as m = Some m' \<Longrightarrow> reach (started env) (hub_step env) m \<Longrightarrow> reach (started env) (hub_step env) m'"
  by (induction as arbitrary: m) (auto split: option.splits dest: act_step intro: reach_step)

definition demo_access :: access_catalog where
  "demo_access = (case load_access Some demo_manifest of Inr c \<Rightarrow> c
     | Inl _ \<Rightarrow> \<lparr>ac_manifest = demo_manifest, ac_by_transition = Map.empty, ac_controlled = (\<lambda>_. False), ac_always = (\<lambda>_. False)\<rparr>)"

definition demo_trig :: trig where
  "demo_trig = \<lparr>tr_sin = (\<lambda>_. Fin 0), tr_cos = (\<lambda>_. Fin 1), tr_atan2 = (\<lambda>_ _. Fin 0)\<rparr>"

definition demo_env :: "spawn_world list \<Rightarrow> hub_env" where
  "demo_env ws = \<lparr>env_trig = demo_trig, env_spawns = demo_spawns\<lparr>sm_worlds := mput_all (map (\<lambda>w. (''ma00'', w)) ws) mempty\<rparr>,
     env_access = demo_access, env_lower = (\<lambda>s. s), env_valid_avatar = (\<lambda>a. a = ''ryo'')\<rparr>"

definition demo_forklifts :: spawn_world where
  "demo_forklifts = \<lparr>sw_forklifts = [\<lparr>fs_id = ''forklift-1'', fs_model = ''m'', fs_position = demo_position, fs_yaw = Fin 0\<rparr>],
     sw_cargo = [], sw_cargo_enabled = True\<rparr>"

definition demo_cargo :: spawn_world where
  "demo_cargo = demo_forklifts\<lparr>sw_forklifts := [], sw_cargo := [\<lparr>cs_id = ''cargo-job-1'', cs_position = demo_position\<rparr>]\<rparr>"

definition demo_report :: "string \<Rightarrow> int \<Rightarrow> string option \<Rightarrow> presence_msg" where
  "demo_report world n vehicle = \<lparr>pm_world = world, pm_character = ''ryo'', pm_avatar = '''', pm_x = Fin 2, pm_y = Fin 0, pm_z = Fin 3,
     pm_yaw = Fin 0, pm_movement = ''idle'', pm_animation = None, pm_animation_revision = 0, pm_sequence = n, pm_vehicle = vehicle,
     pm_lift = Fin 0, pm_steering = Fin 0, pm_wheel_roll = Fin 0, pm_qx = Fin 0, pm_qy = Fin 0, pm_qz = Fin 0, pm_qw = Fin 0\<rparr>"

definition demo_guest :: connection where
  "demo_guest = \<lparr>cn_account = 0, cn_account_type = '''', cn_character = None\<rparr>"

definition demo_player :: connection where
  "demo_player = \<lparr>cn_account = 1, cn_account_type = ''player'',
     cn_character = Some \<lparr>ci_id = 7, ci_name = ''Ryo'', ci_avatar = ''ryo'', ci_world = ''dobuita''\<rparr>\<rparr>"

definition demo_start :: "spawn_world list \<Rightarrow> machine" where
  "demo_start ws = \<lparr>m_hub = new_hub (demo_env ws) 2 0 0, m_pending = [], m_grants = [], m_commits = []\<rparr>"

definition demo_request :: transition_request where
  "demo_request = \<lparr>tq_request = ''q1'', tq_transition = ''t'', tq_door = 30, tq_source = ''dobuita'', tq_destination = ''dcha''\<rparr>"

text \<open>A guest walks through the demo door at 08:20 of the first day; another one drives the forklift.\<close>

definition demo_door :: "action list" where
  "demo_door = [ActRegister demo_guest (Some ''a'') 0, ActPresence ''a'' (demo_report ''dobuita'' 1 None) 1000,
     ActRequest ''a'' demo_request 30000000 (Some ''k'') 2000, ActCommit ''a'' \<lparr>tc_request = ''q1'', tc_authorization = ''k''\<rparr> 3000,
     ActFinish 4000]"

definition demo_drive :: "action list" where
  "demo_drive = [ActRegister demo_guest (Some ''b'') 0, ActPresence ''b'' (demo_report ''ma00'' 1 (Some ''forklift-1'')) 1000]"

lemma demo_start_reached: "reach (started (demo_env ws)) (hub_step (demo_env ws)) (demo_start ws)"
  by (rule reach_init) (auto simp: started_def demo_start_def)

lemma demo_reached: "acts (demo_env ws) as (demo_start ws) = Some m \<Longrightarrow> reach (started (demo_env ws)) (hub_step (demo_env ws)) m"
  by (erule acts_reach) (rule demo_start_reached)

lemma demo_door_run: "case acts (demo_env []) demo_door (demo_start []) of None \<Rightarrow> False
   | Some m \<Rightarrow> map_option aa_destination (authorized_arrivals (m_hub m) ''a'') = Some ''dcha'' \<and> presences (m_hub m) ''a'' = None
     \<and> clients (m_hub m) = [''a''] \<and> objects (m_hub m) ''a'' \<noteq> None \<and> commit_auths m = [''k'']"
  by code_simp

lemma demo_drive_run: "case acts (demo_env [demo_forklifts]) demo_drive (demo_start [demo_forklifts]) of None \<Rightarrow> False
   | Some m \<Rightarrow> forklift_owners (m_hub m) ''forklift-1'' = Some ''b'' \<and> rooms (m_hub m) ''ma00'' = Some [''b'']"
  by code_simp

lemma demo_player_run: "case acts (demo_env []) [ActRegister demo_player (Some ''c'') 0] (demo_start []) of None \<Rightarrow> False
   | Some m \<Rightarrow> active_characters (m_hub m) 7 = Some ''c'' \<and> mget (names (m_hub m)) ''Ryo'' = Some ''c''"
  by code_simp

lemma demo_cargo_run: "map_option cg_owner (mget (cargo (m_hub (demo_start [demo_cargo]))) ''cargo-job-1'') = Some ''''
   \<and> mget (cargo (m_hub (demo_start [demo_cargo]))) ''cargo-job-2'' = None"
  by code_simp

lemma demo_controlled: "controls_destination (env_access (demo_env [])) ''dcha''
   \<and> validate_presence (demo_env []) (demo_report ''dcha'' 2 None) \<noteq> None"
  by code_simp

lemma demo_door_arrival:
  obtains m where "acts (demo_env []) demo_door (demo_start []) = Some m" "commit_auths m = [''k'']"
    "authorized_arrivals (m_hub m) ''a'' \<noteq> None"
    "aa_destination (the (authorized_arrivals (m_hub m) ''a'')) = ''dcha''"
    "check_presence (demo_env []) ''a'' (demo_report ''dcha'' 2 None) (m_hub m) \<noteq> None"
proof -
  obtain m where m: "acts (demo_env []) demo_door (demo_start []) = Some m" "commit_auths m = [''k'']"
    "map_option aa_destination (authorized_arrivals (m_hub m) ''a'') = Some ''dcha''" "presences (m_hub m) ''a'' = None"
    "clients (m_hub m) = [''a'']" "objects (m_hub m) ''a'' \<noteq> None"
    using demo_door_run by (auto split: option.splits)
  then have "check_presence (demo_env []) ''a'' (demo_report ''dcha'' 2 None) (m_hub m) \<noteq> None"
    using demo_controlled
    by (auto simp: check_presence_def stale_report_def normalize_vehicle_presence_def demo_report_def Let_def no_vehicle_orientation_def split: option.splits)
  with m that show ?thesis by auto
qed

theorem committed_travel_completes_witness:
  "\<exists>h h' es. handle_presence (demo_env []) ''a'' (demo_report ''dcha'' 2 None) 5000 h = (True, h', es)
     \<and> presence_world h' ''a'' = Some ''dcha'' \<and> authorized_arrivals h' ''a'' = None"
proof (rule demo_door_arrival)
  fix m assume "authorized_arrivals (m_hub m) ''a'' \<noteq> None" and d: "aa_destination (the (authorized_arrivals (m_hub m) ''a'')) = ''dcha''"
    and c: "check_presence (demo_env []) ''a'' (demo_report ''dcha'' 2 None) (m_hub m) \<noteq> None"
  then obtain a where a: "authorized_arrivals (m_hub m) ''a'' = Some a" by blast
  have "pm_world (demo_report ''dcha'' 2 None) = aa_destination a" using a d by (simp add: demo_report_def)
  from committed_travel_completes [OF a this c, of 5000] a d show ?thesis by (metis option.sel)
qed

theorem controlled_worlds_need_a_door_witness:
  "\<exists>m. reach (started (demo_env [])) (hub_step (demo_env [])) m \<and> presence_world (m_hub m) ''a'' = Some ''dcha''
     \<and> ((\<exists>c. objects (m_hub m) ''a'' = Some c \<and> cl_initial_world c = ''dcha'')
       \<or> (\<exists>k r ms t. (''a'', k, r) \<in> set (m_commits m) \<and> (''a'', k, r, ms) \<in> set (m_grants m)
          \<and> dst_world (rule_destination r) = ''dcha'' \<and> catalog_rule (env_access (demo_env [])) t = Some r
          \<and> is_rule_open (env_access (demo_env [])) r (from_unix_milli ms)))"
proof (rule demo_door_arrival)
  fix m assume m: "acts (demo_env []) demo_door (demo_start []) = Some m" and "authorized_arrivals (m_hub m) ''a'' \<noteq> None"
    and d: "aa_destination (the (authorized_arrivals (m_hub m) ''a'')) = ''dcha''"
    and c: "check_presence (demo_env []) ''a'' (demo_report ''dcha'' 2 None) (m_hub m) \<noteq> None"
  then obtain a where a: "authorized_arrivals (m_hub m) ''a'' = Some a" by blast
  obtain cl animation vehicle q where c: "check_presence (demo_env []) ''a'' (demo_report ''dcha'' 2 None) (m_hub m) = Some (cl, animation, vehicle, q)"
    using c by auto
  obtain h1 where "allow_presence_destination (demo_env []) ''a'' (pm_world (demo_report ''dcha'' 2 None)) (m_hub m) = (True, h1)"
    using a d by (simp add: allow_presence_destination_def Let_def demo_report_def)
  from handle_presence_accepts [OF c this] obtain h' es
    where p: "handle_presence (demo_env []) ''a'' (demo_report ''dcha'' 2 None) 5000 (m_hub m) = (True, h', es)" .
  have r: "reach (started (demo_env [])) (hub_step (demo_env [])) (m\<lparr>m_hub := h'\<rparr>)"
    by (rule reach_step [OF demo_reached [OF m] step_presence [OF p]])
  have w: "presence_world (m_hub (m\<lparr>m_hub := h'\<rparr>)) ''a'' = Some ''dcha''"
    by (rule accepted_presence [OF p]) (simp add: presence_world_def demo_report_def)
  from controlled_worlds_need_a_door [OF r w] demo_controlled w r show ?thesis by blast
qed

theorem authorizations_are_single_use_witness:
  "\<exists>m. reach (started (demo_env [])) (hub_step (demo_env [])) m \<and> commit_auths m = [''k'']
     \<and> (\<forall>i a r. (i, a, r) \<in> set (m_commits m) \<longrightarrow> (\<exists>ms. (i, a, r, ms) \<in> set (m_grants m)))"
proof (rule demo_door_arrival)
  fix m assume m: "acts (demo_env []) demo_door (demo_start []) = Some m" "commit_auths m = [''k'']"
  from authorizations_are_single_use [OF demo_reached [OF m(1)]] demo_reached [OF m(1)] m(2) show ?thesis by blast
qed

lemma demo_driven:
  obtains m where "reach (started (demo_env [demo_forklifts])) (hub_step (demo_env [demo_forklifts])) m"
    "forklift_owners (m_hub m) ''forklift-1'' = Some ''b''" "rooms (m_hub m) ''ma00'' = Some [''b'']"
  using demo_drive_run demo_reached [of "[demo_forklifts]" demo_drive] by (auto split: option.splits)

theorem rooms_are_the_presences_witness:
  "\<exists>m. reach (started (demo_env [demo_forklifts])) (hub_step (demo_env [demo_forklifts])) m
     \<and> rooms (m_hub m) ''ma00'' = Some [''b''] \<and> presence_world (m_hub m) ''b'' = Some ''ma00''"
proof (rule demo_driven)
  fix m assume m: "reach (started (demo_env [demo_forklifts])) (hub_step (demo_env [demo_forklifts])) m" "rooms (m_hub m) ''ma00'' = Some [''b'']"
  have "\<exists>r. rooms (m_hub m) ''ma00'' = Some r \<and> ''b'' \<in> set r" using m(2) by simp
  then have "presence_world (m_hub m) ''b'' = Some ''ma00''"
    using conjunct1 [OF rooms_are_the_presences [OF m(1)]] by blast
  with m show ?thesis by blast
qed

theorem forklift_owners_drive_them_witness:
  "\<exists>m. reach (started (demo_env [demo_forklifts])) (hub_step (demo_env [demo_forklifts])) m
     \<and> forklift_owners (m_hub m) ''forklift-1'' = Some ''b'' \<and> presence_vehicle (m_hub m) ''b'' = Some ''forklift-1''"
proof (rule demo_driven)
  fix m assume m: "reach (started (demo_env [demo_forklifts])) (hub_step (demo_env [demo_forklifts])) m"
    "forklift_owners (m_hub m) ''forklift-1'' = Some ''b''"
  with forklift_owners_drive_them [OF m(1)] show ?thesis by blast
qed

theorem cargo_bookkeeping_is_exact_witness:
  "cargo_spawns (m_hub (demo_start [demo_cargo])) ''cargo-job-2'' = None
   \<and> (\<exists>s. mget (cargo (m_hub (demo_start [demo_cargo]))) ''cargo-job-1'' = Some s \<and> cg_claim_expires s = 0)"
  using cargo_bookkeeping_is_exact [OF demo_start_reached [of "[demo_cargo]"]] demo_cargo_run by auto

theorem sessions_are_live_witness:
  "\<exists>m. reach (started (demo_env [])) (hub_step (demo_env [])) m \<and> active_characters (m_hub m) 7 = Some ''c''
     \<and> ''c'' \<in> set (clients (m_hub m)) \<and> (\<exists>cl. objects (m_hub m) ''c'' = Some cl \<and> cl_character cl = 7)"
proof -
  obtain m where m: "acts (demo_env []) [ActRegister demo_player (Some ''c'') 0] (demo_start []) = Some m"
    "active_characters (m_hub m) 7 = Some ''c''"
    using demo_player_run by (auto split: option.splits)
  have r: "reach (started (demo_env [])) (hub_step (demo_env [])) m" by (rule demo_reached [OF m(1)])
  from conjunct1 [OF sessions_are_live [OF r]] m(2) r show ?thesis by blast
qed

end
