(* ===== verification/HubLoops.thy ===== *)
theory HubLoops
  imports HubRuns
begin

text \<open>
  The loops of the realtime hub that look for an unused identity: the name of a crate that replaces a lost one
  and the name of a guest. The model gives them one unit of fuel more than there are names in use; here this is
  shown to be enough, because the counters do not repeat before they wrap around.
\<close>

section \<open>Counters that skip what is taken\<close>

text \<open>Among more values of an injective counter than a map has keys, one is not a key.\<close>

lemma free_key:
  assumes "inj_on key {..<k}" and "length (entries m) < k"
  shows "\<exists>j<k. mget m (key j) = None"
proof (rule ccontr)
  assume "\<not> (\<exists>j<k. mget m (key j) = None)"
  then have "\<forall>j<k. \<exists>v. (key j, v) \<in> set (entries m)" by (auto simp: in_entries)
  then have "key ` {..<k} \<subseteq> fst ` set (entries m)" by force
  then have "card (key ` {..<k}) \<le> card (fst ` set (entries m))" by (simp add: card_mono)
  also have "\<dots> \<le> length (entries m)" by (meson card_image_le card_length finite_set le_trans)
  finally show False using assms by (simp add: card_image)
qed

lemma wrapped_counter_inj: "k \<le> 2 ^ 64 \<Longrightarrow> inj_on (\<lambda>j. wrapu64 (n + int j)) {..<k}"
proof (rule inj_onI)
  fix i j assume k: "k \<le> 2 ^ 64" and "i \<in> {..<k}" "j \<in> {..<k}" "wrapu64 (n + int i) = wrapu64 (n + int j)"
  then have "int i < 2 ^ 64" "int j < 2 ^ 64" "(int i - int j) mod 2 ^ 64 = 0"
    by (auto simp: wrapu64_def mod_eq_dvd_iff dvd_eq_mod_eq_0)
  then obtain q where "int i - int j = 2 ^ 64 * q" by auto
  moreover have "- (2 ^ 64) < int i - int j" "int i - int j < 2 ^ 64" using \<open>int i < 2 ^ 64\<close> \<open>int j < 2 ^ 64\<close> by linarith+
  ultimately have "- (2 ^ 64) < (2 ^ 64 :: int) * q" "2 ^ 64 * q < (2 ^ 64 :: int)" by simp_all
  then have "q = 0" by simp
  then show "i = j" using \<open>int i - int j = 2 ^ 64 * q\<close> by simp
qed

lemma wrapu64_add: "wrapu64 (wrapu64 a + b) = wrapu64 (a + b)"
  by (simp add: wrapu64_def mod_add_left_eq)

lemma fresh_cargo_id_None:
  "fresh_cargo_id fuel (wrapu64 n) m = None \<Longrightarrow> j < fuel \<Longrightarrow> mget m (cargo_job_id (wrapu64 (n + int j))) \<noteq> None"
proof (induction fuel arbitrary: n j)
  case (Suc fuel)
  have e: "wrapu64 (wrapu64 n + 1) = wrapu64 (n + 1)" by (rule wrapu64_add)
  show ?case using Suc.prems Suc.IH [of "n + 1"] e by (cases j) (auto split: if_splits simp: algebra_simps)
qed simp

lemma fresh_cargo_id_found:
  assumes "length (entries m) < 2 ^ 64"
  shows "fresh_cargo_id (Suc (length (entries m))) (wrapu64 n) m \<noteq> None"
proof
  assume none: "fresh_cargo_id (Suc (length (entries m))) (wrapu64 n) m = None"
  have "inj_on (\<lambda>j. cargo_job_id (wrapu64 (n + int j))) {..<Suc (length (entries m))}"
  proof (rule inj_onI)
    fix i j assume ij: "i \<in> {..<Suc (length (entries m))}" "j \<in> {..<Suc (length (entries m))}"
      and "cargo_job_id (wrapu64 (n + int i)) = cargo_job_id (wrapu64 (n + int j))"
    then have "nat (wrapu64 (n + int i)) = nat (wrapu64 (n + int j))" by (auto simp: cargo_job_id_def dest: decimal_inj)
    moreover have "0 \<le> wrapu64 x" for x by (simp add: wrapu64_def)
    ultimately have "wrapu64 (n + int i) = wrapu64 (n + int j)" by (metis eq_nat_nat_iff)
    then show "i = j" using wrapped_counter_inj [of "Suc (length (entries m))" n] ij assms by (auto dest: inj_onD)
  qed
  from free_key [OF this, of m] obtain j where "j < Suc (length (entries m))" "mget m (cargo_job_id (wrapu64 (n + int j))) = None" by auto
  with fresh_cargo_id_None [OF none] show False by blast
qed

text \<open>The case mapping of the hub's environment keeps guest names apart, as \<open>strings.ToLower\<close> does: it keeps digits.\<close>

definition keeps_guests_apart :: "hub_env \<Rightarrow> bool" where
  "keeps_guests_apart env \<longleftrightarrow> inj (\<lambda>n. env_lower env (''Guest'' @ decimal n))"

lemma counted_guest_name_None:
  "counted_guest_name fuel env n h = None \<Longrightarrow> j < fuel \<Longrightarrow>
     guest_name_taken env h (''Guest'' @ int_decimal (wrapu64 (10000 + (n + 1) + int j)))"
proof (induction fuel arbitrary: n j)
  case (Suc fuel)
  define N where "N = (\<lambda>x. ''Guest'' @ int_decimal (wrapu64 x))"
  have e: "N (10000 + wrapu64 x) = N (10000 + x)" for x by (simp add: N_def wrapu64_def mod_add_right_eq)
  have f: "counted_guest_name fuel env (wrapu64 (n + 1)) h = counted_guest_name fuel env (n + 1) h"
    by (cases fuel) (simp_all add: Let_def wrapu64_add)
  have "counted_guest_name (Suc fuel) env n h = (if \<not> guest_name_taken env h (N (10000 + wrapu64 (n + 1)))
      then Some (N (10000 + wrapu64 (n + 1)), wrapu64 (n + 1)) else counted_guest_name fuel env (wrapu64 (n + 1)) h)"
    by (simp only: counted_guest_name.simps Let_def N_def)
  then have t: "guest_name_taken env h (N (10000 + (n + 1)))" "counted_guest_name fuel env (n + 1) h = None"
    using Suc.prems(1) by (simp_all only: e f split: if_splits) simp_all
  have "guest_name_taken env h (N (10000 + (n + 1) + int j))"
  proof (cases j)
    case (Suc i)
    then have "guest_name_taken env h (N (10000 + (n + 1 + 1) + int i))" using Suc.IH [OF t(2)] Suc.prems(2) by (simp add: N_def)
    moreover have "10000 + (n + 1 + 1) + int i = 10000 + (n + 1) + int j" using Suc by simp
    ultimately show ?thesis by (simp only:)
  qed (use t(1) in simp)
  then show ?case by (simp add: N_def)
qed simp

lemma guest_name_found:
  assumes "keeps_guests_apart env" and "length (entries (names h)) < 2 ^ 64"
  shows "counted_guest_name (Suc (length (entries (names h)))) env n h \<noteq> None"
proof
  assume none: "counted_guest_name (Suc (length (entries (names h)))) env n h = None"
  let ?k = "\<lambda>j. env_lower env (''Guest'' @ int_decimal (wrapu64 (10000 + (n + 1) + int j)))"
  have pos: "0 \<le> wrapu64 x" for x by (simp add: wrapu64_def)
  then have e: "int_decimal (wrapu64 x) = decimal (nat (wrapu64 x))" for x by (simp add: int_decimal_def not_less [symmetric])
  have "inj_on ?k {..<Suc (length (entries (names h)))}"
  proof (rule inj_onI)
    fix i j assume ij: "i \<in> {..<Suc (length (entries (names h)))}" "j \<in> {..<Suc (length (entries (names h)))}" and "?k i = ?k j"
    then have "nat (wrapu64 (10000 + (n + 1) + int i)) = nat (wrapu64 (10000 + (n + 1) + int j))"
      using assms(1) by (auto simp: keeps_guests_apart_def e dest: injD)
    then have "wrapu64 (10000 + (n + 1) + int i) = wrapu64 (10000 + (n + 1) + int j)" using pos by (metis eq_nat_nat_iff)
    then show "i = j" using wrapped_counter_inj [of "Suc (length (entries (names h)))" "10000 + (n + 1)"] ij assms(2) by (auto dest: inj_onD)
  qed
  from free_key [OF this, of "names h"] obtain j where "j < Suc (length (entries (names h)))" "mget (names h) (?k j) = None" by auto
  with counted_guest_name_None [OF none] show False unfolding guest_name_taken_def by blast
qed

text \<open>
  C25: the two loops of the hub that draw an unused identity end: with fewer than 2^64 crates and names, a
  replenishment and the choice of a guest's name always return, whatever random draws were made before.
\<close>

theorem identity_loops_end:
  assumes "keeps_guests_apart env" and "length (entries (cargo h)) < 2 ^ 64" and "length (entries (names h)) < 2 ^ 64"
    and "0 \<le> next_cargo_id h" and "next_cargo_id h < 2 ^ 64"
  shows "replenish_cargo env source away now h \<noteq> None \<and> allocate_guest_name env draws h \<noteq> None"
proof -
  have "wrapu64 (next_cargo_id h) = next_cargo_id h" using assms(4,5) by (simp add: wrapu64_def)
  then have "fresh_cargo_id (Suc (length (entries (cargo h)))) (next_cargo_id h) (cargo h) \<noteq> None"
    using fresh_cargo_id_found [OF assms(2), of "next_cargo_id h"] by metis
  then have "replenish_cargo env source away now h \<noteq> None"
    by (auto simp: replenish_cargo_def Let_def simp del: fresh_cargo_id.simps split: option.split)
  moreover have "allocate_guest_name env draws h \<noteq> None" using guest_name_found [OF assms(1,3), of "guest_counter h"]
    by (auto simp: allocate_guest_name_def simp del: counted_guest_name.simps split: option.split)
  ultimately show ?thesis ..
qed

theorem identity_loops_end_witness:
  "replenish_cargo (demo_env []) ''cargo-job-1'' 0 1 (m_hub (demo_start [])) \<noteq> None
     \<and> allocate_guest_name (demo_env []) [None, Some 7] (m_hub (demo_start [])) \<noteq> None"
proof (rule identity_loops_end)
  show "keeps_guests_apart (demo_env [])" by (auto simp: keeps_guests_apart_def demo_env_def inj_def dest: decimal_inj)
  have "length (entries (cargo (m_hub (demo_start [])))) < 99" "length (entries (names (m_hub (demo_start [])))) < 99"
    "0 \<le> next_cargo_id (m_hub (demo_start []))" "next_cargo_id (m_hub (demo_start [])) < 99" by code_simp+
  then show "length (entries (cargo (m_hub (demo_start [])))) < 2 ^ 64" "length (entries (names (m_hub (demo_start [])))) < 2 ^ 64"
    "0 \<le> next_cargo_id (m_hub (demo_start []))" "next_cargo_id (m_hub (demo_start [])) < 2 ^ 64" by simp_all
qed

end
