(* ===== verification/ParseFloat.thy ===== *)
theory ParseFloat
  imports GoMap
begin

text \<open>
  \<open>strconv.ParseFloat(s, 64)\<close>: decimal and hexadecimal numbers of Go's syntax, with underscores
  between digits, correctly rounded. The result is \<open>None\<close> also for the texts of infinities and NaN and
  for numbers out of range, which every caller in the program rejects.
\<close>

definition lower_is :: "char \<Rightarrow> char \<Rightarrow> bool" where
  "lower_is x c \<longleftrightarrow> (of_char c :: nat) = of_char x \<or> (of_char c :: nat) + 32 = of_char x"

definition hex_value :: "char \<Rightarrow> nat option" where
  "hex_value c =
     (if is_digit_char c then Some (of_char c - 48)
      else if char_between (CHR ''a'') (CHR ''f'') c then Some (of_char c - 87)
      else if char_between (CHR ''A'') (CHR ''F'') c then Some (of_char c - 55)
      else None)"

definition digit_value :: "bool \<Rightarrow> char \<Rightarrow> nat option" where
  "digit_value hex c = (if hex \<or> is_digit_char c then hex_value c else None)"

record mantissa =
  mt_value :: nat
  mt_fraction :: nat
  mt_dot :: bool
  mt_digits :: bool
  mt_underscore :: bool

definition no_mantissa :: mantissa where
  "no_mantissa = \<lparr>mt_value = 0, mt_fraction = 0, mt_dot = False, mt_digits = False, mt_underscore = False\<rparr>"

definition add_digit :: "bool \<Rightarrow> nat \<Rightarrow> mantissa \<Rightarrow> mantissa" where
  "add_digit hex d m =
     m\<lparr>mt_value := mt_value m * (if hex then 16 else 10) + d, mt_digits := True,
       mt_fraction := (if mt_dot m then mt_fraction m + 1 else mt_fraction m)\<rparr>"

fun scan_mantissa :: "bool \<Rightarrow> mantissa \<Rightarrow> string \<Rightarrow> mantissa \<times> string" where
  "scan_mantissa hex m [] = (m, [])"
| "scan_mantissa hex m (c # cs) =
     (if c = CHR ''_'' then scan_mantissa hex (m\<lparr>mt_underscore := True\<rparr>) cs
      else if c = CHR ''.'' then (if mt_dot m then (m, c # cs) else scan_mantissa hex (m\<lparr>mt_dot := True\<rparr>) cs)
      else case digit_value hex c of
        Some d \<Rightarrow> scan_mantissa hex (add_digit hex d m) cs
      | None \<Rightarrow> (m, c # cs))"

text \<open>The digits of an exponent: its value, which stops growing at ten thousand, and whether there was an underscore.\<close>

fun scan_exponent :: "int \<Rightarrow> bool \<Rightarrow> string \<Rightarrow> int \<times> bool \<times> string" where
  "scan_exponent e u [] = (e, u, [])"
| "scan_exponent e u (c # cs) =
     (if c = CHR ''_'' then scan_exponent e True cs
      else if is_digit_char c
      then scan_exponent (if e < 10000 then e * 10 + int (of_char c - 48) else e) u cs
      else (e, u, c # cs))"

text \<open>The whole exponent part after its letter: \<open>None\<close> where a digit is missing or something follows.\<close>

definition parse_exponent :: "string \<Rightarrow> (int \<times> bool) option" where
  "parse_exponent s =
     (let (sign, body) = (case s of [] \<Rightarrow> (1, [])
        | c # cs \<Rightarrow> if c = CHR ''+'' then (1, cs) else if c = CHR ''-'' then (- 1, cs) else (1, s)) in
      case body of
        [] \<Rightarrow> None
      | c # cs \<Rightarrow>
          if \<not> is_digit_char c then None
          else (case scan_exponent 0 False body of
            (e, u, []) \<Rightarrow> Some (sign * e, u)
          | (e, u, _ # _) \<Rightarrow> None))"

datatype last_seen = SeenStart | SeenDigit | SeenUnderscore | SeenOther

fun underscores_in_place :: "bool \<Rightarrow> last_seen \<Rightarrow> string \<Rightarrow> bool" where
  "underscores_in_place hex p [] = (p \<noteq> SeenUnderscore)"
| "underscores_in_place hex p (c # cs) =
     (if digit_value hex c \<noteq> None then underscores_in_place hex SeenDigit cs
      else if c = CHR ''_'' then p = SeenDigit \<and> underscores_in_place hex SeenUnderscore cs
      else p \<noteq> SeenUnderscore \<and> underscores_in_place hex SeenOther cs)"

definition strip_sign :: "string \<Rightarrow> bool \<times> string" where
  "strip_sign s = (case s of [] \<Rightarrow> (False, [])
     | c # cs \<Rightarrow> if c = CHR ''+'' then (False, cs) else if c = CHR ''-'' then (True, cs) else (False, s))"

definition base_prefix :: "string \<Rightarrow> char option" where
  "base_prefix s = (case s of z # x # _ \<Rightarrow>
       if z = CHR ''0'' then find (\<lambda>b. lower_is b x) [CHR ''b'', CHR ''o'', CHR ''x''] else None
     | _ \<Rightarrow> None)"

definition underscore_ok :: "string \<Rightarrow> bool" where
  "underscore_ok s =
     (let body = snd (strip_sign s) in
      case base_prefix body of
        Some b \<Rightarrow> underscores_in_place (b = CHR ''x'') SeenDigit (drop 2 body)
      | None \<Rightarrow> underscores_in_place False SeenStart body)"

definition scale :: "bool \<Rightarrow> mantissa \<Rightarrow> int \<Rightarrow> rat" where
  "scale hex m e =
     (if hex then of_nat (mt_value m) * pow2 (e - 4 * int (mt_fraction m))
      else let k = e - int (mt_fraction m) in
        if 0 \<le> k then of_nat (mt_value m) * 10 ^ nat k else of_nat (mt_value m) / 10 ^ nat (- k))"

definition parse_float :: "string \<Rightarrow> f64 option" where
  "parse_float s =
     (let (neg, body) = strip_sign s;
          hex = (base_prefix body = Some (CHR ''x'') \<and> 2 < length body);
          (m, rest) = scan_mantissa hex no_mantissa (if hex then drop 2 body else body) in
      if \<not> mt_digits m then None
      else case (case rest of
          [] \<Rightarrow> if hex then None else Some (0, False)
        | c # cs \<Rightarrow> if lower_is (if hex then CHR ''p'' else CHR ''e'') c then parse_exponent cs else None) of
        None \<Rightarrow> None
      | Some (e, u) \<Rightarrow>
          if (mt_underscore m \<or> u) \<and> \<not> underscore_ok s then None
          else (case fl (if neg then - scale hex m e else scale hex m e) of
            Fin x \<Rightarrow> Some (Fin x)
          | _ \<Rightarrow> None))"

section \<open>Integers read back\<close>

lemma digit_char: "n < 10 \<Longrightarrow> is_digit_char (digit n) \<and> digit n \<noteq> CHR ''_'' \<and> digit n \<noteq> CHR ''.'' \<and> digit n \<noteq> CHR ''-''
   \<and> digit n \<noteq> CHR ''+'' \<and> digit_value False (digit n) = Some n"
proof -
  assume n: "n < 10"
  have all: "\<forall>n \<in> set [0..<10]. is_digit_char (digit n) \<and> digit n \<noteq> CHR ''_'' \<and> digit n \<noteq> CHR ''.'' \<and> digit n \<noteq> CHR ''-''
   \<and> digit n \<noteq> CHR ''+'' \<and> digit_value False (digit n) = Some n"
    by code_simp
  show ?thesis by (rule bspec [OF all]) (use n in simp)
qed

lemma scan_decimal:
  "\<not> mt_dot m \<Longrightarrow> scan_mantissa False m (decimal n @ rest)
     = scan_mantissa False (m\<lparr>mt_value := mt_value m * 10 ^ length (decimal n) + n, mt_digits := True\<rparr>) rest"
proof (induction n arbitrary: m rest rule: less_induct)
  case (less n)
  have step: "scan_mantissa False m' (digit (n mod 10) # rest')
      = scan_mantissa False (m'\<lparr>mt_value := mt_value m' * 10 + n mod 10, mt_digits := True\<rparr>) rest'" if "\<not> mt_dot m'" for m' rest'
    using digit_char [of "n mod 10"] that by (simp add: add_digit_def)
  show ?case
  proof (cases "n < 10")
    case True
    then show ?thesis using step [of m rest] less.prems by (simp add: decimal.simps [of n])
  next
    case False
    have len: "length (decimal n) = Suc (length (decimal (n div 10)))" using False by (simp add: decimal.simps [of n])
    have "scan_mantissa False m (decimal n @ rest) = scan_mantissa False m (decimal (n div 10) @ (digit (n mod 10) # rest))"
      using False by (simp add: decimal.simps [of n])
    also have "\<dots> = scan_mantissa False (m\<lparr>mt_value := mt_value m * 10 ^ length (decimal (n div 10)) + n div 10, mt_digits := True\<rparr>)
        (digit (n mod 10) # rest)"
      using less.IH [of "n div 10" m "digit (n mod 10) # rest"] less.prems False by simp
    also have "\<dots> = scan_mantissa False (m\<lparr>mt_value := mt_value m * 10 ^ length (decimal n) + n, mt_digits := True\<rparr>) rest"
    proof -
      have "(mt_value m * 10 ^ length (decimal (n div 10)) + n div 10) * 10 + n mod 10
          = mt_value m * (10 * 10 ^ length (decimal (n div 10))) + (n div 10 * 10 + n mod 10)"
        by (simp add: distrib_left mult.left_commute)
      then have e: "(mt_value m * 10 ^ length (decimal (n div 10)) + n div 10) * 10 + n mod 10 = mt_value m * 10 ^ length (decimal n) + n"
        by (simp only: len power_Suc div_mult_mod_eq)
      define v where "v = mt_value m * 10 ^ length (decimal (n div 10)) + n div 10"
      have "scan_mantissa False (m\<lparr>mt_value := v, mt_digits := True\<rparr>) (digit (n mod 10) # rest)
          = scan_mantissa False (m\<lparr>mt_value := v * 10 + n mod 10, mt_digits := True\<rparr>) rest"
        using step [of "m\<lparr>mt_value := v, mt_digits := True\<rparr>" rest] less.prems by simp
      then show ?thesis unfolding v_def e .
    qed
    finally show ?thesis .
  qed
qed

lemma decimal_digits: "list_all is_digit_char (decimal n)"
proof (induction n rule: less_induct)
  case (less n)
  show ?case
  proof (cases "n < 10")
    case True
    then show ?thesis using digit_char [of n] by (simp add: decimal.simps [of n])
  next
    case False
    then show ?thesis using less.IH [of "n div 10"] digit_char [of "n mod 10"] by (simp add: decimal.simps [of n])
  qed
qed

lemma digit_char_not:
  assumes "is_digit_char c"
  shows "c \<noteq> CHR ''-''" "c \<noteq> CHR ''+''" "find (\<lambda>b. lower_is b c) [CHR ''b'', CHR ''o'', CHR ''x''] = None"
  using assms by (auto simp: is_digit_char_def char_between_def lower_is_def)

lemma strip_sign_decimal: "strip_sign (decimal n) = (False, decimal n)"
  using decimal_digits [of n] digit_char_not by (cases "decimal n") (auto simp: strip_sign_def)

lemma base_prefix_decimal: "base_prefix (decimal n) = None"
proof (cases "decimal n")
  case (Cons c cs)
  then show ?thesis using decimal_digits [of n] digit_char_not(3) by (cases cs) (simp_all add: base_prefix_def)
qed (simp add: base_prefix_def)

lemma scan_decimal_all: "scan_mantissa False no_mantissa (decimal n) = (no_mantissa\<lparr>mt_value := n, mt_digits := True\<rparr>, [])"
  using scan_decimal [of no_mantissa n "[]"] by (simp add: no_mantissa_def)

lemma integers_read_back:
  assumes "\<bar>n\<bar> \<le> 2 ^ 53"
  shows "parse_float (int_decimal n) = Some (Fin (of_int n))"
proof -
  have neg: "strip_sign (int_decimal n) = (n < 0, decimal (nat \<bar>n\<bar>))"
    using strip_sign_decimal [of "nat n"] by (simp add: int_decimal_def strip_sign_def)
  have v: "scale False (no_mantissa\<lparr>mt_value := k, mt_digits := True\<rparr>) 0 = of_nat k" for k
    by (simp add: scale_def no_mantissa_def)
  have scan: "scan_mantissa False no_mantissa (snd (strip_sign (int_decimal n))) = (no_mantissa\<lparr>mt_value := nat \<bar>n\<bar>, mt_digits := True\<rparr>, [])"
    by (simp add: neg scan_decimal_all)
  have q: "(if n < 0 then - of_nat (nat \<bar>n\<bar>) else of_nat (nat \<bar>n\<bar>)) = (of_int n :: rat)"
    by simp
  have "parse_float (int_decimal n) = (case fl (of_int n) of Fin x \<Rightarrow> Some (Fin x) | _ \<Rightarrow> None)"
    unfolding parse_float_def neg prod.case Let_def base_prefix_decimal
    using scan [unfolded neg snd_conv] q
    by (simp only: option.distinct simp_thms if_False prod.case v list.case option.case) (simp add: no_mantissa_def)
  with fl_of_int [OF assms] show ?thesis by simp
qed

lemma parse_float_samples:
  "parse_float ''1__0'' = None" "parse_float ''1e'' = None" "parse_float ''Inf'' = None" "parse_float ''0x10'' = None"
  "parse_float ''1_000e0'' = Some (Fin 1000)" "parse_float ''-2'' = Some (Fin (- 2))"
  by code_simp+

end
