(* ===== verification/ScriptContent.thy ===== *)
theory ScriptContent
  imports ParseFloat "HOL-Library.Char_ord" "HOL-Library.List_Lexorder" "HOL-Library.Product_Lexorder"
begin

text \<open>
  The authoring contract of scripted events, \<open>internal/scriptcontent\<close>: the command registry and its
  validation (\<open>registry.go\<close>), the check of calls against it (\<open>call_validation.go\<close>), and the trigger
  selectors (\<open>triggers.go\<close>).

  Error and diagnostic texts are constructors that carry what the text names; rendering them is left
  out, as are the fields no code reads (descriptions, trigger configurations, which are always reset).
  Where the code reports the first offender of a map, whose order Go leaves open, the constructor
  does not name it.
\<close>

section \<open>Data\<close>

record identifier_kind =
  ik_kind :: string
  ik_policy :: string

record capability =
  cap_kind :: string
  cap_identifier :: string
  cap_description :: string

record command_parameter =
  pa_name :: string
  pa_type :: string
  pa_identifier_kind :: string
  pa_optional :: bool

record dependency_rule =
  dr_access :: string
  dr_kind :: string
  dr_parameter :: string

record command_schema =
  cs_name :: string
  cs_kind :: string
  cs_parameters :: "command_parameter list"
  cs_return_type :: string
  cs_authority :: string
  cs_wait :: string
  cs_cleanup :: string
  cs_dependencies :: "dependency_rule list"

record registry =
  rg_schema :: string
  rg_version :: string
  rg_identifier_kinds :: "identifier_kind list"
  rg_capabilities :: "capability list"
  rg_entries :: "command_schema list"

record compiled_argument =
  ar_type :: string
  ar_static :: bool
  ar_value :: "string option"

record compiled_call =
  cc_kind :: string
  cc_name :: string
  cc_node :: string
  cc_file :: string
  cc_position :: "int \<times> int \<times> int \<times> int"
  cc_parse_error :: "string option"
  cc_arguments :: "compiled_argument list"

record compiled_line =
  ln_id :: string
  ln_text :: "string option"

record trigger_selector =
  ts_kind :: string
  ts_area :: string
  ts_actor :: string
  ts_object :: string
  ts_activity :: string

record trigger =
  tg_node :: string
  tg_selector :: trigger_selector
  tg_priority :: int

record dependency =
  dp_access :: string
  dp_kind :: string
  dp_identifier :: string

record identifier_usage =
  iu_kind :: string
  iu_identifier :: string

datatype trigger_error = BadCatalogIdentifier | BadTriggerShape string | UnsupportedTrigger string

datatype diagnostic_message =
    UnknownCall string string
  | CompilerReported string string
  | WrongCallKind string string string
  | BadCallArguments string
  | ArgumentCount string nat nat nat
  | NotLiteral string string
  | TypeMismatch string string string
  | BadIdentifier string
  | UnknownCapability string string
  | TooManyTriggers
  | EntryNodeNotUnique
  | EntryNodeMissing string
  | PriorityOutOfRange
  | BadSelector trigger_error

record diagnostic =
  dg_code :: string
  dg_message :: diagnostic_message
  dg_file :: string
  dg_node :: string
  dg_position :: "int \<times> int \<times> int \<times> int"

record analysis =
  an_dependencies :: "dependency list"
  an_identifiers :: "identifier_usage list"

definition yarn_command_schema_version :: string where
  "yarn_command_schema_version = ''new-yokosuka-commands-v1''"

definition yarn_max_safe_integer :: int where
  "yarn_max_safe_integer = 2 ^ 53 - 1"

definition max_yarn_triggers :: nat where
  "max_yarn_triggers = 32"

section \<open>Patterns\<close>

definition registry_name :: "string \<Rightarrow> bool" where
  "registry_name s = (case s of [] \<Rightarrow> False
     | c # cs \<Rightarrow> is_lower_char c \<and> list_all (\<lambda>d. is_lower_char d \<or> is_digit_char d \<or> d = CHR ''_'') cs)"

definition identifier_kind_name :: "string \<Rightarrow> bool" where
  "identifier_kind_name s = (case s of [] \<Rightarrow> False
     | c # cs \<Rightarrow> is_lower_char c \<and> length cs \<le> 63
         \<and> list_all (\<lambda>d. is_lower_char d \<or> is_digit_char d \<or> d = CHR ''-'') cs)"

definition catalog_char :: "char \<Rightarrow> bool" where
  "catalog_char c \<longleftrightarrow> is_alpha_char c \<or> is_digit_char c \<or> c \<in> set ''_.:/-''"

definition catalog_identifier :: "string \<Rightarrow> bool" where
  "catalog_identifier s = (case s of [] \<Rightarrow> False
     | c # cs \<Rightarrow> (is_alpha_char c \<or> is_digit_char c) \<and> length cs \<le> 159 \<and> list_all catalog_char cs)"

section \<open>The registry\<close>

datatype registry_error =
    UnexpectedSchema | VersionMismatch
  | BadIdentifierKind string | BadCapability string string | ClosedKindEmpty
  | BadEntryName string | BadEntryKind string | NoReturnType string | BadAuthority string
  | BadWait string | BadCleanup string | NotImmediate string | NoAcknowledgment string
  | BadParameter string string | RequiredAfterOptional string string | BadParameterType string string
  | BadParameterKind string string | UndeclaredKind string string | MissingDependency string string

fun check_identifier_kinds :: "(string \<rightharpoonup> string) \<Rightarrow> identifier_kind list \<Rightarrow> registry_error + (string \<rightharpoonup> string)" where
  "check_identifier_kinds policies [] = Inr policies"
| "check_identifier_kinds policies (k # ks) =
     (if \<not> identifier_kind_name (ik_kind k) \<or> (ik_policy k \<noteq> ''open'' \<and> ik_policy k \<noteq> ''closed'')
         \<or> map_get_or '''' policies (ik_kind k) \<noteq> ''''
      then Inl (BadIdentifierKind (ik_kind k))
      else check_identifier_kinds (policies(ik_kind k \<mapsto> ik_policy k)) ks)"

definition capability_key :: "string \<Rightarrow> string \<Rightarrow> string" where
  "capability_key kind identifier = kind @ [CHR 0x00] @ identifier"

fun check_capabilities ::
  "(string \<rightharpoonup> string) \<Rightarrow> string list \<Rightarrow> string list \<Rightarrow> capability list \<Rightarrow> registry_error + string list" where
  "check_capabilities policies taken covered [] = Inr covered"
| "check_capabilities policies taken covered (c # cs) =
     (let key = capability_key (cap_kind c) (cap_identifier c) in
      if map_get_or '''' policies (cap_kind c) \<noteq> ''closed'' \<or> cap_identifier c = '''' \<or> cap_description c = ''''
         \<or> key \<in> set taken
      then Inl (BadCapability (cap_kind c) (cap_identifier c))
      else check_capabilities policies (key # taken) (cap_kind c # covered) cs)"

fun check_parameters ::
  "string \<Rightarrow> (string \<rightharpoonup> string) \<Rightarrow> string list \<Rightarrow> bool \<Rightarrow> command_parameter list \<Rightarrow> registry_error + string list" where
  "check_parameters entry policies seen opt [] = Inr seen"
| "check_parameters entry policies seen opt (p # ps) =
     (if \<not> registry_name (pa_name p) \<or> pa_name p \<in> set seen then Inl (BadParameter entry (pa_name p))
      else if \<not> pa_optional p \<and> opt then Inl (RequiredAfterOptional entry (pa_name p))
      else if pa_type p \<noteq> ''string'' \<and> pa_type p \<noteq> ''number'' \<and> pa_type p \<noteq> ''bool''
      then Inl (BadParameterType entry (pa_name p))
      else if pa_identifier_kind p \<noteq> '''' \<and> (pa_type p \<noteq> ''string'' \<or> \<not> identifier_kind_name (pa_identifier_kind p))
      then Inl (BadParameterKind entry (pa_name p))
      else if pa_identifier_kind p \<noteq> '''' \<and> map_get_or '''' policies (pa_identifier_kind p) = ''''
      then Inl (UndeclaredKind entry (pa_name p))
      else check_parameters entry policies (pa_name p # seen) (opt \<or> pa_optional p) ps)"

definition check_entry :: "(string \<rightharpoonup> string) \<Rightarrow> command_schema \<Rightarrow> registry_error option" where
  "check_entry policies e =
     (let n = cs_name e in
      if cs_kind e \<noteq> ''command'' \<and> cs_kind e \<noteq> ''function'' then Some (BadEntryKind n)
      else if cs_kind e = ''function'' \<and> cs_return_type e = '''' then Some (NoReturnType n)
      else if cs_authority e \<noteq> ''server'' \<and> cs_authority e \<noteq> ''server-orchestrated-presentation'' then Some (BadAuthority n)
      else if cs_wait e \<noteq> ''none'' \<and> cs_wait e \<noteq> ''client-ack'' then Some (BadWait n)
      else if cs_cleanup e \<notin> set [''none'', ''transactional'', ''event-owned'', ''restore-previous''] then Some (BadCleanup n)
      else if cs_kind e = ''function'' \<and> (cs_authority e \<noteq> ''server'' \<or> cs_wait e \<noteq> ''none'' \<or> cs_cleanup e \<noteq> ''none'')
      then Some (NotImmediate n)
      else if cs_authority e = ''server-orchestrated-presentation''
              \<and> (cs_kind e \<noteq> ''command'' \<or> cs_wait e \<noteq> ''client-ack'' \<or> cs_cleanup e = ''none'')
      then Some (NoAcknowledgment n)
      else case check_parameters n policies [] False (cs_parameters e) of
        Inl err \<Rightarrow> Some err
      | Inr names \<Rightarrow> map_option (\<lambda>d. MissingDependency n (dr_parameter d))
                        (find (\<lambda>d. dr_parameter d \<notin> set names) (cs_dependencies e)))"

fun check_entries :: "(string \<rightharpoonup> string) \<Rightarrow> string list \<Rightarrow> command_schema list \<Rightarrow> registry_error option" where
  "check_entries policies seen [] = None"
| "check_entries policies seen (e # es) =
     (if \<not> registry_name (cs_name e) \<or> cs_name e \<in> set seen then Some (BadEntryName (cs_name e))
      else case check_entry policies e of
        Some err \<Rightarrow> Some err
      | None \<Rightarrow> check_entries policies (cs_name e # seen) es)"

definition validate_registry :: "registry \<Rightarrow> registry_error option" where
  "validate_registry r =
     (if rg_schema r \<noteq> ''new-yokosuka-command-registry-v1'' then Some UnexpectedSchema
      else if rg_version r \<noteq> yarn_command_schema_version then Some VersionMismatch
      else case check_identifier_kinds Map.empty (rg_identifier_kinds r) of
        Inl err \<Rightarrow> Some err
      | Inr policies \<Rightarrow>
          (case check_capabilities policies [] [] (rg_capabilities r) of
            Inl err \<Rightarrow> Some err
          | Inr covered \<Rightarrow>
              if \<exists>k\<in>set (rg_identifier_kinds r). policies (ik_kind k) = Some ''closed'' \<and> ik_kind k \<notin> set covered
              then Some ClosedKindEmpty
              else check_entries policies [] (rg_entries r)))"

section \<open>Calls\<close>

definition schema_of :: "registry \<Rightarrow> string \<Rightarrow> command_schema option" where
  "schema_of r n = map_of (rev (map (\<lambda>e. (cs_name e, e)) (rg_entries r))) n"

definition policy_of :: "registry \<Rightarrow> string \<Rightarrow> string" where
  "policy_of r k = map_get_or '''' (map_of (rev (map (\<lambda>x. (ik_kind x, ik_policy x)) (rg_identifier_kinds r)))) k"

definition known_capability :: "registry \<Rightarrow> string \<Rightarrow> string \<Rightarrow> bool" where
  "known_capability r kind identifier \<longleftrightarrow>
     capability_key kind identifier \<in> set (map (\<lambda>c. capability_key (cap_kind c) (cap_identifier c)) (rg_capabilities r))"

fun optional_suffix :: "command_parameter list \<Rightarrow> nat" where
  "optional_suffix [] = 0"
| "optional_suffix (p # ps) = (if pa_optional p then Suc (optional_suffix ps) else 0)"

definition minimum_arguments :: "command_schema \<Rightarrow> nat" where
  "minimum_arguments e = length (cs_parameters e) - optional_suffix (rev (cs_parameters e))"

definition call_diagnostic :: "compiled_call \<Rightarrow> string \<Rightarrow> diagnostic_message \<Rightarrow> diagnostic" where
  "call_diagnostic c code msg =
     \<lparr>dg_code = code, dg_message = msg, dg_file = cc_file c, dg_node = cc_node c,
      dg_position = (case cc_position c of (l, k, l', k') \<Rightarrow> (wrap64 (l + 1), wrap64 (k + 1), wrap64 (l' + 1), wrap64 (k' + 1)))\<rparr>"

definition argument_problem ::
  "registry \<Rightarrow> compiled_call \<Rightarrow> command_parameter \<Rightarrow> compiled_argument \<Rightarrow> (string \<times> diagnostic_message) option" where
  "argument_problem r c p a =
     (if cc_kind c = ''command'' \<and> \<not> ar_static a then Some (''NYC0005'', NotLiteral (pa_name p) (pa_type p))
      else if ar_type a \<noteq> pa_type p then Some (''NYC0006'', TypeMismatch (pa_name p) (pa_type p) (ar_type a))
      else if pa_identifier_kind p = '''' then None
      else case ar_value a of
        None \<Rightarrow> Some (''NYC0007'', BadIdentifier (pa_name p))
      | Some v \<Rightarrow>
          if \<not> ar_static a \<or> trim_space v = '''' then Some (''NYC0007'', BadIdentifier (pa_name p))
          else if policy_of r (pa_identifier_kind p) = ''closed'' \<and> \<not> known_capability r (pa_identifier_kind p) (trim_space v)
          then Some (''NYC0008'', UnknownCapability (pa_identifier_kind p) (trim_space v))
          else None)"

definition call_problems :: "registry \<Rightarrow> compiled_call \<Rightarrow> (string \<times> diagnostic_message) list" where
  "call_problems r c =
     (case schema_of r (cc_name c) of
        None \<Rightarrow> [(''NYC0001'', UnknownCall (cc_kind c) (cc_name c))]
      | Some e \<Rightarrow>
          if cs_kind e \<noteq> cc_kind c then [(''NYC0002'', WrongCallKind (cc_name c) (cs_kind e) (cc_kind c))]
          else case cc_parse_error c of
            Some t \<Rightarrow> [(''NYC0003'', BadCallArguments t)]
          | None \<Rightarrow>
              if length (cc_arguments c) < minimum_arguments e \<or> length (cs_parameters e) < length (cc_arguments c)
              then [(''NYC0004'', ArgumentCount (cc_name c) (minimum_arguments e) (length (cs_parameters e)) (length (cc_arguments c)))]
              else List.map_filter (\<lambda>(p, a). argument_problem r c p a) (zip (cs_parameters e) (cc_arguments c)))"

text \<open>The literal of argument \<open>i\<close>, trimmed; absent arguments and computed ones have none.\<close>

definition literal :: "compiled_call \<Rightarrow> nat \<Rightarrow> string option" where
  "literal c i =
     (if length (cc_arguments c) \<le> i then None
      else let a = cc_arguments c ! i in
        if \<not> ar_static a then None else map_option trim_space (ar_value a))"

definition parameter_index :: "command_schema \<Rightarrow> string \<Rightarrow> nat" where
  "parameter_index e n =
     map_get_or 0 (map_of (rev (zip (map pa_name (cs_parameters e)) [0..<length (cs_parameters e)]))) n"

definition call_identifiers :: "command_schema \<Rightarrow> compiled_call \<Rightarrow> identifier_usage gomap \<Rightarrow> identifier_usage gomap" where
  "call_identifiers e c m =
     fold (\<lambda>(i, p) m. if pa_identifier_kind p = '''' then m
        else case literal c i of
          None \<Rightarrow> m
        | Some v \<Rightarrow> mput (capability_key (pa_identifier_kind p) v) \<lparr>iu_kind = pa_identifier_kind p, iu_identifier = v\<rparr> m)
       (zip [0..<length (cs_parameters e)] (cs_parameters e)) m"

definition call_dependencies :: "command_schema \<Rightarrow> compiled_call \<Rightarrow> dependency gomap \<Rightarrow> dependency gomap" where
  "call_dependencies e c m =
     fold (\<lambda>d m. case literal c (parameter_index e (dr_parameter d)) of
          None \<Rightarrow> m
        | Some v \<Rightarrow> mput (dr_access d @ [CHR 0x00] @ capability_key (dr_kind d) v)
            \<lparr>dp_access = dr_access d, dp_kind = dr_kind d, dp_identifier = v\<rparr> m)
       (cs_dependencies e) m"

fun analyze ::
  "registry \<Rightarrow> compiled_call list \<Rightarrow> dependency gomap \<Rightarrow> identifier_usage gomap
     \<Rightarrow> (dependency gomap \<times> identifier_usage gomap) \<times> diagnostic list" where
  "analyze r [] deps ids = ((deps, ids), [])"
| "analyze r (c # cs) deps ids =
     (case (call_problems r c, schema_of r (cc_name c)) of
        ([], Some e) \<Rightarrow> analyze r cs (call_dependencies e c deps) (call_identifiers e c ids)
      | (ps, _) \<Rightarrow>
          let (result, ds) = analyze r cs deps ids in (result, map (\<lambda>(code, m). call_diagnostic c code m) ps @ ds))"

definition analyze_calls :: "registry \<Rightarrow> compiled_call list \<Rightarrow> analysis \<times> diagnostic list" where
  "analyze_calls r calls =
     (case analyze r calls mempty mempty of ((deps, ids), ds) \<Rightarrow>
        (\<lparr>an_dependencies = sort_key (\<lambda>d. (dp_kind d, dp_identifier d, dp_access d)) (map snd (entries deps)),
          an_identifiers = sort_key (\<lambda>u. (iu_kind u, iu_identifier u)) (map snd (entries ids))\<rparr>, ds))"

section \<open>Triggers\<close>

definition trigger_shape :: "trigger_selector \<Rightarrow> trigger_error option" where
  "trigger_shape s =
     (let k = ts_kind s; area = ts_area s; actor = ts_actor s; obj = ts_object s; act = ts_activity s;
          need = (\<lambda>ok. if ok then None else Some (BadTriggerShape k)) in
      if k = ''talk'' then need (area \<noteq> '''' \<and> actor \<noteq> '''' \<and> obj = '''' \<and> act = '''')
      else if k = ''use'' \<or> k = ''inspect'' then need (area \<noteq> '''' \<and> obj \<noteq> '''' \<and> actor = '''' \<and> act = '''')
      else if k = ''enter'' \<or> k = ''automatic'' then need (area \<noteq> '''' \<and> actor = '''' \<and> obj = '''' \<and> act = '''')
      else if k = ''activity'' then need (act \<noteq> '''' \<and> area = '''' \<and> actor = '''' \<and> obj = '''')
      else Some (UnsupportedTrigger k))"

definition trim_selector :: "trigger_selector \<Rightarrow> trigger_selector" where
  "trim_selector s = \<lparr>ts_kind = trim_space (ts_kind s), ts_area = trim_space (ts_area s), ts_actor = trim_space (ts_actor s),
     ts_object = trim_space (ts_object s), ts_activity = trim_space (ts_activity s)\<rparr>"

definition normalize_trigger_selector :: "trigger_selector \<Rightarrow> trigger_error + trigger_selector" where
  "normalize_trigger_selector s0 =
     (let s = trim_selector s0 in
      if \<exists>v\<in>set [ts_area s, ts_actor s, ts_object s, ts_activity s]. v \<noteq> '''' \<and> \<not> catalog_identifier v
      then Inl BadCatalogIdentifier
      else case trigger_shape s of Some e \<Rightarrow> Inl e | None \<Rightarrow> Inr s)"

definition no_selector :: trigger_selector where
  "no_selector = \<lparr>ts_kind = '''', ts_area = '''', ts_actor = '''', ts_object = '''', ts_activity = ''''\<rparr>"

definition trigger_diagnostic :: "string \<Rightarrow> diagnostic_message \<Rightarrow> diagnostic" where
  "trigger_diagnostic node msg =
     \<lparr>dg_code = ''NYT0001'', dg_message = msg, dg_file = '''', dg_node = node, dg_position = (0, 0, 0, 0)\<rparr>"

fun check_triggers :: "string list \<Rightarrow> string list \<Rightarrow> trigger list \<Rightarrow> trigger list \<times> diagnostic list" where
  "check_triggers nodes seen [] = ([], [])"
| "check_triggers nodes seen (t # ts) =
     (let node = trim_space (tg_node t) in
      if node = '''' \<or> node \<in> set seen
      then let (n, ds) = check_triggers nodes seen ts in (n, trigger_diagnostic node EntryNodeNotUnique # ds)
      else
        let normalized = normalize_trigger_selector (tg_selector t);
            t' = t\<lparr>tg_node := node, tg_selector := (case normalized of Inr s \<Rightarrow> s | Inl _ \<Rightarrow> no_selector)\<rparr>;
            problems =
              (if node \<in> set nodes then [] else [EntryNodeMissing node])
              @ (if tg_priority t < - 1000 \<or> 1000 < tg_priority t then [PriorityOutOfRange] else [])
              @ (case normalized of Inl e \<Rightarrow> [BadSelector e] | Inr _ \<Rightarrow> []);
            (n, ds) = check_triggers nodes (node # seen) ts in
        (t' # n, map (trigger_diagnostic node) problems @ ds))"

definition validate_yarn_triggers :: "trigger list \<Rightarrow> string list \<Rightarrow> trigger list \<times> diagnostic list" where
  "validate_yarn_triggers ts nodes =
     (if max_yarn_triggers < length ts then ([], [trigger_diagnostic '''' TooManyTriggers])
      else check_triggers nodes [] ts)"

section \<open>Selectors\<close>

lemma trim_space_unchanged:
  assumes "s \<noteq> ''''" and "leading_space space_seqs s = None" and "leading_space (map rev space_seqs) (rev s) = None"
  shows "trim_space s = s"
  using assms by (simp add: trim_space_def trim_left.simps [of s] trim_left_rev.simps [of "rev s"])

lemma catalog_char_not_space:
  assumes "catalog_char c"
  shows "leading_space space_seqs (c # cs) = None" "leading_space (map rev space_seqs) (c # cs) = None"
proof -
  have c: "(of_char c :: nat) < 128" "(of_char c :: nat) > 32" using assms
    by (auto simp: catalog_char_def is_alpha_char_def is_lower_char_def is_digit_char_def char_between_def)
  then have neq: "c \<noteq> d" if "of_char d \<ge> (128 :: nat) \<or> of_char d \<le> (32 :: nat)" for d
    using that by auto
  show "leading_space space_seqs (c # cs) = None" "leading_space (map rev space_seqs) (c # cs) = None"
    unfolding leading_space_def find_None_iff
    by (auto simp: space_seqs_def has_prefix_def neq)
qed

lemma catalog_identifier_chars: "catalog_identifier s \<Longrightarrow> s \<noteq> '''' \<and> list_all catalog_char s"
  by (cases s) (auto simp: catalog_identifier_def catalog_char_def)

lemma trim_catalog_identifier [simp]: "catalog_identifier s \<Longrightarrow> trim_space s = s"
proof -
  assume "catalog_identifier s"
  then have s: "s \<noteq> ''''" "list_all catalog_char s" using catalog_identifier_chars by blast+
  obtain c cs where c: "s = c # cs" "catalog_char c" using s by (cases s) auto
  obtain d ds where d: "rev s = d # ds" "catalog_char d"
    using s last_in_set [of s] by (cases "rev s") (auto simp: list_all_iff last_conv_nth rev_swap)
  have "leading_space space_seqs s = None" unfolding c(1) by (rule catalog_char_not_space(1) [OF c(2)])
  moreover have "leading_space (map rev space_seqs) (rev s) = None" unfolding d(1) by (rule catalog_char_not_space(2) [OF d(2)])
  ultimately show ?thesis by (rule trim_space_unchanged [OF s(1)])
qed

definition trigger_kinds :: "string list" where
  "trigger_kinds = [''talk'', ''use'', ''inspect'', ''enter'', ''automatic'', ''activity'']"

lemma trigger_shape_kind: "trigger_shape s = None \<Longrightarrow> ts_kind s \<in> set trigger_kinds"
  by (auto simp: trigger_shape_def trigger_kinds_def Let_def split: if_splits)

lemma catalog_kind: "k \<in> set trigger_kinds \<Longrightarrow> catalog_identifier k"
proof -
  have "list_all catalog_identifier trigger_kinds" by code_simp
  then show "k \<in> set trigger_kinds \<Longrightarrow> catalog_identifier k" by (simp add: list_all_iff)
qed

lemma normalized_selector:
  assumes "normalize_trigger_selector s0 = Inr s"
  shows "s = trim_selector s0" "trigger_shape s = None"
    "v \<in> set [ts_area s, ts_actor s, ts_object s, ts_activity s] \<Longrightarrow> v = '''' \<or> catalog_identifier v"
  using assms by (auto simp: normalize_trigger_selector_def Let_def split: if_splits option.splits)

lemma normalize_stable: "normalize_trigger_selector s0 = Inr s \<Longrightarrow> normalize_trigger_selector s = Inr s"
proof -
  assume n0: "normalize_trigger_selector s0 = Inr s"
  note n = normalized_selector [OF n0]
  have fields: "trim_space v = v" if "v \<in> set [ts_area s, ts_actor s, ts_object s, ts_activity s]" for v
    using n(3) [OF that] by auto
  have "trim_selector s = s"
    using fields catalog_kind [OF trigger_shape_kind [OF n(2)]] by (simp add: trim_selector_def)
  then show "normalize_trigger_selector s = Inr s"
    using n(2,3) by (auto simp: normalize_trigger_selector_def)
qed

text \<open>
  A normalized trigger selector is stable: normalizing it again changes nothing, its selectors are
  catalog identifiers, and it has exactly the selectors that its kind asks for.
\<close>

lemma normalized_selectors_are_stable:
  assumes "normalize_trigger_selector s0 = Inr s"
  shows "normalize_trigger_selector s = Inr s"
    and "ts_kind s \<in> set trigger_kinds"
    and "ts_area s \<noteq> '''' \<longleftrightarrow> ts_kind s \<noteq> ''activity''"
    and "ts_actor s \<noteq> '''' \<longleftrightarrow> ts_kind s = ''talk''"
    and "ts_object s \<noteq> '''' \<longleftrightarrow> ts_kind s = ''use'' \<or> ts_kind s = ''inspect''"
    and "ts_activity s \<noteq> '''' \<longleftrightarrow> ts_kind s = ''activity''"
    and "\<forall>v\<in>set [ts_area s, ts_actor s, ts_object s, ts_activity s]. v = '''' \<or> catalog_identifier v"
proof -
  note n = normalized_selector [OF assms]
  show "normalize_trigger_selector s = Inr s" by (rule normalize_stable [OF assms])
  show "ts_kind s \<in> set trigger_kinds" by (rule trigger_shape_kind [OF n(2)])
  show "ts_area s \<noteq> '''' \<longleftrightarrow> ts_kind s \<noteq> ''activity''" "ts_actor s \<noteq> '''' \<longleftrightarrow> ts_kind s = ''talk''"
    "ts_object s \<noteq> '''' \<longleftrightarrow> ts_kind s = ''use'' \<or> ts_kind s = ''inspect''" "ts_activity s \<noteq> '''' \<longleftrightarrow> ts_kind s = ''activity''"
    using n(2) by (auto simp: trigger_shape_def Let_def split: if_splits)
  show "\<forall>v\<in>set [ts_area s, ts_actor s, ts_object s, ts_activity s]. v = '''' \<or> catalog_identifier v"
    using n(3) by blast
qed

definition sample_selector :: trigger_selector where
  "sample_selector = \<lparr>ts_kind = '' talk'', ts_area = ''D000 '', ts_actor = ''AKIR'', ts_object = '''', ts_activity = ''''\<rparr>"

lemma sample_selector_ok: "normalize_trigger_selector sample_selector = Inr (trim_selector sample_selector)"
  by code_simp

lemma check_triggers_accepts:
  "check_triggers nodes seen ts = (n, []) \<Longrightarrow>
     map tg_node n = map (trim_space \<circ> tg_node) ts \<and> distinct (map tg_node n) \<and> set (map tg_node n) \<inter> set seen = {}
     \<and> '''' \<notin> set (map tg_node n)
     \<and> (\<forall>t\<in>set n. tg_node t \<in> set nodes \<and> - 1000 \<le> tg_priority t \<and> tg_priority t \<le> 1000
          \<and> (\<exists>s. normalize_trigger_selector s = Inr (tg_selector t)))"
proof (induction ts arbitrary: seen n)
  case (Cons t ts)
  define node where "node = trim_space (tg_node t)"
  from Cons.prems have new: "\<not> (node = '''' \<or> node \<in> set seen)"
    by (auto simp: node_def [symmetric] Let_def split: if_splits prod.splits)
  obtain m ds where r: "check_triggers nodes (node # seen) ts = (m, ds)" by fastforce
  with Cons.prems new obtain s where s: "normalize_trigger_selector (tg_selector t) = Inr s"
    and n: "n = t\<lparr>tg_node := node, tg_selector := s\<rparr> # m" "ds = []"
    and p: "node \<in> set nodes" "- 1000 \<le> tg_priority t" "tg_priority t \<le> 1000"
    by (auto simp: node_def [symmetric] Let_def not_less split: if_splits sum.splits)
  have ih: "map tg_node m = map (trim_space \<circ> tg_node) ts" "distinct (map tg_node m)"
    "set (map tg_node m) \<inter> set (node # seen) = {}" "'''' \<notin> set (map tg_node m)"
    "\<forall>t\<in>set m. tg_node t \<in> set nodes \<and> - 1000 \<le> tg_priority t \<and> tg_priority t \<le> 1000
          \<and> (\<exists>s. normalize_trigger_selector s = Inr (tg_selector t))"
    using Cons.IH [of "node # seen" m] r n(2) by blast+
  show ?case unfolding n(1) using ih new s p by (auto simp: node_def [symmetric])
qed simp

lemma validated_triggers:
  assumes "validate_yarn_triggers ts nodes = (n, [])"
  shows "check_triggers nodes [] ts = (n, [])" "length ts \<le> max_yarn_triggers"
  using assms by (auto simp: validate_yarn_triggers_def split: if_splits)

text \<open>
  A version whose triggers raise no diagnostic has at most 32 of them, each at an entry node of its
  own that exists in the compiled program, with a priority from -1000 to 1000 and a normalized
  selector; no trigger is dropped or reordered.
\<close>

theorem accepted_triggers:
  assumes "validate_yarn_triggers ts nodes = (n, [])"
  shows "length n = length ts \<and> length ts \<le> 32 \<and> distinct (map tg_node n)
    \<and> map tg_node n = map (trim_space \<circ> tg_node) ts
    \<and> (\<forall>t\<in>set n. tg_node t \<in> set nodes \<and> - 1000 \<le> tg_priority t \<and> tg_priority t \<le> 1000
          \<and> normalize_trigger_selector (tg_selector t) = Inr (tg_selector t))"
proof (intro conjI)
  note v = validated_triggers [OF assms]
  note c = check_triggers_accepts [OF v(1)]
  show "map tg_node n = map (trim_space \<circ> tg_node) ts" "distinct (map tg_node n)" using c by blast+
  then show "length n = length ts" by (metis length_map)
  show "length ts \<le> 32" using v(2) by (simp add: max_yarn_triggers_def)
  show "\<forall>t\<in>set n. tg_node t \<in> set nodes \<and> - 1000 \<le> tg_priority t \<and> tg_priority t \<le> 1000
          \<and> normalize_trigger_selector (tg_selector t) = Inr (tg_selector t)"
    using c normalize_stable by blast
qed

definition sample_triggers :: "trigger list" where
  "sample_triggers = [\<lparr>tg_node = ''Start '', tg_selector = sample_selector, tg_priority = 10\<rparr>]"

lemma sample_triggers_ok:
  "validate_yarn_triggers sample_triggers [''Start'', ''End'']
     = ([\<lparr>tg_node = ''Start'', tg_selector = trim_selector sample_selector, tg_priority = 10\<rparr>], [])"
  by code_simp

theorem accepted_triggers_witness: "length sample_triggers \<le> 32"
  using accepted_triggers [OF sample_triggers_ok] by blast

section \<open>Accepted calls\<close>

lemma check_identifier_kinds_policies:
  "check_identifier_kinds pol ks = Inr pol' \<Longrightarrow>
     pol' = pol ++ map_of (rev (map (\<lambda>x. (ik_kind x, ik_policy x)) ks))
     \<and> (\<forall>k\<in>set ks. identifier_kind_name (ik_kind k) \<and> ik_policy k \<in> {''open'', ''closed''})"
proof (induction ks arbitrary: pol)
  case (Cons k ks)
  then show ?case
    by (auto simp: map_add_def fun_eq_iff split: if_splits option.splits)
qed simp

lemma check_entries_distinct:
  "check_entries policies seen es = None \<Longrightarrow>
     distinct (map cs_name es) \<and> set (map cs_name es) \<inter> set seen = {}
     \<and> (\<forall>e\<in>set es. check_entry policies e = None)"
proof (induction es arbitrary: seen)
  case (Cons e es)
  from Cons.prems have e: "check_entry policies e = None" "cs_name e \<notin> set seen" "check_entries policies (cs_name e # seen) es = None"
    by (auto split: if_splits option.splits)
  from Cons.IH [OF e(3)] e(1,2) show ?case by auto
qed simp

lemma valid_registry:
  assumes "validate_registry r = None"
  shows "distinct (map cs_name (rg_entries r))"
    and "\<forall>k\<in>set (rg_identifier_kinds r). identifier_kind_name (ik_kind k) \<and> ik_policy k \<in> {''open'', ''closed''}"
    and "\<forall>e\<in>set (rg_entries r). check_entry (map_of (rev (map (\<lambda>x. (ik_kind x, ik_policy x)) (rg_identifier_kinds r)))) e = None"
    and "\<exists>covered. check_capabilities (map_of (rev (map (\<lambda>x. (ik_kind x, ik_policy x)) (rg_identifier_kinds r)))) [] [] (rg_capabilities r) = Inr covered"
proof -
  obtain pol covered where pol: "check_identifier_kinds Map.empty (rg_identifier_kinds r) = Inr pol"
    and cov: "check_capabilities pol [] [] (rg_capabilities r) = Inr covered" and es: "check_entries pol [] (rg_entries r) = None"
    using assms by (auto simp: validate_registry_def split: if_splits sum.splits)
  have p: "pol = map_of (rev (map (\<lambda>x. (ik_kind x, ik_policy x)) (rg_identifier_kinds r)))"
    "\<forall>k\<in>set (rg_identifier_kinds r). identifier_kind_name (ik_kind k) \<and> ik_policy k \<in> {''open'', ''closed''}"
    using check_identifier_kinds_policies [OF pol] by simp_all
  show "distinct (map cs_name (rg_entries r))" "\<forall>e\<in>set (rg_entries r). check_entry (map_of (rev (map (\<lambda>x. (ik_kind x, ik_policy x)) (rg_identifier_kinds r)))) e = None"
    using check_entries_distinct [OF es] p(1) by blast+
  show "\<exists>covered. check_capabilities (map_of (rev (map (\<lambda>x. (ik_kind x, ik_policy x)) (rg_identifier_kinds r)))) [] [] (rg_capabilities r) = Inr covered"
    using cov p(1) by blast
  show "\<forall>k\<in>set (rg_identifier_kinds r). identifier_kind_name (ik_kind k) \<and> ik_policy k \<in> {''open'', ''closed''}" by (rule p(2))
qed

lemma schema_of_Some:
  assumes "distinct (map cs_name (rg_entries r))"
  shows "schema_of r n = Some e \<longleftrightarrow> e \<in> set (rg_entries r) \<and> cs_name e = n"
proof -
  have "distinct (map fst (rev (map (\<lambda>e. (cs_name e, e)) (rg_entries r))))" using assms by (simp add: rev_map [symmetric] comp_def)
  then show ?thesis by (auto simp: schema_of_def map_of_eq_Some_iff)
qed

lemma optional_suffix_spec:
  "length ps - optional_suffix (rev ps) \<le> n \<longleftrightarrow> (\<forall>i<length ps. n \<le> i \<longrightarrow> pa_optional (ps ! i))"
proof (induction ps rule: rev_induct)
  case (snoc p ps)
  have len: "optional_suffix (rev ps) \<le> length ps" for ps by (induction ps rule: rev_induct) auto
  show ?case
  proof (cases "n \<le> length ps")
    case True
    then show ?thesis using snoc len [of ps] by (auto simp: nth_append less_Suc_eq)
  next
    case False
    then show ?thesis by auto
  qed
qed simp

lemma minimum_arguments_spec:
  "minimum_arguments e \<le> n \<longleftrightarrow> (\<forall>i<length (cs_parameters e). n \<le> i \<longrightarrow> pa_optional (cs_parameters e ! i))"
  by (simp add: minimum_arguments_def optional_suffix_spec)

lemma nul_free_prefix:
  "CHR 0x00 \<notin> set k \<Longrightarrow> CHR 0x00 \<notin> set k' \<Longrightarrow> k @ [CHR 0x00] @ x = k' @ [CHR 0x00] @ x' \<Longrightarrow> k = k' \<and> x = x'"
proof (induction k arbitrary: k')
  case Nil
  then show ?case by (cases k') auto
next
  case (Cons c k)
  then show ?case by (cases k') auto
qed

lemma identifier_kind_nul_free: "identifier_kind_name k \<Longrightarrow> CHR 0x00 \<notin> set k"
  by (cases k) (auto simp: identifier_kind_name_def is_lower_char_def is_digit_char_def char_between_def list_all_iff)

lemma check_capabilities_kinds:
  "check_capabilities pol taken covered cs = Inr covered' \<Longrightarrow> \<forall>c\<in>set cs. pol (cap_kind c) = Some ''closed''"
proof (induction cs arbitrary: taken covered)
  case (Cons c cs)
  from Cons.prems have c: "map_get_or '''' pol (cap_kind c) = ''closed''"
    and r: "\<exists>t d. check_capabilities pol t d cs = Inr covered'"
    by (auto simp: Let_def split: if_splits)
  from c have "pol (cap_kind c) = Some ''closed''" by (cases "pol (cap_kind c)") auto
  with Cons.IH r show ?case by auto
qed simp

lemma policy_declared:
  assumes "validate_registry r = None" and "map_of (rev (map (\<lambda>x. (ik_kind x, ik_policy x)) (rg_identifier_kinds r))) k = Some p"
  shows "CHR 0x00 \<notin> set k"
  using map_of_SomeD [OF assms(2)] valid_registry(2) [OF assms(1)] identifier_kind_nul_free by auto

lemma known_capability_declared:
  assumes v: "validate_registry r = None" and k: "policy_of r k = ''closed''"
  shows "known_capability r k i \<longleftrightarrow> (\<exists>c\<in>set (rg_capabilities r). cap_kind c = k \<and> cap_identifier c = i)"
proof -
  let ?pol = "map_of (rev (map (\<lambda>x. (ik_kind x, ik_policy x)) (rg_identifier_kinds r)))"
  have "?pol k = Some ''closed''" using k by (cases "?pol k") (simp_all add: policy_of_def)
  then have nk: "CHR 0x00 \<notin> set k" by (rule policy_declared [OF v])
  have nc: "CHR 0x00 \<notin> set (cap_kind c)" if c: "c \<in> set (rg_capabilities r)" for c
    using valid_registry(4) [OF v] check_capabilities_kinds policy_declared [OF v] c by blast
  have "capability_key k i = capability_key (cap_kind c) (cap_identifier c) \<longleftrightarrow> cap_kind c = k \<and> cap_identifier c = i"
    if "c \<in> set (rg_capabilities r)" for c
    using nul_free_prefix [OF nk nc [OF that], of i "cap_identifier c"] by (auto simp: capability_key_def)
  then show ?thesis by (auto simp: known_capability_def)
qed

text \<open>What the registry asks of one argument.\<close>

definition argument_fits :: "registry \<Rightarrow> compiled_call \<Rightarrow> command_parameter \<Rightarrow> compiled_argument \<Rightarrow> bool" where
  "argument_fits r c p a \<longleftrightarrow>
     ar_type a = pa_type p \<and> (cc_kind c = ''command'' \<longrightarrow> ar_static a)
     \<and> (pa_identifier_kind p \<noteq> '''' \<longrightarrow>
          (\<exists>v. ar_static a \<and> ar_value a = Some v \<and> trim_space v \<noteq> ''''
             \<and> (policy_of r (pa_identifier_kind p) = ''closed'' \<longrightarrow>
                  (\<exists>x\<in>set (rg_capabilities r). cap_kind x = pa_identifier_kind p \<and> cap_identifier x = trim_space v))))"

lemma argument_problem_None:
  assumes "validate_registry r = None"
  shows "argument_problem r c p a = None \<longleftrightarrow> argument_fits r c p a"
  using known_capability_declared [OF assms]
  by (auto simp: argument_problem_def argument_fits_def split: option.splits)

lemma analyze_one: "snd (analyze_calls r [c]) = [] \<longleftrightarrow> call_problems r c = []"
proof (cases "call_problems r c")
  case Nil
  then obtain e where "schema_of r (cc_name c) = Some e" by (auto simp: call_problems_def split: option.splits)
  with Nil show ?thesis by (simp add: analyze_calls_def split: prod.splits)
qed (auto simp: analyze_calls_def split: prod.splits option.splits)

text \<open>
  C22: a call raises no diagnostic exactly when the registry has an entry of its name and kind that it
  fits: the arguments could be parsed, those beyond the last one given are optional and there is none
  too many, each has its parameter's type, a command's are literals, and an identifier is a literal
  that is not blank and, where its kind is closed, is a declared capability of that kind.
\<close>

theorem accepted_calls_fit_the_registry:
  assumes "validate_registry r = None"
  shows "snd (analyze_calls r [c]) = [] \<longleftrightarrow>
     (\<exists>e\<in>set (rg_entries r). cs_name e = cc_name c \<and> cs_kind e = cc_kind c \<and> cc_parse_error c = None
        \<and> length (cc_arguments c) \<le> length (cs_parameters e)
        \<and> (\<forall>i<length (cs_parameters e). length (cc_arguments c) \<le> i \<longrightarrow> pa_optional (cs_parameters e ! i))
        \<and> (\<forall>i<length (cc_arguments c). argument_fits r c (cs_parameters e ! i) (cc_arguments c ! i)))"
proof -
  have problems: "List.map_filter (\<lambda>(p, a). argument_problem r c p a) (zip ps as) = []
      \<longleftrightarrow> (\<forall>i<length as. argument_fits r c (ps ! i) (as ! i))" if "length as \<le> length ps" for ps as
  proof -
    have "List.map_filter (\<lambda>(p, a). argument_problem r c p a) (zip ps as) = []
        \<longleftrightarrow> (\<forall>x\<in>set (zip ps as). argument_problem r c (fst x) (snd x) = None)"
      by (auto simp: map_filter_def filter_empty_conv case_prod_beta simp del: not_None_eq)
    also have "\<dots> \<longleftrightarrow> (\<forall>i<length as. argument_fits r c (ps ! i) (as ! i))"
      unfolding argument_problem_None [OF assms] using that by (auto simp: set_zip)
    finally show ?thesis .
  qed
  have "(\<exists>e\<in>set (rg_entries r). cs_name e = cc_name c \<and> P e) \<longleftrightarrow> (\<exists>e. schema_of r (cc_name c) = Some e \<and> P e)" for P
    using schema_of_Some [OF valid_registry(1) [OF assms], of "cc_name c"] by blast
  then show ?thesis
    unfolding analyze_one minimum_arguments_spec [symmetric]
    by (simp add: call_problems_def problems not_less cong: conj_cong split: option.split)
qed

section \<open>The embedded registry\<close>

text \<open>\<open>commands.v1.json\<close>, decoded, without the descriptions of commands.\<close>

definition parameter :: "string \<Rightarrow> string \<Rightarrow> string \<Rightarrow> command_parameter" where
  "parameter name ty kind = \<lparr>pa_name = name, pa_type = ty, pa_identifier_kind = kind, pa_optional = False\<rparr>"

definition shipped_identifier_kinds :: "identifier_kind list" where
  "shipped_identifier_kinds =
     [\<lparr>ik_kind = ''flag'', ik_policy = ''open''\<rparr>,
      \<lparr>ik_kind = ''progress'', ik_policy = ''open''\<rparr>,
      \<lparr>ik_kind = ''item'', ik_policy = ''open''\<rparr>,
      \<lparr>ik_kind = ''actor'', ik_policy = ''open''\<rparr>,
      \<lparr>ik_kind = ''scene'', ik_policy = ''open''\<rparr>,
      \<lparr>ik_kind = ''object'', ik_policy = ''open''\<rparr>,
      \<lparr>ik_kind = ''bounds'', ik_policy = ''closed''\<rparr>,
      \<lparr>ik_kind = ''motion'', ik_policy = ''closed''\<rparr>,
      \<lparr>ik_kind = ''camera'', ik_policy = ''closed''\<rparr>,
      \<lparr>ik_kind = ''sequence'', ik_policy = ''closed''\<rparr>,
      \<lparr>ik_kind = ''activity'', ik_policy = ''closed''\<rparr>]"

definition shipped_capabilities :: "capability list" where
  "shipped_capabilities =
     [\<lparr>cap_kind = ''bounds'', cap_identifier = ''d000.hato.spatial.5'',
        cap_description = ''Recovered D000 Hato player position and facing record 5.''\<rparr>,
      \<lparr>cap_kind = ''motion'', cap_identifier = ''d000.hato.player-motion.903'',
        cap_description = ''Hato opening player motion 903.''\<rparr>,
      \<lparr>cap_kind = ''motion'', cap_identifier = ''d000.hato.player-motion.100'',
        cap_description = ''Hato closing player turn motion 100.''\<rparr>,
      \<lparr>cap_kind = ''camera'', cap_identifier = ''d000.hato.camera.2950'',
        cap_description = ''Hato event camera route 2950.''\<rparr>,
      \<lparr>cap_kind = ''camera'', cap_identifier = ''d000.hato.camera.2952'',
        cap_description = ''Hato event camera route 2952.''\<rparr>,
      \<lparr>cap_kind = ''camera'', cap_identifier = ''d000.hato.camera.2954'',
        cap_description = ''Hato event camera route 2954.''\<rparr>,
      \<lparr>cap_kind = ''camera'', cap_identifier = ''jomo.telephone.camera.3031'',
        cap_description = ''JOMO telephone event camera 3031.''\<rparr>,
      \<lparr>cap_kind = ''camera'', cap_identifier = ''jomo.telephone.camera.3032'',
        cap_description = ''JOMO telephone event camera 3032.''\<rparr>,
      \<lparr>cap_kind = ''camera'', cap_identifier = ''jomo.telephone.camera.3033'',
        cap_description = ''JOMO telephone event camera 3033.''\<rparr>,
      \<lparr>cap_kind = ''camera'', cap_identifier = ''jomo.telephone.camera.3034'',
        cap_description = ''JOMO telephone event camera 3034.''\<rparr>,
      \<lparr>cap_kind = ''camera'', cap_identifier = ''jomo.telephone.camera.3035'',
        cap_description = ''JOMO telephone event camera 3035.''\<rparr>,
      \<lparr>cap_kind = ''camera'', cap_identifier = ''jomo.telephone.camera.3036'',
        cap_description = ''JOMO telephone event camera 3036.''\<rparr>,
      \<lparr>cap_kind = ''camera'', cap_identifier = ''jomo.telephone.camera.3037'',
        cap_description = ''JOMO telephone event camera 3037.''\<rparr>,
      \<lparr>cap_kind = ''sequence'', cap_identifier = ''jomo.telephone.ring.sa1093'',
        cap_description = ''Recovered concurrent telephone ring sequence.''\<rparr>,
      \<lparr>cap_kind = ''sequence'', cap_identifier = ''jomo.telephone.answer.sa1093.first'',
        cap_description = ''Recovered first Goro-call answer timeline.''\<rparr>,
      \<lparr>cap_kind = ''sequence'', cap_identifier = ''jomo.telephone.answer.sa1093.later'',
        cap_description = ''Recovered later Goro-call answer timeline.''\<rparr>,
      \<lparr>cap_kind = ''sequence'', cap_identifier = ''jomo.telephone.hangup.sa1093.first'',
        cap_description = ''Join the first Goro-call hang-up timeline.''\<rparr>,
      \<lparr>cap_kind = ''sequence'', cap_identifier = ''jomo.telephone.hangup.sa1093.later'',
        cap_description = ''Join the later Goro-call hang-up timeline.''\<rparr>,
      \<lparr>cap_kind = ''sequence'', cap_identifier = ''d000.door.51.closed-check.start'',
        cap_description = (''Align Ryo and begin D000 door 51'' @ [CHR 0x27] @ ''s recovered motion-cue timeline.'')\<rparr>,
      \<lparr>cap_kind = ''sequence'', cap_identifier = ''d000.door.51.closed-check.finish'',
        cap_description = (''Join D000 door 51'' @ [CHR 0x27] @ ''s recovered player-motion completion.'')\<rparr>,
      \<lparr>cap_kind = ''sequence'', cap_identifier = ''d000.door.61.closed-check.start'',
        cap_description = (''Align Ryo and begin D000 door 61'' @ [CHR 0x27] @ ''s recovered motion-cue timeline.'')\<rparr>,
      \<lparr>cap_kind = ''sequence'', cap_identifier = ''d000.door.61.closed-check.finish'',
        cap_description = (''Join D000 door 61'' @ [CHR 0x27] @ ''s recovered player-motion completion.'')\<rparr>,
      \<lparr>cap_kind = ''sequence'', cap_identifier = ''d000.door.1.closed-check.start'',
        cap_description = (''Run D000 door 1'' @ [CHR 0x27] @ ''s side-aware sliding-door attempt and recovered sound timeline.'')\<rparr>,
      \<lparr>cap_kind = ''sequence'', cap_identifier = ''d000.door.1.closed-check.finish'',
        cap_description = (''Release D000 door 1'' @ [CHR 0x27] @ ''s completed sliding-door attempt.'')\<rparr>,
      \<lparr>cap_kind = ''activity'', cap_identifier = ''d000.telephone-book.native'',
        cap_description = ''Recovered D000 telephone-book specialized activity.''\<rparr>]"

definition shipped_queries :: "command_schema list" where
  "shipped_queries =
     [\<lparr>cs_name = ''flag_set'', cs_kind = ''function'',
        cs_parameters = [parameter ''flag'' ''string'' ''flag''],
        cs_return_type = ''bool'', cs_authority = ''server'', cs_wait = ''none'', cs_cleanup = ''none'',
        cs_dependencies = [\<lparr>dr_access = ''read'', dr_kind = ''flag'', dr_parameter = ''flag''\<rparr>]\<rparr>,
      \<lparr>cs_name = ''progress_value'', cs_kind = ''function'',
        cs_parameters = [parameter ''progress'' ''string'' ''progress''],
        cs_return_type = ''number'', cs_authority = ''server'', cs_wait = ''none'', cs_cleanup = ''none'',
        cs_dependencies = [\<lparr>dr_access = ''read'', dr_kind = ''progress'', dr_parameter = ''progress''\<rparr>]\<rparr>,
      \<lparr>cs_name = ''has_item'', cs_kind = ''function'',
        cs_parameters = [parameter ''item'' ''string'' ''item'', parameter ''quantity'' ''number'' ''''],
        cs_return_type = ''bool'', cs_authority = ''server'', cs_wait = ''none'', cs_cleanup = ''none'',
        cs_dependencies = [\<lparr>dr_access = ''read'', dr_kind = ''item'', dr_parameter = ''item''\<rparr>]\<rparr>,
      \<lparr>cs_name = ''yen'', cs_kind = ''function'',
        cs_parameters = [],
        cs_return_type = ''number'', cs_authority = ''server'', cs_wait = ''none'', cs_cleanup = ''none'',
        cs_dependencies = []\<rparr>,
      \<lparr>cs_name = ''actor_present'', cs_kind = ''function'',
        cs_parameters = [parameter ''actor'' ''string'' ''actor''],
        cs_return_type = ''bool'', cs_authority = ''server'', cs_wait = ''none'', cs_cleanup = ''none'',
        cs_dependencies = [\<lparr>dr_access = ''read'', dr_kind = ''actor'', dr_parameter = ''actor''\<rparr>]\<rparr>,
      \<lparr>cs_name = ''in_scene'', cs_kind = ''function'',
        cs_parameters = [parameter ''scene'' ''string'' ''scene''],
        cs_return_type = ''bool'', cs_authority = ''server'', cs_wait = ''none'', cs_cleanup = ''none'',
        cs_dependencies = [\<lparr>dr_access = ''read'', dr_kind = ''scene'', dr_parameter = ''scene''\<rparr>]\<rparr>,
      \<lparr>cs_name = ''game_hour'', cs_kind = ''function'',
        cs_parameters = [],
        cs_return_type = ''number'', cs_authority = ''server'', cs_wait = ''none'', cs_cleanup = ''none'',
        cs_dependencies = []\<rparr>,
      \<lparr>cs_name = ''game_date_on_or_after'', cs_kind = ''function'',
        cs_parameters = [parameter ''month'' ''number'' '''', parameter ''day'' ''number'' ''''],
        cs_return_type = ''bool'', cs_authority = ''server'', cs_wait = ''none'', cs_cleanup = ''none'',
        cs_dependencies = []\<rparr>,
      \<lparr>cs_name = ''random_integer'', cs_kind = ''function'',
        cs_parameters = [parameter ''minimum'' ''number'' '''', parameter ''maximum'' ''number'' ''''],
        cs_return_type = ''number'', cs_authority = ''server'', cs_wait = ''none'', cs_cleanup = ''none'',
        cs_dependencies = []\<rparr>,
      \<lparr>cs_name = ''actor_in_bounds'', cs_kind = ''function'',
        cs_parameters = [parameter ''actor'' ''string'' ''actor'', parameter ''bounds'' ''string'' ''bounds''],
        cs_return_type = ''bool'', cs_authority = ''server'', cs_wait = ''none'', cs_cleanup = ''none'',
        cs_dependencies = [\<lparr>dr_access = ''read'', dr_kind = ''actor'', dr_parameter = ''actor''\<rparr>]\<rparr>]"

definition shipped_commands :: "command_schema list" where
  "shipped_commands =
     [\<lparr>cs_name = ''set_flag'', cs_kind = ''command'',
        cs_parameters = [parameter ''flag'' ''string'' ''flag''],
        cs_return_type = '''', cs_authority = ''server'', cs_wait = ''none'', cs_cleanup = ''transactional'',
        cs_dependencies = [\<lparr>dr_access = ''write'', dr_kind = ''flag'', dr_parameter = ''flag''\<rparr>]\<rparr>,
      \<lparr>cs_name = ''clear_flag'', cs_kind = ''command'',
        cs_parameters = [parameter ''flag'' ''string'' ''flag''],
        cs_return_type = '''', cs_authority = ''server'', cs_wait = ''none'', cs_cleanup = ''transactional'',
        cs_dependencies = [\<lparr>dr_access = ''write'', dr_kind = ''flag'', dr_parameter = ''flag''\<rparr>]\<rparr>,
      \<lparr>cs_name = ''set_progress'', cs_kind = ''command'',
        cs_parameters = [parameter ''progress'' ''string'' ''progress'', parameter ''value'' ''number'' ''''],
        cs_return_type = '''', cs_authority = ''server'', cs_wait = ''none'', cs_cleanup = ''transactional'',
        cs_dependencies = [\<lparr>dr_access = ''write'', dr_kind = ''progress'', dr_parameter = ''progress''\<rparr>]\<rparr>,
      \<lparr>cs_name = ''increment_progress'', cs_kind = ''command'',
        cs_parameters = [parameter ''progress'' ''string'' ''progress'', parameter ''amount'' ''number'' ''''],
        cs_return_type = '''', cs_authority = ''server'', cs_wait = ''none'', cs_cleanup = ''transactional'',
        cs_dependencies = [\<lparr>dr_access = ''write'', dr_kind = ''progress'', dr_parameter = ''progress''\<rparr>]\<rparr>,
      \<lparr>cs_name = ''give_item'', cs_kind = ''command'',
        cs_parameters = [parameter ''item'' ''string'' ''item'', parameter ''quantity'' ''number'' ''''],
        cs_return_type = '''', cs_authority = ''server'', cs_wait = ''none'', cs_cleanup = ''transactional'',
        cs_dependencies = [\<lparr>dr_access = ''write'', dr_kind = ''item'', dr_parameter = ''item''\<rparr>]\<rparr>,
      \<lparr>cs_name = ''remove_item'', cs_kind = ''command'',
        cs_parameters = [parameter ''item'' ''string'' ''item'', parameter ''quantity'' ''number'' ''''],
        cs_return_type = '''', cs_authority = ''server'', cs_wait = ''none'', cs_cleanup = ''transactional'',
        cs_dependencies = [\<lparr>dr_access = ''write'', dr_kind = ''item'', dr_parameter = ''item''\<rparr>]\<rparr>,
      \<lparr>cs_name = ''grant_yen'', cs_kind = ''command'',
        cs_parameters = [parameter ''amount'' ''number'' '''', parameter ''reason'' ''string'' ''''],
        cs_return_type = '''', cs_authority = ''server'', cs_wait = ''none'', cs_cleanup = ''transactional'',
        cs_dependencies = []\<rparr>,
      \<lparr>cs_name = ''spend_yen'', cs_kind = ''command'',
        cs_parameters = [parameter ''amount'' ''number'' '''', parameter ''reason'' ''string'' ''''],
        cs_return_type = '''', cs_authority = ''server'', cs_wait = ''none'', cs_cleanup = ''transactional'',
        cs_dependencies = []\<rparr>,
      \<lparr>cs_name = ''play_player_motion'', cs_kind = ''command'',
        cs_parameters = [parameter ''motion'' ''string'' ''motion''],
        cs_return_type = '''', cs_authority = ''server-orchestrated-presentation'', cs_wait = ''client-ack'', cs_cleanup = ''event-owned'',
        cs_dependencies = []\<rparr>,
      \<lparr>cs_name = ''look_at_actor'', cs_kind = ''command'',
        cs_parameters = [parameter ''actor'' ''string'' ''actor'', parameter ''target'' ''string'' ''actor''],
        cs_return_type = '''', cs_authority = ''server-orchestrated-presentation'', cs_wait = ''client-ack'', cs_cleanup = ''restore-previous'',
        cs_dependencies = [\<lparr>dr_access = ''write'', dr_kind = ''actor'', dr_parameter = ''actor''\<rparr>, \<lparr>dr_access = ''read'', dr_kind = ''actor'', dr_parameter = ''target''\<rparr>]\<rparr>,
      \<lparr>cs_name = ''clear_actor_look'', cs_kind = ''command'',
        cs_parameters = [parameter ''actor'' ''string'' ''actor''],
        cs_return_type = '''', cs_authority = ''server-orchestrated-presentation'', cs_wait = ''client-ack'', cs_cleanup = ''event-owned'',
        cs_dependencies = [\<lparr>dr_access = ''write'', dr_kind = ''actor'', dr_parameter = ''actor''\<rparr>]\<rparr>,
      \<lparr>cs_name = ''start_camera'', cs_kind = ''command'',
        cs_parameters = [parameter ''camera'' ''string'' ''camera''],
        cs_return_type = '''', cs_authority = ''server-orchestrated-presentation'', cs_wait = ''client-ack'', cs_cleanup = ''restore-previous'',
        cs_dependencies = []\<rparr>,
      \<lparr>cs_name = ''stop_camera'', cs_kind = ''command'',
        cs_parameters = [],
        cs_return_type = '''', cs_authority = ''server-orchestrated-presentation'', cs_wait = ''client-ack'', cs_cleanup = ''event-owned'',
        cs_dependencies = []\<rparr>,
      \<lparr>cs_name = ''play_sequence'', cs_kind = ''command'',
        cs_parameters = [parameter ''sequence'' ''string'' ''sequence''],
        cs_return_type = '''', cs_authority = ''server-orchestrated-presentation'', cs_wait = ''client-ack'', cs_cleanup = ''event-owned'',
        cs_dependencies = []\<rparr>,
      \<lparr>cs_name = ''start_activity'', cs_kind = ''command'',
        cs_parameters = [parameter ''activity'' ''string'' ''activity''],
        cs_return_type = '''', cs_authority = ''server-orchestrated-presentation'', cs_wait = ''client-ack'', cs_cleanup = ''event-owned'',
        cs_dependencies = [\<lparr>dr_access = ''write'', dr_kind = ''activity'', dr_parameter = ''activity''\<rparr>]\<rparr>,
      \<lparr>cs_name = ''pass_trigger'', cs_kind = ''command'',
        cs_parameters = [],
        cs_return_type = '''', cs_authority = ''server'', cs_wait = ''none'', cs_cleanup = ''transactional'',
        cs_dependencies = []\<rparr>,
      \<lparr>cs_name = ''complete'', cs_kind = ''command'',
        cs_parameters = [],
        cs_return_type = '''', cs_authority = ''server'', cs_wait = ''none'', cs_cleanup = ''event-owned'',
        cs_dependencies = []\<rparr>]"

definition shipped_registry :: registry where
  "shipped_registry = \<lparr>rg_schema = ''new-yokosuka-command-registry-v1'', rg_version = ''new-yokosuka-commands-v1'',
     rg_identifier_kinds = shipped_identifier_kinds, rg_capabilities = shipped_capabilities,
     rg_entries = shipped_queries @ shipped_commands\<rparr>"

lemma shipped_registry_valid: "validate_registry shipped_registry = None"
  by code_simp

definition sample_call :: compiled_call where
  "sample_call = \<lparr>cc_kind = ''command'', cc_name = ''set_flag'', cc_node = ''Start'', cc_file = '''', cc_position = (0, 0, 0, 0),
     cc_parse_error = None, cc_arguments = [\<lparr>ar_type = ''string'', ar_static = True, ar_value = Some ''met''\<rparr>]\<rparr>"

lemma sample_call_accepted: "call_problems shipped_registry sample_call = []"
  by code_simp

theorem accepted_calls_fit_the_registry_witness:
  "\<exists>e\<in>set (rg_entries shipped_registry). cs_name e = ''set_flag'' \<and> cs_kind e = ''command''
     \<and> argument_fits shipped_registry sample_call (cs_parameters e ! 0) \<lparr>ar_type = ''string'', ar_static = True, ar_value = Some ''met''\<rparr>"
  using iffD1 [OF accepted_calls_fit_the_registry [OF shipped_registry_valid, of sample_call] sample_call_accepted [folded analyze_one]]
  by (auto simp: sample_call_def)

end
