(* ===== verification/ScriptStore.thy ===== *)
theory ScriptStore
  imports Ledger ScriptContent
begin

text \<open>
  The durable side of scripted events, \<open>internal/store/script_events.go\<close>, on the tables of the economy
  and on those of scripts, triggers, runs, effects, traces and story state.

  The economy's tables are the field \<open>sd_economy\<close>, so that effects on yen and items are the economy's
  own statements. A run's row is changed by the UPDATE statements only, which are maps over the rows
  their WHERE clause selects. Constraints are branches: the unique index on the active run of a
  character, the unique lease token, the primary keys, and the CHECKs on keys and kinds.

  What a call reads from its surroundings is a \<open>moment\<close>: the clocks of the database and of the server,
  the random lease token (none where the entropy source fails) and the next run id. A trace payload is
  of a type left open, with the test that it is a JSON object the database accepts as a parameter.
  Version rows hold their decoded lines, none where they do not decode.
\<close>

section \<open>Tables\<close>

record script_row =
  sc_id :: int
  sc_slug :: string
  sc_published :: "int option"
  sc_archived :: bool

record version_row =
  vs_id :: int
  vs_status :: string
  vs_content_format :: string
  vs_compile_status :: string
  vs_command_schema :: "string option"
  vs_program :: string
  vs_lines :: "compiled_line list option"

record trigger_row =
  tr_version :: int
  tr_node :: string
  tr_kind :: string
  tr_area :: "string option"
  tr_actor :: "string option"
  tr_object :: "string option"
  tr_activity :: "string option"
  tr_priority :: int

datatype run_status = RunActive | RunCompleted | RunPassed | RunCancelled | RunFailed | RunExpired

record run_row =
  rn_id :: int
  rn_character :: int
  rn_version :: int
  rn_entry :: string
  rn_kind :: string
  rn_token :: string
  rn_lease_expires :: int
  rn_status :: run_status
  rn_completion_requested :: bool
  rn_revision :: int
  rn_failure :: "(string \<times> string) option"
  rn_finished :: "int option"

record script_effect =
  se_effect_sequence :: int
  se_effect_name :: string
  se_effect_arguments :: "compiled_argument list"

record 'j trace_step =
  tp_ordinal :: int
  tp_runtime_sequence :: int
  tp_direction :: string
  tp_kind :: string
  tp_payload :: 'j

record 'j script_db =
  sd_economy :: db
  sd_account :: "int \<rightharpoonup> int"
  sd_world :: "int \<rightharpoonup> string"
  sd_scripts :: "script_row list"
  sd_versions :: "version_row list"
  sd_triggers :: "trigger_row list"
  sd_revision :: "int \<rightharpoonup> int"
  sd_flags :: "int \<times> string \<rightharpoonup> bool"
  sd_progress :: "int \<times> string \<rightharpoonup> f64"
  sd_runs :: "run_row list"
  sd_effects :: "(int \<times> script_effect) list"
  sd_trace :: "(int \<times> 'j trace_step) list"

record moment =
  at_database :: int
  at_server :: int
  at_token :: "string option"
  at_run_id :: int

record script_state =
  ss_revision :: int
  ss_scene :: string
  ss_yen :: int
  ss_flags :: "string \<rightharpoonup> bool"
  ss_progress :: "string \<rightharpoonup> f64"
  ss_inventory :: "string \<rightharpoonup> int"

record published_event =
  pb_run :: int
  pb_token :: string
  pb_lease_expires :: int
  pb_account :: int
  pb_character :: int
  pb_script :: int
  pb_slug :: string
  pb_version :: int
  pb_entry :: string
  pb_trigger :: trigger_selector
  pb_program :: string
  pb_lines :: "compiled_line list"
  pb_state :: script_state

record trigger_candidate =
  tc_script :: int
  tc_slug :: string
  tc_version :: int
  tc_entry :: string
  tc_priority :: int
  tc_program :: string
  tc_lines :: "compiled_line list"

datatype script_error =
    StoreError store_error
  | SelectorError trigger_error
  | AmbiguousTrigger
  | ScriptEventActive
  | ScriptEventEnded
  | RevisionConflict
  | LinesUndecodable
  | NoEntropy
  | EffectArgument string
  | EffectsOutOfOrder
  | EffectFailed string int script_error
  | InvalidTraceStep
  | FailureIncomplete
  | InvalidTerminalStatus

type_synonym ('j, 'a) stx = "script_error + 'a \<times> 'j script_db"

section \<open>Leases\<close>

definition script_lease_duration :: int where
  "script_lease_duration = 5 * 60 * second_ns"

text \<open>A timestamp as the database keeps it, in microseconds.\<close>

definition pg_time :: "int \<Rightarrow> int" where
  "pg_time t = t div 1000 * 1000"

definition lease_token_ok :: "string \<Rightarrow> bool" where
  "lease_token_ok t \<longleftrightarrow> length t = 64 \<and> list_all (\<lambda>c. is_digit_char c \<or> char_between (CHR ''a'') (CHR ''f'') c) t"

text \<open>The characters of a UTF-8 text: its bytes without the continuation bytes.\<close>

definition char_length :: "string \<Rightarrow> nat" where
  "char_length s = length (filter (\<lambda>c. \<not> (128 \<le> (of_char c :: nat) \<and> (of_char c :: nat) < 192)) s)"

definition holds_lease :: "int \<Rightarrow> string \<Rightarrow> run_row \<Rightarrow> bool" where
  "holds_lease run token r \<longleftrightarrow> rn_id r = run \<and> rn_token r = token \<and> rn_status r = RunActive"

definition holds_live_lease :: "int \<Rightarrow> int \<Rightarrow> string \<Rightarrow> run_row \<Rightarrow> bool" where
  "holds_live_lease now run token r \<longleftrightarrow> holds_lease run token r \<and> now < rn_lease_expires r"

definition update_runs :: "(run_row \<Rightarrow> bool) \<Rightarrow> (run_row \<Rightarrow> run_row) \<Rightarrow> 'j script_db \<Rightarrow> 'j script_db" where
  "update_runs P f d = d\<lparr>sd_runs := map (\<lambda>r. if P r then f r else r) (sd_runs d)\<rparr>"

definition finish_run :: "int \<Rightarrow> run_status \<Rightarrow> run_row \<Rightarrow> run_row" where
  "finish_run now st r = r\<lparr>rn_status := st, rn_finished := Some now\<rparr>"

section \<open>Triggers\<close>

definition trigger_matches :: "trigger_selector \<Rightarrow> trigger_row \<Rightarrow> bool" where
  "trigger_matches s t \<longleftrightarrow> tr_kind t = ts_kind s \<and> tr_area t = nullif_empty (ts_area s)
     \<and> tr_actor t = nullif_empty (ts_actor s) \<and> tr_object t = nullif_empty (ts_object s)
     \<and> tr_activity t = nullif_empty (ts_activity s)"

definition version_live :: "version_row \<Rightarrow> bool" where
  "version_live v \<longleftrightarrow> vs_status v = ''published'' \<and> vs_content_format v = ''yarn'' \<and> vs_compile_status v = ''valid''
     \<and> vs_command_schema v = Some yarn_command_schema_version"

text \<open>
  The joined rows in the order of the query. Rows of one version and one priority may come in either
  order; such a pair is ambiguous in both, unless the version is excluded.
\<close>

definition trigger_rows :: "trigger_selector \<Rightarrow> 'j script_db \<Rightarrow> (script_row \<times> version_row \<times> trigger_row) list" where
  "trigger_rows s d =
     sort_key (\<lambda>(_, v, t). (- tr_priority t, vs_id v))
       [(c, v, t). c \<leftarrow> filter (\<lambda>c. \<not> sc_archived c) (sd_scripts d),
          v \<leftarrow> filter (\<lambda>v. sc_published c = Some (vs_id v) \<and> version_live v) (sd_versions d),
          t \<leftarrow> filter (\<lambda>t. tr_version t = vs_id v \<and> trigger_matches s t) (sd_triggers d)]"

text \<open>The scan of the rows: it stops at the second candidate that is not excluded.\<close>

fun scan_candidates ::
  "int list \<Rightarrow> nat \<Rightarrow> (script_row \<times> version_row \<times> trigger_row) list \<Rightarrow> script_error + trigger_candidate list" where
  "scan_candidates excluded found [] = Inr []"
| "scan_candidates excluded found ((c, v, t) # rows) =
     (case vs_lines v of
        None \<Rightarrow> Inl LinesUndecodable
      | Some ls \<Rightarrow>
          if vs_id v \<in> set excluded then scan_candidates excluded found rows
          else
            let candidate = \<lparr>tc_script = sc_id c, tc_slug = sc_slug c, tc_version = vs_id v, tc_entry = tr_node t,
                             tc_priority = tr_priority t, tc_program = vs_program v, tc_lines = ls\<rparr> in
            if found = 1 then Inr [candidate]
            else (case scan_candidates excluded (Suc found) rows of Inl e \<Rightarrow> Inl e | Inr cs \<Rightarrow> Inr (candidate # cs)))"

definition resolve_published_trigger ::
  "trigger_selector \<Rightarrow> int list \<Rightarrow> 'j script_db \<Rightarrow> script_error + trigger_candidate" where
  "resolve_published_trigger s excluded d =
     (case scan_candidates excluded 0 (trigger_rows s d) of
        Inl e \<Rightarrow> Inl e
      | Inr [] \<Rightarrow> Inl (StoreError ErrNotFound)
      | Inr [c] \<Rightarrow> Inr c
      | Inr (c # c' # _) \<Rightarrow> if tc_priority c = tc_priority c' then Inl AmbiguousTrigger else Inr c)"

section \<open>Starting a run\<close>

definition expire_runs :: "int \<Rightarrow> int \<Rightarrow> 'j script_db \<Rightarrow> 'j script_db" where
  "expire_runs now cid =
     update_runs (\<lambda>r. rn_character r = cid \<and> rn_status r = RunActive \<and> rn_lease_expires r \<le> now) (finish_run now RunExpired)"

definition load_script_state :: "int \<Rightarrow> string \<Rightarrow> int \<Rightarrow> int \<Rightarrow> 'j script_db \<Rightarrow> script_state" where
  "load_script_state cid scene yen revision d =
     \<lparr>ss_revision = revision, ss_scene = scene, ss_yen = yen,
      ss_flags = (\<lambda>k. sd_flags d (cid, k)), ss_progress = (\<lambda>k. sd_progress d (cid, k)),
      ss_inventory = (\<lambda>k. inventory (sd_economy d) (cid, k))\<rparr>"

definition insert_run :: "run_row \<Rightarrow> 'j script_db \<Rightarrow> script_error + 'j script_db" where
  "insert_run r d =
     (if char_length (rn_entry r) < 1 \<or> 160 < char_length (rn_entry r) \<or> rn_kind r \<notin> set trigger_kinds
         \<or> \<not> lease_token_ok (rn_token r) \<or> rn_revision r < 0
      then Inl (StoreError ErrDatabase)
      else if \<exists>x\<in>set (sd_runs d). rn_id x = rn_id r \<or> rn_token x = rn_token r
                \<or> (rn_status x = RunActive \<and> rn_character x = rn_character r)
      then Inl ScriptEventActive
      else Inr (d\<lparr>sd_runs := sd_runs d @ [r]\<rparr>))"

definition start_published_event ::
  "moment \<Rightarrow> int \<Rightarrow> int \<Rightarrow> trigger_selector \<Rightarrow> int list \<Rightarrow> 'j script_db \<Rightarrow> ('j, published_event) stx" where
  "start_published_event m account cid requested excluded d =
     (case normalize_trigger_selector requested of
        Inl e \<Rightarrow> Inl (SelectorError e)
      | Inr s \<Rightarrow>
          (case (active_character (sd_economy d) cid, sd_world d cid) of
            (Some c, Some world) \<Rightarrow>
              if sd_account d cid \<noteq> Some account then Inl (StoreError ErrNotFound)
              else let d1 = expire_runs (at_database m) cid d in
                (case resolve_published_trigger s excluded d1 of
                  Inl e \<Rightarrow> Inl e
                | Inr candidate \<Rightarrow>
                    let scene = (if ts_area s \<noteq> '''' then ts_area s else world);
                        revision = map_get_or 0 (sd_revision d1) cid;
                        d2 = d1\<lparr>sd_revision := (sd_revision d1)(cid \<mapsto> revision)\<rparr>;
                        state = load_script_state cid scene (ch_yen c) revision d2 in
                    (case at_token m of
                      None \<Rightarrow> Inl NoEntropy
                    | Some token \<Rightarrow>
                        let expires = at_server m + script_lease_duration in
                        (case insert_run
                            \<lparr>rn_id = at_run_id m, rn_character = cid, rn_version = tc_version candidate, rn_entry = tc_entry candidate,
                             rn_kind = ts_kind s, rn_token = token, rn_lease_expires = pg_time expires, rn_status = RunActive,
                             rn_completion_requested = False, rn_revision = revision, rn_failure = None, rn_finished = None\<rparr> d2 of
                          Inl e \<Rightarrow> Inl e
                        | Inr d3 \<Rightarrow> Inr
                            (\<lparr>pb_run = at_run_id m, pb_token = token, pb_lease_expires = expires, pb_account = account,
                              pb_character = cid, pb_script = tc_script candidate, pb_slug = tc_slug candidate,
                              pb_version = tc_version candidate, pb_entry = tc_entry candidate, pb_trigger = s,
                              pb_program = tc_program candidate, pb_lines = tc_lines candidate, pb_state = state\<rparr>, d3))))
          | _ \<Rightarrow> Inl (StoreError ErrNotFound)))"

section \<open>Keeping and ending a run\<close>

definition renew_event :: "moment \<Rightarrow> int \<Rightarrow> string \<Rightarrow> 'j script_db \<Rightarrow> ('j, int) stx" where
  "renew_event m run token d =
     (let expires = pg_time (at_server m + script_lease_duration); P = holds_live_lease (at_database m) run token in
      if \<exists>r\<in>set (sd_runs d). P r
      then Inr (expires, update_runs P (\<lambda>r. r\<lparr>rn_lease_expires := expires\<rparr>) d)
      else Inl ScriptEventEnded)"

definition trace_kind_ok :: "string \<Rightarrow> bool" where
  "trace_kind_ok k = (case k of [] \<Rightarrow> False
     | c # cs \<Rightarrow> is_alpha_char c \<and> length cs \<le> 63
         \<and> list_all (\<lambda>x. is_alpha_char x \<or> is_digit_char x \<or> x = CHR ''_'' \<or> x = CHR ''-'') cs)"

definition record_event_step ::
  "('j \<Rightarrow> bool) \<Rightarrow> moment \<Rightarrow> int \<Rightarrow> string \<Rightarrow> 'j trace_step \<Rightarrow> 'j script_db \<Rightarrow> ('j, unit) stx" where
  "record_event_step is_object m run token st d =
     (if tp_ordinal st \<le> 0 \<or> tp_runtime_sequence st < 0 \<or> (tp_direction st \<noteq> ''runtime'' \<and> tp_direction st \<noteq> ''controller'')
         \<or> trim_space (tp_kind st) = '''' \<or> \<not> is_object (tp_payload st)
      then Inl InvalidTraceStep
      else if \<not> int32_ok (tp_ordinal st) \<or> \<not> int32_ok (tp_runtime_sequence st) then Inl (StoreError ErrDatabase)
      else if \<not> (\<exists>r\<in>set (sd_runs d). holds_live_lease (at_database m) run token r) then Inl ScriptEventEnded
      else if \<not> trace_kind_ok (tp_kind st) \<or> (\<exists>(i, x)\<in>set (sd_trace d). i = run \<and> tp_ordinal x = tp_ordinal st)
      then Inl (StoreError ErrDatabase)
      else Inr ((), d\<lparr>sd_trace := sd_trace d @ [(run, st)]\<rparr>))"

definition cancel_event :: "moment \<Rightarrow> int \<Rightarrow> string \<Rightarrow> 'j script_db \<Rightarrow> ('j, unit) stx" where
  "cancel_event m run token d =
     (if \<exists>r\<in>set (sd_runs d). holds_lease run token r
      then Inr ((), update_runs (holds_lease run token) (finish_run (at_database m) RunCancelled) d)
      else Inl ScriptEventEnded)"

definition fail_event :: "moment \<Rightarrow> int \<Rightarrow> string \<Rightarrow> string \<Rightarrow> string \<Rightarrow> 'j script_db \<Rightarrow> ('j, unit) stx" where
  "fail_event m run token code0 message0 d =
     (let code = trim_space code0; message = trim_space message0 in
      if code = '''' \<or> message = '''' then Inl FailureIncomplete
      else if \<exists>r\<in>set (sd_runs d). holds_lease run token r
      then Inr ((), update_runs (holds_lease run token)
             (\<lambda>r. finish_run (at_database m) RunFailed (r\<lparr>rn_failure := Some (code, message)\<rparr>)) d)
      else Inl ScriptEventEnded)"

section \<open>Effects\<close>

definition effect_argument :: "script_effect \<Rightarrow> nat \<Rightarrow> string \<Rightarrow> string option" where
  "effect_argument e i expected =
     (if length (se_effect_arguments e) \<le> i then None
      else let a = se_effect_arguments e ! i in
        if ar_static a \<and> ar_type a = expected then ar_value a else None)"

definition safe_integer :: "f64 \<Rightarrow> int option" where
  "safe_integer x = (case x of
     Fin q \<Rightarrow> if q = of_int \<lfloor>q\<rfloor> \<and> \<bar>\<lfloor>q\<rfloor>\<bar> \<le> yarn_max_safe_integer then Some \<lfloor>q\<rfloor> else None
   | _ \<Rightarrow> None)"

definition integer_argument :: "script_effect \<Rightarrow> nat \<Rightarrow> int option" where
  "integer_argument e i =
     (case effect_argument e i ''number'' of None \<Rightarrow> None
      | Some t \<Rightarrow> (case parse_float t of None \<Rightarrow> None | Some x \<Rightarrow> safe_integer x))"

definition effect_event_key :: "int \<Rightarrow> int \<Rightarrow> string" where
  "effect_event_key run n = ''script:'' @ int_decimal run @ '':'' @ int_decimal n"

definition lift_store :: "'j script_db \<Rightarrow> store_error + db \<Rightarrow> script_error + 'j script_db" where
  "lift_store d r = (case r of Inl e \<Rightarrow> Inl (StoreError e) | Inr x \<Rightarrow> Inr (d\<lparr>sd_economy := x\<rparr>))"

definition apply_flag_effect :: "int \<Rightarrow> script_effect \<Rightarrow> 'j script_db \<Rightarrow> script_error + 'j script_db" where
  "apply_flag_effect cid e d =
     (if length (se_effect_arguments e) \<noteq> 1 then Inl (EffectArgument ''expected one argument'')
      else case effect_argument e 0 ''string'' of
        None \<Rightarrow> Inl (EffectArgument ''argument 1 must be a static string'')
      | Some k \<Rightarrow>
          if se_effect_name e = ''clear_flag'' then Inr (d\<lparr>sd_flags := (sd_flags d)((cid, k) := None)\<rparr>)
          else if \<not> catalog_identifier k then Inl (StoreError ErrDatabase)
          else Inr (d\<lparr>sd_flags := (sd_flags d)((cid, k) \<mapsto> True)\<rparr>))"

definition apply_progress_effect :: "int \<Rightarrow> script_effect \<Rightarrow> 'j script_db \<Rightarrow> script_error + 'j script_db" where
  "apply_progress_effect cid e d =
     (if length (se_effect_arguments e) \<noteq> 2 then Inl (EffectArgument ''expected two arguments'')
      else case (effect_argument e 0 ''string'', effect_argument e 1 ''number'') of
        (Some k, Some t) \<Rightarrow>
          (case parse_float t of
            None \<Rightarrow> Inl (EffectArgument ''progress value must be a finite number'')
          | Some x \<Rightarrow>
              if se_effect_name e = ''increment_progress'' \<and> fle x (Fin 0)
              then Inl (EffectArgument ''progress increment must be a positive finite number'')
              else if \<not> catalog_identifier k then Inl (StoreError ErrDatabase)
              else
                let y = (case sd_progress d (cid, k) of
                    Some old \<Rightarrow> if se_effect_name e = ''increment_progress'' then fadd old x else x
                  | None \<Rightarrow> x) in
                if \<not> is_fin y then Inl (StoreError ErrDatabase)
                else Inr (d\<lparr>sd_progress := (sd_progress d)((cid, k) \<mapsto> y)\<rparr>))
      | _ \<Rightarrow> Inl (EffectArgument ''argument must be static''))"

definition update_yen :: "int \<Rightarrow> int \<Rightarrow> db \<Rightarrow> store_error + db" where
  "update_yen cid delta d =
     (case active_character d cid of
        None \<Rightarrow> Inl ErrInsufficient
      | Some r \<Rightarrow>
          if \<not> int64_ok (ch_yen r + delta) then Inl ErrDatabase
          else if ch_yen r + delta < 0 then Inl ErrInsufficient
          else Inr (set_character cid (r\<lparr>ch_yen := ch_yen r + delta\<rparr>) d))"

definition apply_yen_effect :: "int \<Rightarrow> int \<Rightarrow> script_effect \<Rightarrow> 'j script_db \<Rightarrow> script_error + 'j script_db" where
  "apply_yen_effect cid run e d =
     (if length (se_effect_arguments e) \<noteq> 2 then Inl (EffectArgument ''expected amount and reason'')
      else case integer_argument e 0 of
        None \<Rightarrow> Inl (EffectArgument ''yen amount must be a positive integer'')
      | Some amount \<Rightarrow>
          if amount \<le> 0 then Inl (EffectArgument ''yen amount must be a positive integer'')
          else case effect_argument e 1 ''string'' of
            None \<Rightarrow> Inl (EffectArgument ''yen reason is required'')
          | Some reason \<Rightarrow>
              if trim_space reason = '''' then Inl (EffectArgument ''yen reason is required'')
              else
                let spend = (se_effect_name e = ''spend_yen''); delta = (if spend then - amount else amount);
                    kind = (if spend then ''yen_spend'' else ''yen_credit'') in
                lift_store d (case update_yen cid delta (sd_economy d) of
                    Inl err \<Rightarrow> Inl err
                  | Inr d1 \<Rightarrow> record_economy_event cid (effect_event_key run (se_effect_sequence e)) kind '''' 0 delta reason d1))"

definition apply_item_effect :: "int \<Rightarrow> int \<Rightarrow> script_effect \<Rightarrow> string \<Rightarrow> int \<Rightarrow> db \<Rightarrow> store_error + db" where
  "apply_item_effect cid run e item quantity d =
     (let key = effect_event_key run (se_effect_sequence e) in
      if se_effect_name e = ''give_item'' then
        (case upsert_item cid item quantity d of
          Inl err \<Rightarrow> Inl err
        | Inr (_, d1) \<Rightarrow> record_economy_event cid key ''item_grant'' item quantity 0 ''script event'' d1)
      else case inventory d (cid, item) of
        None \<Rightarrow> Inl ErrInsufficient
      | Some current \<Rightarrow>
          if current < quantity then Inl ErrInsufficient
          else record_economy_event cid key ''item_consume'' item (- quantity) 0 ''script event''
                 (take_item cid item (current - quantity) d))"

definition apply_inventory_effect :: "int \<Rightarrow> int \<Rightarrow> script_effect \<Rightarrow> 'j script_db \<Rightarrow> script_error + 'j script_db" where
  "apply_inventory_effect cid run e d =
     (if length (se_effect_arguments e) \<noteq> 2 then Inl (EffectArgument ''expected item and quantity'')
      else case effect_argument e 0 ''string'' of
        None \<Rightarrow> Inl (EffectArgument ''argument 1 must be a static string'')
      | Some item \<Rightarrow>
          (case integer_argument e 1 of
            None \<Rightarrow> Inl (EffectArgument ''item quantity must be a positive integer'')
          | Some q \<Rightarrow>
              if q \<le> 0 \<or> 2 ^ 31 - 1 < q then Inl (EffectArgument ''item quantity must be a positive integer'')
              else lift_store d (apply_item_effect cid run e item q (sd_economy d))))"

definition apply_script_effect :: "int \<Rightarrow> int \<Rightarrow> script_effect \<Rightarrow> 'j script_db \<Rightarrow> script_error + 'j script_db" where
  "apply_script_effect cid run e d =
     (let n = se_effect_name e in
      if n = ''set_flag'' \<or> n = ''clear_flag'' then apply_flag_effect cid e d
      else if n = ''set_progress'' \<or> n = ''increment_progress'' then apply_progress_effect cid e d
      else if n = ''grant_yen'' \<or> n = ''spend_yen'' then apply_yen_effect cid run e d
      else if n = ''give_item'' \<or> n = ''remove_item'' then apply_inventory_effect cid run e d
      else Inl (EffectArgument ''not a durable script effect''))"

definition insert_effect :: "int \<Rightarrow> script_effect \<Rightarrow> 'j script_db \<Rightarrow> script_error + 'j script_db" where
  "insert_effect run e d =
     (if \<not> int32_ok (se_effect_sequence e) \<or> se_effect_sequence e \<le> 0
         \<or> (\<exists>(i, x)\<in>set (sd_effects d). i = run \<and> se_effect_sequence x = se_effect_sequence e)
      then Inl (StoreError ErrDatabase)
      else Inr (d\<lparr>sd_effects := sd_effects d @ [(run, e)]\<rparr>))"

fun apply_effects :: "int \<Rightarrow> int \<Rightarrow> int \<Rightarrow> script_effect list \<Rightarrow> 'j script_db \<Rightarrow> script_error + 'j script_db" where
  "apply_effects cid run prev [] d = Inr d"
| "apply_effects cid run prev (e # es) d =
     (if se_effect_sequence e \<le> prev then Inl EffectsOutOfOrder
      else case insert_effect run e d of
        Inl err \<Rightarrow> Inl err
      | Inr d1 \<Rightarrow>
          (case apply_script_effect cid run e d1 of
            Inl err \<Rightarrow> Inl (EffectFailed (se_effect_name e) (se_effect_sequence e) err)
          | Inr d2 \<Rightarrow> apply_effects cid run (se_effect_sequence e) es d2))"

definition finish_event ::
  "moment \<Rightarrow> int \<Rightarrow> string \<Rightarrow> int \<Rightarrow> script_effect list \<Rightarrow> run_status \<Rightarrow> bool \<Rightarrow> 'j script_db \<Rightarrow> ('j, int) stx" where
  "finish_event m run token expected effects st completion d =
     (if st \<noteq> RunCompleted \<and> st \<noteq> RunPassed then Inl InvalidTerminalStatus
      else case find (\<lambda>r. holds_live_lease (at_database m) run token r \<and> rn_revision r = expected
                          \<and> sd_revision d (rn_character r) \<noteq> None) (sd_runs d) of
        None \<Rightarrow> Inl ScriptEventEnded
      | Some r \<Rightarrow>
          let cid = rn_character r; revision = map_get_or 0 (sd_revision d) cid in
          if revision \<noteq> expected then Inl RevisionConflict
          else case apply_effects cid run 0 effects d of
            Inl e \<Rightarrow> Inl e
          | Inr d1 \<Rightarrow>
              let new = (if effects = [] then revision else revision + 1);
                  d2 = (if effects = [] then d1 else d1\<lparr>sd_revision := (sd_revision d1)(cid \<mapsto> new)\<rparr>) in
              if \<not> int64_ok new then Inl (StoreError ErrDatabase)
              else Inr (new, update_runs (\<lambda>r. rn_id r = run)
                     (\<lambda>r. finish_run (at_database m) st (r\<lparr>rn_completion_requested := completion\<rparr>)) d2))"

definition complete_event :: "moment \<Rightarrow> int \<Rightarrow> string \<Rightarrow> int \<Rightarrow> script_effect list \<Rightarrow> 'j script_db \<Rightarrow> ('j, int) stx" where
  "complete_event m run token expected effects d = finish_event m run token expected effects RunCompleted True d"

definition pass_event :: "moment \<Rightarrow> int \<Rightarrow> string \<Rightarrow> int \<Rightarrow> script_effect list \<Rightarrow> 'j script_db \<Rightarrow> ('j, int) stx" where
  "pass_event m run token expected effects d = finish_event m run token expected effects RunPassed False d"

end
