(* ===== verification/ScriptRuns.thy ===== *)
theory ScriptRuns
  imports ScriptStore
begin

text \<open>
  What the tables of scripted events guarantee over any sequence of committed operations: a character
  has one active run at most, a run that ended stays as it ended, effects are recorded once and only by
  runs that completed or passed, and the economy's books stay in order.
\<close>

section \<open>What an effect does\<close>

lemma apply_flag_effect_Inr:
  "apply_flag_effect cid e d = Inr d' \<Longrightarrow>
     \<exists>k. effect_argument e 0 ''string'' = Some k
       \<and> d' = d\<lparr>sd_flags := (sd_flags d)((cid, k) := if se_effect_name e = ''clear_flag'' then None else Some True)\<rparr>"
  by (auto simp: apply_flag_effect_def split: if_splits option.splits)

lemma apply_progress_effect_Inr:
  "apply_progress_effect cid e d = Inr d' \<Longrightarrow>
     \<exists>k t x. effect_argument e 0 ''string'' = Some k \<and> effect_argument e 1 ''number'' = Some t \<and> parse_float t = Some x
       \<and> (se_effect_name e = ''increment_progress'' \<longrightarrow> \<not> fle x (Fin 0))
       \<and> d' = d\<lparr>sd_progress := (sd_progress d)((cid, k) \<mapsto>
             (case sd_progress d (cid, k) of Some old \<Rightarrow> if se_effect_name e = ''increment_progress'' then fadd old x else x | None \<Rightarrow> x))\<rparr>"
  by (auto simp: apply_progress_effect_def Let_def split: if_splits option.splits)

lemma update_yen_Inr:
  "update_yen cid y d = Inr d' \<longleftrightarrow>
     (\<exists>r. characters d cid = Some r \<and> \<not> ch_deleted r \<and> int64_ok (ch_yen r + y) \<and> 0 \<le> ch_yen r + y
        \<and> d' = set_character cid (r\<lparr>ch_yen := ch_yen r + y\<rparr>) d)"
  by (auto simp: update_yen_def active_character_Some active_character_def split: option.splits)

lemma lift_store_Inr: "lift_store d r = Inr d' \<longleftrightarrow> (\<exists>x. r = Inr x \<and> d' = d\<lparr>sd_economy := x\<rparr>)"
  by (auto simp: lift_store_def split: sum.splits)

lemma apply_yen_effect_Inr:
  "apply_yen_effect cid run e d = Inr d' \<Longrightarrow>
     \<exists>amount reason y ev r. integer_argument e 0 = Some amount \<and> 0 < amount
       \<and> y = (if se_effect_name e = ''spend_yen'' then - amount else amount)
       \<and> ev = economy_row cid (effect_event_key run (se_effect_sequence e))
                (if se_effect_name e = ''spend_yen'' then ''yen_spend'' else ''yen_credit'') '''' 0 y reason
       \<and> characters (sd_economy d) cid = Some r \<and> \<not> ch_deleted r \<and> int64_ok (ch_yen r + y) \<and> 0 \<le> ch_yen r + y
       \<and> economy_key_free ev (sd_economy d)
       \<and> d' = d\<lparr>sd_economy := (set_character cid (r\<lparr>ch_yen := ch_yen r + y\<rparr>) (sd_economy d))
                   \<lparr>economy_events := economy_events (sd_economy d) @ [ev]\<rparr>\<rparr>"
  by (auto simp: apply_yen_effect_def Let_def lift_store_Inr update_yen_Inr event_Inr split: if_splits option.splits sum.splits)

lemma apply_inventory_effect_Inr:
  "apply_inventory_effect cid run e d = Inr d' \<Longrightarrow>
     \<exists>k q x. effect_argument e 0 ''string'' = Some k \<and> integer_argument e 1 = Some q \<and> 0 < q \<and> q < 2 ^ 31
       \<and> apply_item_effect cid run e k q (sd_economy d) = Inr x \<and> d' = d\<lparr>sd_economy := x\<rparr>"
  by (auto simp: apply_inventory_effect_def lift_store_Inr split: if_splits option.splits)

lemma give_item_Inr:
  "apply_item_effect cid run e k q d = Inr d' \<Longrightarrow> se_effect_name e = ''give_item'' \<Longrightarrow>
     \<exists>i n ev. find_item d k = Some i \<and> n = (case inventory d (cid, k) of None \<Rightarrow> q | Some h \<Rightarrow> h + q) \<and> n \<le> it_max_stack i
       \<and> ev = economy_row cid (effect_event_key run (se_effect_sequence e)) ''item_grant'' k q 0 ''script event''
       \<and> economy_key_free ev d \<and> characters d cid \<noteq> None
       \<and> d' = (set_inventory cid k (Some n) d)\<lparr>economy_events := economy_events d @ [ev]\<rparr>"
  by (simp add: apply_item_effect_def Let_def event_Inr split: sum.splits prod.splits) (drule upsert_item_Inr, fastforce)

lemma remove_item_Inr:
  "apply_item_effect cid run e k q d = Inr d' \<Longrightarrow> se_effect_name e \<noteq> ''give_item'' \<Longrightarrow>
     \<exists>h ev. inventory d (cid, k) = Some h \<and> q \<le> h
       \<and> ev = economy_row cid (effect_event_key run (se_effect_sequence e)) ''item_consume'' k (- q) 0 ''script event''
       \<and> economy_key_free ev d \<and> characters d cid \<noteq> None
       \<and> d' = (take_item cid k (h - q) d)\<lparr>economy_events := economy_events d @ [ev]\<rparr>"
proof -
  assume a: "apply_item_effect cid run e k q d = Inr d'" and n: "se_effect_name e \<noteq> ''give_item''"
  let ?ev = "economy_row cid (effect_event_key run (se_effect_sequence e)) ''item_consume'' k (- q) 0 ''script event''"
  obtain h where h: "inventory d (cid, k) = Some h" "q \<le> h" and i: "insert_economy_event ?ev (take_item cid k (h - q) d) = Inr d'"
    using a n by (auto simp: apply_item_effect_def Let_def record_economy_event_def split: option.splits if_splits)
  from i [unfolded insert_economy_event_Inr]
  have "economy_key_free ?ev d" "characters d cid \<noteq> None" "d' = (take_item cid k (h - q) d)\<lparr>economy_events := economy_events d @ [?ev]\<rparr>"
    by (simp_all add: take_item_eq del: if_split)
  with h show ?thesis by blast
qed

lemma apply_item_effect_write:
  assumes "db_ok d" and "0 < q" and "apply_item_effect cid run e k q d = Inr d'"
  shows "store_write d d'"
proof (cases "se_effect_name e = ''give_item''")
  case True
  from give_item_Inr [OF assms(3) this] obtain i n ev where g: "find_item d k = Some i" "n \<le> it_max_stack i"
    "n = (case inventory d (cid, k) of None \<Rightarrow> q | Some h \<Rightarrow> h + q)" "characters d cid \<noteq> None" "economy_key_free ev d"
    "ev = economy_row cid (effect_event_key run (se_effect_sequence e)) ''item_grant'' k q 0 ''script event''"
    "d' = (set_inventory cid k (Some n) d)\<lparr>economy_events := economy_events d @ [ev]\<rparr>" by blast
  have n: "n = (case inventory d (cid, k) of None \<Rightarrow> 0 | Some h \<Rightarrow> h) + q" using g(3) by (simp split: option.splits)
  have pos: "0 < n" using g(3) assms(2) stack_pos [OF assms(1), of cid k] by (auto split: option.splits)
  then have t: "set_inventory cid k (Some n) d = take_item cid k n d" by (simp add: take_item_eq)
  show ?thesis unfolding g(7) t
    using g pos item_key_nonempty [OF assms(1) g(1)] by (intro write_item [OF g(4,1) n]) simp_all
next
  case False
  from remove_item_Inr [OF assms(3) this] obtain h ev where g: "inventory d (cid, k) = Some h" "q \<le> h"
    "ev = economy_row cid (effect_event_key run (se_effect_sequence e)) ''item_consume'' k (- q) 0 ''script event''"
    "economy_key_free ev d" "characters d cid \<noteq> None" "d' = (take_item cid k (h - q) d)\<lparr>economy_events := economy_events d @ [ev]\<rparr>" by blast
  obtain i where i: "find_item d k = Some i" "h \<le> it_max_stack i" using stackD [OF assms(1) g(1)] by blast
  have n: "h - q = (case inventory d (cid, k) of None \<Rightarrow> 0 | Some h \<Rightarrow> h) + - q" using g(1) by simp
  show ?thesis unfolding g(6)
    using g i assms(2) item_key_nonempty [OF assms(1) i(1)] by (intro write_item [OF g(5) i(1) n]) simp_all
qed

lemma apply_script_effect_cases:
  assumes "apply_script_effect cid run e d = Inr d'"
  obtains (flag) "se_effect_name e \<in> {''set_flag'', ''clear_flag''}" "apply_flag_effect cid e d = Inr d'"
    | (progress) "se_effect_name e \<in> {''set_progress'', ''increment_progress''}" "apply_progress_effect cid e d = Inr d'"
    | (yen) "se_effect_name e \<in> {''grant_yen'', ''spend_yen''}" "apply_yen_effect cid run e d = Inr d'"
    | (item) "se_effect_name e \<in> {''give_item'', ''remove_item''}" "apply_inventory_effect cid run e d = Inr d'"
  using assms by (auto simp: apply_script_effect_def Let_def split: if_splits)

text \<open>An effect writes the story state and the economy, the latter by the economy's own writes.\<close>

lemma apply_script_effect_frame:
  "apply_script_effect cid run e d = Inr d' \<Longrightarrow> \<exists>f p x. d' = d\<lparr>sd_flags := f, sd_progress := p, sd_economy := x\<rparr>"
proof (elim apply_script_effect_cases)
  assume "apply_flag_effect cid e d = Inr d'"
  then show ?thesis by (auto dest!: apply_flag_effect_Inr intro!: exI [of _ "sd_progress d"] exI [of _ "sd_economy d"])
next
  assume "apply_progress_effect cid e d = Inr d'"
  then show ?thesis by (auto dest!: apply_progress_effect_Inr intro!: exI [of _ "sd_flags d"] exI [of _ "sd_economy d"])
next
  assume "apply_yen_effect cid run e d = Inr d'"
  then obtain x where "d' = d\<lparr>sd_economy := x\<rparr>" by (blast dest: apply_yen_effect_Inr)
  then show ?thesis by (intro exI [of _ "sd_flags d"] exI [of _ "sd_progress d"] exI [of _ x]) simp
next
  assume "apply_inventory_effect cid run e d = Inr d'"
  then obtain x where "d' = d\<lparr>sd_economy := x\<rparr>" by (blast dest: apply_inventory_effect_Inr)
  then show ?thesis by (intro exI [of _ "sd_flags d"] exI [of _ "sd_progress d"] exI [of _ x]) simp
qed

lemma apply_script_effect_write:
  assumes "apply_script_effect cid run e d = Inr d'" and "db_ok (sd_economy d)"
  shows "store_write\<^sup>*\<^sup>* (sd_economy d) (sd_economy d')"
  using assms(1)
proof (cases rule: apply_script_effect_cases)
  case flag
  then show ?thesis by (auto dest!: apply_flag_effect_Inr)
next
  case progress
  then show ?thesis by (auto dest!: apply_progress_effect_Inr)
next
  case yen
  from apply_yen_effect_Inr [OF yen(2)] obtain y ev r reason where w: "characters (sd_economy d) cid = Some r"
    "0 \<le> ch_yen r + y" "int64_ok (ch_yen r + y)" "economy_key_free ev (sd_economy d)"
    "ev = economy_row cid (effect_event_key run (se_effect_sequence e))
            (if se_effect_name e = ''spend_yen'' then ''yen_spend'' else ''yen_credit'') '''' 0 y reason"
    "d' = d\<lparr>sd_economy := (set_character cid (r\<lparr>ch_yen := ch_yen r + y\<rparr>) (sd_economy d))
            \<lparr>economy_events := economy_events (sd_economy d) @ [ev]\<rparr>\<rparr>" by blast
  have "store_write (sd_economy d) (sd_economy d')" unfolding w(6) using write_yen [OF w(1-3) _ _ _ w(4)] by (simp add: w(5))
  then show ?thesis by blast
next
  case item
  then show ?thesis using apply_item_effect_write [OF assms(2)] by (auto dest!: apply_inventory_effect_Inr)
qed

lemma insert_effect_Inr:
  "insert_effect run e d = Inr d' \<longleftrightarrow> int32_ok (se_effect_sequence e) \<and> 0 < se_effect_sequence e
     \<and> (\<forall>x. (run, x) \<in> set (sd_effects d) \<longrightarrow> se_effect_sequence x \<noteq> se_effect_sequence e) \<and> d' = d\<lparr>sd_effects := sd_effects d @ [(run, e)]\<rparr>"
  by (auto simp: insert_effect_def)

lemma apply_effects_done:
  "apply_effects cid run prev es d = Inr d' \<Longrightarrow>
     (\<exists>f p x. d' = d\<lparr>sd_flags := f, sd_progress := p, sd_economy := x, sd_effects := sd_effects d @ map (Pair run) es\<rparr>)
     \<and> (\<forall>e\<in>set es. prev < se_effect_sequence e) \<and> distinct (map se_effect_sequence es)
     \<and> (prev \<ge> 0 \<longrightarrow> sorted (map se_effect_sequence es))
     \<and> (db_ok (sd_economy d) \<longrightarrow> store_write\<^sup>*\<^sup>* (sd_economy d) (sd_economy d'))"
proof (induction es arbitrary: prev d)
  case Nil
  then show ?case by (intro conjI exI [of _ "sd_flags d"] exI [of _ "sd_progress d"] exI [of _ "sd_economy d"]) auto
next
  case (Cons e es)
  from Cons.prems obtain d1 d2 where n: "prev < se_effect_sequence e" and i: "insert_effect run e d = Inr d1"
    and a: "apply_script_effect cid run e d1 = Inr d2" and r: "apply_effects cid run (se_effect_sequence e) es d2 = Inr d'"
    by (auto simp: not_le split: if_splits sum.splits)
  have d1: "d1 = d\<lparr>sd_effects := sd_effects d @ [(run, e)]\<rparr>" using i by (simp add: insert_effect_Inr)
  obtain f p x where d2: "d2 = d1\<lparr>sd_flags := f, sd_progress := p, sd_economy := x\<rparr>" using apply_script_effect_frame [OF a] by blast
  note ih = Cons.IH [OF r]
  obtain f' p' x' where d': "d' = d2\<lparr>sd_flags := f', sd_progress := p', sd_economy := x', sd_effects := sd_effects d2 @ map (Pair run) es\<rparr>"
    using ih by blast
  have w: "store_write\<^sup>*\<^sup>* (sd_economy d) (sd_economy d')" if ok: "db_ok (sd_economy d)"
  proof -
    have "store_write\<^sup>*\<^sup>* (sd_economy d) (sd_economy d2)" using apply_script_effect_write [OF a] ok by (simp add: d1)
    moreover from store_writes_ok [OF this ok] have "store_write\<^sup>*\<^sup>* (sd_economy d2) (sd_economy d')" using ih by blast
    ultimately show ?thesis by (rule rtranclp_trans)
  qed
  have "d' = d\<lparr>sd_flags := f', sd_progress := p', sd_economy := x', sd_effects := sd_effects d @ map (Pair run) (e # es)\<rparr>"
    by (simp add: d' d2 d1)
  moreover have "\<forall>e'\<in>set es. se_effect_sequence e < se_effect_sequence e'" using ih by blast
  ultimately show ?case using ih n w by (auto intro: order.strict_implies_order less_trans)
qed

section \<open>Runs\<close>

definition run_row_ok :: "run_row \<Rightarrow> bool" where
  "run_row_ok r \<longleftrightarrow> (rn_status r = RunActive \<longleftrightarrow> rn_finished r = None) \<and> (rn_status r = RunFailed \<longleftrightarrow> rn_failure r \<noteq> None)
     \<and> (rn_completion_requested r \<longrightarrow> rn_status r = RunCompleted)"

definition runs_ok :: "run_row list \<Rightarrow> bool" where
  "runs_ok rs \<longleftrightarrow> distinct (map rn_id rs) \<and> distinct (map rn_token rs)
     \<and> distinct (map rn_character (filter (\<lambda>r. rn_status r = RunActive) rs)) \<and> (\<forall>r\<in>set rs. run_row_ok r)"

definition effects_ok :: "'j script_db \<Rightarrow> bool" where
  "effects_ok d \<longleftrightarrow> distinct (map (\<lambda>(i, e). (i, se_effect_sequence e)) (sd_effects d))
     \<and> (\<forall>i e. (i, e) \<in> set (sd_effects d) \<longrightarrow> (\<exists>r\<in>set (sd_runs d). rn_id r = i \<and> rn_status r \<in> {RunCompleted, RunPassed}))"

definition script_ok :: "'j script_db \<Rightarrow> bool" where
  "script_ok d \<longleftrightarrow> runs_ok (sd_runs d) \<and> effects_ok d \<and> db_ok (sd_economy d)"

text \<open>What identifies a run never changes.\<close>

definition same_run :: "run_row \<Rightarrow> run_row \<Rightarrow> bool" where
  "same_run r s \<longleftrightarrow> rn_id s = rn_id r \<and> rn_character s = rn_character r \<and> rn_version s = rn_version r
     \<and> rn_token s = rn_token r \<and> rn_revision s = rn_revision r"

text \<open>A later state: runs stay, those that ended as they are, with the effects they have.\<close>

definition runs_later :: "'j script_db \<Rightarrow> 'j script_db \<Rightarrow> bool" where
  "runs_later d d' \<longleftrightarrow> (\<forall>r\<in>set (sd_runs d). \<exists>s\<in>set (sd_runs d'). same_run r s
     \<and> (rn_status r \<noteq> RunActive \<longrightarrow> s = r \<and> (\<forall>e. (rn_id r, e) \<in> set (sd_effects d') \<longleftrightarrow> (rn_id r, e) \<in> set (sd_effects d))))"

lemma same_run_refl [simp]: "same_run r r" by (simp add: same_run_def)

lemma runs_later_refl: "runs_later d d" unfolding runs_later_def by (blast intro: same_run_refl)

lemma runs_later_frame: "sd_runs d' = sd_runs d \<Longrightarrow> sd_effects d' = sd_effects d \<Longrightarrow> runs_later d d'"
  unfolding runs_later_def by (metis same_run_refl)

lemma runs_later_trans: "runs_later a b \<Longrightarrow> runs_later b c \<Longrightarrow> runs_later a c"
  unfolding runs_later_def same_run_def by (smt (verit, best))

lemma map_update_ids:
  assumes "\<And>r. P r \<Longrightarrow> same_run r (f r)"
  shows "map rn_id (map (\<lambda>r. if P r then f r else r) rs) = map rn_id rs"
    "map rn_token (map (\<lambda>r. if P r then f r else r) rs) = map rn_token rs"
  using assms by (auto simp: same_run_def)

lemma runs_ok_update:
  assumes "runs_ok rs" and f: "\<And>r. P r \<Longrightarrow> same_run r (f r)"
    and ok: "\<And>r. r \<in> set rs \<Longrightarrow> P r \<Longrightarrow> rn_status r = RunActive \<and> run_row_ok (f r)"
  shows "runs_ok (map (\<lambda>r. if P r then f r else r) rs)"
proof -
  let ?g = "\<lambda>r. if P r then f r else r"
  have "filter (\<lambda>r. rn_status r = RunActive) (map ?g rs) = map ?g (filter (\<lambda>r. rn_status (?g r) = RunActive) rs)"
    by (simp add: filter_map comp_def)
  moreover have "rn_character (?g r) = rn_character r" for r using f by (simp add: same_run_def)
  ultimately have chars: "map rn_character (filter (\<lambda>r. rn_status r = RunActive) (map ?g rs))
      = map rn_character (filter (\<lambda>r. rn_status (?g r) = RunActive) rs)" by simp
  have "filter (\<lambda>r. rn_status (?g r) = RunActive) rs = filter (\<lambda>r. rn_status (?g r) = RunActive) (filter (\<lambda>r. rn_status r = RunActive) rs)"
    unfolding filter_filter by (rule filter_cong) (use ok in auto)
  then have "distinct (map rn_character (filter (\<lambda>r. rn_status (?g r) = RunActive) rs))"
    using assms(1) by (metis (no_types, lifting) distinct_map_filter runs_ok_def)
  with chars have "distinct (map rn_character (filter (\<lambda>r. rn_status r = RunActive) (map ?g rs)))" by (simp only:)
  moreover have "map rn_id (map ?g rs) = map rn_id rs" "map rn_token (map ?g rs) = map rn_token rs"
    by (rule map_update_ids; rule f; assumption)+
  then have "distinct (map rn_id (map ?g rs))" "distinct (map rn_token (map ?g rs))"
    using assms(1) by (simp_all only: runs_ok_def)
  moreover have "\<forall>r\<in>set (map ?g rs). run_row_ok r" using assms(1) ok by (auto simp: runs_ok_def)
  ultimately show ?thesis unfolding runs_ok_def by blast
qed

lemma holds_lease_active: "holds_lease run token r \<Longrightarrow> rn_status r = RunActive"
  by (simp add: holds_lease_def)

lemma finish_run_fields [simp]:
  "rn_id (finish_run now st r) = rn_id r" "rn_status (finish_run now st r) = st"
  "rn_finished (finish_run now st r) = Some now" "rn_failure (finish_run now st r) = rn_failure r"
  "rn_completion_requested (finish_run now st r) = rn_completion_requested r" "same_run r (finish_run now st r)"
  by (simp_all add: finish_run_def same_run_def)

lemma update_runs_fields [simp]:
  "sd_runs (update_runs P f d) = map (\<lambda>r. if P r then f r else r) (sd_runs d)"
  "sd_effects (update_runs P f d) = sd_effects d" "sd_economy (update_runs P f d) = sd_economy d"
  "sd_revision (update_runs P f d) = sd_revision d" "sd_flags (update_runs P f d) = sd_flags d"
  "sd_progress (update_runs P f d) = sd_progress d"
  by (simp_all add: update_runs_def)

lemma effects_ok_update:
  assumes "effects_ok d" and "\<And>r. r \<in> set (sd_runs d) \<Longrightarrow> P r \<Longrightarrow> rn_status r = RunActive"
  shows "effects_ok (update_runs P f d)"
proof -
  have "\<exists>s\<in>set (sd_runs (update_runs P f d)). rn_id s = i \<and> rn_status s \<in> {RunCompleted, RunPassed}"
    if x: "(i, e) \<in> set (sd_effects d)" for i e
  proof -
    obtain r where r: "r \<in> set (sd_runs d)" "rn_id r = i" "rn_status r \<in> {RunCompleted, RunPassed}"
      using assms(1) x unfolding effects_ok_def by blast
    then have "\<not> P r" using assms(2) by auto
    with r show ?thesis by force
  qed
  then show ?thesis using assms(1) unfolding effects_ok_def by auto
qed

lemma runs_later_update:
  assumes "\<And>r. P r \<Longrightarrow> same_run r (f r)" and "\<And>r. r \<in> set (sd_runs d) \<Longrightarrow> P r \<Longrightarrow> rn_status r = RunActive"
  shows "runs_later d (update_runs P f d)"
  unfolding runs_later_def
proof
  fix r assume r: "r \<in> set (sd_runs d)"
  let ?s = "if P r then f r else r"
  have "?s \<in> set (sd_runs (update_runs P f d))" using r by auto
  moreover have "same_run r ?s" using assms(1) by simp
  moreover have "rn_status r \<noteq> RunActive \<longrightarrow> ?s = r" using assms(2) [OF r] by auto
  ultimately show "\<exists>s\<in>set (sd_runs (update_runs P f d)). same_run r s
     \<and> (rn_status r \<noteq> RunActive \<longrightarrow> s = r \<and> (\<forall>e. (rn_id r, e) \<in> set (sd_effects (update_runs P f d)) \<longleftrightarrow> (rn_id r, e) \<in> set (sd_effects d)))"
    by (metis update_runs_fields(2))
qed

text \<open>An UPDATE of active runs that leaves the other tables alone.\<close>

lemma update_active_runs:
  assumes "script_ok d" and "\<And>r. P r \<Longrightarrow> same_run r (f r)"
    and "\<And>r. r \<in> set (sd_runs d) \<Longrightarrow> P r \<Longrightarrow> rn_status r = RunActive" and "\<And>r. P r \<Longrightarrow> run_row_ok r \<Longrightarrow> run_row_ok (f r)"
  shows "script_ok (update_runs P f d) \<and> runs_later d (update_runs P f d)"
proof -
  have "runs_ok (sd_runs (update_runs P f d))"
    unfolding update_runs_fields using assms by (intro runs_ok_update) (auto simp: script_ok_def runs_ok_def)
  then show ?thesis
    using assms effects_ok_update [of d P f] runs_later_update [of P f d] by (simp add: script_ok_def)
qed

section \<open>Steps\<close>

inductive script_step :: "('j \<Rightarrow> bool) \<Rightarrow> 'j script_db \<Rightarrow> 'j script_db \<Rightarrow> bool" for is_object where
  run_starts: "start_published_event m account cid s excluded d = Inr (p, d') \<Longrightarrow> script_step is_object d d'"
| run_renewed: "renew_event m run token d = Inr (t, d') \<Longrightarrow> script_step is_object d d'"
| step_recorded: "record_event_step is_object m run token st d = Inr ((), d') \<Longrightarrow> script_step is_object d d'"
| run_cancelled: "cancel_event m run token d = Inr ((), d') \<Longrightarrow> script_step is_object d d'"
| run_failed: "fail_event m run token code msg d = Inr ((), d') \<Longrightarrow> script_step is_object d d'"
| run_completed: "complete_event m run token revision es d = Inr (n, d') \<Longrightarrow> script_step is_object d d'"
| run_passed: "pass_event m run token revision es d = Inr (n, d') \<Longrightarrow> script_step is_object d d'"
| economy_moves: "store_step (sd_economy d) x \<Longrightarrow> script_step is_object d (d\<lparr>sd_economy := x\<rparr>)"
| content_changes: "script_step is_object d (d\<lparr>sd_scripts := ss, sd_versions := vs, sd_triggers := ts\<rparr>)"
| character_travels: "script_step is_object d (d\<lparr>sd_world := (sd_world d)(cid \<mapsto> w)\<rparr>)"

lemma expire_runs_ok:
  "script_ok d \<Longrightarrow> script_ok (expire_runs now cid d) \<and> runs_later d (expire_runs now cid d)"
  unfolding expire_runs_def by (rule update_active_runs) (auto simp: run_row_ok_def)

lemma script_ok_frame:
  "script_ok d \<Longrightarrow> sd_runs d' = sd_runs d \<Longrightarrow> sd_effects d' = sd_effects d \<Longrightarrow> db_ok (sd_economy d') \<Longrightarrow> script_ok d'"
  by (simp add: script_ok_def effects_ok_def)

lemma insert_run_ok:
  assumes "script_ok d" and "insert_run r d = Inr d'" and "run_row_ok r" and "rn_status r = RunActive"
  shows "script_ok d' \<and> runs_later d d'"
proof -
  have d': "d' = d\<lparr>sd_runs := sd_runs d @ [r]\<rparr>"
    and new: "\<forall>x\<in>set (sd_runs d). rn_id x \<noteq> rn_id r \<and> rn_token x \<noteq> rn_token r \<and> (rn_status x = RunActive \<longrightarrow> rn_character x \<noteq> rn_character r)"
    using assms(2) by (auto simp: insert_run_def split: if_splits)
  have "runs_ok (sd_runs d @ [r])" using assms(1,3,4) new by (auto simp: script_ok_def runs_ok_def)
  moreover have "effects_ok d'" using assms(1) by (auto simp: d' script_ok_def effects_ok_def)
  moreover have "runs_later d d'" unfolding runs_later_def d' by (auto intro: same_run_refl)
  ultimately show ?thesis using assms(1) by (simp add: script_ok_def d')
qed

lemma start_inserts:
  assumes "start_published_event m account cid s excluded d = Inr (p, d')"
  shows "\<exists>r d2. insert_run r d2 = Inr d' \<and> sd_runs d2 = sd_runs (expire_runs (at_database m) cid d)
    \<and> sd_effects d2 = sd_effects d \<and> sd_economy d2 = sd_economy d \<and> run_row_ok r \<and> rn_status r = RunActive"
  using assms
  by (auto simp: start_published_event_def Let_def expire_runs_def run_row_ok_def
      split: sum.splits option.splits if_splits intro!: exI)

lemma start_ok:
  assumes "script_ok d" and "start_published_event m account cid s excluded d = Inr (p, d')"
  shows "script_ok d' \<and> runs_later d d'"
proof -
  obtain r d2 where i: "insert_run r d2 = Inr d'" and e: "sd_runs d2 = sd_runs (expire_runs (at_database m) cid d)"
    "sd_effects d2 = sd_effects d" "sd_economy d2 = sd_economy d" and r: "run_row_ok r" "rn_status r = RunActive"
    using start_inserts [OF assms(2)] by blast
  note x = expire_runs_ok [OF assms(1), of "at_database m" cid]
  have e2: "sd_effects d2 = sd_effects (expire_runs (at_database m) cid d)" using e(2) by (simp add: expire_runs_def)
  have "script_ok d2" using script_ok_frame [OF conjunct1 [OF x] e(1) e2] assms(1) e(3) by (simp add: script_ok_def)
  from insert_run_ok [OF this i r] have "script_ok d'" "runs_later d2 d'" by blast+
  moreover have "runs_later d d2" using runs_later_trans [OF conjunct2 [OF x] runs_later_frame [OF e(1) e2]] .
  ultimately show ?thesis using runs_later_trans by blast
qed

lemma unique_run:
  "runs_ok rs \<Longrightarrow> r \<in> set rs \<Longrightarrow> s \<in> set rs \<Longrightarrow> rn_id r = rn_id s \<Longrightarrow> r = s"
  by (auto simp: runs_ok_def distinct_map inj_on_def)

lemma finish_event_Inr:
  assumes "finish_event m run token expected es st completion d = Inr (n, d')"
  shows "\<exists>r d1. r \<in> set (sd_runs d) \<and> holds_live_lease (at_database m) run token r \<and> rn_revision r = expected
     \<and> sd_revision d (rn_character r) = Some expected \<and> st \<in> {RunCompleted, RunPassed} \<and> apply_effects (rn_character r) run 0 es d = Inr d1
     \<and> n = (if es = [] then expected else expected + 1)
     \<and> d' = update_runs (\<lambda>r. rn_id r = run) (\<lambda>r. finish_run (at_database m) st (r\<lparr>rn_completion_requested := completion\<rparr>))
          (d1\<lparr>sd_revision := (sd_revision d1)(rn_character r \<mapsto> n)\<rparr>)"
proof -
  obtain r where f: "find (\<lambda>r. holds_live_lease (at_database m) run token r \<and> rn_revision r = expected
      \<and> sd_revision d (rn_character r) \<noteq> None) (sd_runs d) = Some r"
    using assms by (auto simp: finish_event_def split: if_splits option.splits)
  then have r: "r \<in> set (sd_runs d)" "holds_live_lease (at_database m) run token r" "rn_revision r = expected"
    "sd_revision d (rn_character r) \<noteq> None"
    by (auto simp: find_Some_iff)
  obtain v where v: "sd_revision d (rn_character r) = Some v" using r(4) by blast
  obtain d1 where a: "apply_effects (rn_character r) run 0 es d = Inr d1"
    using assms f by (auto simp: finish_event_def Let_def split: if_splits sum.splits)
  have same: "sd_revision d1 = sd_revision d" using apply_effects_done [OF a] by auto
  have "v = expected" "st \<in> {RunCompleted, RunPassed}" "n = (if es = [] then expected else expected + 1)"
    using assms f a v by (auto simp: finish_event_def Let_def split: if_splits)
  moreover have "d' = update_runs (\<lambda>r. rn_id r = run) (\<lambda>r. finish_run (at_database m) st (r\<lparr>rn_completion_requested := completion\<rparr>))
          (d1\<lparr>sd_revision := (sd_revision d1)(rn_character r \<mapsto> n)\<rparr>)"
  proof (cases "es = []")
    case True
    then have "(sd_revision d1)(rn_character r \<mapsto> n) = sd_revision d1" using calculation v same by (auto simp: fun_upd_idem_iff)
    with True show ?thesis using assms f a by (auto simp: finish_event_def Let_def split: if_splits)
  next
    case False
    then show ?thesis using assms f a by (auto simp: finish_event_def Let_def split: if_splits)
  qed
  ultimately show ?thesis using r v a by blast
qed

lemma finish_ok:
  assumes "script_ok d" and "finish_event m run token expected es st completion d = Inr (n, d')"
    and "completion \<longrightarrow> st = RunCompleted"
  shows "script_ok d' \<and> runs_later d d'"
proof -
  obtain r d1 where r: "r \<in> set (sd_runs d)" "holds_live_lease (at_database m) run token r" "st \<in> {RunCompleted, RunPassed}"
    and a: "apply_effects (rn_character r) run 0 es d = Inr d1"
    and d': "d' = update_runs (\<lambda>r. rn_id r = run) (\<lambda>r. finish_run (at_database m) st (r\<lparr>rn_completion_requested := completion\<rparr>))
          (d1\<lparr>sd_revision := (sd_revision d1)(rn_character r \<mapsto> n)\<rparr>)"
    using finish_event_Inr [OF assms(2)] by blast
  have act: "rn_status r = RunActive" "rn_id r = run" using r(2) by (simp_all add: holds_live_lease_def holds_lease_def)
  note applied = apply_effects_done [OF a]
  obtain f p x where d1: "d1 = d\<lparr>sd_flags := f, sd_progress := p, sd_economy := x, sd_effects := sd_effects d @ map (Pair run) es\<rparr>"
    using applied by blast
  have runs: "runs_ok (sd_runs d)" and eff: "effects_ok d" and dbo: "db_ok (sd_economy d)" using assms(1) by (simp_all add: script_ok_def)
  have only: "s = r" if "s \<in> set (sd_runs d)" "rn_id s = run" for s
    using unique_run [OF runs that(1) r(1)] that(2) act(2) by simp
  let ?f = "\<lambda>r. finish_run (at_database m) st (r\<lparr>rn_completion_requested := completion\<rparr>)"
  have same: "same_run s (?f s)" for s by (simp add: same_run_def finish_run_def)
  have row: "run_row_ok r" using runs r(1) by (simp add: runs_ok_def)
  have "runs_ok (map (\<lambda>r. if rn_id r = run then ?f r else r) (sd_runs d))"
  proof (rule runs_ok_update [OF runs same])
    show "rn_status s = RunActive \<and> run_row_ok (?f s)" if "s \<in> set (sd_runs d)" "rn_id s = run" for s
      using only [OF that] act row r(3) assms(3) by (auto simp: run_row_ok_def)
  qed
  then have runs': "runs_ok (sd_runs d')" by (simp add: d' d1)
  have fresh: "(run, e) \<notin> set (sd_effects d)" for e
  proof
    assume "(run, e) \<in> set (sd_effects d)"
    then obtain s where "s \<in> set (sd_runs d)" "rn_id s = run" "rn_status s \<in> {RunCompleted, RunPassed}"
      using eff unfolding effects_ok_def by blast
    with only act(1) show False by auto
  qed
  have "\<exists>s\<in>set (sd_runs d'). rn_id s = i \<and> rn_status s \<in> {RunCompleted, RunPassed}" if x: "(i, e) \<in> set (sd_effects d')" for i e
  proof (cases "i = run")
    case True
    have "?f r \<in> set (sd_runs d')" using r(1) act(2) by (force simp: d' d1)
    with True r(3) act(2) show ?thesis by (intro bexI [of _ "?f r"]) auto
  next
    case False
    then have "(i, e) \<in> set (sd_effects d)" using x by (auto simp: d' d1)
    then obtain s where "s \<in> set (sd_runs d)" "rn_id s = i" "rn_status s \<in> {RunCompleted, RunPassed}"
      using eff unfolding effects_ok_def by blast
    with False show ?thesis by (force simp: d' d1)
  qed
  moreover have "distinct (map (\<lambda>(i, e). (i, se_effect_sequence e)) (sd_effects d'))"
  proof -
    have "distinct (map se_effect_sequence es)" using applied by blast
    then have "distinct (map (\<lambda>(i, e). (i, se_effect_sequence e)) (map (Pair run) es))"
      by (simp add: comp_def) (simp add: distinct_map inj_on_def)
    moreover have "set (map (\<lambda>(i, e). (i, se_effect_sequence e)) (sd_effects d)) \<inter> set (map (\<lambda>(i, e). (i, se_effect_sequence e)) (map (Pair run) es)) = {}"
      using fresh by auto
    ultimately show ?thesis using eff by (simp add: d' d1 effects_ok_def)
  qed
  ultimately have "effects_ok d'" unfolding effects_ok_def by blast
  moreover have "db_ok (sd_economy d')" using store_writes_ok [OF _ dbo] applied dbo by (simp add: d')
  moreover have "runs_later d d'"
    unfolding runs_later_def
  proof
    fix s assume s: "s \<in> set (sd_runs d)"
    let ?s = "if rn_id s = run then ?f s else s"
    have "?s \<in> set (sd_runs d')" using s by (auto simp: d' d1)
    moreover have "same_run s ?s" using same by simp
    moreover have "?s = s \<and> (\<forall>e. (rn_id s, e) \<in> set (sd_effects d') \<longleftrightarrow> (rn_id s, e) \<in> set (sd_effects d))" if "rn_status s \<noteq> RunActive"
    proof -
      have "rn_id s \<noteq> run" using only [OF s] act(1) that by blast
      then show ?thesis by (auto simp: d' d1)
    qed
    ultimately show "\<exists>s'\<in>set (sd_runs d'). same_run s s' \<and> (rn_status s \<noteq> RunActive \<longrightarrow>
        s' = s \<and> (\<forall>e. (rn_id s, e) \<in> set (sd_effects d') \<longleftrightarrow> (rn_id s, e) \<in> set (sd_effects d)))" by blast
  qed
  ultimately show ?thesis using runs' by (simp add: script_ok_def)
qed

lemma quiet_step:
  "script_ok d \<Longrightarrow> sd_runs d' = sd_runs d \<Longrightarrow> sd_effects d' = sd_effects d \<Longrightarrow> db_ok (sd_economy d') \<Longrightarrow>
     script_ok d' \<and> runs_later d d'"
  using script_ok_frame runs_later_frame by blast

lemma script_step_ok:
  assumes "script_step is_object d d'" and "script_ok d"
  shows "script_ok d' \<and> runs_later d d'"
  using assms
proof (cases rule: script_step.cases)
  case run_starts
  with start_ok assms(2) show ?thesis by blast
next
  case (run_renewed m run token t)
  then have d': "d' = update_runs (holds_live_lease (at_database m) run token) (\<lambda>r. r\<lparr>rn_lease_expires := pg_time (at_server m + script_lease_duration)\<rparr>) d"
    by (auto simp: renew_event_def Let_def split: if_splits)
  show ?thesis unfolding d'
    by (rule update_active_runs [OF assms(2)]) (auto simp: same_run_def holds_live_lease_def holds_lease_def run_row_ok_def)
next
  case (step_recorded m run token st)
  then have "d' = d\<lparr>sd_trace := sd_trace d @ [(run, st)]\<rparr>" by (auto simp: record_event_step_def split: if_splits)
  with assms(2) show ?thesis by (intro quiet_step [OF assms(2)]) (simp_all add: script_ok_def)
next
  case (run_cancelled m run token)
  then have d': "d' = update_runs (holds_lease run token) (finish_run (at_database m) RunCancelled) d"
    by (auto simp: cancel_event_def split: if_splits)
  show ?thesis unfolding d'
    by (rule update_active_runs [OF assms(2)]) (auto simp: holds_lease_def run_row_ok_def)
next
  case (run_failed m run token code msg)
  then have d': "d' = update_runs (holds_lease run token)
      (\<lambda>r. finish_run (at_database m) RunFailed (r\<lparr>rn_failure := Some (trim_space code, trim_space msg)\<rparr>)) d"
    by (auto simp: fail_event_def Let_def split: if_splits)
  show ?thesis unfolding d'
    by (rule update_active_runs [OF assms(2)]) (auto simp: same_run_def finish_run_def holds_lease_def run_row_ok_def)
next
  case (run_completed m run token revision es n)
  then show ?thesis using finish_ok [OF assms(2)] by (auto simp: complete_event_def)
next
  case (run_passed m run token revision es n)
  then show ?thesis using finish_ok [OF assms(2)] by (auto simp: pass_event_def)
next
  case (economy_moves x)
  then have "db_ok x" using store_writes_ok [OF store_step_writes] assms(2) by (auto simp: script_ok_def)
  with economy_moves show ?thesis by (intro quiet_step [OF assms(2)]) simp_all
next
  case (content_changes ss vs ts)
  with assms(2) show ?thesis by (intro quiet_step [OF assms(2)]) (simp_all add: script_ok_def)
next
  case (character_travels cid w)
  with assms(2) show ?thesis by (intro quiet_step [OF assms(2)]) (simp_all add: script_ok_def)
qed

section \<open>Histories\<close>

definition no_runs :: "'j script_db \<Rightarrow> bool" where
  "no_runs d \<longleftrightarrow> sd_runs d = [] \<and> sd_effects d = [] \<and> db_ok (sd_economy d)"

interpretation script_history: growing_system no_runs "script_step is_object" script_ok runs_later for is_object
proof
  show "script_ok d" if "no_runs d" for d :: "'a script_db"
    using that by (simp add: no_runs_def script_ok_def runs_ok_def effects_ok_def)
qed (blast intro: script_step_ok [THEN conjunct1] script_step_ok [THEN conjunct2] runs_later_refl runs_later_trans)+

lemma lease_needs_active:
  "runs_ok (sd_runs d) \<Longrightarrow> r \<in> set (sd_runs d) \<Longrightarrow> rn_status r \<noteq> RunActive \<Longrightarrow> s \<in> set (sd_runs d) \<Longrightarrow>
     \<not> holds_lease (rn_id r) token s"
  using unique_run [of "sd_runs d" r s] by (auto simp: holds_lease_def)

text \<open>
  C14: a character never has two active runs, no two runs share an id or a lease token, only failed runs
  have a failure and only completed ones asked for completion, and each effect of a run is recorded
  once, by a run that completed or passed; all the while the economy keeps its bounds.
\<close>

theorem one_active_run_per_character:
  assumes "reach no_runs (script_step is_object) d"
  shows "distinct (map rn_character (filter (\<lambda>r. rn_status r = RunActive) (sd_runs d)))
    \<and> distinct (map rn_id (sd_runs d)) \<and> distinct (map rn_token (sd_runs d))
    \<and> (\<forall>r\<in>set (sd_runs d). (rn_status r = RunFailed \<longleftrightarrow> rn_failure r \<noteq> None) \<and> (rn_completion_requested r \<longrightarrow> rn_status r = RunCompleted))
    \<and> distinct (map (\<lambda>(i, e). (i, se_effect_sequence e)) (sd_effects d))
    \<and> (\<forall>i e. (i, e) \<in> set (sd_effects d) \<longrightarrow> (\<exists>r\<in>set (sd_runs d). rn_id r = i \<and> rn_status r \<in> {RunCompleted, RunPassed}))
    \<and> db_ok (sd_economy d)"
  using script_history.reachable_inv [OF assms] unfolding script_ok_def runs_ok_def effects_ok_def run_row_ok_def by blast

text \<open>
  C15: a run that ended is final: whatever happens later, its row and its effects stay what they are, and
  every attempt to renew, trace, cancel, fail, complete or pass it is refused.
\<close>

theorem ended_runs_are_final:
  assumes "reach no_runs (script_step is_object) d" and "(script_step is_object)\<^sup>*\<^sup>* d d'"
    and "r \<in> set (sd_runs d)" and "rn_status r \<noteq> RunActive"
  shows "r \<in> set (sd_runs d') \<and> ((rn_id r, e) \<in> set (sd_effects d') \<longleftrightarrow> (rn_id r, e) \<in> set (sd_effects d))
    \<and> renew_event m (rn_id r) token d' = Inl ScriptEventEnded
    \<and> cancel_event m (rn_id r) token d' = Inl ScriptEventEnded
    \<and> complete_event m (rn_id r) token revision es d' = Inl ScriptEventEnded
    \<and> pass_event m (rn_id r) token revision es d' = Inl ScriptEventEnded
    \<and> (\<exists>err. fail_event m (rn_id r) token code msg d' = Inl err)
    \<and> (\<exists>err. record_event_step is_object m (rn_id r) token st d' = Inl err)"
proof (intro conjI)
  have later: "script_ok d'" "runs_later d d'"
    using script_history.steps_grown [OF assms(2) script_history.reachable_inv [OF assms(1)]] by blast+
  then show r: "r \<in> set (sd_runs d')" and "(rn_id r, e) \<in> set (sd_effects d') \<longleftrightarrow> (rn_id r, e) \<in> set (sd_effects d)"
    using assms(3,4) unfolding runs_later_def by metis+
  have lost: "\<not> holds_lease (rn_id r) token s" if "s \<in> set (sd_runs d')" for s token
    using lease_needs_active [OF _ r assms(4) that] later(1) by (simp add: script_ok_def)
  have find: "find (\<lambda>s. holds_live_lease now (rn_id r) token s \<and> Q s) (sd_runs d') = None" for now Q
    using lost by (auto simp: find_None_iff holds_live_lease_def)
  show "renew_event m (rn_id r) token d' = Inl ScriptEventEnded" "cancel_event m (rn_id r) token d' = Inl ScriptEventEnded"
    "\<exists>err. fail_event m (rn_id r) token code msg d' = Inl err" "\<exists>err. record_event_step is_object m (rn_id r) token st d' = Inl err"
    using lost by (auto simp: renew_event_def cancel_event_def fail_event_def record_event_step_def holds_live_lease_def Let_def)
  show "complete_event m (rn_id r) token revision es d' = Inl ScriptEventEnded" "pass_event m (rn_id r) token revision es d' = Inl ScriptEventEnded"
    by (simp_all add: complete_event_def pass_event_def finish_event_def find)
qed

section \<open>Trigger resolution\<close>

text \<open>The rows a trigger may start: published, matching, not passed before; highest priority first.\<close>

definition contenders :: "trigger_selector \<Rightarrow> int list \<Rightarrow> 'j script_db \<Rightarrow> (script_row \<times> version_row \<times> trigger_row) list" where
  "contenders s excluded d = filter (\<lambda>(_, v, _). vs_id v \<notin> set excluded) (trigger_rows s d)"

definition row_priority :: "script_row \<times> version_row \<times> trigger_row \<Rightarrow> int" where
  "row_priority row = (case row of (_, _, t) \<Rightarrow> tr_priority t)"

definition row_candidate :: "script_row \<times> version_row \<times> trigger_row \<Rightarrow> trigger_candidate" where
  "row_candidate row = (case row of (c, v, t) \<Rightarrow>
     \<lparr>tc_script = sc_id c, tc_slug = sc_slug c, tc_version = vs_id v, tc_entry = tr_node t,
      tc_priority = tr_priority t, tc_program = vs_program v, tc_lines = the (vs_lines v)\<rparr>)"

lemma row_candidate_priority [simp]: "tc_priority (row_candidate row) = row_priority row"
  by (simp add: row_candidate_def row_priority_def split: prod.splits)

lemma scan_candidates_ok:
  "list_all (\<lambda>(_, v, _). vs_lines v \<noteq> None) rows \<Longrightarrow> n \<le> 1 \<Longrightarrow>
     scan_candidates excluded n rows = Inr (take (2 - n) (map row_candidate (filter (\<lambda>(_, v, _). vs_id v \<notin> set excluded) rows)))"
proof (induction excluded n rows rule: scan_candidates.induct)
  case (2 excluded n c v t rows)
  then show ?case by (auto simp: row_candidate_def le_Suc_eq numeral_2_eq_2)
qed simp

lemma scan_candidates_subset:
  "scan_candidates excluded n rows = Inr cs \<Longrightarrow> c \<in> set cs \<Longrightarrow>
     \<exists>a v t. (a, v, t) \<in> set rows \<and> vs_id v \<notin> set excluded \<and> tc_version c = vs_id v"
proof (induction excluded n rows arbitrary: cs rule: scan_candidates.induct)
  case (2 excluded n c' v t rows)
  then show ?case by (auto simp: Let_def split: option.splits if_splits sum.splits) blast+
qed simp

lemma resolved_version:
  assumes "resolve_published_trigger s excluded d = Inr c"
  shows "tc_version c \<notin> set excluded" "tc_version c \<in> vs_id ` set (sd_versions d)"
proof -
  obtain cs where "scan_candidates excluded 0 (trigger_rows s d) = Inr cs" "c \<in> set cs"
    using assms by (auto simp: resolve_published_trigger_def split: sum.splits list.splits if_splits)
  from scan_candidates_subset [OF this] show "tc_version c \<notin> set excluded" "tc_version c \<in> vs_id ` set (sd_versions d)"
    by (auto simp: trigger_rows_def)
qed

lemma sorted_priority:
  assumes "sorted (map (\<lambda>(_, v, t). (- tr_priority t, vs_id v)) (x # xs))" and "row \<in> set xs"
  shows "row_priority row \<le> row_priority x"
proof -
  let ?k = "\<lambda>(_, v, t). (- tr_priority t, vs_id v)"
  have "?k x \<le> ?k row" using assms by auto
  then show ?thesis by (cases x; cases row) (auto simp: row_priority_def less_eq_prod_def)
qed

lemma contenders_sorted: "sorted (map (\<lambda>(_, v, t). (- tr_priority t, vs_id v)) (contenders s excluded d))"
  unfolding contenders_def trigger_rows_def by (intro sorted_filter) simp

lemma contender_priority: "contenders s excluded d = best # rest \<Longrightarrow> row \<in> set rest \<Longrightarrow> row_priority row \<le> row_priority best"
  using contenders_sorted [of s excluded d] sorted_priority by metis

lemma resolve_contenders:
  assumes "\<forall>v\<in>set (sd_versions d). vs_lines v \<noteq> None"
  shows "resolve_published_trigger s excluded d =
      (case contenders s excluded d of
         [] \<Rightarrow> Inl (StoreError ErrNotFound)
       | best # rest \<Rightarrow>
           if \<exists>row\<in>set rest. row_priority row = row_priority best then Inl AmbiguousTrigger else Inr (row_candidate best))"
proof -
  have "list_all (\<lambda>(_, v, _). vs_lines v \<noteq> None) (trigger_rows s d)"
    using assms by (auto simp: list_all_iff trigger_rows_def)
  from scan_candidates_ok [OF this, of 0 excluded]
  have scan: "scan_candidates excluded 0 (trigger_rows s d) = Inr (take 2 (map row_candidate (contenders s excluded d)))"
    by (simp add: contenders_def)
  show ?thesis
  proof (cases "contenders s excluded d")
    case Nil
    then show ?thesis by (simp add: resolve_published_trigger_def scan)
  next
    case (Cons best rest)
    note c = this
    show ?thesis
    proof (cases rest)
      case Nil
      then show ?thesis by (simp add: resolve_published_trigger_def scan c numeral_2_eq_2)
    next
      case (Cons second more)
      have "(\<exists>row\<in>set rest. row_priority row = row_priority best) \<longleftrightarrow> row_priority best = row_priority second"
      proof
        assume "\<exists>row\<in>set rest. row_priority row = row_priority best"
        then obtain row where r: "row \<in> set rest" "row_priority row = row_priority best" by blast
        have "row_priority row \<le> row_priority second"
        proof (cases "row = second")
          case False
          with r(1) Cons have "row \<in> set more" by simp
          moreover have "sorted (map (\<lambda>(_, v, t). (- tr_priority t, vs_id v)) (second # more))"
            using contenders_sorted [of s excluded d] c Cons by simp
          ultimately show ?thesis by (rule sorted_priority [rotated])
        qed simp
        with r(2) contender_priority [OF c, of second] Cons show "row_priority best = row_priority second" by simp
      qed (use Cons in auto)
      with Cons show ?thesis by (simp add: resolve_published_trigger_def scan c numeral_2_eq_2)
    qed
  qed
qed

text \<open>
  C21: where the stored lines decode, a trigger starts the contender of the highest priority, if there is
  only one of that priority; two of them are an ambiguity and none is not found. A contender is a
  trigger row, selected by the normalized selector, of the published version of a script that is not
  archived, compiled for the current command schema and not passed before.
\<close>

theorem resolution_is_by_priority:
  assumes "\<forall>v\<in>set (sd_versions d). vs_lines v \<noteq> None"
  shows "resolve_published_trigger s excluded d =
        (case contenders s excluded d of
           [] \<Rightarrow> Inl (StoreError ErrNotFound)
         | best # rest \<Rightarrow>
             if \<exists>row\<in>set rest. row_priority row = row_priority best then Inl AmbiguousTrigger else Inr (row_candidate best))
    \<and> (\<forall>best rest row. contenders s excluded d = best # rest \<and> row \<in> set rest \<longrightarrow> row_priority row \<le> row_priority best)
    \<and> (\<forall>c v t. (c, v, t) \<in> set (contenders s excluded d) \<longleftrightarrow>
        c \<in> set (sd_scripts d) \<and> \<not> sc_archived c \<and> v \<in> set (sd_versions d) \<and> sc_published c = Some (vs_id v) \<and> version_live v
        \<and> t \<in> set (sd_triggers d) \<and> tr_version t = vs_id v \<and> trigger_matches s t \<and> vs_id v \<notin> set excluded)"
proof (intro conjI allI impI)
  show "resolve_published_trigger s excluded d =
      (case contenders s excluded d of
         [] \<Rightarrow> Inl (StoreError ErrNotFound)
       | best # rest \<Rightarrow>
           if \<exists>row\<in>set rest. row_priority row = row_priority best then Inl AmbiguousTrigger else Inr (row_candidate best))"
    by (rule resolve_contenders [OF assms])
qed (use contender_priority in \<open>auto simp: contenders_def trigger_rows_def\<close>)

section \<open>A concrete run\<close>

definition demo_scripts :: "'j script_db" where
  "demo_scripts =
     \<lparr>sd_economy = demo_db, sd_account = [7 \<mapsto> 1], sd_world = [7 \<mapsto> ''D000''],
      sd_scripts = [\<lparr>sc_id = 1, sc_slug = ''greeting'', sc_published = Some 11, sc_archived = False\<rparr>],
      sd_versions = [\<lparr>vs_id = 11, vs_status = ''published'', vs_content_format = ''yarn'', vs_compile_status = ''valid'',
         vs_command_schema = Some yarn_command_schema_version, vs_program = ''p'', vs_lines = Some []\<rparr>],
      sd_triggers = [\<lparr>tr_version = 11, tr_node = ''Start'', tr_kind = ''talk'', tr_area = Some ''D000'', tr_actor = Some ''AKIR'',
         tr_object = None, tr_activity = None, tr_priority = 5\<rparr>],
      sd_revision = Map.empty, sd_flags = Map.empty, sd_progress = Map.empty, sd_runs = [], sd_effects = [], sd_trace = []\<rparr>"

definition demo_moment :: moment where
  "demo_moment = \<lparr>at_database = 0, at_server = 0, at_token = Some (replicate 64 (CHR ''a'')), at_run_id = 1\<rparr>"

definition demo_effect :: script_effect where
  "demo_effect = \<lparr>se_effect_sequence = 3, se_effect_name = ''set_flag'',
     se_effect_arguments = [\<lparr>ar_type = ''string'', ar_static = True, ar_value = Some ''met''\<rparr>]\<rparr>"

definition demo_started :: "string script_db" where
  "demo_started = snd (projr (start_published_event demo_moment 1 7 sample_selector [] demo_scripts))"

definition demo_completed :: "string script_db" where
  "demo_completed = snd (projr (complete_event demo_moment 1 (replicate 64 (CHR ''a'')) 0 [demo_effect] demo_started))"

definition demo_run :: run_row where
  "demo_run = \<lparr>rn_id = 1, rn_character = 7, rn_version = 11, rn_entry = ''Start'', rn_kind = ''talk'',
     rn_token = replicate 64 (CHR ''a''), rn_lease_expires = script_lease_duration, rn_status = RunCompleted,
     rn_completion_requested = True, rn_revision = 0, rn_failure = None, rn_finished = Some 0\<rparr>"

lemma isl_projr: "\<not> isl r \<Longrightarrow> r = Inr (projr r)"
  by (cases r) simp_all

lemma demo_start: "\<exists>p. start_published_event demo_moment 1 7 sample_selector [] demo_scripts = Inr (p, demo_started)"
proof -
  have "\<not> isl (start_published_event demo_moment 1 7 sample_selector [] demo_scripts)" by code_simp
  then show ?thesis unfolding demo_started_def by (metis isl_projr prod.collapse)
qed

lemma demo_complete: "\<exists>n. complete_event demo_moment 1 (replicate 64 (CHR ''a'')) 0 [demo_effect] demo_started = Inr (n, demo_completed)"
proof -
  have "\<not> isl (complete_event demo_moment 1 (replicate 64 (CHR ''a'')) 0 [demo_effect] demo_started)" by code_simp
  then show ?thesis unfolding demo_completed_def by (metis isl_projr prod.collapse)
qed

lemma demo_runs: "sd_runs demo_completed = [demo_run]"
  by code_simp

lemma demo_reach: "reach no_runs (script_step (\<lambda>_. True)) demo_completed"
proof -
  have "no_runs (demo_scripts :: string script_db)" by (simp add: no_runs_def demo_scripts_def demo_ok)
  then have "reach no_runs (script_step (\<lambda>_. True)) demo_started"
    using demo_start by (blast intro: reach.intros run_starts)
  then show ?thesis using demo_complete by (blast intro: reach_step run_completed)
qed

theorem one_active_run_per_character_witness: "distinct (map rn_id (sd_runs demo_completed)) \<and> sd_runs demo_completed = [demo_run]"
  using one_active_run_per_character [OF demo_reach] demo_runs by blast

theorem ended_runs_are_final_witness:
  "complete_event demo_moment 1 (replicate 64 (CHR ''a'')) 1 [demo_effect] demo_completed = Inl ScriptEventEnded"
  using ended_runs_are_final [OF demo_reach rtranclp.rtrancl_refl,
      where r = demo_run and m = demo_moment and token = "replicate 64 (CHR ''a'')" and revision = 1 and es = "[demo_effect]"]
  by (simp add: demo_runs) (simp add: demo_run_def)

theorem resolution_is_by_priority_witness:
  "resolve_published_trigger (trim_selector sample_selector) [] (demo_scripts :: string script_db)
     = Inr (row_candidate (hd (contenders (trim_selector sample_selector) [] (demo_scripts :: string script_db))))"
proof -
  have c: "tl (contenders (trim_selector sample_selector) [] (demo_scripts :: string script_db)) = []"
    "contenders (trim_selector sample_selector) [] (demo_scripts :: string script_db) \<noteq> []" by code_simp+
  then obtain best where "contenders (trim_selector sample_selector) [] (demo_scripts :: string script_db) = [best]" by (metis list.collapse)
  then show ?thesis
    using resolution_is_by_priority [of "demo_scripts :: string script_db" "trim_selector sample_selector" "[]"] by (simp add: demo_scripts_def)
qed

end
