(* ===== verification/ScriptRuntime.thy ===== *)
theory ScriptRuntime
  imports ScriptContent
begin

text \<open>
  The bridge to the Yarn runtime process, \<open>internal/scriptruntime\<close>: the messages of
  \<open>protocol.go\<close> and the session of \<open>session.go\<close>, which admits only inputs the runtime asked for and
  only events of the protocol.

  The operating-system process is the parameter \<open>runtime_process\<close>: starting it, writing a message,
  reading the next line (an event, a failure or a cancelled context) and killing it. The encodings of
  messages (JSON, base64) are left out; a value is the value its text stands for.
\<close>

section \<open>Messages\<close>

datatype yarn_value = BoolValue bool | NumberValue f64 | StringValue string

record yarn_variable =
  yv_name :: string
  yv_value :: yarn_value

record start_request =
  sr_program :: string
  sr_start_node :: string
  sr_variables :: "yarn_variable list"

record function_definition =
  fd_name :: string
  fd_return_type :: string
  fd_parameter_types :: "string list"

record start_message =
  sm_protocol_version :: string
  sm_program :: string
  sm_start_node :: string
  sm_functions :: "function_definition list"
  sm_variables :: "yarn_variable list"

record yarn_input =
  in_type :: string
  in_query_id :: "int option"
  in_option_id :: "int option"
  in_value :: "yarn_value option"

record yarn_option =
  yo_id :: int
  yo_line_id :: string
  yo_substitutions :: "string list"
  yo_available :: bool

record yarn_event =
  ev_type :: string
  ev_sequence :: int
  ev_query_id :: "int option"
  ev_name :: string
  ev_node :: string
  ev_line_id :: string
  ev_substitutions :: "string list"
  ev_arguments :: "compiled_argument list"
  ev_options :: "yarn_option list"
  ev_message :: string

definition protocol_version :: string where
  "protocol_version = ''new-yokosuka-yarn-runtime-v1''"

definition continue_input :: yarn_input where
  "continue_input = \<lparr>in_type = ''continue'', in_query_id = None, in_option_id = None, in_value = None\<rparr>"

definition cancel_input :: yarn_input where
  "cancel_input = \<lparr>in_type = ''cancel'', in_query_id = None, in_option_id = None, in_value = None\<rparr>"

definition select_input :: "int \<Rightarrow> yarn_input" where
  "select_input i = \<lparr>in_type = ''select'', in_query_id = None, in_option_id = Some i, in_value = None\<rparr>"

definition query_result :: "int \<Rightarrow> yarn_value \<Rightarrow> yarn_input" where
  "query_result q v = \<lparr>in_type = ''queryResult'', in_query_id = Some q, in_option_id = None, in_value = Some v\<rparr>"

section \<open>The process and the session\<close>

datatype process_message = StartMessage start_message | InputMessage yarn_input
datatype read_result = ReadEvent yarn_event | ReadFailed | ReadCancelled

record 'p runtime_process =
  rp_spawn :: "'p option"
  rp_write :: "process_message \<Rightarrow> 'p \<Rightarrow> bool \<times> 'p"
  rp_read :: "'p \<Rightarrow> read_result \<times> 'p"
  rp_kill :: "'p \<Rightarrow> 'p"

record 'p session =
  se_process :: 'p
  se_registry :: registry
  se_sequence :: int
  se_awaiting :: string
  se_query_id :: int
  se_options :: "int list"
  se_terminal :: bool

datatype runtime_error =
    StartIncomplete | ProcessNotStarted | WriteFailed | ReadError | ContextDone
  | SessionEnded | InputNotRequested | InputAwaited string | InputMismatch string
  | RuntimeReported string | SequenceGap int int | EmptyNode | EmptyLineID | BadQueryID
  | InvalidCall diagnostic_message | NoOptions | OptionWithoutLine | UnknownEvent string

definition force_stop :: "'p runtime_process \<Rightarrow> 'p session \<Rightarrow> 'p session" where
  "force_stop pr s = s\<lparr>se_process := rp_kill pr (se_process s), se_terminal := True\<rparr>"

definition close_session :: "'p runtime_process \<Rightarrow> 'p session \<Rightarrow> 'p session" where
  "close_session pr s = (if se_terminal s then s else force_stop pr s)"

definition function_definitions :: "registry \<Rightarrow> function_definition list" where
  "function_definitions r =
     map (\<lambda>e. \<lparr>fd_name = cs_name e, fd_return_type = cs_return_type e, fd_parameter_types = map pa_type (cs_parameters e)\<rparr>)
       (filter (\<lambda>e. cs_kind e = ''function'') (rg_entries r))"

definition new_session :: "registry \<Rightarrow> 'p \<Rightarrow> 'p session" where
  "new_session r p = \<lparr>se_process = p, se_registry = r, se_sequence = 0, se_awaiting = '''', se_query_id = 0,
     se_options = [], se_terminal = False\<rparr>"

definition start_session :: "'p runtime_process \<Rightarrow> registry \<Rightarrow> start_request \<Rightarrow> runtime_error + 'p session" where
  "start_session pr r req =
     (if sr_program req = '''' \<or> trim_space (sr_start_node req) = '''' then Inl StartIncomplete
      else case rp_spawn pr of
        None \<Rightarrow> Inl ProcessNotStarted
      | Some p \<Rightarrow>
          let m = \<lparr>sm_protocol_version = protocol_version, sm_program = sr_program req,
                   sm_start_node = trim_space (sr_start_node req), sm_functions = function_definitions r,
                   sm_variables = sr_variables req\<rparr> in
          (case rp_write pr (StartMessage m) p of
            (True, p') \<Rightarrow> Inr (new_session r p')
          | (False, p') \<Rightarrow> Inl WriteFailed))"

definition validate_input :: "yarn_input option \<Rightarrow> 'p session \<Rightarrow> runtime_error + 'p session" where
  "validate_input input s =
     (if se_awaiting s = '''' then (if input \<noteq> None then Inl InputNotRequested else Inr s)
      else case input of
        None \<Rightarrow> Inl (InputAwaited (se_awaiting s))
      | Some i \<Rightarrow>
          if in_type i = ''cancel'' then Inr s
          else
            let ok = (if se_awaiting s = ''continue'' then in_type i = ''continue''
                      else if se_awaiting s = ''queryResult''
                      then in_type i = ''queryResult'' \<and> in_query_id i = Some (se_query_id s) \<and> in_value i \<noteq> None
                      else if se_awaiting s = ''select''
                      then in_type i = ''select'' \<and> (case in_option_id i of Some k \<Rightarrow> k \<in> set (se_options s) | None \<Rightarrow> False)
                      else False) in
            if ok then Inr (s\<lparr>se_awaiting := '''', se_options := []\<rparr>) else Inl (InputMismatch (se_awaiting s)))"

definition event_call :: "string \<Rightarrow> yarn_event \<Rightarrow> compiled_call" where
  "event_call kind e = \<lparr>cc_kind = kind, cc_name = ev_name e, cc_node = '''', cc_file = '''', cc_position = (0, 0, 0, 0),
     cc_parse_error = None, cc_arguments = ev_arguments e\<rparr>"

definition validate_call :: "string \<Rightarrow> yarn_event \<Rightarrow> 'p session \<Rightarrow> runtime_error option" where
  "validate_call kind e s =
     (case snd (analyze_calls (se_registry s) [event_call kind e]) of [] \<Rightarrow> None | d # _ \<Rightarrow> Some (InvalidCall (dg_message d)))"

definition validate_event :: "yarn_event \<Rightarrow> 'p session \<Rightarrow> runtime_error option \<times> 'p session" where
  "validate_event e s0 =
     (if ev_type e = ''error'' then (Some (RuntimeReported (ev_message e)), s0\<lparr>se_terminal := True\<rparr>)
      else if ev_sequence e \<noteq> wrap64 (se_sequence s0 + 1) then (Some (SequenceGap (ev_sequence e) (se_sequence s0)), s0)
      else let s = s0\<lparr>se_sequence := ev_sequence e, se_awaiting := '''', se_query_id := 0, se_options := []\<rparr> in
        if ev_type e = ''nodeStart'' \<or> ev_type e = ''nodeComplete'' then
          (if trim_space (ev_node e) = '''' then Some EmptyNode else None, s)
        else if ev_type e = ''line'' then
          (if trim_space (ev_line_id e) = '''' then (Some EmptyLineID, s) else (None, s\<lparr>se_awaiting := ''continue''\<rparr>))
        else if ev_type e = ''command'' then
          let s1 = s\<lparr>se_awaiting := ''continue''\<rparr> in (validate_call ''command'' e s1, s1)
        else if ev_type e = ''query'' then
          (case ev_query_id e of
            None \<Rightarrow> (Some BadQueryID, s)
          | Some q \<Rightarrow>
              if q \<le> 0 then (Some BadQueryID, s)
              else let s1 = s\<lparr>se_query_id := q, se_awaiting := ''queryResult''\<rparr> in (validate_call ''function'' e s1, s1))
        else if ev_type e = ''options'' then
          (if ev_options e = [] then (Some NoOptions, s)
           else let before = takeWhile (\<lambda>o'. yo_line_id o' \<noteq> '''') (ev_options e);
                    s1 = s\<lparr>se_options := map yo_id (filter yo_available before)\<rparr> in
             if length before < length (ev_options e) then (Some OptionWithoutLine, s1)
             else (None, s1\<lparr>se_awaiting := ''select''\<rparr>))
        else if ev_type e = ''complete'' \<or> ev_type e = ''cancelled'' then (None, s\<lparr>se_terminal := True\<rparr>)
        else (Some (UnknownEvent (ev_type e)), s))"

definition send_input :: "'p runtime_process \<Rightarrow> yarn_input option \<Rightarrow> 'p session \<Rightarrow> bool \<times> 'p session" where
  "send_input pr input s =
     (case input of
        None \<Rightarrow> (True, s)
      | Some i \<Rightarrow> (case rp_write pr (InputMessage i) (se_process s) of (ok, p) \<Rightarrow> (ok, s\<lparr>se_process := p\<rparr>)))"

definition receive_event :: "'p runtime_process \<Rightarrow> 'p session \<Rightarrow> (runtime_error + yarn_event) \<times> 'p session" where
  "receive_event pr s =
     (case rp_read pr (se_process s) of
        (ReadEvent e, p) \<Rightarrow>
          (case validate_event e (s\<lparr>se_process := p\<rparr>) of
            (None, s') \<Rightarrow> (Inr e, s')
          | (Some err, s') \<Rightarrow> (Inl err, force_stop pr s'))
      | (ReadFailed, p) \<Rightarrow> (Inl ReadError, force_stop pr (s\<lparr>se_process := p\<rparr>))
      | (ReadCancelled, p) \<Rightarrow> (Inl ContextDone, force_stop pr (s\<lparr>se_process := p\<rparr>)))"

definition exchange ::
  "'p runtime_process \<Rightarrow> yarn_input option \<Rightarrow> 'p session \<Rightarrow> (runtime_error + yarn_event) \<times> 'p session" where
  "exchange pr input s =
     (if se_terminal s then (Inl SessionEnded, s)
      else case validate_input input s of
        Inl err \<Rightarrow> (Inl err, s)
      | Inr s1 \<Rightarrow>
          (case send_input pr input s1 of
            (False, s2) \<Rightarrow> (Inl WriteFailed, force_stop pr s2)
          | (True, s2) \<Rightarrow> receive_event pr s2))"

section \<open>The protocol\<close>

text \<open>What answers an event; the first exchange of a session sends nothing.\<close>

definition answers :: "yarn_event option \<Rightarrow> yarn_input option \<Rightarrow> bool" where
  "answers prev input =
     (case prev of
        None \<Rightarrow> input = None
      | Some e \<Rightarrow>
          if ev_type e \<in> {''nodeStart'', ''nodeComplete''} then input = None
          else (case input of
            None \<Rightarrow> False
          | Some i \<Rightarrow>
              ev_type e \<notin> {''complete'', ''cancelled''}
              \<and> (in_type i = ''cancel''
                 \<or> ev_type e \<in> {''line'', ''command''} \<and> in_type i = ''continue''
                 \<or> ev_type e = ''query'' \<and> in_type i = ''queryResult'' \<and> in_query_id i = ev_query_id e \<and> in_value i \<noteq> None
                 \<or> ev_type e = ''options'' \<and> in_type i = ''select''
                     \<and> (\<exists>x\<in>set (ev_options e). yo_available x \<and> in_option_id i = Some (yo_id x)))))"

definition event_wellformed :: "registry \<Rightarrow> yarn_event \<Rightarrow> bool" where
  "event_wellformed r e \<longleftrightarrow>
     ev_type e \<in> {''nodeStart'', ''nodeComplete'', ''line'', ''command'', ''query'', ''options'', ''complete'', ''cancelled''}
     \<and> (ev_type e = ''command'' \<longrightarrow> snd (analyze_calls r [event_call ''command'' e]) = [])
     \<and> (ev_type e = ''query'' \<longrightarrow> snd (analyze_calls r [event_call ''function'' e]) = [] \<and> (\<exists>q>0. ev_query_id e = Some q))
     \<and> (ev_type e = ''options'' \<longrightarrow> ev_options e \<noteq> [] \<and> (\<forall>x\<in>set (ev_options e). yo_line_id x \<noteq> ''''))"

fun conversation :: "registry \<Rightarrow> yarn_event option \<Rightarrow> int \<Rightarrow> (yarn_input option \<times> yarn_event) list \<Rightarrow> bool" where
  "conversation r prev n [] \<longleftrightarrow> True"
| "conversation r prev n ((i, e) # xs) \<longleftrightarrow>
     answers prev i \<and> ev_sequence e = n + 1 \<and> event_wellformed r e \<and> conversation r (Some e) (n + 1) xs"

text \<open>The exchanges of a session that delivered an event, whatever inputs were tried.\<close>

fun delivered ::
  "'p runtime_process \<Rightarrow> yarn_input option list \<Rightarrow> 'p session \<Rightarrow> (yarn_input option \<times> yarn_event) list" where
  "delivered pr [] s = []"
| "delivered pr (i # is) s =
     (case exchange pr i s of
        (Inr e, s') \<Rightarrow> (i, e) # delivered pr is s'
      | (Inl _, s') \<Rightarrow> delivered pr is s')"

definition expects :: "yarn_event option \<Rightarrow> int \<Rightarrow> 'p session \<Rightarrow> bool" where
  "expects prev n s \<longleftrightarrow>
     se_terminal s
     \<or> se_sequence s = n
       \<and> (\<forall>i s'. validate_input i s = Inr s' \<longrightarrow>
            answers prev i \<and> se_sequence s' = n \<and> \<not> se_terminal s' \<and> se_registry s' = se_registry s)"

lemma terminal_delivers_nothing: "se_terminal s \<Longrightarrow> delivered pr is s = []"
  by (induction "is") (simp_all add: exchange_def)

lemma takeWhile_full [simp]: "length (takeWhile P xs) < length xs \<longleftrightarrow> (\<exists>x\<in>set xs. \<not> P x)"
  by (induction xs) auto

lemma validate_event_ok:
  assumes "validate_event e s = (None, s')" and "\<not> se_terminal s" and "se_sequence s = n" and "int64_ok (n + 1)"
  shows "ev_sequence e = n + 1" "event_wellformed (se_registry s) e" "expects (Some e) (n + 1) s'"
    "se_registry s' = se_registry s"
  using assms
  by (auto simp: validate_event_def Let_def event_wellformed_def expects_def validate_input_def answers_def validate_call_def
      split: if_splits option.splits list.splits) (blast dest: set_takeWhileD)

lemma send_input_fields:
  "snd (send_input pr i s) = s\<lparr>se_process := se_process (snd (send_input pr i s))\<rparr>"
  by (simp add: send_input_def split: option.split prod.split)

lemma receive_event_ok:
  assumes "receive_event pr s = (Inr e, s')" and "\<not> se_terminal s" and "se_sequence s = n" and "int64_ok (n + 1)"
  shows "ev_sequence e = n + 1" "event_wellformed (se_registry s) e" "expects (Some e) (n + 1) s'" "se_registry s' = se_registry s"
proof -
  obtain p where v: "validate_event e (s\<lparr>se_process := p\<rparr>) = (None, s')"
    using assms(1) by (auto simp: receive_event_def split: prod.splits read_result.splits option.splits)
  show "ev_sequence e = n + 1" "event_wellformed (se_registry s) e" "expects (Some e) (n + 1) s'" "se_registry s' = se_registry s"
    using validate_event_ok [OF v _ _ assms(4)] assms(2,3) by simp_all
qed

lemma receive_event_failed: "receive_event pr s = (Inl err, s') \<Longrightarrow> se_terminal s'"
  by (auto simp: receive_event_def force_stop_def split: prod.splits read_result.splits option.splits)

lemma exchange_delivers:
  assumes "exchange pr i s = (Inr e, s')" and "expects prev n s" and "int64_ok (n + 1)"
  shows "answers prev i" "ev_sequence e = n + 1" "event_wellformed (se_registry s) e"
    "expects (Some e) (n + 1) s'" "se_registry s' = se_registry s"
proof -
  obtain s1 s2 where live: "\<not> se_terminal s" and v: "validate_input i s = Inr s1"
    and snt: "send_input pr i s1 = (True, s2)" and rec: "receive_event pr s2 = (Inr e, s')"
    using assms(1) by (auto simp: exchange_def split: if_splits sum.splits prod.splits bool.splits)
  have s1: "answers prev i" "se_sequence s1 = n" "\<not> se_terminal s1" "se_registry s1 = se_registry s"
    using assms(2) live v by (auto simp: expects_def)
  obtain p where s2: "s2 = s1\<lparr>se_process := p\<rparr>" using send_input_fields [of pr i s1] snt by fastforce
  show "answers prev i" by (rule s1)
  show "ev_sequence e = n + 1" "event_wellformed (se_registry s) e" "expects (Some e) (n + 1) s'" "se_registry s' = se_registry s"
    using receive_event_ok [OF rec _ _ assms(3)] s1 by (simp_all add: s2)
qed

lemma exchange_refuses:
  assumes "exchange pr i s = (Inl err, s')"
  shows "se_terminal s' \<or> s' = s"
  using assms receive_event_failed
  by (auto simp: exchange_def force_stop_def split: if_splits sum.splits prod.splits bool.splits)

lemma conversation_delivered:
  "expects prev n s \<Longrightarrow> 0 \<le> n \<Longrightarrow> n + int (length is) < 2 ^ 63 \<Longrightarrow> conversation (se_registry s) prev n (delivered pr is s)"
proof (induction "is" arbitrary: prev n s)
  case (Cons i "is")
  have n: "int64_ok (n + 1)" using Cons.prems(2,3) by (simp add: int64_ok_def)
  obtain r s' where x: "exchange pr i s = (r, s')" by fastforce
  show ?case
  proof (cases r)
    case (Inl err)
    with exchange_refuses [of pr i s err s'] x have "se_terminal s' \<or> s' = s" by simp
    with Cons show ?thesis by (auto simp: x Inl terminal_delivers_nothing)
  next
    case (Inr e)
    note d = exchange_delivers [OF x [unfolded Inr] Cons.prems(1) n]
    have "conversation (se_registry s') (Some e) (n + 1) (delivered pr is s')"
      using Cons.IH [OF d(4)] Cons.prems(2,3) by simp
    with d show ?thesis by (simp add: x Inr)
  qed
qed simp

text \<open>
  C16: whatever inputs are tried on a session, the events it delivers are a conversation of the
  protocol: they are numbered 1, 2, 3 without a gap, each input that was let through is the one the
  event before it asks for (the result of that very query, one of the available options, or a
  cancellation), commands and queries fit the registry, and nothing follows the end.
\<close>

theorem sessions_follow_the_protocol:
  assumes "start_session pr r req = Inr s" and "int (length is) < 2 ^ 63"
  shows "conversation r None 0 (delivered pr is s)"
proof -
  obtain p where s: "s = new_session r p"
    using assms(1) by (auto simp: start_session_def Let_def split: if_splits option.splits prod.splits bool.splits)
  have "expects None 0 s" by (simp add: s new_session_def expects_def validate_input_def answers_def)
  from conversation_delivered [OF this] assms(2) show ?thesis by (simp add: s new_session_def)
qed

text \<open>A runtime that asks a query and says a line.\<close>

definition blank_event :: yarn_event where
  "blank_event = \<lparr>ev_type = '''', ev_sequence = 0, ev_query_id = None, ev_name = '''', ev_node = '''', ev_line_id = '''',
     ev_substitutions = [], ev_arguments = [], ev_options = [], ev_message = ''''\<rparr>"

definition scripted_process :: "yarn_event list \<Rightarrow> (yarn_event list) runtime_process" where
  "scripted_process evs = \<lparr>rp_spawn = Some evs, rp_write = (\<lambda>_ p. (True, p)),
     rp_read = (\<lambda>p. case p of [] \<Rightarrow> (ReadFailed, []) | e # es \<Rightarrow> (ReadEvent e, es)), rp_kill = (\<lambda>p. p)\<rparr>"

definition sample_events :: "yarn_event list" where
  "sample_events =
     [blank_event\<lparr>ev_type := ''nodeStart'', ev_sequence := 1, ev_node := ''Start''\<rparr>,
      blank_event\<lparr>ev_type := ''query'', ev_sequence := 2, ev_query_id := Some 7, ev_name := ''yen''\<rparr>,
      blank_event\<lparr>ev_type := ''line'', ev_sequence := 3, ev_line_id := ''line:1''\<rparr>,
      blank_event\<lparr>ev_type := ''complete'', ev_sequence := 4\<rparr>]"

definition sample_request :: start_request where
  "sample_request = \<lparr>sr_program = ''program'', sr_start_node = ''Start'', sr_variables = []\<rparr>"

definition sample_inputs :: "yarn_input option list" where
  "sample_inputs = [None, None, Some continue_input, Some (query_result 7 (NumberValue (Fin 500))), Some continue_input, None]"

lemma sample_session: "start_session (scripted_process sample_events) shipped_registry sample_request
    = Inr (new_session shipped_registry sample_events)"
  by (simp add: start_session_def sample_request_def scripted_process_def Let_def) code_simp

theorem sessions_follow_the_protocol_witness:
  "conversation shipped_registry None 0
     (delivered (scripted_process sample_events) sample_inputs (new_session shipped_registry sample_events))"
  using sessions_follow_the_protocol [OF sample_session, of sample_inputs] by (simp add: sample_inputs_def)

lemma sample_session_delivers:
  "map (\<lambda>(_, e). ev_sequence e) (delivered (scripted_process sample_events) sample_inputs (new_session shipped_registry sample_events)) = [1, 2, 3, 4]"
  by code_simp

end
