(* ===== verification/ScriptState.thy ===== *)
theory ScriptState
  imports ScriptRuns ScriptRuntime
begin

text \<open>
  The state a running script sees, \<open>internal/scriptevent\<close>: \<open>state.go\<close> answers queries from the
  character's story state and the facts of the world and stages the effects of commands, \<open>calendar.go\<close>
  checks dates, \<open>random.go\<close> draws integers.

  Copies of maps are the maps themselves. The source of randomness is a parameter; its answers are
  checked by the code. Error texts are constructors.
\<close>

section \<open>Dates\<close>

record calendar_date =
  cd_year :: int
  cd_month :: int
  cd_day :: int

definition leap_year :: "int \<Rightarrow> bool" where
  "leap_year y \<longleftrightarrow> y mod 4 = 0 \<and> (y mod 100 \<noteq> 0 \<or> y mod 400 = 0)"

definition days_in_month :: "int \<Rightarrow> int \<Rightarrow> int" where
  "days_in_month y m = (if m = 2 then (if leap_year y then 29 else 28) else if m \<in> {4, 6, 9, 11} then 30 else 31)"

text \<open>\<open>time.Date\<close> normalizes; the result has the given month and day exactly if they exist.\<close>

definition month_day_exists :: "int \<Rightarrow> int \<Rightarrow> int \<Rightarrow> bool" where
  "month_day_exists y m day \<longleftrightarrow> 1 \<le> m \<and> m \<le> 12 \<and> 1 \<le> day \<and> day \<le> days_in_month y m"

definition date_valid :: "calendar_date \<Rightarrow> bool" where
  "date_valid c \<longleftrightarrow> \<not> (cd_year c < 1 \<or> 9999 < cd_year c) \<and> month_day_exists (cd_year c) (cd_month c) (cd_day c)"

definition month_day_valid :: "int \<Rightarrow> int \<Rightarrow> bool" where
  "month_day_valid m day \<longleftrightarrow> month_day_exists 2000 m day"

section \<open>State\<close>

record world_facts =
  wf_game_hour :: "f64 option"
  wf_game_date :: "calendar_date option"
  wf_actor_presence :: "string \<rightharpoonup> bool"
  wf_actor_states :: "string \<rightharpoonup> (string \<rightharpoonup> f64)"
  wf_actor_bounds :: "string \<rightharpoonup> (string \<rightharpoonup> bool)"
  wf_object_existence :: "string \<rightharpoonup> bool"
  wf_activity_results :: "string \<rightharpoonup> string"

record event_state =
  es_state :: script_state
  es_facts :: world_facts
  es_effects :: "script_effect list"

datatype event_error =
    NotAString string nat
  | NotANumber string nat
  | NotAnInteger string nat
  | BadQuantity
  | BadAmount
  | BadIncrement
  | ProgressNotFinite
  | YenOverflow
  | NotEnough
  | UnknownFact string
  | BadMonthDay
  | BadGameDate
  | EmptyRange
  | RandomFailed
  | RandomOutOfRange
  | NoResolver string
  | NotStaged string

definition event_argument :: "yarn_event \<Rightarrow> nat \<Rightarrow> string \<Rightarrow> string option" where
  "event_argument e i expected =
     (if length (ev_arguments e) \<le> i then None
      else let a = ev_arguments e ! i in if ar_type a = expected then ar_value a else None)"

definition event_string :: "yarn_event \<Rightarrow> nat \<Rightarrow> event_error + string" where
  "event_string e i = (case event_argument e i ''string'' of None \<Rightarrow> Inl (NotAString (ev_name e) (i + 1)) | Some v \<Rightarrow> Inr v)"

definition event_number :: "yarn_event \<Rightarrow> nat \<Rightarrow> event_error + f64" where
  "event_number e i =
     (case event_argument e i ''number'' of
        None \<Rightarrow> Inl (NotANumber (ev_name e) (i + 1))
      | Some t \<Rightarrow> (case parse_float t of None \<Rightarrow> Inl (NotANumber (ev_name e) (i + 1)) | Some x \<Rightarrow> Inr x))"

definition event_integer :: "yarn_event \<Rightarrow> nat \<Rightarrow> event_error + int" where
  "event_integer e i =
     (case event_number e i of
        Inl _ \<Rightarrow> Inl (NotAnInteger (ev_name e) (i + 1))
      | Inr x \<Rightarrow> (case safe_integer x of None \<Rightarrow> Inl (NotAnInteger (ev_name e) (i + 1)) | Some n \<Rightarrow> Inr n))"

section \<open>Random integers\<close>

text \<open>\<open>rand.Int\<close> draws below the span; the parameter answers none where the entropy source fails.\<close>

definition secure_random_integer :: "(int \<Rightarrow> int option) \<Rightarrow> int \<Rightarrow> int \<Rightarrow> int option" where
  "secure_random_integer draw minimum maximum = map_option (\<lambda>offset. offset + minimum) (draw (maximum - minimum + 1))"

section \<open>Queries\<close>

definition with_string :: "yarn_event \<Rightarrow> nat \<Rightarrow> (string \<Rightarrow> event_error + 'a) \<Rightarrow> event_error + 'a" where
  "with_string e i f = (case event_string e i of Inl err \<Rightarrow> Inl err | Inr s \<Rightarrow> f s)"

definition with_integer :: "yarn_event \<Rightarrow> nat \<Rightarrow> (int \<Rightarrow> event_error + 'a) \<Rightarrow> event_error + 'a" where
  "with_integer e i f = (case event_integer e i of Inl err \<Rightarrow> Inl err | Inr n \<Rightarrow> f n)"

definition fact :: "string \<Rightarrow> ('a \<Rightarrow> yarn_value) \<Rightarrow> 'a option \<Rightarrow> event_error + yarn_value" where
  "fact name f v = (case v of None \<Rightarrow> Inl (UnknownFact name) | Some x \<Rightarrow> Inr (f x))"

definition nested :: "('a \<rightharpoonup> ('b \<rightharpoonup> 'c)) \<Rightarrow> 'a \<Rightarrow> 'b \<Rightarrow> 'c option" where
  "nested m a b = (case m a of None \<Rightarrow> None | Some m' \<Rightarrow> m' b)"

definition has_item_query :: "yarn_event \<Rightarrow> event_state \<Rightarrow> event_error + yarn_value" where
  "has_item_query e st =
     with_string e 0 (\<lambda>item. case event_integer e 1 of
        Inl _ \<Rightarrow> Inl BadQuantity
      | Inr q \<Rightarrow> if q \<le> 0 then Inl BadQuantity
                else Inr (BoolValue (q \<le> map_get_or 0 (ss_inventory (es_state st)) item)))"

definition game_date_query :: "yarn_event \<Rightarrow> event_state \<Rightarrow> event_error + yarn_value" where
  "game_date_query e st =
     with_integer e 0 (\<lambda>month. with_integer e 1 (\<lambda>day.
       if \<not> month_day_valid month day then Inl BadMonthDay
       else case wf_game_date (es_facts st) of
         None \<Rightarrow> Inl (UnknownFact ''game date'')
       | Some c \<Rightarrow>
           if \<not> date_valid c then Inl BadGameDate
           else Inr (BoolValue (month * 100 + day \<le> cd_month c * 100 + cd_day c))))"

definition random_query :: "(int \<Rightarrow> int \<Rightarrow> int option) \<Rightarrow> yarn_event \<Rightarrow> event_error + yarn_value" where
  "random_query rnd e =
     with_integer e 0 (\<lambda>minimum. with_integer e 1 (\<lambda>maximum.
       if maximum < minimum then Inl EmptyRange
       else case rnd minimum maximum of
         None \<Rightarrow> Inl RandomFailed
       | Some v \<Rightarrow> if v < minimum \<or> maximum < v then Inl RandomOutOfRange else Inr (NumberValue (f64_of_int v))))"

definition resolve_query :: "(int \<Rightarrow> int \<Rightarrow> int option) \<Rightarrow> yarn_event \<Rightarrow> event_state \<Rightarrow> event_error + yarn_value" where
  "resolve_query rnd e st =
     (let n = ev_name e; s = es_state st; w = es_facts st in
      if n = ''flag_set'' then with_string e 0 (\<lambda>k. Inr (BoolValue (map_get_or False (ss_flags s) k)))
      else if n = ''progress_value'' then with_string e 0 (\<lambda>k. Inr (NumberValue (map_get_or (Fin 0) (ss_progress s) k)))
      else if n = ''has_item'' then has_item_query e st
      else if n = ''yen'' then Inr (NumberValue (f64_of_int (ss_yen s)))
      else if n = ''actor_present'' then with_string e 0 (\<lambda>a. fact n BoolValue (wf_actor_presence w a))
      else if n = ''actor_state'' then with_string e 0 (\<lambda>a. with_string e 1 (\<lambda>k. fact n NumberValue (nested (wf_actor_states w) a k)))
      else if n = ''in_scene'' then with_string e 0 (\<lambda>x. Inr (BoolValue (x = ss_scene s)))
      else if n = ''game_hour'' then fact n NumberValue (wf_game_hour w)
      else if n = ''game_date_on_or_after'' then game_date_query e st
      else if n = ''random_integer'' then random_query rnd e
      else if n = ''actor_in_bounds'' then with_string e 0 (\<lambda>a. with_string e 1 (\<lambda>b. fact n BoolValue (nested (wf_actor_bounds w) a b)))
      else if n = ''object_exists'' then with_string e 0 (\<lambda>x. fact n BoolValue (wf_object_existence w x))
      else if n = ''activity_result'' then with_string e 0 (\<lambda>a. fact n StringValue (wf_activity_results w a))
      else Inl (NoResolver n))"

section \<open>Staging\<close>

definition stage_flag :: "yarn_event \<Rightarrow> script_state \<Rightarrow> event_error + script_state" where
  "stage_flag e s =
     with_string e 0 (\<lambda>k. Inr (s\<lparr>ss_flags := (ss_flags s)(k := if ev_name e = ''set_flag'' then Some True else None)\<rparr>))"

definition stage_progress :: "yarn_event \<Rightarrow> script_state \<Rightarrow> event_error + script_state" where
  "stage_progress e s =
     with_string e 0 (\<lambda>k. case event_number e 1 of
        Inl err \<Rightarrow> Inl err
      | Inr x \<Rightarrow>
          if ev_name e = ''increment_progress'' then
            if fle x (Fin 0) then Inl BadIncrement
            else let y = fadd x (map_get_or (Fin 0) (ss_progress s) k) in
              if \<not> is_fin y then Inl ProgressNotFinite else Inr (s\<lparr>ss_progress := (ss_progress s)(k \<mapsto> y)\<rparr>)
          else Inr (s\<lparr>ss_progress := (ss_progress s)(k \<mapsto> x)\<rparr>))"

definition stage_yen :: "yarn_event \<Rightarrow> script_state \<Rightarrow> event_error + script_state" where
  "stage_yen e s =
     (case event_integer e 0 of
        Inl _ \<Rightarrow> Inl BadAmount
      | Inr amount \<Rightarrow>
          if amount \<le> 0 then Inl BadAmount
          else if ev_name e = ''spend_yen'' then
            if ss_yen s < amount then Inl NotEnough else Inr (s\<lparr>ss_yen := wrap64 (ss_yen s - amount)\<rparr>)
          else if wrap64 (2 ^ 63 - 1 - ss_yen s) < amount then Inl YenOverflow
          else Inr (s\<lparr>ss_yen := wrap64 (ss_yen s + amount)\<rparr>))"

definition stage_item :: "yarn_event \<Rightarrow> script_state \<Rightarrow> event_error + script_state" where
  "stage_item e s =
     with_string e 0 (\<lambda>item. case event_integer e 1 of
        Inl _ \<Rightarrow> Inl BadQuantity
      | Inr q \<Rightarrow>
          if q \<le> 0 \<or> 2 ^ 31 - 1 < q then Inl BadQuantity
          else let have = map_get_or 0 (ss_inventory s) item in
            if ev_name e = ''remove_item'' then
              if have < q then Inl NotEnough else Inr (s\<lparr>ss_inventory := (ss_inventory s)(item \<mapsto> wrap64 (have - q))\<rparr>)
            else Inr (s\<lparr>ss_inventory := (ss_inventory s)(item \<mapsto> wrap64 (have + q))\<rparr>))"

definition event_effect :: "yarn_event \<Rightarrow> script_effect" where
  "event_effect e = \<lparr>se_effect_sequence = ev_sequence e, se_effect_name = ev_name e, se_effect_arguments = ev_arguments e\<rparr>"

definition stage_state :: "yarn_event \<Rightarrow> script_state \<Rightarrow> event_error + script_state" where
  "stage_state e s =
     (let n = ev_name e in
      if n = ''set_flag'' \<or> n = ''clear_flag'' then stage_flag e s
      else if n = ''set_progress'' \<or> n = ''increment_progress'' then stage_progress e s
      else if n = ''grant_yen'' \<or> n = ''spend_yen'' then stage_yen e s
      else if n = ''give_item'' \<or> n = ''remove_item'' then stage_item e s
      else Inl (NotStaged n))"

definition stage :: "yarn_event \<Rightarrow> event_state \<Rightarrow> event_error + event_state" where
  "stage e st =
     (case stage_state e (es_state st) of
        Inl err \<Rightarrow> Inl err
      | Inr s \<Rightarrow> Inr (st\<lparr>es_state := s, es_effects := es_effects st @ [event_effect e]\<rparr>))"

section \<open>Integers survive\<close>

lemma safe_integer_of_int: "safe_integer (Fin (of_int n)) = (if \<bar>n\<bar> \<le> yarn_max_safe_integer then Some n else None)"
  by (simp add: safe_integer_def)

text \<open>
  C20: an integer argument is read exactly: the decimal text of every integer up to \<open>2 ^ 53 - 1\<close> in
  magnitude is read as that integer by the engine and by the store, and whatever the engine reads is
  an integer of that range, so no two integers are confused by the binary64 numbers they pass through.
\<close>

theorem integer_arguments_survive:
  assumes "event_argument e i ''number'' = Some (int_decimal n)" and "\<bar>n\<bar> < 2 ^ 53"
  shows "event_integer e i = Inr n
    \<and> (i < length (ev_arguments e) \<and> ar_static (ev_arguments e ! i) \<longrightarrow> integer_argument (event_effect e) i = Some n)
    \<and> (\<forall>e' j k. event_integer e' j = Inr k \<longrightarrow> \<bar>k\<bar> < 2 ^ 53)"
proof -
  have p: "parse_float (int_decimal n) = Some (Fin (of_int n))" using integers_read_back [of n] assms(2) by simp
  have s: "safe_integer (Fin (of_int n)) = Some n" using assms(2) by (simp add: safe_integer_of_int yarn_max_safe_integer_def)
  have "event_integer e i = Inr n" by (simp add: event_integer_def event_number_def assms(1) p s)
  moreover have "integer_argument (event_effect e) i = Some n" if "i < length (ev_arguments e)" "ar_static (ev_arguments e ! i)"
    using that assms(1) p s
    by (auto simp: integer_argument_def effect_argument_def event_effect_def event_argument_def Let_def split: if_splits)
  moreover have "\<bar>k\<bar> < 2 ^ 53" if "event_integer e' j = Inr k" for e' j k
    using that
    by (auto simp: event_integer_def safe_integer_def yarn_max_safe_integer_def split: sum.splits option.splits f64.splits if_splits)
  ultimately show ?thesis by blast
qed

definition demo_grant :: yarn_event where
  "demo_grant = blank_event\<lparr>ev_type := ''command'', ev_name := ''grant_yen'',
     ev_arguments := [\<lparr>ar_type = ''number'', ar_static = True, ar_value = Some (int_decimal 9007199254740991)\<rparr>,
                      \<lparr>ar_type = ''string'', ar_static = True, ar_value = Some ''gift''\<rparr>]\<rparr>"

theorem integer_arguments_survive_witness: "event_integer demo_grant 0 = Inr 9007199254740991"
proof -
  have "event_argument demo_grant 0 ''number'' = Some (int_decimal 9007199254740991)"
    by (simp add: demo_grant_def event_argument_def)
  from integer_arguments_survive [OF this] show ?thesis by simp
qed

section \<open>What is shown is what is stored\<close>

text \<open>The state the engine keeps for a character is the one in the database.\<close>

definition state_stored :: "int \<Rightarrow> script_state \<Rightarrow> 'j script_db \<Rightarrow> bool" where
  "state_stored cid s d \<longleftrightarrow>
     (\<exists>r. characters (sd_economy d) cid = Some r \<and> \<not> ch_deleted r \<and> ch_yen r = ss_yen s)
     \<and> ss_flags s = (\<lambda>k. sd_flags d (cid, k)) \<and> ss_progress s = (\<lambda>k. sd_progress d (cid, k))
     \<and> (\<forall>k. map_get_or 0 (ss_inventory s) k = quantity_of (sd_economy d) (cid, k))"

lemma finite_result:
  assumes "(case fl q of Fin y \<Rightarrow> Some (Fin y) | _ \<Rightarrow> None) = Some x"
  shows "\<exists>y. x = Fin y \<and> fl y = Fin y"
proof (cases "fl q")
  case (Fin y)
  then have "x = Fin y" using assms by simp
  with fl_idem [OF Fin] show ?thesis by blast
qed (use assms in simp_all)

lemma parse_float_fin: "parse_float t = Some x \<Longrightarrow> \<exists>y. x = Fin y \<and> fl y = Fin y"
  unfolding parse_float_def Let_def
  by (split prod.splits if_splits option.splits list.splits | erule finite_result | elim conjE exE impE allE | simp)+

lemma fadd_comm: "fadd x y = fadd y x"
  by (cases x; cases y) (simp_all add: add.commute)

lemma event_effect_fields [simp]:
  "se_effect_name (event_effect e) = ev_name e" "se_effect_sequence (event_effect e) = ev_sequence e"
  "se_effect_arguments (event_effect e) = ev_arguments e"
  by (simp_all add: event_effect_def)

lemma effect_argument_event: "effect_argument (event_effect e) i t = Some v \<Longrightarrow> event_argument e i t = Some v"
  by (auto simp: effect_argument_def event_argument_def Let_def split: if_splits)

lemma integer_argument_event: "integer_argument (event_effect e) i = Some n \<Longrightarrow> event_integer e i = Inr n"
  by (auto simp: integer_argument_def event_integer_def event_number_def dest!: effect_argument_event split: option.splits)

lemma with_string_Inr: "with_string e i f = Inr y \<longleftrightarrow> (\<exists>k. event_argument e i ''string'' = Some k \<and> f k = Inr y)"
  by (auto simp: with_string_def event_string_def split: option.splits)

lemma stage_flag_stored:
  assumes "state_stored cid s d" and "stage_flag e s = Inr s'" and "apply_flag_effect cid (event_effect e) d = Inr d'"
    and "ev_name e \<in> {''set_flag'', ''clear_flag''}"
  shows "state_stored cid s' d'"
proof -
  obtain k where k: "effect_argument (event_effect e) 0 ''string'' = Some k"
    and d': "d' = d\<lparr>sd_flags := (sd_flags d)((cid, k) := if ev_name e = ''clear_flag'' then None else Some True)\<rparr>"
    using apply_flag_effect_Inr [OF assms(3)] by auto
  have s': "s' = s\<lparr>ss_flags := (ss_flags s)(k := if ev_name e = ''set_flag'' then Some True else None)\<rparr>"
    using assms(2) effect_argument_event [OF k] by (auto simp: stage_flag_def with_string_Inr)
  show ?thesis using assms(1,4) by (auto simp: state_stored_def s' d' fun_eq_iff)
qed

lemma stage_progress_stored:
  assumes "state_stored cid s d" and "stage_progress e s = Inr s'" and "apply_progress_effect cid (event_effect e) d = Inr d'"
  shows "state_stored cid s' d'"
proof -
  obtain k t x where k: "effect_argument (event_effect e) 0 ''string'' = Some k"
    and t: "effect_argument (event_effect e) 1 ''number'' = Some t" "parse_float t = Some x"
    and d': "d' = d\<lparr>sd_progress := (sd_progress d)((cid, k) \<mapsto>
             (case sd_progress d (cid, k) of Some old \<Rightarrow> if ev_name e = ''increment_progress'' then fadd old x else x | None \<Rightarrow> x))\<rparr>"
    using apply_progress_effect_Inr [OF assms(3), unfolded event_effect_fields] by blast
  have n: "event_number e 1 = Inr x" using effect_argument_event [OF t(1)] t(2) by (simp add: event_number_def)
  obtain y where y: "x = Fin y" "fl y = Fin y" using parse_float_fin [OF t(2)] by blast
  have zero: "fadd x (Fin 0) = x" by (simp add: y)
  have p: "ss_progress s = (\<lambda>k. sd_progress d (cid, k))" using assms(1) by (simp add: state_stored_def)
  have "s' = s\<lparr>ss_progress := (ss_progress s)(k \<mapsto>
      (if ev_name e = ''increment_progress'' then fadd x (map_get_or (Fin 0) (ss_progress s) k) else x))\<rparr>"
    using assms(2) effect_argument_event [OF k] n by (auto simp: stage_progress_def with_string_Inr Let_def split: if_splits)
  then show ?thesis using assms(1) zero fadd_comm [of x]
    by (auto simp: state_stored_def d' p fun_eq_iff map_get_or_def split: option.splits)
qed

lemma stage_yen_stored:
  assumes "state_stored cid s d" and "stage_yen e s = Inr s'" and "apply_yen_effect cid run (event_effect e) d = Inr d'"
    and "ev_name e \<in> {''grant_yen'', ''spend_yen''}"
  shows "state_stored cid s' d'"
proof -
  obtain amount y r ev where a: "integer_argument (event_effect e) 0 = Some amount" "0 < amount"
    and y: "y = (if ev_name e = ''spend_yen'' then - amount else amount)"
    and r: "characters (sd_economy d) cid = Some r" "\<not> ch_deleted r" "int64_ok (ch_yen r + y)"
    and d': "d' = d\<lparr>sd_economy := (set_character cid (r\<lparr>ch_yen := ch_yen r + y\<rparr>) (sd_economy d))
                   \<lparr>economy_events := economy_events (sd_economy d) @ [ev]\<rparr>\<rparr>"
    using apply_yen_effect_Inr [OF assms(3)] unfolding event_effect_fields by blast
  have yen: "ss_yen s = ch_yen r" using assms(1) r(1) by (simp add: state_stored_def)
  have "s' = s\<lparr>ss_yen := ch_yen r + y\<rparr>"
    using assms(2,4) integer_argument_event [OF a(1)] a(2) r(3) yen y by (auto simp: stage_yen_def split: if_splits)
  then show ?thesis using assms(1) r(2) by (simp add: state_stored_def d' quantity_of_def)
qed

lemma stage_item_stored:
  assumes "state_stored cid s d" and "stage_item e s = Inr s'" and "apply_inventory_effect cid run (event_effect e) d = Inr d'"
    and "ev_name e \<in> {''give_item'', ''remove_item''}" and "db_ok (sd_economy d)"
  shows "state_stored cid s' d'"
proof -
  obtain k q x where k: "effect_argument (event_effect e) 0 ''string'' = Some k" and q: "integer_argument (event_effect e) 1 = Some q"
    "0 < q" "q < 2 ^ 31" and x: "apply_item_effect cid run (event_effect e) k q (sd_economy d) = Inr x" and d': "d' = d\<lparr>sd_economy := x\<rparr>"
    using apply_inventory_effect_Inr [OF assms(3)] by blast
  let ?n = "quantity_of (sd_economy d) (cid, k) + (if ev_name e = ''give_item'' then q else - q)"
  have x': "quantity_of x (cid, j) = (if j = k then ?n else quantity_of (sd_economy d) (cid, j))"
    and c: "characters x = characters (sd_economy d)" for j
  proof -
    show "quantity_of x (cid, j) = (if j = k then ?n else quantity_of (sd_economy d) (cid, j))"
    proof (cases "ev_name e = ''give_item''")
      case True
      with give_item_Inr [OF x] show ?thesis by (auto simp: quantity_of_def split: option.splits)
    next
      case False
      with remove_item_Inr [OF x] show ?thesis by (auto simp: quantity_of_def take_item_eq split: option.splits if_splits)
    qed
    show "characters x = characters (sd_economy d)"
    proof (cases "ev_name e = ''give_item''")
      case True
      with give_item_Inr [OF x] show ?thesis by auto
    next
      case False
      with remove_item_Inr [OF x] show ?thesis by (auto simp: take_item_eq)
    qed
  qed
  have stock: "map_get_or 0 (ss_inventory s) j = quantity_of (sd_economy d) (cid, j)" for j using assms(1) by (simp add: state_stored_def)
  have small: "0 \<le> quantity_of (sd_economy d) (cid, k)" "int32_ok (quantity_of (sd_economy d) (cid, k))"
    using stackD [OF assms(5), of cid k] assms(5)
    by (auto simp: quantity_of_def int32_ok_def db_ok_def items_ok_def split: option.splits) fastforce+
  have "int64_ok ?n" using small q(2,3) by (auto simp: int32_ok_def int64_ok_def)
  then have "s' = s\<lparr>ss_inventory := (ss_inventory s)(k \<mapsto> ?n)\<rparr>"
    using assms(2,4) effect_argument_event [OF k] integer_argument_event [OF q(1)] q(2,3) stock
    by (auto simp: stage_item_def with_string_Inr Let_def split: if_splits)
  then show ?thesis using assms(1) by (auto simp: state_stored_def d' c x' map_get_or_def)
qed

lemma stage_stored:
  assumes "state_stored cid (es_state st) d" and "stage e st = Inr st'"
    and "apply_script_effect cid run (event_effect e) d = Inr d'" and "db_ok (sd_economy d)"
  shows "state_stored cid (es_state st') d'" and "es_effects st' = es_effects st @ [event_effect e]"
proof -
  have s: "stage_state e (es_state st) = Inr (es_state st')" and eff: "es_effects st' = es_effects st @ [event_effect e]"
    using assms(2) by (auto simp: stage_def split: sum.splits)
  show "es_effects st' = es_effects st @ [event_effect e]" by (rule eff)
  from assms(3) show "state_stored cid (es_state st') d'"
  proof (cases rule: apply_script_effect_cases)
    case flag
    with s stage_flag_stored [OF assms(1)] show ?thesis by (auto simp: stage_state_def Let_def)
  next
    case progress
    with s stage_progress_stored [OF assms(1)] show ?thesis by (auto simp: stage_state_def Let_def)
  next
    case yen
    with s stage_yen_stored [OF assms(1)] show ?thesis by (auto simp: stage_state_def Let_def)
  next
    case item
    with s stage_item_stored [OF assms(1)] assms(4) show ?thesis by (auto simp: stage_state_def Let_def)
  qed
qed

text \<open>Two databases with the same story: what effects read and write.\<close>

definition same_story :: "'j script_db \<Rightarrow> 'j script_db \<Rightarrow> bool" where
  "same_story d x \<longleftrightarrow> sd_economy x = sd_economy d \<and> sd_flags x = sd_flags d \<and> sd_progress x = sd_progress d \<and> sd_effects x = sd_effects d"

lemma apply_script_effect_story:
  assumes "same_story d x" and "apply_script_effect cid run e x = Inr x'"
  shows "\<exists>d'. apply_script_effect cid run e d = Inr d' \<and> same_story d' x'"
  using assms(2)
proof (cases rule: apply_script_effect_cases)
  case flag
  with assms(1) show ?thesis
    by (auto simp: apply_script_effect_def apply_flag_effect_def same_story_def Let_def split: if_splits option.splits)
next
  case progress
  with assms(1) show ?thesis
    by (auto simp: apply_script_effect_def apply_progress_effect_def same_story_def Let_def split: if_splits option.splits)
next
  case yen
  with assms(1) show ?thesis
    by (auto simp: apply_script_effect_def apply_yen_effect_def same_story_def Let_def lift_store_def split: if_splits option.splits sum.splits)
next
  case item
  with assms(1) show ?thesis
    by (auto simp: apply_script_effect_def apply_inventory_effect_def same_story_def Let_def lift_store_def split: if_splits option.splits sum.splits)
qed

lemma apply_effects_story:
  "same_story d x \<Longrightarrow> apply_effects cid run p es x = Inr x' \<Longrightarrow> \<exists>d'. apply_effects cid run p es d = Inr d' \<and> same_story d' x'"
proof (induction es arbitrary: p d x)
  case (Cons e es)
  from Cons.prems(2) obtain x1 x2 where n: "\<not> se_effect_sequence e \<le> p" and i: "insert_effect run e x = Inr x1"
    and a: "apply_script_effect cid run e x1 = Inr x2" and r: "apply_effects cid run (se_effect_sequence e) es x2 = Inr x'"
    by (auto split: if_splits sum.splits)
  obtain d1 where d1: "insert_effect run e d = Inr d1" "same_story d1 x1"
    using i Cons.prems(1) by (auto simp: insert_effect_Inr same_story_def)
  obtain d2 where d2: "apply_script_effect cid run e d1 = Inr d2" "same_story d2 x2"
    using apply_script_effect_story [OF d1(2) a] by blast
  obtain d' where "apply_effects cid run (se_effect_sequence e) es d2 = Inr d'" "same_story d' x'"
    using Cons.IH [OF d2(2) r] by blast
  then show ?case using n d1(1) d2(1) by simp
qed simp

lemma apply_effects_snoc:
  "apply_effects cid run p (es @ [e]) d = Inr d' \<Longrightarrow>
     \<exists>d1 d2. apply_effects cid run p es d = Inr d1 \<and> insert_effect run e d1 = Inr d2 \<and> apply_script_effect cid run e d2 = Inr d'"
  by (induction es arbitrary: p d) (auto split: if_splits sum.splits)

text \<open>If the staged effects were committed now, the state shown would be the state stored.\<close>

definition would_store :: "int \<Rightarrow> int \<Rightarrow> event_state \<Rightarrow> 'j script_db \<Rightarrow> bool" where
  "would_store cid run st d \<longleftrightarrow> db_ok (sd_economy d)
     \<and> (\<forall>d'. apply_effects cid run 0 (es_effects st) d = Inr d' \<longrightarrow> state_stored cid (es_state st) d')"

lemma would_store_story: "would_store cid run st d \<Longrightarrow> same_story d x \<Longrightarrow> would_store cid run st x"
  unfolding would_store_def
proof (intro conjI allI impI)
  assume w: "db_ok (sd_economy d) \<and> (\<forall>d'. apply_effects cid run 0 (es_effects st) d = Inr d' \<longrightarrow> state_stored cid (es_state st) d')"
    and s: "same_story d x"
  show "db_ok (sd_economy x)" using w s by (simp add: same_story_def)
  fix x' assume "apply_effects cid run 0 (es_effects st) x = Inr x'"
  then obtain d' where "apply_effects cid run 0 (es_effects st) d = Inr d'" "same_story d' x'" using apply_effects_story [OF s] by blast
  with w show "state_stored cid (es_state st) x'" by (simp add: state_stored_def same_story_def)
qed

lemma would_store_stage:
  assumes "would_store cid run st d" and "stage e st = Inr st'"
  shows "would_store cid run st' d"
  unfolding would_store_def
proof (intro conjI allI impI)
  show ok: "db_ok (sd_economy d)" using assms(1) by (simp add: would_store_def)
  have eff: "es_effects st' = es_effects st @ [event_effect e]" using assms(2) by (auto simp: stage_def split: sum.splits)
  fix d' assume "apply_effects cid run 0 (es_effects st') d = Inr d'"
  then obtain d1 d2 where d1: "apply_effects cid run 0 (es_effects st) d = Inr d1" and d2: "insert_effect run (event_effect e) d1 = Inr d2"
    and a: "apply_script_effect cid run (event_effect e) d2 = Inr d'"
    unfolding eff using apply_effects_snoc by blast
  have "state_stored cid (es_state st) d1" using assms(1) d1 by (simp add: would_store_def)
  then have "state_stored cid (es_state st) d2" using d2 by (simp add: insert_effect_Inr state_stored_def)
  moreover have "db_ok (sd_economy d2)"
    using apply_effects_done [OF d1] store_writes_ok ok d2 by (auto simp: insert_effect_Inr)
  ultimately show "state_stored cid (es_state st') d'" using stage_stored(1) [OF _ assms(2) a] by blast
qed

lemma finish_event_stores:
  assumes "finish_event m run token expected (es_effects st) status completion d = Inr (n, d')" and "would_store cid run st d"
    and "\<forall>r\<in>set (sd_runs d). rn_id r = run \<longrightarrow> rn_character r = cid"
  shows "state_stored cid (es_state st) d'" and "sd_revision d' cid = Some n" and "db_ok (sd_economy d')"
proof -
  obtain r d1 where r: "r \<in> set (sd_runs d)" "holds_live_lease (at_database m) run token r"
    and a: "apply_effects (rn_character r) run 0 (es_effects st) d = Inr d1"
    and d': "d' = update_runs (\<lambda>r. rn_id r = run) (\<lambda>r. finish_run (at_database m) status (r\<lparr>rn_completion_requested := completion\<rparr>))
          (d1\<lparr>sd_revision := (sd_revision d1)(rn_character r \<mapsto> n)\<rparr>)"
    using finish_event_Inr [OF assms(1)] by blast
  have c: "rn_character r = cid" using r assms(3) by (auto simp: holds_live_lease_def holds_lease_def)
  have "state_stored cid (es_state st) d1" using assms(2) a c by (simp add: would_store_def)
  then show "state_stored cid (es_state st) d'" by (simp add: d' state_stored_def)
  show "sd_revision d' cid = Some n" by (simp add: d' c)
  have "db_ok (sd_economy d1)" using apply_effects_done [OF a] store_writes_ok assms(2) by (auto simp: would_store_def)
  then show "db_ok (sd_economy d')" by (simp add: d')
qed

lemma insert_run_Inr: "insert_run r d = Inr d' \<Longrightarrow> d' = d\<lparr>sd_runs := sd_runs d @ [r]\<rparr>"
  by (auto simp: insert_run_def split: if_splits)

lemma start_fields:
  assumes "start_published_event m account cid s excluded d = Inr (p, d')"
  shows "\<exists>c scene. active_character (sd_economy d) cid = Some c
     \<and> pb_state p = load_script_state cid scene (ch_yen c) (map_get_or 0 (sd_revision d) cid) d
     \<and> same_story d d' \<and> pb_character p = cid \<and> pb_account p = account \<and> pb_run p = at_run_id m
     \<and> pb_version p \<notin> set excluded \<and> pb_version p \<in> vs_id ` set (sd_versions d) \<and> sd_versions d' = sd_versions d
     \<and> (\<exists>r. sd_runs d' = sd_runs (expire_runs (at_database m) cid d) @ [r] \<and> rn_id r = pb_run p \<and> rn_character r = cid)"
proof -
  obtain t c world candidate r d2 where n: "active_character (sd_economy d) cid = Some c"
    and v: "resolve_published_trigger t excluded (expire_runs (at_database m) cid d) = Inr candidate"
    and d2: "d2 = (expire_runs (at_database m) cid d)\<lparr>sd_revision := (sd_revision (expire_runs (at_database m) cid d))
        (cid \<mapsto> map_get_or 0 (sd_revision (expire_runs (at_database m) cid d)) cid)\<rparr>"
    and i: "insert_run r d2 = Inr d'" "rn_id r = at_run_id m" "rn_character r = cid"
    and p: "pb_state p = load_script_state cid (if ts_area t \<noteq> '''' then ts_area t else world) (ch_yen c)
        (map_get_or 0 (sd_revision (expire_runs (at_database m) cid d)) cid) d2"
      "pb_character p = cid" "pb_account p = account" "pb_run p = at_run_id m" "pb_version p = tc_version candidate"
    using assms unfolding start_published_event_def Let_def
    by (auto split: sum.splits option.splits if_splits)
  have x: "sd_revision (expire_runs (at_database m) cid d) = sd_revision d" "sd_versions (expire_runs (at_database m) cid d) = sd_versions d"
    "same_story d (expire_runs (at_database m) cid d)"
    by (simp_all add: expire_runs_def update_runs_def same_story_def)
  have "pb_state p = load_script_state cid (if ts_area t \<noteq> '''' then ts_area t else world) (ch_yen c) (map_get_or 0 (sd_revision d) cid) d"
    using p(1) x by (simp add: load_script_state_def d2 same_story_def)
  moreover have "same_story d d'" "sd_versions d' = sd_versions d" using insert_run_Inr [OF i(1)] x by (simp_all add: d2 same_story_def)
  moreover have "pb_version p \<notin> set excluded" "pb_version p \<in> vs_id ` set (sd_versions d)"
    using resolved_version [OF v] p(5) x(2) by simp_all
  moreover have "sd_runs d' = sd_runs (expire_runs (at_database m) cid d) @ [r]" using insert_run_Inr [OF i(1)] by (simp add: d2)
  ultimately show ?thesis using n i p by auto
qed

lemma start_would_store:
  assumes "start_published_event m account cid s excluded d = Inr (p, d')" and "db_ok (sd_economy d)"
  shows "would_store cid (pb_run p) \<lparr>es_state = pb_state p, es_facts = facts, es_effects = []\<rparr> d'"
proof -
  obtain c scene where c: "active_character (sd_economy d) cid = Some c" and story: "same_story d d'"
    and s: "pb_state p = load_script_state cid scene (ch_yen c) (map_get_or 0 (sd_revision d) cid) d"
    using start_fields [OF assms(1)] by blast
  have "would_store cid (pb_run p) \<lparr>es_state = pb_state p, es_facts = facts, es_effects = []\<rparr> d"
    using assms(2) c
    by (auto simp: would_store_def state_stored_def s load_script_state_def active_character_Some quantity_of_def map_get_or_def)
  then show ?thesis by (rule would_store_story [OF _ story])
qed

end
