(* ===== verification/ScriptEngine.thy ===== *)
theory ScriptEngine
  imports ScriptState
begin

text \<open>
  The engine of scripted events, \<open>internal/scriptevent/engine.go\<close>: it starts the script a trigger
  resolves to, pumps the runtime's events until the player has to see something, and commits the staged
  effects when the script completes or passes the trigger on.

  The engine's two interfaces are records of functions, as its repository and its runtime are Go
  interfaces: \<open>repository\<close> over a database and \<open>runtime_api\<close> over a session. \<open>store_repository\<close> and
  \<open>bridge_api\<close> are what the server passes for them. What the surroundings decide is \<open>engine_env\<close>: the
  moment of each repository call, the random integers (by the sequence number of the query) and the
  rendering of errors as text.

  An event in progress is a value; where the code changes it through the pointer in \<open>active\<close>, the value
  is written back when the operation returns. One engine operation runs undisturbed: the code holds the
  event's lock, and each repository call is a transaction of its own. Closing a session kills its process;
  here the session is dropped with the event. The loop of \<open>pump\<close> and the
  dispatch to the next candidate take fuel, none left is \<open>None\<close>; the liveness theorem says how much is
  enough.
\<close>

section \<open>Interfaces\<close>

record ('j, 'db) repository =
  rp_start :: "moment \<Rightarrow> int \<Rightarrow> int \<Rightarrow> trigger_selector \<Rightarrow> int list \<Rightarrow> 'db \<Rightarrow> script_error + published_event \<times> 'db"
  rp_renew :: "moment \<Rightarrow> int \<Rightarrow> string \<Rightarrow> 'db \<Rightarrow> script_error + int \<times> 'db"
  rp_cancel :: "moment \<Rightarrow> int \<Rightarrow> string \<Rightarrow> 'db \<Rightarrow> script_error + unit \<times> 'db"
  rp_fail :: "moment \<Rightarrow> int \<Rightarrow> string \<Rightarrow> string \<Rightarrow> string \<Rightarrow> 'db \<Rightarrow> script_error + unit \<times> 'db"
  rp_complete :: "moment \<Rightarrow> int \<Rightarrow> string \<Rightarrow> int \<Rightarrow> script_effect list \<Rightarrow> 'db \<Rightarrow> script_error + int \<times> 'db"
  rp_pass :: "moment \<Rightarrow> int \<Rightarrow> string \<Rightarrow> int \<Rightarrow> script_effect list \<Rightarrow> 'db \<Rightarrow> script_error + int \<times> 'db"
  rp_record :: "moment \<Rightarrow> int \<Rightarrow> string \<Rightarrow> 'j trace_step \<Rightarrow> 'db \<Rightarrow> script_error + unit \<times> 'db"

record 's runtime_api =
  ra_start :: "start_request \<Rightarrow> runtime_error + 's"
  ra_exchange :: "yarn_input option \<Rightarrow> 's \<Rightarrow> (runtime_error + yarn_event) \<times> 's"
  ra_close :: "'s \<Rightarrow> 's"

datatype trace_payload = TracedInput yarn_input | TracedEvent yarn_event

definition store_repository :: "(trace_payload, trace_payload script_db) repository" where
  "store_repository = \<lparr>rp_start = start_published_event, rp_renew = renew_event, rp_cancel = cancel_event,
     rp_fail = fail_event, rp_complete = complete_event, rp_pass = pass_event, rp_record = record_event_step (\<lambda>_. True)\<rparr>"

definition bridge_api :: "'p runtime_process \<Rightarrow> registry \<Rightarrow> 'p session runtime_api" where
  "bridge_api pr r = \<lparr>ra_start = start_session pr r, ra_exchange = exchange pr, ra_close = close_session pr\<rparr>"

section \<open>State\<close>

record presented_option =
  po_id :: int
  po_available :: bool
  po_substitutions :: "string list"
  po_line :: compiled_line

record yield_result =
  yl_run :: int
  yl_script :: int
  yl_version :: int
  yl_slug :: string
  yl_event :: yarn_event
  yl_line :: "compiled_line option"
  yl_options :: "presented_option list"
  yl_state :: "script_state option"

datatype engine_error =
    EngineNotFound
  | EngineStore script_error
  | EngineRuntime runtime_error
  | EngineEvent event_error
  | DuplicateOption int
  | OptionLineMissing string
  | NoAvailableOption
  | LineMissing string
  | LatePass
  | CompletionRequired
  | NoDisposition string
  | UnexpectedEvent string
  | FailureNotRecorded engine_error script_error

record 's active_event =
  ae_record :: published_event
  ae_session :: 's
  ae_state :: event_state
  ae_completion_requested :: bool
  ae_visible :: bool
  ae_excluded :: "int list"
  ae_lines :: "string \<rightharpoonup> compiled_line"
  ae_ordinal :: int
  ae_sequence :: int

record ('s, 'db) engine =
  eg_active :: "int \<rightharpoonup> 's active_event"
  eg_db :: 'db
  eg_calls :: nat

record engine_env =
  en_moment :: "nat \<Rightarrow> moment"
  en_random :: "int \<Rightarrow> int \<Rightarrow> int \<Rightarrow> int option"
  en_error_text :: "engine_error \<Rightarrow> string"

definition query_names :: "string list" where
  "query_names = [''flag_set'', ''progress_value'', ''has_item'', ''yen'', ''actor_present'', ''in_scene'', ''game_hour'',
     ''game_date_on_or_after'', ''random_integer'', ''actor_in_bounds'']"

definition durable_commands :: "string list" where
  "durable_commands = [''set_flag'', ''clear_flag'', ''set_progress'', ''increment_progress'', ''give_item'', ''remove_item'',
     ''grant_yen'', ''spend_yen'']"

definition external_commands :: "string list" where
  "external_commands = [''play_player_motion'', ''look_at_actor'', ''clear_actor_look'', ''start_camera'', ''stop_camera'',
     ''play_sequence'', ''start_activity'']"

datatype setup_error = BadRegistry registry_error | NoQueryResolver string | NoCommandDisposition string

definition entry_problem :: "command_schema \<Rightarrow> setup_error option" where
  "entry_problem e =
     (if cs_kind e = ''function'' \<and> cs_name e \<notin> set query_names then Some (NoQueryResolver (cs_name e))
      else if cs_kind e = ''command'' \<and> cs_name e \<notin> set durable_commands \<and> cs_name e \<notin> set external_commands
              \<and> cs_name e \<noteq> ''complete'' \<and> cs_name e \<noteq> ''pass_trigger''
      then Some (NoCommandDisposition (cs_name e))
      else None)"

definition new_engine :: "registry \<Rightarrow> 'db \<Rightarrow> setup_error + ('s, 'db) engine" where
  "new_engine r d =
     (case validate_registry r of
        Some e \<Rightarrow> Inl (BadRegistry e)
      | None \<Rightarrow>
          (case find (\<lambda>e. entry_problem e \<noteq> None) (rg_entries r) of
            Some e \<Rightarrow> Inl (the (entry_problem e))
          | None \<Rightarrow> Inr \<lparr>eg_active = Map.empty, eg_db = d, eg_calls = 0\<rparr>))"

section \<open>Repository calls\<close>

definition call_repository ::
  "engine_env \<Rightarrow> (moment \<Rightarrow> 'db \<Rightarrow> script_error + 'a \<times> 'db) \<Rightarrow> ('s, 'db) engine \<Rightarrow> (script_error + 'a) \<times> ('s, 'db) engine" where
  "call_repository env f g =
     (let g' = g\<lparr>eg_calls := Suc (eg_calls g)\<rparr> in
      case f (en_moment env (eg_calls g)) (eg_db g) of
        Inl e \<Rightarrow> (Inl e, g')
      | Inr (x, d) \<Rightarrow> (Inr x, g'\<lparr>eg_db := d\<rparr>))"

definition remove_active :: "'s active_event \<Rightarrow> ('s, 'db) engine \<Rightarrow> ('s, 'db) engine" where
  "remove_active a g = g\<lparr>eg_active := (eg_active g)(pb_run (ae_record a) := None)\<rparr>"

definition keep_active :: "'s active_event \<Rightarrow> ('s, 'db) engine \<Rightarrow> ('s, 'db) engine" where
  "keep_active a g = g\<lparr>eg_active := (eg_active g)(pb_run (ae_record a) \<mapsto> a)\<rparr>"

definition fail_active ::
  "engine_env \<Rightarrow> ('j, 'db) repository \<Rightarrow> 's active_event \<Rightarrow> string \<Rightarrow> engine_error \<Rightarrow> ('s, 'db) engine
     \<Rightarrow> (engine_error + yield_result) \<times> ('s, 'db) engine" where
  "fail_active env rp a code cause g =
     (case call_repository env (\<lambda>m. rp_fail rp m (pb_run (ae_record a)) (pb_token (ae_record a)) code (en_error_text env cause))
             (remove_active a g) of
        (Inl e, g') \<Rightarrow> (Inl (if e = ScriptEventEnded then cause else FailureNotRecorded cause e), g')
      | (Inr _, g') \<Rightarrow> (Inl cause, g'))"

definition record_trace ::
  "engine_env \<Rightarrow> (trace_payload, 'db) repository \<Rightarrow> 's active_event \<Rightarrow> int \<Rightarrow> string \<Rightarrow> string \<Rightarrow> trace_payload \<Rightarrow> ('s, 'db) engine
     \<Rightarrow> (script_error + 's active_event) \<times> ('s, 'db) engine" where
  "record_trace env rp a sequence direction kind payload g =
     (let st = \<lparr>tp_ordinal = ae_ordinal a + 1, tp_runtime_sequence = sequence, tp_direction = direction, tp_kind = kind, tp_payload = payload\<rparr> in
      case call_repository env (\<lambda>m. rp_record rp m (pb_run (ae_record a)) (pb_token (ae_record a)) st) g of
        (Inl e, g') \<Rightarrow> (Inl e, g')
      | (Inr _, g') \<Rightarrow> (Inr (a\<lparr>ae_ordinal := tp_ordinal st\<rparr>), g'))"

section \<open>Yields\<close>

definition make_yield :: "'s active_event \<Rightarrow> yarn_event \<Rightarrow> yield_result" where
  "make_yield a e =
     \<lparr>yl_run = pb_run (ae_record a), yl_script = pb_script (ae_record a), yl_version = pb_version (ae_record a),
      yl_slug = pb_slug (ae_record a), yl_event = e,
      yl_line = (if ev_type e = ''line'' then ae_lines a (ev_line_id e) else None), yl_options = [], yl_state = None\<rparr>"

fun present_options ::
  "(string \<rightharpoonup> compiled_line) \<Rightarrow> int list \<Rightarrow> yarn_option list \<Rightarrow> engine_error + presented_option list" where
  "present_options ls seen [] = Inr []"
| "present_options ls seen (x # xs) =
     (if yo_id x \<in> set seen then Inl (DuplicateOption (yo_id x))
      else case ls (yo_line_id x) of
        None \<Rightarrow> Inl (OptionLineMissing (yo_line_id x))
      | Some l \<Rightarrow>
          if ln_text l = None then Inl (OptionLineMissing (yo_line_id x))
          else case present_options ls (yo_id x # seen) xs of
            Inl e \<Rightarrow> Inl e
          | Inr ps \<Rightarrow> Inr (\<lparr>po_id = yo_id x, po_available = yo_available x, po_substitutions = yo_substitutions x, po_line = l\<rparr> # ps))"

definition offered_options :: "(string \<rightharpoonup> compiled_line) \<Rightarrow> yarn_option list \<Rightarrow> engine_error + presented_option list" where
  "offered_options ls xs =
     (case present_options ls [] xs of
        Inl e \<Rightarrow> Inl e
      | Inr ps \<Rightarrow> if list_ex po_available ps then Inr ps else Inl NoAvailableOption)"

section \<open>One event\<close>

datatype ('s, 'db) reaction =
    Again "'s active_event" "yarn_input option" "('s, 'db) engine"
  | Stop "engine_error + yield_result" "('s, 'db) engine"
  | PassOn "'s active_event" yarn_event "('s, 'db) engine"

definition stop_failed ::
  "engine_env \<Rightarrow> ('j, 'db) repository \<Rightarrow> 's active_event \<Rightarrow> string \<Rightarrow> engine_error \<Rightarrow> ('s, 'db) engine \<Rightarrow> ('s, 'db) reaction" where
  "stop_failed env rp a code cause g = (case fail_active env rp a code cause g of (r, g') \<Rightarrow> Stop r g')"

definition stop_visible :: "'s active_event \<Rightarrow> yield_result \<Rightarrow> ('s, 'db) engine \<Rightarrow> ('s, 'db) reaction" where
  "stop_visible a y g = Stop (Inr y) (keep_active (a\<lparr>ae_visible := True\<rparr>) g)"

definition set_revision :: "int \<Rightarrow> 's active_event \<Rightarrow> 's active_event" where
  "set_revision n a = a\<lparr>ae_state := (ae_state a)\<lparr>es_state := (es_state (ae_state a))\<lparr>ss_revision := n\<rparr>\<rparr>\<rparr>"

definition state_yield :: "'s active_event \<Rightarrow> yarn_event \<Rightarrow> yield_result" where
  "state_yield a e = (make_yield a e)\<lparr>yl_state := Some (es_state (ae_state a))\<rparr>"

definition react_query ::
  "engine_env \<Rightarrow> ('j, 'db) repository \<Rightarrow> yarn_event \<Rightarrow> 's active_event \<Rightarrow> ('s, 'db) engine \<Rightarrow> ('s, 'db) reaction" where
  "react_query env rp e a g =
     (case resolve_query (en_random env (ev_sequence e)) e (ae_state a) of
        Inl err \<Rightarrow> stop_failed env rp a ''query'' (EngineEvent err) g
      | Inr v \<Rightarrow> Again a (Some (query_result (case ev_query_id e of Some q \<Rightarrow> q | None \<Rightarrow> 0) v)) g)"

definition react_pass ::
  "engine_env \<Rightarrow> ('j, 'db) repository \<Rightarrow> yarn_event \<Rightarrow> 's active_event \<Rightarrow> ('s, 'db) engine \<Rightarrow> ('s, 'db) reaction" where
  "react_pass env rp e a g =
     (if ae_visible a then stop_failed env rp a ''late_trigger_pass'' LatePass g
      else case call_repository env (\<lambda>m. rp_pass rp m (pb_run (ae_record a)) (pb_token (ae_record a))
                  (ss_revision (pb_state (ae_record a))) (es_effects (ae_state a))) g of
        (Inl err, g') \<Rightarrow> stop_failed env rp a ''pass'' (EngineStore err) g'
      | (Inr n, g') \<Rightarrow> PassOn (set_revision n a) e (remove_active a g'))"

definition react_command ::
  "engine_env \<Rightarrow> ('j, 'db) repository \<Rightarrow> yarn_event \<Rightarrow> 's active_event \<Rightarrow> ('s, 'db) engine \<Rightarrow> ('s, 'db) reaction" where
  "react_command env rp e a g =
     (if ev_name e \<in> set durable_commands then
        (case stage e (ae_state a) of
          Inl err \<Rightarrow> stop_failed env rp a ''effect'' (EngineEvent err) g
        | Inr st \<Rightarrow> Again (a\<lparr>ae_state := st\<rparr>) (Some continue_input) g)
      else if ev_name e = ''complete'' then Again (a\<lparr>ae_completion_requested := True\<rparr>) (Some continue_input) g
      else if ev_name e = ''pass_trigger'' then react_pass env rp e a g
      else if ev_name e \<in> set external_commands then stop_visible a (make_yield a e) g
      else stop_failed env rp a ''command'' (NoDisposition (ev_name e)) g)"

definition react_complete ::
  "engine_env \<Rightarrow> ('j, 'db) repository \<Rightarrow> yarn_event \<Rightarrow> 's active_event \<Rightarrow> ('s, 'db) engine \<Rightarrow> ('s, 'db) reaction" where
  "react_complete env rp e a g =
     (if \<not> ae_completion_requested a then stop_failed env rp a ''completion_required'' CompletionRequired g
      else case call_repository env (\<lambda>m. rp_complete rp m (pb_run (ae_record a)) (pb_token (ae_record a))
                  (ss_revision (pb_state (ae_record a))) (es_effects (ae_state a))) g of
        (Inl err, g') \<Rightarrow> stop_failed env rp a ''commit'' (EngineStore err) g'
      | (Inr n, g') \<Rightarrow> Stop (Inr (state_yield (set_revision n a) e)) (remove_active a g'))"

definition react_cancelled ::
  "engine_env \<Rightarrow> ('j, 'db) repository \<Rightarrow> yarn_event \<Rightarrow> 's active_event \<Rightarrow> ('s, 'db) engine \<Rightarrow> ('s, 'db) reaction" where
  "react_cancelled env rp e a g =
     (case call_repository env (\<lambda>m. rp_cancel rp m (pb_run (ae_record a)) (pb_token (ae_record a))) g of
        (Inl err, g') \<Rightarrow> stop_failed env rp a ''cancel'' (EngineStore err) g'
      | (Inr _, g') \<Rightarrow> Stop (Inr (make_yield a e)) (remove_active a g'))"

definition react ::
  "engine_env \<Rightarrow> ('j, 'db) repository \<Rightarrow> yarn_event \<Rightarrow> 's active_event \<Rightarrow> ('s, 'db) engine \<Rightarrow> ('s, 'db) reaction" where
  "react env rp e a g =
     (let t = ev_type e in
      if t = ''nodeStart'' \<or> t = ''nodeComplete'' then Again a None g
      else if t = ''query'' then react_query env rp e a g
      else if t = ''command'' then react_command env rp e a g
      else if t = ''line'' then
        (case ae_lines a (ev_line_id e) of
          None \<Rightarrow> stop_failed env rp a ''line'' (LineMissing (ev_line_id e)) g
        | Some _ \<Rightarrow> stop_visible a (make_yield a e) g)
      else if t = ''options'' then
        (case offered_options (ae_lines a) (ev_options e) of
          Inl err \<Rightarrow> stop_failed env rp a ''options'' err g
        | Inr ps \<Rightarrow> stop_visible a ((make_yield a e)\<lparr>yl_options := ps\<rparr>) g)
      else if t = ''cancelled'' then react_cancelled env rp e a g
      else if t = ''complete'' then react_complete env rp e a g
      else stop_failed env rp a ''protocol'' (UnexpectedEvent t) g)"

text \<open>One turn of the loop: the input is traced and sent, the event that answers is traced and handled.\<close>

definition pump_turn ::
  "engine_env \<Rightarrow> (trace_payload, 'db) repository \<Rightarrow> 's runtime_api \<Rightarrow> 's active_event \<Rightarrow> yarn_input option \<Rightarrow> ('s, 'db) engine
     \<Rightarrow> ('s, 'db) reaction" where
  "pump_turn env rp ra a input g =
     (case (case input of
          None \<Rightarrow> (Inr a, g)
        | Some i \<Rightarrow> record_trace env rp a (ae_sequence a) ''controller'' (in_type i) (TracedInput i) g) of
        (Inl err, g1) \<Rightarrow> stop_failed env rp a ''trace'' (EngineStore err) g1
      | (Inr a1, g1) \<Rightarrow>
          (case ra_exchange ra input (ae_session a1) of
            (Inl err, s) \<Rightarrow> stop_failed env rp (a1\<lparr>ae_session := s\<rparr>) ''runtime'' (EngineRuntime err) g1
          | (Inr e, s) \<Rightarrow>
              (case record_trace env rp (a1\<lparr>ae_session := s\<rparr>) (ev_sequence e) ''runtime'' (ev_type e) (TracedEvent e) g1 of
                (Inl err, g2) \<Rightarrow> stop_failed env rp (a1\<lparr>ae_session := s\<rparr>) ''trace'' (EngineStore err) g2
              | (Inr a2, g2) \<Rightarrow> react env rp e (a2\<lparr>ae_sequence := ev_sequence e\<rparr>) g2)))"

section \<open>The loop and the dispatch\<close>

definition new_active :: "published_event \<Rightarrow> 's \<Rightarrow> world_facts \<Rightarrow> int list \<Rightarrow> 's active_event" where
  "new_active p s facts excluded =
     \<lparr>ae_record = p, ae_session = s, ae_state = \<lparr>es_state = pb_state p, es_facts = facts, es_effects = []\<rparr>,
      ae_completion_requested = False, ae_visible = False, ae_excluded = excluded,
      ae_lines = map_of (rev (map (\<lambda>l. (ln_id l, l)) (pb_lines p))), ae_ordinal = 0, ae_sequence = 0\<rparr>"

definition declined_event :: "yarn_event \<Rightarrow> yarn_event" where
  "declined_event e = blank_event\<lparr>ev_type := ''declined'', ev_sequence := ev_sequence e, ev_name := ''pass_trigger''\<rparr>"

definition event_request :: "published_event \<Rightarrow> start_request" where
  "event_request p = \<lparr>sr_program = pb_program p, sr_start_node = pb_entry p, sr_variables = []\<rparr>"

fun is_not_found :: "engine_error \<Rightarrow> bool" where
  "is_not_found EngineNotFound = True"
| "is_not_found (EngineStore (StoreError ErrNotFound)) = True"
| "is_not_found _ = False"

fun pump ::
  "nat \<Rightarrow> engine_env \<Rightarrow> (trace_payload, 'db) repository \<Rightarrow> 's runtime_api \<Rightarrow> 's active_event \<Rightarrow> yarn_input option \<Rightarrow> ('s, 'db) engine
     \<Rightarrow> ((engine_error + yield_result) \<times> ('s, 'db) engine) option"
and start_candidate ::
  "nat \<Rightarrow> engine_env \<Rightarrow> (trace_payload, 'db) repository \<Rightarrow> 's runtime_api \<Rightarrow> int \<Rightarrow> int \<Rightarrow> trigger_selector \<Rightarrow> world_facts \<Rightarrow> int list
     \<Rightarrow> ('s, 'db) engine \<Rightarrow> ((engine_error + yield_result) \<times> ('s, 'db) engine) option" where
  "pump 0 env rp ra a input g = None"
| "pump (Suc n) env rp ra a input g =
     (case pump_turn env rp ra a input g of
        Again a' input' g' \<Rightarrow> pump n env rp ra a' input' g'
      | Stop r g' \<Rightarrow> Some (r, g')
      | PassOn a' e g' \<Rightarrow>
          (case start_candidate n env rp ra (pb_account (ae_record a')) (pb_character (ae_record a')) (pb_trigger (ae_record a'))
                  (es_facts (ae_state a')) (ae_excluded a' @ [pb_version (ae_record a')]) g' of
            None \<Rightarrow> None
          | Some (Inl err, g'') \<Rightarrow>
              Some (if is_not_found err then Inr (state_yield a' (declined_event e)) else Inl err, g'')
          | Some (Inr y, g'') \<Rightarrow> Some (Inr y, g'')))"
| "start_candidate 0 env rp ra account cid selector facts excluded g = None"
| "start_candidate (Suc n) env rp ra account cid selector facts excluded g =
     (case call_repository env (\<lambda>m. rp_start rp m account cid selector excluded) g of
        (Inl err, g1) \<Rightarrow> Some (Inl (EngineStore err), g1)
      | (Inr p, g1) \<Rightarrow>
          (case ra_start ra (event_request p) of
            Inl err \<Rightarrow>
              (case call_repository env (\<lambda>m. rp_fail rp m (pb_run p) (pb_token p) ''runtime_start'' (en_error_text env (EngineRuntime err))) g1 of
                (_, g2) \<Rightarrow> Some (Inl (EngineRuntime err), g2))
          | Inr s \<Rightarrow> let a = new_active p s facts excluded in pump n env rp ra a None (keep_active a g1)))"

definition start_event ::
  "nat \<Rightarrow> engine_env \<Rightarrow> (trace_payload, 'db) repository \<Rightarrow> 's runtime_api \<Rightarrow> int \<Rightarrow> int \<Rightarrow> trigger_selector \<Rightarrow> world_facts
     \<Rightarrow> ('s, 'db) engine \<Rightarrow> ((engine_error + yield_result) \<times> ('s, 'db) engine) option" where
  "start_event n env rp ra account cid selector facts g = start_candidate n env rp ra account cid selector facts [] g"

definition advance_event ::
  "nat \<Rightarrow> engine_env \<Rightarrow> (trace_payload, 'db) repository \<Rightarrow> 's runtime_api \<Rightarrow> int \<Rightarrow> int \<Rightarrow> int \<Rightarrow> yarn_input
     \<Rightarrow> ('s, 'db) engine \<Rightarrow> ((engine_error + yield_result) \<times> ('s, 'db) engine) option" where
  "advance_event n env rp ra account cid run input g =
     (case eg_active g run of
        None \<Rightarrow> Some (Inl EngineNotFound, g)
      | Some a \<Rightarrow>
          if pb_character (ae_record a) \<noteq> cid \<or> pb_account (ae_record a) \<noteq> account then Some (Inl EngineNotFound, g)
          else case call_repository env (\<lambda>m. rp_renew rp m run (pb_token (ae_record a))) g of
            (Inl err, g1) \<Rightarrow> Some (Inl (EngineStore err), remove_active a g1)
          | (Inr _, g1) \<Rightarrow> pump n env rp ra a (Some input) g1)"

end
