(* ===== verification/ScriptContract.thy ===== *)
theory ScriptContract
  imports ScriptEngine
begin

text \<open>
  What the engine of scripted events promises, for every repository that keeps the laws of
  \<open>event_repository\<close>: a turn that fails leaves the story alone, what a player is shown at the end of a
  script is what the repository holds, and with a runtime that emits finitely many events every
  operation returns (\<open>dispatching_repository\<close>). The store is shown to keep the laws in
  \<open>ScriptEngineRuns\<close>.
\<close>

section \<open>The contract of the repository\<close>

locale event_repository =
  fixes rp :: "(trace_payload, 'db) repository"
    and sound :: "'db \<Rightarrow> bool"
    and consistent :: "published_event \<Rightarrow> event_state \<Rightarrow> 'db \<Rightarrow> bool"
    and shown :: "int \<Rightarrow> script_state \<Rightarrow> 'db \<Rightarrow> bool"
    and story :: "'db \<Rightarrow> 'st"
  assumes start_law: "sound d \<Longrightarrow> rp_start rp m account cid s excluded d = Inr (p, d') \<Longrightarrow>
      sound d' \<and> story d' = story d \<and> pb_character p = cid
      \<and> consistent p \<lparr>es_state = pb_state p, es_facts = w, es_effects = []\<rparr> d'"
    and record_law: "sound d \<Longrightarrow> rp_record rp m run token st d = Inr (u, d') \<Longrightarrow>
      sound d' \<and> story d' = story d \<and> (consistent p es d \<longrightarrow> consistent p es d')"
    and renew_law: "sound d \<Longrightarrow> rp_renew rp m run token d = Inr (t, d') \<Longrightarrow>
      sound d' \<and> story d' = story d \<and> (consistent p es d \<longrightarrow> consistent p es d')"
    and cancel_law: "sound d \<Longrightarrow> rp_cancel rp m run token d = Inr (u, d') \<Longrightarrow> sound d' \<and> story d' = story d"
    and fail_law: "sound d \<Longrightarrow> rp_fail rp m run token code msg d = Inr (u, d') \<Longrightarrow> sound d' \<and> story d' = story d"
    and stage_law: "consistent p es d \<Longrightarrow> stage e es = Inr es' \<Longrightarrow> consistent p es' d"
    and complete_law: "sound d \<Longrightarrow> consistent p es d \<Longrightarrow>
      rp_complete rp m (pb_run p) (pb_token p) revision (es_effects es) d = Inr (n, d') \<Longrightarrow>
      sound d' \<and> shown (pb_character p) ((es_state es)\<lparr>ss_revision := n\<rparr>) d'"
    and pass_law: "sound d \<Longrightarrow> consistent p es d \<Longrightarrow>
      rp_pass rp m (pb_run p) (pb_token p) revision (es_effects es) d = Inr (n, d') \<Longrightarrow>
      sound d' \<and> shown (pb_character p) ((es_state es)\<lparr>ss_revision := n\<rparr>) d'"
    and found_law: "rp_record rp m run token st d \<noteq> Inl (StoreError ErrNotFound)"
      "rp_cancel rp m run token d \<noteq> Inl (StoreError ErrNotFound)"
      "rp_complete rp m run token revision effs d \<noteq> Inl (StoreError ErrNotFound)"
      "rp_pass rp m run token revision effs d \<noteq> Inl (StoreError ErrNotFound)"
begin

definition live :: "'s active_event \<Rightarrow> ('s, 'db) engine \<Rightarrow> bool" where
  "live a g \<longleftrightarrow> sound (eg_db g) \<and> consistent (ae_record a) (ae_state a) (eg_db g)"

lemma keep_active_fields [simp]: "eg_db (keep_active a g) = eg_db g" "eg_db (remove_active a g) = eg_db g"
  "eg_active (keep_active a g) = (eg_active g)(pb_run (ae_record a) \<mapsto> a)"
  "eg_active (remove_active a g) = (eg_active g)(pb_run (ae_record a) := None)"
  by (simp_all add: keep_active_def remove_active_def)

lemma call_active: "call_repository env f g = (q, g') \<Longrightarrow> eg_active g' = eg_active g"
  by (auto simp: call_repository_def Let_def split: sum.splits)

lemma call_Inl: "call_repository env f g = (Inl e, g') \<Longrightarrow> eg_db g' = eg_db g \<and> f (en_moment env (eg_calls g)) (eg_db g) = Inl e"
  by (auto simp: call_repository_def Let_def split: sum.splits)

lemma call_Inr: "call_repository env f g = (Inr x, g') \<Longrightarrow> f (en_moment env (eg_calls g)) (eg_db g) = Inr (x, eg_db g')"
  by (auto simp: call_repository_def Let_def split: sum.splits)

lemma fail_active_result:
  assumes "fail_active env rp a code cause g = (r, g')" and "sound (eg_db g)"
  shows "\<exists>err. r = Inl err \<and> (is_not_found err \<longrightarrow> is_not_found cause)" "sound (eg_db g')" "story (eg_db g') = story (eg_db g)"
proof -
  obtain q h where c: "call_repository env (\<lambda>m. rp_fail rp m (pb_run (ae_record a)) (pb_token (ae_record a)) code (en_error_text env cause))
      (remove_active a g) = (q, h)" by fastforce
  have r: "r = Inl (case q of Inl e \<Rightarrow> if e = ScriptEventEnded then cause else FailureNotRecorded cause e | Inr _ \<Rightarrow> cause)" "g' = h"
    using assms(1) c by (auto simp: fail_active_def split: sum.splits)
  show "\<exists>err. r = Inl err \<and> (is_not_found err \<longrightarrow> is_not_found cause)" using r(1) by (auto split: sum.splits)
  show "sound (eg_db g')" "story (eg_db g') = story (eg_db g)"
    using call_Inl [of env _ "remove_active a g"] call_Inr [of env _ "remove_active a g"] c assms(2) r(2) fail_law
    by (cases q; fastforce)+
qed

text \<open>A turn: how it may end and what it leaves.\<close>

definition turn_ok :: "'s active_event \<Rightarrow> ('s, 'db) engine \<Rightarrow> ('s, 'db) reaction \<Rightarrow> bool" where
  "turn_ok a g t \<longleftrightarrow>
     (case t of
        Again a' _ g' \<Rightarrow> live a' g' \<and> ae_record a' = ae_record a \<and> story (eg_db g') = story (eg_db g)
      | Stop (Inl err) g' \<Rightarrow> sound (eg_db g') \<and> story (eg_db g') = story (eg_db g) \<and> \<not> is_not_found err
      | Stop (Inr y) g' \<Rightarrow> sound (eg_db g') \<and> yl_run y = pb_run (ae_record a)
          \<and> (\<forall>a'. eg_active g' (yl_run y) = Some a' \<longrightarrow> live a' g')
          \<and> (case yl_state y of
               Some s \<Rightarrow> shown (pb_character (ae_record a)) s (eg_db g')
             | None \<Rightarrow> story (eg_db g') = story (eg_db g) \<and> (ev_type (yl_event y) \<noteq> ''cancelled'' \<longrightarrow> eg_active g' (yl_run y) \<noteq> None))
      | PassOn a' e g' \<Rightarrow> ae_record a' = ae_record a \<and> sound (eg_db g') \<and> eg_active g' (pb_run (ae_record a)) = None \<and> shown (pb_character (ae_record a)) (es_state (ae_state a')) (eg_db g'))"

lemma stop_failed_ok:
  assumes "sound (eg_db g)" and "story (eg_db g) = story (eg_db g0)" and "\<not> is_not_found cause"
  shows "turn_ok b g0 (stop_failed env rp a code cause g)"
proof -
  obtain r g' where f: "fail_active env rp a code cause g = (r, g')" by fastforce
  show ?thesis using fail_active_result [OF f assms(1)] assms(2,3) by (auto simp: stop_failed_def f turn_ok_def)
qed

lemma stop_visible_ok:
  assumes "live a g" and "story (eg_db g) = story (eg_db g0)" and "ae_record a = ae_record b"
    and "yl_run y = pb_run (ae_record a)" and "yl_state y = None"
  shows "turn_ok b g0 (stop_visible a y g)"
  using assms by (auto simp: stop_visible_def turn_ok_def live_def)

lemma make_yield_fields [simp]: "yl_run (make_yield a e) = pb_run (ae_record a)" "yl_state (make_yield a e) = None"
  "yl_event (make_yield a e) = e"
  by (simp_all add: make_yield_def)

lemma state_yield_fields [simp]: "yl_run (state_yield a e) = pb_run (ae_record a)" "yl_state (state_yield a e) = Some (es_state (ae_state a))"
  by (simp_all add: state_yield_def)

lemma set_revision_fields [simp]: "ae_record (set_revision n a) = ae_record a"
  "es_state (ae_state (set_revision n a)) = (es_state (ae_state a))\<lparr>ss_revision := n\<rparr>"
  by (simp_all add: set_revision_def)

lemma not_found_store [simp]: "is_not_found (EngineStore err) \<longleftrightarrow> err = StoreError ErrNotFound"
  by (cases "EngineStore err" rule: is_not_found.cases) auto

text \<open>What a turn has when it starts from event \<open>b\<close> in state \<open>g0\<close> and has not yet ended.\<close>

definition in_turn :: "'s active_event \<Rightarrow> ('s, 'db) engine \<Rightarrow> 's active_event \<Rightarrow> ('s, 'db) engine \<Rightarrow> bool" where
  "in_turn b g0 a g \<longleftrightarrow> live a g \<and> ae_record a = ae_record b \<and> story (eg_db g) = story (eg_db g0)"

lemma in_turn_failed: "in_turn b g0 a g \<Longrightarrow> \<not> is_not_found cause \<Longrightarrow> eg_db g' = eg_db g \<Longrightarrow> turn_ok b g0 (stop_failed env rp a' code cause g')"
  by (rule stop_failed_ok) (simp_all add: in_turn_def live_def)

lemma in_turn_visible: "in_turn b g0 a g \<Longrightarrow> yl_run y = pb_run (ae_record a) \<Longrightarrow> yl_state y = None \<Longrightarrow> turn_ok b g0 (stop_visible a y g)"
  by (rule stop_visible_ok) (simp_all add: in_turn_def)

lemma in_turnD: "in_turn b g0 a g \<Longrightarrow> sound (eg_db g)" "in_turn b g0 a g \<Longrightarrow> consistent (ae_record a) (ae_state a) (eg_db g)"
  "in_turn b g0 a g \<Longrightarrow> ae_record a = ae_record b" "in_turn b g0 a g \<Longrightarrow> story (eg_db g) = story (eg_db g0)"
  unfolding in_turn_def live_def by blast+

lemma in_turn_update: "in_turn b g0 a g \<Longrightarrow> ae_record a' = ae_record a \<Longrightarrow> ae_state a' = ae_state a \<Longrightarrow> in_turn b g0 a' g"
  unfolding in_turn_def live_def by metis

lemma in_turn_again: "in_turn b g0 a g \<Longrightarrow> turn_ok b g0 (Again a i g)"
  by (simp add: in_turn_def turn_ok_def)

lemma react_pass_ok:
  assumes "in_turn b g0 a g"
  shows "turn_ok b g0 (react_pass env rp e a g)"
proof (cases "ae_visible a")
  case True
  show ?thesis unfolding react_pass_def if_P [OF True] by (rule in_turn_failed [OF assms]) simp_all
next
  case False
  obtain q g' where c: "call_repository env (\<lambda>m. rp_pass rp m (pb_run (ae_record a)) (pb_token (ae_record a))
      (ss_revision (pb_state (ae_record a))) (es_effects (ae_state a))) g = (q, g')" by fastforce
  show ?thesis
  proof (cases q)
    case (Inl err)
    note x = call_Inl [OF c [unfolded Inl]]
    have "turn_ok b g0 (stop_failed env rp a ''pass'' (EngineStore err) g')"
      by (rule in_turn_failed [OF assms]) (use x found_law in \<open>auto\<close>)
    then show ?thesis by (simp add: react_pass_def False c Inl)
  next
    case (Inr n)
    have "sound (eg_db g') \<and> shown (pb_character (ae_record a)) ((es_state (ae_state a))\<lparr>ss_revision := n\<rparr>) (eg_db g')"
      by (rule pass_law [OF in_turnD(1,2) [OF assms] call_Inr [OF c [unfolded Inr]]])
    moreover have "react_pass env rp e a g = PassOn (set_revision n a) e (remove_active a g')" by (simp add: react_pass_def False c Inr)
    ultimately show ?thesis using in_turnD(3) [OF assms] by (simp add: turn_ok_def)
  qed
qed

lemma react_complete_ok:
  assumes "in_turn b g0 a g"
  shows "turn_ok b g0 (react_complete env rp e a g)"
proof (cases "ae_completion_requested a")
  case False
  show ?thesis unfolding react_complete_def if_P [OF False] by (rule in_turn_failed [OF assms]) simp_all
next
  case True
  obtain q g' where c: "call_repository env (\<lambda>m. rp_complete rp m (pb_run (ae_record a)) (pb_token (ae_record a))
      (ss_revision (pb_state (ae_record a))) (es_effects (ae_state a))) g = (q, g')" by fastforce
  show ?thesis
  proof (cases q)
    case (Inl err)
    note x = call_Inl [OF c [unfolded Inl]]
    have "turn_ok b g0 (stop_failed env rp a ''commit'' (EngineStore err) g')"
      by (rule in_turn_failed [OF assms]) (use x found_law in \<open>auto\<close>)
    then show ?thesis by (simp add: react_complete_def True c Inl)
  next
    case (Inr n)
    have "sound (eg_db g') \<and> shown (pb_character (ae_record a)) ((es_state (ae_state a))\<lparr>ss_revision := n\<rparr>) (eg_db g')"
      by (rule complete_law [OF in_turnD(1,2) [OF assms] call_Inr [OF c [unfolded Inr]]])
    moreover have "react_complete env rp e a g = Stop (Inr (state_yield (set_revision n a) e)) (remove_active a g')"
      by (simp add: react_complete_def True c Inr)
    ultimately show ?thesis using in_turnD(3) [OF assms] by (simp add: turn_ok_def)
  qed
qed

lemma react_cancelled_ok:
  assumes "in_turn b g0 a g" and "ev_type e = ''cancelled''"
  shows "turn_ok b g0 (react_cancelled env rp e a g)"
proof -
  obtain q g' where c: "call_repository env (\<lambda>m. rp_cancel rp m (pb_run (ae_record a)) (pb_token (ae_record a))) g = (q, g')" by fastforce
  show ?thesis
  proof (cases q)
    case (Inl err)
    note x = call_Inl [OF c [unfolded Inl]]
    have "turn_ok b g0 (stop_failed env rp a ''cancel'' (EngineStore err) g')"
      by (rule in_turn_failed [OF assms(1)]) (use x found_law in \<open>auto\<close>)
    then show ?thesis by (simp add: react_cancelled_def c Inl)
  next
    case (Inr u)
    have "sound (eg_db g') \<and> story (eg_db g') = story (eg_db g)"
      by (rule cancel_law [OF in_turnD(1) [OF assms(1)] call_Inr [OF c [unfolded Inr]]])
    moreover have "react_cancelled env rp e a g = Stop (Inr (make_yield a e)) (remove_active a g')" by (simp add: react_cancelled_def c Inr)
    ultimately show ?thesis using in_turnD(3,4) [OF assms(1)] assms(2) by (simp add: turn_ok_def)
  qed
qed

lemma react_query_ok: "in_turn b g0 a g \<Longrightarrow> turn_ok b g0 (react_query env rp e a g)"
  unfolding react_query_def by (cases "resolve_query (en_random env (ev_sequence e)) e (ae_state a)")
    (simp_all add: in_turn_again in_turn_failed)

lemma react_command_ok:
  assumes "in_turn b g0 a g"
  shows "turn_ok b g0 (react_command env rp e a g)"
proof (cases "ev_name e \<in> set durable_commands")
  case True
  show ?thesis
  proof (cases "stage e (ae_state a)")
    case (Inl err)
    then show ?thesis using True assms by (simp add: react_command_def in_turn_failed)
  next
    case (Inr st)
    have "in_turn b g0 (a\<lparr>ae_state := st\<rparr>) g"
      using in_turnD [OF assms] stage_law [OF in_turnD(2) [OF assms] Inr] by (simp add: in_turn_def live_def)
    from in_turn_again [OF this] show ?thesis using True by (simp add: react_command_def Inr)
  qed
next
  case False
  have "in_turn b g0 (a\<lparr>ae_completion_requested := True\<rparr>) g" by (rule in_turn_update [OF assms]) simp_all
  with False assms show ?thesis
    by (auto simp: react_command_def in_turn_again react_pass_ok in_turn_visible in_turn_failed)
qed

lemma react_ok:
  assumes "in_turn b g0 a g"
  shows "turn_ok b g0 (react env rp e a g)"
proof -
  have "\<not> is_not_found err" if "present_options ls seen xs = Inl err" for ls seen xs err
    using that by (induction ls seen xs arbitrary: err rule: present_options.induct) (auto split: if_splits option.splits sum.splits)
  then have o: "\<not> is_not_found err" if "offered_options ls xs = Inl err" for ls xs err
    using that by (auto simp: offered_options_def split: if_splits sum.splits)
  then show ?thesis using assms
    by (auto simp: react_def Let_def in_turn_again react_query_ok react_command_ok react_cancelled_ok react_complete_ok
        in_turn_visible in_turn_failed split: option.split sum.split)
qed

lemma record_trace_ok:
  assumes "record_trace env rp a sequence direction kind payload g = (q, g')" and "in_turn b g0 a g"
  shows "(\<exists>err. q = Inl err \<and> err \<noteq> StoreError ErrNotFound \<and> eg_db g' = eg_db g)
    \<or> (\<exists>n. q = Inr (a\<lparr>ae_ordinal := n\<rparr>) \<and> in_turn b g0 (a\<lparr>ae_ordinal := n\<rparr>) g')"
proof -
  let ?st = "\<lparr>tp_ordinal = ae_ordinal a + 1, tp_runtime_sequence = sequence, tp_direction = direction, tp_kind = kind, tp_payload = payload\<rparr>"
  obtain r h where c: "call_repository env (\<lambda>m. rp_record rp m (pb_run (ae_record a)) (pb_token (ae_record a)) ?st) g = (r, h)" by fastforce
  show ?thesis
  proof (cases r)
    case (Inl err)
    with assms(1) c call_Inl [OF c [unfolded Inl]] found_law(1) show ?thesis by (auto simp: record_trace_def Let_def)
  next
    case (Inr u)
    have "sound (eg_db h) \<and> story (eg_db h) = story (eg_db g) \<and> (consistent (ae_record a) (ae_state a) (eg_db g) \<longrightarrow> consistent (ae_record a) (ae_state a) (eg_db h))"
      using record_law [OF _ call_Inr [OF c [unfolded Inr]]] assms(2) by (simp add: in_turn_def live_def)
    with assms c Inr show ?thesis by (auto simp: record_trace_def Let_def in_turn_def live_def)
  qed
qed

lemma pump_turn_ok:
  assumes "live a g"
  shows "turn_ok a g (pump_turn env rp ra a input g)"
proof -
  obtain q g1 where q: "(case input of None \<Rightarrow> (Inr a, g)
      | Some i \<Rightarrow> record_trace env rp a (ae_sequence a) ''controller'' (in_type i) (TracedInput i) g) = (q, g1)" by fastforce
  have a: "in_turn a g a g" using assms by (simp add: in_turn_def)
  have q': "(\<exists>err. q = Inl err \<and> err \<noteq> StoreError ErrNotFound \<and> eg_db g1 = eg_db g) \<or> (\<exists>a1. q = Inr a1 \<and> in_turn a g a1 g1)"
  proof (cases input)
    case None
    with q a show ?thesis by auto
  next
    case (Some i)
    with q record_trace_ok [OF _ a] show ?thesis by fastforce
  qed
  show ?thesis
  proof (cases q)
    case (Inl err)
    have "turn_ok a g (stop_failed env rp a ''trace'' (EngineStore err) g1)" by (rule in_turn_failed [OF a]) (use q' Inl in auto)
    then show ?thesis by (simp add: pump_turn_def q Inl)
  next
    case (Inr a1)
    with q' have a1: "in_turn a g a1 g1" by blast
    obtain x s where x: "ra_exchange ra input (ae_session a1) = (x, s)" by fastforce
    have as: "in_turn a g (a1\<lparr>ae_session := s\<rparr>) g1" by (rule in_turn_update [OF a1]) simp_all
    show ?thesis
    proof (cases x)
      case (Inl err)
      have "turn_ok a g (stop_failed env rp (a1\<lparr>ae_session := s\<rparr>) ''runtime'' (EngineRuntime err) g1)" by (rule in_turn_failed [OF a1]) simp_all
      then show ?thesis by (simp add: pump_turn_def q Inr x Inl)
    next
      case e: (Inr e)
      obtain r g2 where r: "record_trace env rp (a1\<lparr>ae_session := s\<rparr>) (ev_sequence e) ''runtime'' (ev_type e) (TracedEvent e) g1 = (r, g2)" by fastforce
      from record_trace_ok [OF r as] show ?thesis
      proof (elim disjE exE conjE)
        fix err assume err: "r = Inl err" "err \<noteq> StoreError ErrNotFound" "eg_db g2 = eg_db g1"
        have "turn_ok a g (stop_failed env rp (a1\<lparr>ae_session := s\<rparr>) ''trace'' (EngineStore err) g2)" by (rule in_turn_failed [OF a1]) (use err in auto)
        then show ?thesis by (simp add: pump_turn_def q Inr x e r err(1))
      next
        fix n assume n: "r = Inr (a1\<lparr>ae_session := s\<rparr>\<lparr>ae_ordinal := n\<rparr>)" "in_turn a g (a1\<lparr>ae_session := s\<rparr>\<lparr>ae_ordinal := n\<rparr>) g2"
        have "in_turn a g (a1\<lparr>ae_session := s, ae_ordinal := n, ae_sequence := ev_sequence e\<rparr>) g2"
          by (rule in_turn_update [OF n(2)]) simp_all
        from react_ok [OF this] show ?thesis by (simp add: pump_turn_def q Inr x e r n(1))
      qed
    qed
  qed
qed

text \<open>An operation: what the player is told is so.\<close>

definition outcome_ok :: "int \<Rightarrow> engine_error + yield_result \<Rightarrow> ('s, 'db) engine \<Rightarrow> bool" where
  "outcome_ok cid r g \<longleftrightarrow> sound (eg_db g)
     \<and> (case r of
          Inl _ \<Rightarrow> True
        | Inr y \<Rightarrow> (\<forall>a. eg_active g (yl_run y) = Some a \<longrightarrow> live a g)
            \<and> (case yl_state y of
                 Some s \<Rightarrow> shown cid s (eg_db g)
               | None \<Rightarrow> ev_type (yl_event y) \<noteq> ''cancelled'' \<longrightarrow> eg_active g (yl_run y) \<noteq> None))"

lemma pump_start_ok:
  shows "pump n env rp ra a input g = Some (r, g') \<Longrightarrow> live a g \<Longrightarrow>
           outcome_ok (pb_character (ae_record a)) r g' \<and> (\<forall>err. r = Inl err \<longrightarrow> \<not> is_not_found err)"
    and "start_candidate n env rp ra account cid selector facts excluded g = Some (r, g') \<Longrightarrow> sound (eg_db g) \<Longrightarrow>
           outcome_ok cid r g' \<and> (\<forall>err. r = Inl err \<longrightarrow> is_not_found err \<longrightarrow> eg_db g' = eg_db g \<and> eg_active g' = eg_active g)"
proof (induction n arbitrary: a input g r g' account cid selector facts excluded)
  case (Suc n)
  {
    case 1
    note t = pump_turn_ok [OF 1(2), of env ra input]
    show ?case
    proof (cases "pump_turn env rp ra a input g")
      case (Again a' input' g1)
      then have "live a' g1" "ae_record a' = ae_record a" using t by (simp_all add: turn_ok_def)
      with Suc.IH(1) [of a' input' g1 r g'] 1(1) Again show ?thesis by simp
    next
      case (Stop q g1)
      with 1(1) have "q = r" "g1 = g'" by simp_all
      with t Stop show ?thesis by (auto simp: turn_ok_def outcome_ok_def split: sum.splits option.splits)
    next
      case (PassOn a' e g1)
      then have p: "ae_record a' = ae_record a" "sound (eg_db g1)" "shown (pb_character (ae_record a)) (es_state (ae_state a')) (eg_db g1)"
        "eg_active g1 (pb_run (ae_record a)) = None"
        using t by (simp_all add: turn_ok_def)
      obtain q g2 where c: "start_candidate n env rp ra (pb_account (ae_record a')) (pb_character (ae_record a')) (pb_trigger (ae_record a'))
          (es_facts (ae_state a')) (ae_excluded a' @ [pb_version (ae_record a')]) g1 = Some (q, g2)"
        using 1(1) PassOn by (auto split: option.splits)
      note ih = Suc.IH(2) [OF c p(2)]
      show ?thesis
      proof (cases q)
        case (Inr y)
        with 1(1) PassOn c have "r = Inr y" "g' = g2" by simp_all
        with ih Inr p(1) show ?thesis by simp
      next
        case (Inl err)
        with 1(1) PassOn c have r: "r = (if is_not_found err then Inr (state_yield a' (declined_event e)) else Inl err)" "g' = g2"
          by (simp_all split: if_splits)
        show ?thesis
        proof (cases "is_not_found err")
          case True
          with ih Inl p r show ?thesis by (auto simp: outcome_ok_def)
        next
          case False
          with ih Inl p r show ?thesis by (auto simp: outcome_ok_def)
        qed
      qed
    qed
  next
    case 2
    obtain q g1 where c: "call_repository env (\<lambda>m. rp_start rp m account cid selector excluded) g = (q, g1)" by fastforce
    show ?case
    proof (cases q)
      case (Inl err)
      with call_Inl [OF c [unfolded Inl]] call_active [OF c] 2 c show ?thesis by (auto simp: outcome_ok_def)
    next
      case (Inr p)
      have d: "sound (eg_db g1)" "pb_character p = cid" "consistent p \<lparr>es_state = pb_state p, es_facts = facts, es_effects = []\<rparr> (eg_db g1)"
        using start_law [OF 2(2) call_Inr [OF c [unfolded Inr]]] by blast+
      show ?thesis
      proof (cases "ra_start ra (event_request p)")
        case (Inl err)
        obtain u g2 where f: "call_repository env (\<lambda>m. rp_fail rp m (pb_run p) (pb_token p) ''runtime_start'' (en_error_text env (EngineRuntime err))) g1 = (u, g2)"
          by fastforce
        have "sound (eg_db g2)" using call_Inl [of env _ g1 _ g2] call_Inr [of env _ g1 _ g2] f d(1) fail_law by (cases u; fastforce)
        with 2(1) c Inr Inl f show ?thesis by (auto simp: outcome_ok_def)
      next
        case s: (Inr s)
        have a: "live (new_active p s facts excluded) (keep_active (new_active p s facts excluded) g1)"
          using d by (simp add: live_def new_active_def)
        have "pump n env rp ra (new_active p s facts excluded) None (keep_active (new_active p s facts excluded) g1) = Some (r, g')"
          using 2(1) c Inr s by (simp add: Let_def)
        from Suc.IH(1) [OF this a] d(2) show ?thesis by (simp add: new_active_def)
      qed
    qed
  }
qed simp_all

lemma start_event_ok:
  "start_event n env rp ra account cid selector facts g = Some (r, g') \<Longrightarrow> sound (eg_db g) \<Longrightarrow> outcome_ok cid r g'"
  unfolding start_event_def using pump_start_ok(2) by blast

lemma advance_event_ok:
  assumes "advance_event n env rp ra account cid run input g = Some (r, g')" and "sound (eg_db g)"
    and act: "\<And>a. eg_active g run = Some a \<Longrightarrow> live a g"
  shows "outcome_ok cid r g'"
proof (cases "eg_active g run")
  case None
  with assms(1,2) show ?thesis by (auto simp: advance_event_def outcome_ok_def)
next
  case (Some a)
  show ?thesis
  proof (cases "pb_character (ae_record a) \<noteq> cid \<or> pb_account (ae_record a) \<noteq> account")
    case True
    with assms(1,2) Some show ?thesis by (auto simp: advance_event_def outcome_ok_def)
  next
    case False
    obtain q g1 where c: "call_repository env (\<lambda>m. rp_renew rp m run (pb_token (ae_record a))) g = (q, g1)" by fastforce
    show ?thesis
    proof (cases q)
      case (Inl err)
      with assms(1,2) Some False c call_Inl [OF c [unfolded Inl]] show ?thesis by (auto simp: advance_event_def outcome_ok_def)
    next
      case (Inr t)
      have "live a g1" using act [OF Some] renew_law [OF assms(2) call_Inr [OF c [unfolded Inr]]] unfolding live_def by blast
      moreover have "pump n env rp ra a (Some input) g1 = Some (r, g')" using assms(1) Some False c Inr by (simp add: advance_event_def)
      ultimately show ?thesis using pump_start_ok(1) False by blast
    qed
  qed
qed

end

section \<open>Dispatch ends\<close>

text \<open>A runtime that emits at most \<open>K\<close> events in a session, \<open>left\<close> of them to come.\<close>

definition runtime_bounded :: "'s runtime_api \<Rightarrow> ('s \<Rightarrow> nat) \<Rightarrow> nat \<Rightarrow> bool" where
  "runtime_bounded ra left K \<longleftrightarrow>
     (\<forall>q s. ra_start ra q = Inr s \<longrightarrow> left s \<le> K) \<and> (\<forall>i s e s'. ra_exchange ra i s = (Inr e, s') \<longrightarrow> left s' < left s)"

locale dispatching_repository = event_repository rp sound consistent shown story
  for rp :: "(trace_payload, 'db) repository" and sound :: "'db \<Rightarrow> bool" and consistent :: "published_event \<Rightarrow> event_state \<Rightarrow> 'db \<Rightarrow> bool"
    and shown :: "int \<Rightarrow> script_state \<Rightarrow> 'db \<Rightarrow> bool" and story :: "'db \<Rightarrow> 'st" +
  fixes content :: "'db \<Rightarrow> int set"
  assumes finite_content: "finite (content d)"
    and start_picks: "rp_start rp m account cid s excluded d = Inr (p, d') \<Longrightarrow>
      pb_version p \<in> content d - set excluded \<and> content d' = content d"
    and record_content: "rp_record rp m run token st d = Inr (u, d') \<Longrightarrow> content d' = content d"
    and renew_content: "rp_renew rp m run token d = Inr (t, d') \<Longrightarrow> content d' = content d"
    and pass_content: "rp_pass rp m run token revision effs d = Inr (n, d') \<Longrightarrow> content d' = content d"
begin

lemma record_trace_content:
  "record_trace env rp a sequence direction kind payload g = (Inr a', g') \<Longrightarrow>
     content (eg_db g') = content (eg_db g) \<and> (\<exists>n. a' = a\<lparr>ae_ordinal := n\<rparr>)"
  by (auto simp: record_trace_def Let_def split: sum.splits prod.splits dest!: call_Inr record_content)

lemma react_content:
  assumes "react env rp e a g = t"
  shows "case t of Again a' _ g' \<Rightarrow> ae_record a' = ae_record a \<and> ae_excluded a' = ae_excluded a \<and> ae_session a' = ae_session a \<and> content (eg_db g') = content (eg_db g)
    | PassOn a' _ g' \<Rightarrow> ae_record a' = ae_record a \<and> ae_excluded a' = ae_excluded a \<and> content (eg_db g') = content (eg_db g)
    | Stop _ _ \<Rightarrow> True"
  using assms pass_content
  by (auto simp: react_def react_query_def react_command_def react_cancelled_def react_complete_def react_pass_def stop_failed_def
      stop_visible_def set_revision_def Let_def split: sum.splits prod.splits option.splits if_splits dest!: call_Inr)

lemma pump_turn_content:
  assumes "pump_turn env rp ra a input g = t" and "runtime_bounded ra left K"
  shows "case t of Again a' _ g' \<Rightarrow> ae_record a' = ae_record a \<and> ae_excluded a' = ae_excluded a \<and> left (ae_session a') < left (ae_session a) \<and> content (eg_db g') = content (eg_db g)
    | PassOn a' _ g' \<Rightarrow> ae_record a' = ae_record a \<and> ae_excluded a' = ae_excluded a \<and> 0 < left (ae_session a) \<and> content (eg_db g') = content (eg_db g)
    | Stop _ _ \<Rightarrow> True"
proof (cases "\<exists>r g'. t = Stop r g'")
  case True
  then show ?thesis by auto
next
  case False
  then obtain a1 g1 e s a2 g2 where
    i: "(case input of None \<Rightarrow> (Inr a, g) | Some i \<Rightarrow> record_trace env rp a (ae_sequence a) ''controller'' (in_type i) (TracedInput i) g) = (Inr a1, g1)"
    and x: "ra_exchange ra input (ae_session a1) = (Inr e, s)"
    and o: "record_trace env rp (a1\<lparr>ae_session := s\<rparr>) (ev_sequence e) ''runtime'' (ev_type e) (TracedEvent e) g1 = (Inr a2, g2)"
    and t: "react env rp e (a2\<lparr>ae_sequence := ev_sequence e\<rparr>) g2 = t"
    using assms(1) by (auto simp: pump_turn_def stop_failed_def split: prod.splits sum.splits)
  have "content (eg_db g1) = content (eg_db g) \<and> ae_record a1 = ae_record a \<and> ae_excluded a1 = ae_excluded a \<and> ae_session a1 = ae_session a"
    using i by (auto split: option.splits dest!: record_trace_content)
  moreover have "content (eg_db g2) = content (eg_db g1) \<and> ae_record a2 = ae_record a1 \<and> ae_excluded a2 = ae_excluded a1 \<and> ae_session a2 = s"
    using record_trace_content [OF o] by auto
  moreover have "left s < left (ae_session a1)" using assms(2) x by (auto simp: runtime_bounded_def)
  ultimately show ?thesis using react_content [OF t] by (auto split: reaction.splits)
qed

text \<open>Enough fuel: every candidate costs at most \<open>K + 2\<close>.\<close>

definition need_start :: "nat \<Rightarrow> int list \<Rightarrow> 'db \<Rightarrow> nat" where
  "need_start K excluded d = card (content d - set excluded) * (K + 2) + 1"

lemma pump_start_returns:
  assumes "runtime_bounded ra left K"
  shows "left (ae_session a) + need_start K (ae_excluded a @ [pb_version (ae_record a)]) (eg_db g) \<le> n \<Longrightarrow>
      pump n env rp ra a input g \<noteq> None"
    and "need_start K excluded (eg_db g) \<le> n \<Longrightarrow> start_candidate n env rp ra account cid selector facts excluded g \<noteq> None"
proof (induction n arbitrary: a input g account cid selector facts excluded)
  case (Suc n)
  {
    case 1
    note t = pump_turn_content [OF refl assms, where a = a and env = env and input = input and g = g]
    show ?case
    proof (cases "pump_turn env rp ra a input g")
      case (Again a' input' g1)
      then have "left (ae_session a') + need_start K (ae_excluded a' @ [pb_version (ae_record a')]) (eg_db g1) \<le> n"
        using t 1 by (simp add: need_start_def)
      with Suc.IH(1) Again show ?thesis by simp
    next
      case (Stop q g1)
      then show ?thesis by simp
    next
      case (PassOn a' e g1)
      then have "need_start K (ae_excluded a' @ [pb_version (ae_record a')]) (eg_db g1) \<le> n"
        using t 1 by (simp add: need_start_def)
      with Suc.IH(2) PassOn show ?thesis by (fastforce split: option.split sum.split)
    qed
  next
    case 2
    obtain q g1 where c: "call_repository env (\<lambda>m. rp_start rp m account cid selector excluded) g = (q, g1)" by fastforce
    show ?case
    proof (cases q)
      case (Inl err)
      with c show ?thesis by simp
    next
      case (Inr p)
      have p: "pb_version p \<in> content (eg_db g) - set excluded" "content (eg_db g1) = content (eg_db g)"
        using start_picks [OF call_Inr [OF c [unfolded Inr]]] by blast+
      show ?thesis
      proof (cases "ra_start ra (event_request p)")
        case (Inl err)
        with c Inr show ?thesis by (simp split: prod.split)
      next
        case s: (Inr s)
        let ?a = "new_active p s facts excluded"
        have "card (content (eg_db g) - set excluded) = Suc (card (content (eg_db g) - set (excluded @ [pb_version p])))"
        proof -
          have "content (eg_db g) - set (excluded @ [pb_version p]) = (content (eg_db g) - set excluded) - {pb_version p}" by auto
          then show ?thesis using card_Suc_Diff1 [OF finite_Diff [OF finite_content] p(1)] by simp
        qed
        moreover have "left s \<le> K" using assms s unfolding runtime_bounded_def by blast
        ultimately have "left (ae_session ?a) + need_start K (ae_excluded ?a @ [pb_version (ae_record ?a)]) (eg_db (keep_active ?a g1)) \<le> n"
          using 2 p(2) \<open>left s \<le> K\<close> by (simp add: need_start_def new_active_def)
        from Suc.IH(1) [OF this] show ?thesis using c Inr s by (simp add: Let_def)
      qed
    qed
  }
qed (simp_all add: need_start_def)

lemma start_event_returns:
  "runtime_bounded ra left K \<Longrightarrow> card (content (eg_db g)) * (K + 2) + 1 \<le> n \<Longrightarrow>
     start_event n env rp ra account cid selector facts g \<noteq> None"
  unfolding start_event_def by (rule pump_start_returns(2)) (simp_all add: need_start_def)

lemma advance_event_returns:
  assumes "runtime_bounded ra left K" and "card (content (eg_db g)) * (K + 2) + 1 + K \<le> n"
    and "\<And>a. eg_active g run = Some a \<Longrightarrow> left (ae_session a) \<le> K"
  shows "advance_event n env rp ra account cid run input g \<noteq> None"
proof (cases "eg_active g run")
  case None
  then show ?thesis by (simp add: advance_event_def)
next
  case (Some a)
  obtain q g1 where c: "call_repository env (\<lambda>m. rp_renew rp m run (pb_token (ae_record a))) g = (q, g1)" by fastforce
  show ?thesis
  proof (cases q)
    case (Inl err)
    with Some c show ?thesis by (simp add: advance_event_def)
  next
    case (Inr t)
    have e: "content (eg_db g1) = content (eg_db g)" using renew_content [OF call_Inr [OF c [unfolded Inr]]] .
    have "card (content (eg_db g) - set (ae_excluded a @ [pb_version (ae_record a)])) \<le> card (content (eg_db g))"
      by (rule card_mono [OF finite_content]) auto
    then have "card (content (eg_db g) - set (ae_excluded a @ [pb_version (ae_record a)])) * (K + 2) \<le> card (content (eg_db g)) * (K + 2)"
      by (rule mult_le_mono1)
    then have "left (ae_session a) + need_start K (ae_excluded a @ [pb_version (ae_record a)]) (eg_db g1) \<le> n"
      using assms(2) assms(3) [OF Some] unfolding need_start_def e by linarith
    from pump_start_returns(1) [OF assms(1) this] show ?thesis using Some c Inr by (simp add: advance_event_def)
  qed
qed

end

end
