(* ===== verification/ScriptEngineRuns.thy ===== *)
theory ScriptEngineRuns
  imports ScriptContract
begin

text \<open>
  The store keeps the contract of the engine, so the engine's promises hold for what the server runs:
  what players see is what is stored, failed turns leave nothing behind, and every operation returns.
\<close>

section \<open>The store keeps the contract\<close>

definition run_owner :: "int \<Rightarrow> int \<Rightarrow> 'j script_db \<Rightarrow> bool" where
  "run_owner cid run d \<longleftrightarrow> (\<forall>r\<in>set (sd_runs d). rn_id r = run \<longrightarrow> rn_character r = cid)"

definition in_step :: "published_event \<Rightarrow> event_state \<Rightarrow> 'j script_db \<Rightarrow> bool" where
  "in_step p st d \<longleftrightarrow> would_store (pb_character p) (pb_run p) st d \<and> run_owner (pb_character p) (pb_run p) d"

definition state_shown :: "int \<Rightarrow> script_state \<Rightarrow> 'j script_db \<Rightarrow> bool" where
  "state_shown cid s d \<longleftrightarrow> state_stored cid s d \<and> sd_revision d cid = Some (ss_revision s)"

definition story_of :: "'j script_db \<Rightarrow> db \<times> (int \<times> string \<rightharpoonup> bool) \<times> (int \<times> string \<rightharpoonup> f64) \<times> (int \<times> script_effect) list" where
  "story_of d = (sd_economy d, sd_flags d, sd_progress d, sd_effects d)"

lemma same_story_of: "same_story d d' \<longleftrightarrow> story_of d' = story_of d"
  by (auto simp: same_story_def story_of_def)

lemma update_runs_story [simp]: "story_of (update_runs P f d) = story_of d" "sd_versions (update_runs P f d) = sd_versions d"
  by (simp_all add: story_of_def update_runs_def)

lemma run_owner_update: "run_owner cid run d \<Longrightarrow> (\<And>r. same_run r (f r)) \<Longrightarrow> run_owner cid run (update_runs P f d)"
  by (auto simp: run_owner_def same_run_def)

lemma in_step_frame:
  fixes d d' :: "'j script_db"
  shows "in_step p st d \<Longrightarrow> story_of d' = story_of d \<Longrightarrow> run_owner (pb_character p) (pb_run p) d' \<Longrightarrow> in_step p st d'"
  unfolding in_step_def by (rule conjI, rule would_store_story [where d = d]) (simp_all add: same_story_of)

lemma record_event_step_Inr: "record_event_step P m run token st d = Inr (u, d') \<Longrightarrow> d' = d\<lparr>sd_trace := sd_trace d @ [(run, st)]\<rparr>"
  by (auto simp: record_event_step_def split: if_splits)

lemma renew_event_Inr: "renew_event m run token d = Inr (t, d') \<Longrightarrow>
    \<exists>P. d' = update_runs P (\<lambda>r. r\<lparr>rn_lease_expires := t\<rparr>) d"
  by (auto simp: renew_event_def Let_def split: if_splits)

lemma cancel_event_Inr: "cancel_event m run token d = Inr (u, d') \<Longrightarrow> \<exists>P f. d' = update_runs P f d"
  by (auto simp: cancel_event_def split: if_splits)

lemma fail_event_Inr: "fail_event m run token code msg d = Inr (u, d') \<Longrightarrow> \<exists>P f. d' = update_runs P f d"
  by (auto simp: fail_event_def Let_def split: if_splits)

lemma finish_event_content: "finish_event m run token revision es st c d = Inr (n, d') \<Longrightarrow> sd_versions d' = sd_versions d"
  by (drule finish_event_Inr) (auto dest!: apply_effects_done)

lemma apply_effects_found: "apply_effects cid run prev es d = Inl err \<Longrightarrow> err \<noteq> StoreError ErrNotFound"
  by (induction es arbitrary: prev d) (auto simp: insert_effect_def split: if_splits sum.splits)

lemma finish_event_found: "finish_event m run token revision es st c d \<noteq> Inl (StoreError ErrNotFound)"
  by (auto simp: finish_event_def Let_def split: if_splits option.splits sum.splits dest: apply_effects_found)

lemma start_in_step:
  assumes "script_ok d" and "start_published_event m account cid s excluded d = Inr (p, d')"
  shows "script_ok d' \<and> story_of d' = story_of d \<and> pb_character p = cid \<and> in_step p \<lparr>es_state = pb_state p, es_facts = w, es_effects = []\<rparr> d'"
proof -
  obtain r where f: "same_story d d'" "pb_character p = cid" "sd_runs d' = sd_runs (expire_runs (at_database m) cid d) @ [r]"
    "rn_id r = pb_run p" "rn_character r = cid"
    using start_fields [OF assms(2)] by blast
  then have r: "r \<in> set (sd_runs d')" by simp
  have ok: "script_ok d'" using start_ok [OF assms] by blast
  have "run_owner cid (pb_run p) d'"
    unfolding run_owner_def using unique_run [OF _ _ r] ok f(4,5) by (auto simp: script_ok_def)
  moreover have "would_store cid (pb_run p) \<lparr>es_state = pb_state p, es_facts = w, es_effects = []\<rparr> d'"
    by (rule start_would_store [OF assms(2)]) (use assms(1) in \<open>simp add: script_ok_def\<close>)
  ultimately show ?thesis using ok f by (simp add: same_story_of in_step_def)
qed

lemma finish_shows:
  assumes "script_ok d" and "in_step p es d"
    and "finish_event m (pb_run p) (pb_token p) revision (es_effects es) st c d = Inr (n, d')" and "c \<longrightarrow> st = RunCompleted"
  shows "script_ok d' \<and> state_shown (pb_character p) ((es_state es)\<lparr>ss_revision := n\<rparr>) d'"
proof -
  have "script_ok d'" using finish_ok [OF assms(1,3,4)] by blast
  moreover have "state_stored (pb_character p) (es_state es) d'" "sd_revision d' (pb_character p) = Some n"
    using finish_event_stores [OF assms(3)] assms(2) by (simp_all add: in_step_def run_owner_def)
  ultimately show ?thesis by (simp add: state_shown_def state_stored_def)
qed

interpretation script_engine: dispatching_repository store_repository script_ok in_step state_shown story_of "\<lambda>d. vs_id ` set (sd_versions d)"
proof
  fix m account cid s excluded p and d d' :: "trace_payload script_db" and w
  assume "script_ok d" and "rp_start store_repository m account cid s excluded d = Inr (p, d')"
  then show "script_ok d' \<and> story_of d' = story_of d \<and> pb_character p = cid \<and> in_step p \<lparr>es_state = pb_state p, es_facts = w, es_effects = []\<rparr> d'"
    by (intro start_in_step) (simp_all add: store_repository_def)
next
  fix m run token st u p es and d d' :: "trace_payload script_db"
  assume ok: "script_ok d" and r: "rp_record store_repository m run token st d = Inr (u, d')"
  have d': "d' = d\<lparr>sd_trace := sd_trace d @ [(run, st)]\<rparr>"
    using r by (intro record_event_step_Inr) (simp add: store_repository_def)
  then have "script_ok d'" "story_of d' = story_of d" using ok by (simp_all add: script_ok_def effects_ok_def story_of_def)
  moreover have "in_step p es d'" if "in_step p es d"
    by (rule in_step_frame [OF that]) (use that in \<open>simp_all add: d' story_of_def in_step_def run_owner_def\<close>)
  ultimately show "script_ok d' \<and> story_of d' = story_of d \<and> (in_step p es d \<longrightarrow> in_step p es d')" by blast
next
  fix m run token t p es and d d' :: "trace_payload script_db"
  assume ok: "script_ok d" and r: "rp_renew store_repository m run token d = Inr (t, d')"
  have r': "renew_event m run token d = Inr (t, d')" using r by (simp add: store_repository_def)
  then obtain P where d': "d' = update_runs P (\<lambda>r. r\<lparr>rn_lease_expires := t\<rparr>) d" using renew_event_Inr by blast
  have "script_ok d'" using script_step_ok [OF run_renewed [OF r'] ok] by blast
  moreover have "in_step p es d'" if "in_step p es d"
    by (rule in_step_frame [OF that]) (use that in \<open>simp_all add: d' in_step_def run_owner_update same_run_def\<close>)
  ultimately show "script_ok d' \<and> story_of d' = story_of d \<and> (in_step p es d \<longrightarrow> in_step p es d')" by (simp add: d')
next
  fix m run token u and d d' :: "trace_payload script_db"
  assume ok: "script_ok d" and r: "rp_cancel store_repository m run token d = Inr (u, d')"
  have "cancel_event m run token d = Inr ((), d')" using r by (simp add: store_repository_def)
  then show "script_ok d' \<and> story_of d' = story_of d" using script_step_ok [OF run_cancelled ok] cancel_event_Inr by fastforce
next
  fix m run token code msg u and d d' :: "trace_payload script_db"
  assume ok: "script_ok d" and r: "rp_fail store_repository m run token code msg d = Inr (u, d')"
  have "fail_event m run token code msg d = Inr ((), d')" using r by (simp add: store_repository_def)
  then show "script_ok d' \<and> story_of d' = story_of d" using script_step_ok [OF run_failed ok] fail_event_Inr by fastforce
next
  show "in_step p es' d" if "in_step p es d" "stage e es = Inr es'" for p es es' e and d :: "trace_payload script_db"
    using that would_store_stage by (auto simp: in_step_def)
next
  fix m p revision es n and d d' :: "trace_payload script_db"
  assume ok: "script_ok d" "in_step p es d" and r: "rp_complete store_repository m (pb_run p) (pb_token p) revision (es_effects es) d = Inr (n, d')"
  have "finish_event m (pb_run p) (pb_token p) revision (es_effects es) RunCompleted True d = Inr (n, d')"
    using r by (simp add: store_repository_def complete_event_def)
  from finish_shows [OF ok this] show "script_ok d' \<and> state_shown (pb_character p) ((es_state es)\<lparr>ss_revision := n\<rparr>) d'" by simp
next
  fix m p revision es n and d d' :: "trace_payload script_db"
  assume ok: "script_ok d" "in_step p es d" and r: "rp_pass store_repository m (pb_run p) (pb_token p) revision (es_effects es) d = Inr (n, d')"
  have "finish_event m (pb_run p) (pb_token p) revision (es_effects es) RunPassed False d = Inr (n, d')"
    using r by (simp add: store_repository_def pass_event_def)
  from finish_shows [OF ok this] show "script_ok d' \<and> state_shown (pb_character p) ((es_state es)\<lparr>ss_revision := n\<rparr>) d'" by simp
next
  fix m account cid s excluded p and d d' :: "trace_payload script_db"
  assume "rp_start store_repository m account cid s excluded d = Inr (p, d')"
  then show "pb_version p \<in> vs_id ` set (sd_versions d) - set excluded \<and> vs_id ` set (sd_versions d') = vs_id ` set (sd_versions d)"
    using start_fields [of m account cid s excluded d p d'] by (auto simp: store_repository_def)
qed (auto simp: store_repository_def record_event_step_def cancel_event_def complete_event_def pass_event_def finish_event_found Let_def
       dest: record_event_step_Inr renew_event_Inr finish_event_content split: if_splits)

section \<open>Properties\<close>







text \<open>A process that writes at most \<open>K\<close> events.\<close>

definition process_bounded :: "'p runtime_process \<Rightarrow> ('p \<Rightarrow> nat) \<Rightarrow> nat \<Rightarrow> bool" where
  "process_bounded pr left K \<longleftrightarrow> (\<forall>p. rp_spawn pr = Some p \<longrightarrow> left p \<le> K)
     \<and> (\<forall>m p ok p'. rp_write pr m p = (ok, p') \<longrightarrow> left p' \<le> left p)
     \<and> (\<forall>p e p'. rp_read pr p = (ReadEvent e, p') \<longrightarrow> left p' < left p)"

lemma bridge_bounded:
  assumes "process_bounded pr left K"
  shows "runtime_bounded (bridge_api pr r) (\<lambda>s. left (se_process s)) K"
proof -
  have "left (se_process s) \<le> K" if s: "start_session pr r q = Inr s" for q s
  proof -
    obtain p m ok p' where "rp_spawn pr = Some p" "rp_write pr m p = (ok, p')" "s = new_session r p'"
      using s by (auto simp: start_session_def Let_def split: if_splits option.splits prod.splits bool.splits)
    then show ?thesis using assms unfolding process_bounded_def new_session_def by (fastforce intro: order_trans)
  qed
  moreover have "left (se_process s') < left (se_process s)" if x: "exchange pr i s = (Inr e, s')" for i s e s'
  proof -
    obtain s1 s2 p where v: "validate_input i s = Inr s1" and w: "send_input pr i s1 = (True, s2)"
      and rd: "rp_read pr (se_process s2) = (ReadEvent e, p)" and e: "validate_event e (s2\<lparr>se_process := p\<rparr>) = (None, s')"
      using x by (auto simp: exchange_def receive_event_def split: if_splits sum.splits prod.splits bool.splits read_result.splits option.splits)
    have "se_process s1 = se_process s" using v by (auto simp: validate_input_def Let_def split: if_splits option.splits)
    moreover have "left (se_process s2) \<le> left (se_process s1)"
      using w assms unfolding process_bounded_def by (fastforce simp: send_input_def split: option.splits prod.splits)
    moreover have "left p < left (se_process s2)" using rd assms unfolding process_bounded_def by blast
    moreover have "se_process s' = p" using e by (auto simp: validate_event_def Let_def split: if_splits option.splits)
    ultimately show ?thesis by simp
  qed
  ultimately show ?thesis by (simp add: runtime_bounded_def bridge_api_def)
qed

text \<open>
  C19: every operation of the engine returns. If the runtime writes at most \<open>K\<close> events in a session,
  starting a script takes at most \<open>K + 2\<close> steps for each version in the database and one more, as a
  version that passed the trigger on is never tried again; going on with a script takes at most \<open>K\<close>
  steps more.
\<close>

theorem operations_return:
  assumes "process_bounded pr left K" and "\<forall>run a. eg_active g run = Some a \<longrightarrow> left (se_process (ae_session a)) \<le> K"
    and "card (vs_id ` set (sd_versions (eg_db g))) * (K + 2) + 1 + K \<le> n"
  shows "start_event n env store_repository (bridge_api pr r) account cid selector facts g \<noteq> None
    \<and> advance_event n env store_repository (bridge_api pr r) account cid run input g \<noteq> None"
  using script_engine.start_event_returns [OF bridge_bounded [OF assms(1)]]
    script_engine.advance_event_returns [OF bridge_bounded [OF assms(1)]] assms(2,3) by simp_all

section \<open>A script on the stage\<close>

definition demo_events :: "yarn_event list" where
  "demo_events =
     [blank_event\<lparr>ev_type := ''nodeStart'', ev_sequence := 1, ev_node := ''Start''\<rparr>,
      blank_event\<lparr>ev_type := ''command'', ev_sequence := 2, ev_name := ''set_flag'',
        ev_arguments := [\<lparr>ar_type = ''string'', ar_static = True, ar_value = Some ''met''\<rparr>]\<rparr>,
      blank_event\<lparr>ev_type := ''command'', ev_sequence := 3, ev_name := ''stop_camera''\<rparr>,
      blank_event\<lparr>ev_type := ''command'', ev_sequence := 4, ev_name := ''complete''\<rparr>,
      blank_event\<lparr>ev_type := ''complete'', ev_sequence := 5\<rparr>]"

definition demo_env :: engine_env where
  "demo_env = \<lparr>en_moment = (\<lambda>_. demo_moment), en_random = (\<lambda>_ _ _. None), en_error_text = (\<lambda>_. ''failed'')\<rparr>"

definition demo_facts :: world_facts where
  "demo_facts = \<lparr>wf_game_hour = None, wf_game_date = None, wf_actor_presence = Map.empty, wf_actor_states = Map.empty,
     wf_actor_bounds = Map.empty, wf_object_existence = Map.empty, wf_activity_results = Map.empty\<rparr>"

definition demo_engine :: "((yarn_event list) session, trace_payload script_db) engine" where
  "demo_engine = \<lparr>eg_active = Map.empty, eg_db = demo_scripts, eg_calls = 0\<rparr>"





theorem operations_return_witness:
  "start_event 13 demo_env store_repository (bridge_api (scripted_process demo_events) shipped_registry) 1 7 sample_selector demo_facts demo_engine \<noteq> None"
proof (rule operations_return [THEN conjunct1])
  show "process_bounded (scripted_process demo_events) length 5"
    by (auto simp: process_bounded_def scripted_process_def demo_events_def split: list.splits)
qed (simp_all add: demo_engine_def demo_scripts_def)








end
