(* ===== verification/ScriptDocument.thy ===== *)
theory ScriptDocument
  imports ScriptContent
begin

text \<open>
  The content of script versions, \<open>internal/scriptcontent\<close>: Yarn source in canonical form (\<open>yarn.go\<close>),
  the answer of the compiler process (\<open>compiler.go\<close>) and the graph documents of recovered references
  (\<open>document.go\<close>).

  The compiler process is a parameter of the store; here is what the server makes of the message it
  prints. A node's configuration is the list of its string values by key, none where it is null: no other
  values are read. Of a compiled node the title is kept, the only field the server reads.
\<close>

section \<open>Canonical source\<close>

definition yarn_content_format :: string where "yarn_content_format = ''yarn''"
definition yarn_content_schema :: string where "yarn_content_schema = ''new-yokosuka-yarn-v1''"
definition yarn_compiler_version :: string where "yarn_compiler_version = ''yarnspinner-3.2.1''"
definition max_yarn_source_bytes :: nat where "max_yarn_source_bytes = 512 * 1024"

definition cr :: char where "cr = CHR 0x0D"
definition lf :: char where "lf = CHR 0x0A"

fun replace_crlf :: "string \<Rightarrow> string" where
  "replace_crlf (a # b # s) = (if a = cr \<and> b = lf then lf # replace_crlf s else a # replace_crlf (b # s))"
| "replace_crlf s = s"

definition replace_cr :: "string \<Rightarrow> string" where
  "replace_cr = map (\<lambda>c. if c = cr then lf else c)"

definition ends_in_newline :: "string \<Rightarrow> bool" where
  "ends_in_newline s \<longleftrightarrow> s \<noteq> [] \<and> last s = lf"

datatype source_error = SourceTooLong | SourceRequired

definition canonical_yarn_source :: "string \<Rightarrow> source_error + string" where
  "canonical_yarn_source source =
     (if max_yarn_source_bytes < length source then Inl SourceTooLong
      else let s = replace_cr (replace_crlf source) in
        if trim_space s = '''' then Inl SourceRequired
        else Inr (if ends_in_newline s then s else s @ [lf]))"

section \<open>Compilations\<close>

datatype document_warning = NoTriggerNode | NoEndNode | UnresolvedNodes nat

text \<open>An analysis with the triggers and warnings the document or the author adds.\<close>

record script_analysis = analysis +
  an_triggers :: "trigger list"
  an_warnings :: "document_warning list"

record compilation =
  cm_valid :: bool
  cm_program :: string
  cm_diagnostics :: "diagnostic list"
  cm_lines :: "compiled_line list"
  cm_nodes :: "string list"
  cm_analysis :: script_analysis

record compiler_diagnostic =
  cd_severity :: string
  cd_code :: string
  cd_message :: string
  cd_file :: string
  cd_position :: "int \<times> int \<times> int \<times> int"

record compiler_response =
  cr_protocol :: string
  cr_compiler :: string
  cr_valid :: bool
  cr_program_base64 :: "string option"
  cr_diagnostics :: "compiler_diagnostic list"
  cr_lines :: "compiled_line list"
  cr_nodes :: "string list"
  cr_calls :: "compiled_call list"

definition compiler_protocol_version :: string where
  "compiler_protocol_version = ''new-yokosuka-yarn-compiler-v1''"

datatype compile_error = NotConfigured | CompilerFailed | UnsupportedCompiler | BadProgramEncoding | NoProgram

definition reported_diagnostic :: "compiler_diagnostic \<Rightarrow> diagnostic" where
  "reported_diagnostic x =
     (case cd_position x of (line, column, end_line, end_column) \<Rightarrow>
        \<lparr>dg_code = cd_code x, dg_message = CompilerReported (cd_severity x) (cd_message x), dg_file = cd_file x, dg_node = '''',
         dg_position = (wrap64 (line + 1), wrap64 (column + 1), wrap64 (end_line + 1), wrap64 (end_column + 1))\<rparr>)"

definition decode_compilation ::
  "(string \<Rightarrow> string option) \<Rightarrow> registry \<Rightarrow> compiler_response \<Rightarrow> compile_error + compilation" where
  "decode_compilation base64 r m =
     (if cr_protocol m \<noteq> compiler_protocol_version \<or> cr_compiler m \<noteq> yarn_compiler_version then Inl UnsupportedCompiler
      else case (case cr_program_base64 m of None \<Rightarrow> Some '''' | Some t \<Rightarrow> base64 t) of
        None \<Rightarrow> Inl BadProgramEncoding
      | Some program \<Rightarrow>
          (case analyze_calls r (cr_calls m) of (an, ds) \<Rightarrow>
            let valid = (cr_valid m \<and> ds = []) in
            if valid \<and> program = '''' then Inl NoProgram
            else Inr \<lparr>cm_valid = valid, cm_program = (if valid then program else ''''),
                      cm_diagnostics = map reported_diagnostic (cr_diagnostics m) @ ds, cm_lines = cr_lines m, cm_nodes = cr_nodes m,
                      cm_analysis = analysis.extend an \<lparr>an_triggers = [], an_warnings = []\<rparr>\<rparr>))"

text \<open>The compiler with the check of the author's triggers, \<open>compileYarn\<close> of \<open>internal/store/scripts.go\<close>.\<close>

definition compile_yarn ::
  "(string \<Rightarrow> string \<Rightarrow> compile_error + compilation) option \<Rightarrow> string \<Rightarrow> string \<Rightarrow> trigger list \<Rightarrow> compile_error + compilation" where
  "compile_yarn compiler file source triggers =
     (case compiler of
        None \<Rightarrow> Inl NotConfigured
      | Some compile \<Rightarrow>
          (case compile file source of
            Inl e \<Rightarrow> Inl e
          | Inr c \<Rightarrow>
              (case validate_yarn_triggers triggers (cm_nodes c) of (normalized, ds) \<Rightarrow>
                let c' = c\<lparr>cm_analysis := (cm_analysis c)\<lparr>an_triggers := normalized\<rparr>, cm_diagnostics := cm_diagnostics c @ ds\<rparr> in
                Inr (if ds \<noteq> [] then c'\<lparr>cm_valid := False, cm_program := ''''\<rparr> else c'))))"

section \<open>Documents\<close>

record document_node =
  nd_id :: string
  nd_type :: string
  nd_label :: string
  nd_config :: "(string \<times> string) list option"

record document_edge =
  ed_id :: string
  ed_from :: string
  ed_to :: string

record document =
  do_schema :: string
  do_entry :: string
  do_nodes :: "document_node list"
  do_edges :: "document_edge list"

definition document_schema :: string where "document_schema = ''new-yokosuka-script-v1''"
definition max_nodes :: nat where "max_nodes = 20000"
definition max_edges :: nat where "max_edges = 80000"

definition document_identifier :: "string \<Rightarrow> bool" where
  "document_identifier s = (case s of [] \<Rightarrow> False
     | c # cs \<Rightarrow> (is_alpha_char c \<or> is_digit_char c) \<and> length cs \<le> 159
         \<and> list_all (\<lambda>d. is_alpha_char d \<or> is_digit_char d \<or> d \<in> set ''_.:-'') cs)"

definition node_types :: "string list" where
  "node_types = [''trigger'', ''condition'', ''dialogue'', ''choice'', ''action'', ''wait'', ''call'', ''end'',
     ''native_function'', ''native_operation'', ''unresolved_native'']"

datatype document_error =
    UnsupportedSchema string | NodeCount | EdgeCount
  | BadNodeId string | DuplicateNode string | BadNodeType string | BadLabel string | NoConfig string | UnknownEntry
  | BadEdgeId string | DuplicateEdge string | UnknownSource string | UnknownTarget string | NotPublishable

fun check_nodes :: "string list \<Rightarrow> document_node list \<Rightarrow> document_error + string list" where
  "check_nodes seen [] = Inr seen"
| "check_nodes seen (n # ns) =
     (if \<not> document_identifier (nd_id n) then Inl (BadNodeId (nd_id n))
      else if nd_id n \<in> set seen then Inl (DuplicateNode (nd_id n))
      else if nd_type n \<notin> set node_types then Inl (BadNodeType (nd_type n))
      else if trim_space (nd_label n) = '''' \<or> 160 < length (nd_label n) then Inl (BadLabel (nd_id n))
      else if nd_config n = None then Inl (NoConfig (nd_id n))
      else check_nodes (nd_id n # seen) ns)"

fun check_edges :: "string list \<Rightarrow> string list \<Rightarrow> document_edge list \<Rightarrow> document_error option" where
  "check_edges nodes seen [] = None"
| "check_edges nodes seen (e # es) =
     (if \<not> document_identifier (ed_id e) then Some (BadEdgeId (ed_id e))
      else if ed_id e \<in> set seen then Some (DuplicateEdge (ed_id e))
      else if ed_from e \<notin> set nodes then Some (UnknownSource (ed_id e))
      else if ed_to e \<notin> set nodes then Some (UnknownTarget (ed_id e))
      else check_edges nodes (ed_id e # seen) es)"

definition config_text :: "document_node \<Rightarrow> string \<Rightarrow> string" where
  "config_text n key = (case nd_config n of None \<Rightarrow> '''' | Some kvs \<Rightarrow> map_get_or '''' (map_of kvs) key)"

definition node_dependency :: "document_node \<Rightarrow> dependency option" where
  "node_dependency n =
     (let kind = config_text n ''kind''; key = config_text n ''key'';
          dep = (\<lambda>access k. Some \<lparr>dp_access = access, dp_kind = k, dp_identifier = key\<rparr>) in
      if \<not> document_identifier key then None
      else if nd_type n = ''condition'' \<and> kind = ''flag'' then dep ''read'' ''flag''
      else if nd_type n = ''condition'' \<and> kind = ''item'' then dep ''read'' ''item''
      else if nd_type n = ''action'' \<and> kind = ''set_flag'' then dep ''write'' ''flag''
      else if nd_type n = ''action'' \<and> kind = ''give_item'' then dep ''write'' ''item''
      else if nd_type n = ''call'' then dep ''read'' ''script''
      else None)"

definition node_trigger :: "document_node \<Rightarrow> trigger" where
  "node_trigger n = \<lparr>tg_node = nd_id n,
     tg_selector = \<lparr>ts_kind = config_text n ''kind'', ts_area = config_text n ''area'', ts_actor = config_text n ''actor'',
                    ts_object = '''', ts_activity = ''''\<rparr>,
     tg_priority = 0\<rparr>"

definition usage_put :: "identifier_usage \<Rightarrow> identifier_usage gomap \<Rightarrow> identifier_usage gomap" where
  "usage_put u = mput (capability_key (iu_kind u) (iu_identifier u)) u"

definition sorted_usages :: "identifier_usage gomap \<Rightarrow> identifier_usage list" where
  "sorted_usages m = sort_key (\<lambda>u. (iu_kind u, iu_identifier u)) (map snd (entries m))"

definition dependency_usage :: "dependency \<Rightarrow> identifier_usage" where
  "dependency_usage d = \<lparr>iu_kind = dp_kind d, iu_identifier = dp_identifier d\<rparr>"

definition selector_usages :: "trigger_selector \<Rightarrow> identifier_usage list" where
  "selector_usages s = [\<lparr>iu_kind = ''scene'', iu_identifier = ts_area s\<rparr>, \<lparr>iu_kind = ''actor'', iu_identifier = ts_actor s\<rparr>,
     \<lparr>iu_kind = ''object'', iu_identifier = ts_object s\<rparr>, \<lparr>iu_kind = ''activity'', iu_identifier = ts_activity s\<rparr>]"

definition analyze_document :: "document \<Rightarrow> script_analysis" where
  "analyze_document d =
     (let put = (\<lambda>x m. mput (dp_access x @ [CHR 0x00] @ capability_key (dp_kind x) (dp_identifier x)) x m);
          deps = fold put (List.map_filter node_dependency (do_nodes d)) mempty;
          dependencies = sort_key (\<lambda>x. (dp_kind x, dp_identifier x, dp_access x)) (map snd (entries deps));
          triggers = map node_trigger (filter (\<lambda>n. nd_type n = ''trigger'') (do_nodes d));
          used = fold usage_put (map dependency_usage dependencies) mempty;
          ids = fold usage_put
            (concat (map (\<lambda>t. filter (\<lambda>u. document_identifier (iu_identifier u)) (take 2 (selector_usages (tg_selector t)))) triggers)) used in
      \<lparr>an_dependencies = dependencies, an_identifiers = sorted_usages ids, an_triggers = triggers, an_warnings = []\<rparr>)"

definition count_type :: "string \<Rightarrow> document \<Rightarrow> nat" where
  "count_type t d = length (filter (\<lambda>n. nd_type n = t) (do_nodes d))"

definition document_warnings :: "document \<Rightarrow> document_warning list" where
  "document_warnings d =
     (if count_type ''trigger'' d = 0 then [NoTriggerNode] else []) @ (if count_type ''end'' d = 0 then [NoEndNode] else [])
     @ (if 0 < count_type ''unresolved_native'' d then [UnresolvedNodes (count_type ''unresolved_native'' d)] else [])"

definition validate_document :: "document \<Rightarrow> bool \<Rightarrow> document_error + script_analysis" where
  "validate_document d publishing =
     (if do_schema d \<noteq> document_schema then Inl (UnsupportedSchema (do_schema d))
      else if do_nodes d = [] \<or> max_nodes < length (do_nodes d) then Inl NodeCount
      else if max_edges < length (do_edges d) then Inl EdgeCount
      else case check_nodes [] (do_nodes d) of
        Inl e \<Rightarrow> Inl e
      | Inr nodes \<Rightarrow>
          if do_entry d \<notin> set nodes then Inl UnknownEntry
          else case check_edges nodes [] (do_edges d) of
            Some e \<Rightarrow> Inl e
          | None \<Rightarrow>
              if publishing \<and> document_warnings d \<noteq> [] then Inl NotPublishable
              else Inr ((analyze_document d)\<lparr>an_warnings := document_warnings d\<rparr>))"

section \<open>Canonical source is stable\<close>

lemma replace_crlf_fixed: "cr \<notin> set s \<Longrightarrow> replace_crlf s = s"
  by (induction s rule: replace_crlf.induct) (auto simp: cr_def lf_def)

lemma replace_cr_fixed: "cr \<notin> set s \<Longrightarrow> replace_cr s = s"
  by (induction s) (auto simp: replace_cr_def)

lemma replace_cr_free: "cr \<notin> set (replace_cr s)"
  by (auto simp: replace_cr_def cr_def lf_def)

lemma replace_crlf_length: "length (replace_crlf s) \<le> length s"
  by (induction s rule: replace_crlf.induct) auto

lemma canonical_form:
  assumes "canonical_yarn_source s = Inr t"
  shows "cr \<notin> set t" "ends_in_newline t" "length t \<le> length s + 1"
proof -
  let ?s = "replace_cr (replace_crlf s)"
  have t: "t = (if ends_in_newline ?s then ?s else ?s @ [lf])"
    using assms by (auto simp: canonical_yarn_source_def Let_def split: if_splits)
  then show "cr \<notin> set t" using replace_cr_free by (auto simp: cr_def lf_def)
  show "ends_in_newline t" using t by (simp add: ends_in_newline_def split: if_splits)
  have "length ?s \<le> length s" using replace_crlf_length [of s] by (simp add: replace_cr_def)
  then show "length t \<le> length s + 1" by (auto simp: t)
qed

lemma space_prefix_newline:
  assumes "p \<in> set space_seqs" and "s \<noteq> []"
  shows "has_prefix (s @ [lf]) p \<longleftrightarrow> has_prefix s p"
proof (cases "length p \<le> length s")
  case False
  have "p \<noteq> s @ [lf]"
  proof
    assume p: "p = s @ [lf]"
    then have "last p = lf" "2 \<le> length p" using assms(2) by (auto simp: Suc_le_eq)
    then show False using assms(1) by (auto simp: space_seqs_def lf_def)
  qed
  then show ?thesis using False by (auto simp: has_prefix_def)
qed (simp add: has_prefix_def)

lemma leading_space_newline: "s \<noteq> [] \<Longrightarrow> leading_space space_seqs (s @ [lf]) = leading_space space_seqs s"
  unfolding leading_space_def by (rule find_cong) (simp_all add: space_prefix_newline)

lemma trim_left_newline: "trim_left (s @ [lf]) = [] \<Longrightarrow> trim_left s = []"
proof (induction s rule: trim_left.induct)
  case (1 s)
  show ?case
  proof (cases "s = []")
    case False
    note same = leading_space_newline [OF False]
    show ?thesis
    proof (cases "leading_space space_seqs s")
      case None
      with 1(2) same show ?thesis by (simp add: trim_left.simps [of "s @ [lf]"])
    next
      case (Some w)
      have "length w \<le> length s" using leading_space_length [OF Some] by simp
      then have "trim_left (drop (length w) s @ [lf]) = []"
        using 1(2) same Some by (simp add: trim_left.simps [of "s @ [lf]"])
      with 1(1) Some show ?thesis by (simp add: trim_left.simps [of s])
    qed
  qed simp
qed

lemma trim_left_rev_empty: "trim_left_rev r = [] \<Longrightarrow> r = [] \<or> (\<exists>p\<in>set space_seqs. has_prefix (rev r) p)"
proof (induction r rule: trim_left_rev.induct)
  case (1 r)
  show ?case
  proof (cases "leading_space (map rev space_seqs) r")
    case None
    with 1(2) show ?thesis by (simp add: trim_left_rev.simps [of r])
  next
    case (Some w)
    then obtain p where p: "p \<in> set space_seqs" "w = rev p" and w: "take (length w) r = w"
      by (auto simp: leading_space_def find_Some_iff has_prefix_def) (metis length_map nth_map nth_mem)
    let ?r = "drop (length w) r"
    have r: "rev r = rev ?r @ p" using w p(2) by (metis append_take_drop_id rev_append rev_rev_ident)
    have "trim_left_rev ?r = []" using 1(2) Some by (simp add: trim_left_rev.simps [of r])
    with 1(1) [OF Some] have "?r = [] \<or> (\<exists>q\<in>set space_seqs. has_prefix (rev ?r) q)" by blast
    then show ?thesis
    proof
      assume "?r = []"
      with r p(1) show ?thesis by (force simp: has_prefix_def)
    next
      assume "\<exists>q\<in>set space_seqs. has_prefix (rev ?r) q"
      then obtain q where q: "q \<in> set space_seqs" "take (length q) (rev ?r) = q" by (auto simp: has_prefix_def)
      then have "length q \<le> length ?r" by (metis length_rev length_take min.cobounded1)
      with q r have "has_prefix (rev r) q" by (simp add: has_prefix_def)
      with q(1) show ?thesis by blast
    qed
  qed
qed

lemma trim_left_length: "length (trim_left u) \<le> length u"
proof (induction u rule: trim_left.induct)
  case (1 u)
  show ?case
  proof (cases "leading_space space_seqs u")
    case None
    then show ?thesis by (simp add: trim_left.simps [of u])
  next
    case (Some w)
    from 1 [OF Some] have "length (trim_left (drop (length w) u)) \<le> length u" by simp
    with Some show ?thesis by (simp add: trim_left.simps [of u])
  qed
qed

lemma trim_space_empty: "trim_space s = [] \<longleftrightarrow> trim_left s = []"
proof
  assume e: "trim_space s = []"
  show "trim_left s = []"
  proof (rule ccontr)
    assume n: "trim_left s \<noteq> []"
    have "trim_left_rev (rev (trim_left s)) = []" using e by (simp add: trim_space_def)
    then obtain p where "p \<in> set space_seqs" "has_prefix (trim_left s) p" using trim_left_rev_empty n by fastforce
    then obtain w where w: "leading_space space_seqs (trim_left s) = Some w"
      by (cases "leading_space space_seqs (trim_left s)") (auto simp: leading_space_def find_None_iff)
    then have "trim_left s = trim_left (drop (length w) (trim_left s))"
      using trim_left_idem [of s] by (simp add: trim_left.simps [of "trim_left s"])
    moreover have "length (trim_left u) \<le> length u" for u
      by (rule trim_left_length)
    ultimately have "length (trim_left s) \<le> length (trim_left s) - length w" by (metis length_drop)
    moreover have "0 < length w" "length w \<le> length (trim_left s)" using leading_space_length [OF w] by blast+
    ultimately show False by arith
  qed
qed (simp add: trim_space_def)

text \<open>
  C23: canonical source has no carriage return, ends in a newline and is at most one byte longer than
  what was sent; it is its own canonical form, unless that byte takes it over the limit: source of
  exactly 512 KiB without a final newline is stored as 512 KiB and a byte, which is refused if it is
  sent back.
\<close>

theorem canonical_source_is_stable:
  assumes "canonical_yarn_source s = Inr t"
  shows "cr \<notin> set t \<and> ends_in_newline t \<and> length t \<le> max_yarn_source_bytes + 1
    \<and> canonical_yarn_source t = (if length t \<le> max_yarn_source_bytes then Inr t else Inl SourceTooLong)"
proof -
  let ?s = "replace_cr (replace_crlf s)"
  note f = canonical_form [OF assms]
  have t: "t = ?s \<or> t = ?s @ [lf]" and s: "trim_left ?s \<noteq> []" "length s \<le> max_yarn_source_bytes"
    using assms by (auto simp: canonical_yarn_source_def Let_def trim_space_empty [symmetric] split: if_splits)
  have "trim_space t \<noteq> []" unfolding trim_space_empty using t s(1) trim_left_newline by auto
  with f s(2) show ?thesis by (simp add: canonical_yarn_source_def replace_crlf_fixed replace_cr_fixed)
qed

lemma sample_source: "canonical_yarn_source (''title: Start'' @ [cr, lf] @ ''==='') = Inr (''title: Start'' @ [lf] @ ''==='' @ [lf])"
proof -
  have "replace_cr (replace_crlf (''title: Start'' @ [cr, lf] @ ''==='')) = ''title: Start'' @ [lf] @ ''===''"
    "trim_space (''title: Start'' @ [lf] @ ''==='') \<noteq> ''''" "\<not> ends_in_newline (''title: Start'' @ [lf] @ ''==='')" by code_simp+
  then show ?thesis by (simp only: canonical_yarn_source_def Let_def) (simp add: max_yarn_source_bytes_def)
qed

theorem canonical_source_is_stable_witness:
  "canonical_yarn_source (''title: Start'' @ [lf] @ ''==='' @ [lf]) = Inr (''title: Start'' @ [lf] @ ''==='' @ [lf])"
  using canonical_source_is_stable [OF sample_source] by (simp add: max_yarn_source_bytes_def)

text \<open>The limit is met: one byte more than may be sent back.\<close>

lemma longest_source:
  "canonical_yarn_source (replicate max_yarn_source_bytes (CHR ''a'')) = Inr (replicate max_yarn_source_bytes (CHR ''a'') @ [lf])"
proof -
  let ?s = "replicate max_yarn_source_bytes (CHR ''a'')"
  have n: "max_yarn_source_bytes = Suc (max_yarn_source_bytes - 1)" by (simp add: max_yarn_source_bytes_def)
  have no_cr: "cr \<notin> set ?s" by (simp add: cr_def)
  have "leading_space space_seqs ?s = None"
    by (subst n) (simp add: leading_space_def find_None_iff has_prefix_def space_seqs_def)
  then have "trim_left ?s = ?s" by (simp add: trim_left.simps [of ?s])
  then have "trim_space ?s \<noteq> []" unfolding trim_space_empty by (simp add: max_yarn_source_bytes_def)
  moreover have "\<not> ends_in_newline ?s" by (simp add: ends_in_newline_def lf_def max_yarn_source_bytes_def)
  ultimately show ?thesis by (simp add: canonical_yarn_source_def Let_def replace_crlf_fixed [OF no_cr] replace_cr_fixed [OF no_cr])
qed

section \<open>Accepted documents\<close>

lemma check_nodes_Inr:
  "check_nodes seen ns = Inr out \<Longrightarrow> out = rev (map nd_id ns) @ seen \<and> (distinct seen \<longrightarrow> distinct out)
     \<and> (\<forall>n\<in>set ns. document_identifier (nd_id n) \<and> nd_type n \<in> set node_types \<and> nd_config n \<noteq> None)"
  by (induction seen ns rule: check_nodes.induct) (auto simp: disjoint_iff split: if_splits)

lemma check_edges_None:
  "check_edges nodes seen es = None \<Longrightarrow> distinct (map ed_id es) \<and> set (map ed_id es) \<inter> set seen = {}
     \<and> (\<forall>e\<in>set es. ed_from e \<in> set nodes \<and> ed_to e \<in> set nodes)"
  by (induction nodes seen es rule: check_edges.induct) (auto split: if_splits)

text \<open>
  C24: an accepted document is a graph: between 1 and 20000 nodes with distinct ids and known types, an
  entry among them, at most 80000 edges with distinct ids between its nodes; its triggers are its
  trigger nodes in order, its dependencies and identifiers are listed once, and a document accepted for
  publication has a trigger, an end and nothing unresolved.
\<close>

theorem accepted_documents:
  assumes "validate_document d publishing = Inr an"
  shows "1 \<le> length (do_nodes d) \<and> length (do_nodes d) \<le> 20000 \<and> length (do_edges d) \<le> 80000
    \<and> distinct (map nd_id (do_nodes d)) \<and> set (map nd_type (do_nodes d)) \<subseteq> set node_types \<and> do_entry d \<in> nd_id ` set (do_nodes d)
    \<and> distinct (map ed_id (do_edges d)) \<and> ed_from ` set (do_edges d) \<union> ed_to ` set (do_edges d) \<subseteq> nd_id ` set (do_nodes d)
    \<and> map tg_node (an_triggers an) = map nd_id (filter (\<lambda>n. nd_type n = ''trigger'') (do_nodes d))
    \<and> (publishing \<longrightarrow> an_triggers an \<noteq> [] \<and> ''end'' \<in> nd_type ` set (do_nodes d) \<and> ''unresolved_native'' \<notin> nd_type ` set (do_nodes d))"
proof -
  obtain nodes where n: "check_nodes [] (do_nodes d) = Inr nodes" and e: "check_edges nodes [] (do_edges d) = None"
    and entry: "do_entry d \<in> set nodes" and size: "do_nodes d \<noteq> []" "length (do_nodes d) \<le> max_nodes" "length (do_edges d) \<le> max_edges"
    and w: "publishing \<longrightarrow> document_warnings d = []" and an: "an = (analyze_document d)\<lparr>an_warnings := document_warnings d\<rparr>"
    using assms by (auto simp: validate_document_def not_less split: if_splits sum.splits option.splits)
  note nodes = check_nodes_Inr [OF n] and edges = check_edges_None [OF e]
  have ids: "set nodes = nd_id ` set (do_nodes d)" using nodes by simp
  have "map tg_node (an_triggers an) = map nd_id (filter (\<lambda>n. nd_type n = ''trigger'') (do_nodes d))"
    by (simp add: an analyze_document_def Let_def node_trigger_def comp_def)
  moreover have "publishing \<longrightarrow> an_triggers an \<noteq> [] \<and> ''end'' \<in> nd_type ` set (do_nodes d) \<and> ''unresolved_native'' \<notin> nd_type ` set (do_nodes d)"
    using w by (auto simp: document_warnings_def count_type_def filter_empty_conv an analyze_document_def Let_def intro: rev_image_eqI split: if_splits)
  ultimately show ?thesis using nodes edges entry size ids
    by (auto simp: max_nodes_def max_edges_def Suc_le_eq)
qed

definition sample_document :: document where
  "sample_document = \<lparr>do_schema = document_schema, do_entry = ''t'',
     do_nodes = [\<lparr>nd_id = ''t'', nd_type = ''trigger'', nd_label = ''Talk'', nd_config = Some [(''kind'', ''talk''), (''area'', ''D000'')]\<rparr>,
                 \<lparr>nd_id = ''e'', nd_type = ''end'', nd_label = ''End'', nd_config = Some []\<rparr>],
     do_edges = [\<lparr>ed_id = ''x'', ed_from = ''t'', ed_to = ''e''\<rparr>]\<rparr>"

theorem accepted_documents_witness: "distinct (map nd_id (do_nodes sample_document)) \<and> \<not> isl (validate_document sample_document True)"
proof -
  have "isl (check_nodes [] (do_nodes sample_document)) = False" "projr (check_nodes [] (do_nodes sample_document)) = [''e'', ''t'']"
    "check_edges [''e'', ''t''] [] (do_edges sample_document) = None" "document_warnings sample_document = []" by code_simp+
  then have "\<not> isl (validate_document sample_document True)"
    by (cases "check_nodes [] (do_nodes sample_document)")
      (simp_all add: validate_document_def, simp_all add: sample_document_def max_nodes_def max_edges_def)
  moreover from this obtain an where "validate_document sample_document True = Inr an"
    by (cases "validate_document sample_document True") auto
  ultimately show ?thesis using accepted_documents by blast
qed

end
