(* ===== verification/ScriptLibrary.thy ===== *)
theory ScriptLibrary
  imports ScriptStore ScriptDocument
begin

text \<open>
  The repository of scripts: the tables \<open>scripts\<close>, \<open>script_versions\<close>, their child tables,
  \<open>script_collaborators\<close> and \<open>script_moderation_events\<close> of \<open>internal/store/migrations/001_baseline.sql\<close>, and the
  statements that \<open>internal/store\<close> runs on them.

  A statement is a function to an error or the new tables. The CHECKs, the keys and the triggers of the
  schema are branches of the statement: a version that left the draft status is frozen, its status moves
  only forward, an archived script is read-only, and the indexes of a version are written only while it is
  a draft. A transaction is a chain of statements, so that its error leaves nothing behind.

  Identity columns and the clock are arguments. The configuration of a trigger is not kept: the server
  never reads it. Text columns hold UTF-8, whose characters \<open>char_length\<close> counts; the tables are read in the
  order of the bytes where the database sorts text.
\<close>

section \<open>Transactions\<close>

definition attempt :: "'e + 'a \<Rightarrow> ('a \<Rightarrow> 'e + 'b) \<Rightarrow> 'e + 'b" where
  "attempt r f = (case r of Inl e \<Rightarrow> Inl e | Inr x \<Rightarrow> f x)"

definition demand :: "bool \<Rightarrow> 'e \<Rightarrow> 'e + 'b \<Rightarrow> 'e + 'b" where
  "demand b e r = (if b then r else Inl e)"

definition required :: "'e \<Rightarrow> 'a option \<Rightarrow> ('a \<Rightarrow> 'e + 'b) \<Rightarrow> 'e + 'b" where
  "required e x f = (case x of None \<Rightarrow> Inl e | Some y \<Rightarrow> f y)"

lemma attempt_simps [simp]: "attempt (Inl e) f = Inl e" "attempt (Inr x) f = f x"
  by (simp_all add: attempt_def)

lemma attempt_Inr: "attempt r f = Inr y \<longleftrightarrow> (\<exists>x. r = Inr x \<and> f x = Inr y)"
  by (cases r) simp_all

lemma demand_Inr: "demand b e r = Inr y \<longleftrightarrow> b \<and> r = Inr y"
  by (simp add: demand_def)

lemma required_Inr: "required e x f = Inr y \<longleftrightarrow> (\<exists>z. x = Some z \<and> f z = Inr y)"
  by (cases x) (simp_all add: required_def)

lemma refused_Inr: "map_sum f id r = Inr y \<longleftrightarrow> r = Inr y"
  by (cases r) simp_all

lemmas chain_Inr = attempt_Inr demand_Inr required_Inr refused_Inr

section \<open>Tables\<close>

record account_row =
  ac_id :: int
  ac_registered :: bool
  ac_email :: string
  ac_role :: string

datatype version_status = Draft | InReview | Published | Reference | Superseded

record native_source =
  ns_ordinal :: int
  ns_role :: string
  ns_locator :: string
  ns_hash :: string

record native_region =
  ng_ordinal :: int
  ng_disc :: int
  ng_area :: string
  ng_target :: int
  ng_offset :: int
  ng_ownership :: string
  ng_activity :: string
  ng_evidence :: string

text \<open>The columns of a version that its trigger freezes.\<close>

record version_content =
  vc_script :: int
  vc_version :: int
  vc_revision :: int
  vc_format :: string
  vc_schema :: string
  vc_document :: "document option"
  vc_source :: "string option"
  vc_source_hash :: "string option"
  vc_program :: "string option"
  vc_program_hash :: "string option"
  vc_compiler :: "string option"
  vc_command_schema :: "string option"
  vc_compile_status :: string
  vc_diagnostics :: "diagnostic list"
  vc_lines :: "compiled_line list option"
  vc_nodes :: "string list option"
  vc_summary :: string
  vc_content_hash :: "string option"
  vc_native_locator :: "string option"
  vc_native_hash :: "string option"
  vc_based_on :: "int option"
  vc_author :: "int option"
  vc_created_at :: int

record version_entry =
  ve_id :: int
  ve_status :: version_status
  ve_published_at :: "int option"
  ve_updated_at :: int
  ve_content :: version_content

record script_entry =
  sn_id :: int
  sn_slug :: string
  sn_title :: string
  sn_description :: string
  sn_origin :: string
  sn_locator :: "string option"
  sn_hash :: "string option"
  sn_created_by :: "int option"
  sn_published :: "int option"
  sn_reference :: "int option"
  sn_updated_at :: int
  sn_archived :: "(int \<times> int) option"

datatype event_details =
    NoDetails
  | AccountRole int string "string option"
  | SourceVersion int int
  | ThreadDetails int

record moderation_event =
  me_script :: int
  me_version :: "int option"
  me_actor :: int
  me_action :: string
  me_details :: event_details
  me_at :: int

record fixture_row =
  fx_id :: int
  fx_script :: int
  fx_version :: int
  fx_name :: string
  fx_description :: string
  fx_start :: string
  fx_body :: string
  fx_created_by :: "int option"
  fx_revision :: int
  fx_updated_at :: int
  fx_archived :: "(int \<times> int option) option"
  fx_origin :: string

record review_thread =
  rt_id :: int
  rt_version :: int
  rt_line :: "int option"
  rt_created_by :: int
  rt_resolved :: "(int \<times> int) option"
  rt_created_at :: int
  rt_updated_at :: int

record review_comment =
  rc_id :: int
  rc_thread :: int
  rc_author :: int
  rc_body :: string
  rc_at :: int

record library =
  lb_accounts :: "account_row list"
  lb_scripts :: "script_entry list"
  lb_versions :: "version_entry list"
  lb_dependencies :: "(int \<times> dependency) list"
  lb_identifiers :: "(int \<times> identifier_usage) list"
  lb_triggers :: "(int \<times> trigger) list"
  lb_sources :: "(int \<times> native_source) list"
  lb_regions :: "(int \<times> native_region) list"
  lb_collaborators :: "int \<times> int \<rightharpoonup> string"
  lb_events :: "moderation_event list"
  lb_fixtures :: "fixture_row list"
  lb_threads :: "review_thread list"
  lb_comments :: "review_comment list"

datatype library_error =
    NotFound | Forbidden | VersionChanged | Constraint
  | SourceRefused source_error | CompileRefused compile_error | DocumentRefused document_error
  | NativeNotEditable | NotCompiled | CompilerOutdated | NoDocument | NotRollbackable | NoLongerCompiles
  | CollaboratorInput | OwnerFixed | HashesRequired | SlugTaken string string | TranslationInvalid
  | BadNativeSource nat | DuplicateNativeSource nat | BadRegion nat | DuplicateRegion nat
  | BadFixture string string | FixtureConflict string | NoRows | BadReviewBody | BadReviewLine

type_synonym 'a ltx = "library_error + 'a"

text \<open>
  What the operations take from outside: the compiler, SHA-256, the case mappings of texts, JSON as the
  trigger hash encodes it and as fixtures hold it (normalised by the database). A call is given the time
  and the identities of the rows it may insert.
\<close>

record authoring_env =
  le_compiler :: "(string \<Rightarrow> string \<Rightarrow> compile_error + compilation) option"
  le_hash :: "string \<Rightarrow> string"
  le_lower :: "string \<Rightarrow> string"
  le_upper :: "string \<Rightarrow> string"
  le_trigger_json :: "trigger list \<Rightarrow> string"
  le_json_object :: "string \<Rightarrow> bool"
  le_json_normal :: "string \<Rightarrow> string"

record call_moment =
  cx_now :: int
  cx_script :: int
  cx_version :: int
  cx_row :: int
  cx_comment :: int

abbreviation ve_script :: "version_entry \<Rightarrow> int" where "ve_script v \<equiv> vc_script (ve_content v)"
abbreviation ve_version :: "version_entry \<Rightarrow> int" where "ve_version v \<equiv> vc_version (ve_content v)"

section \<open>Lookups\<close>

definition account_of :: "library \<Rightarrow> int \<Rightarrow> account_row option" where
  "account_of l a = find (\<lambda>r. ac_id r = a) (lb_accounts l)"

definition is_moderator :: "library \<Rightarrow> int \<Rightarrow> bool" where
  "is_moderator l a \<longleftrightarrow> (case account_of l a of None \<Rightarrow> False | Some r \<Rightarrow> ac_role r = ''moderator'' \<or> ac_role r = ''admin'')"

definition is_registered :: "library \<Rightarrow> int \<Rightarrow> bool" where
  "is_registered l a \<longleftrightarrow> (case account_of l a of None \<Rightarrow> False | Some r \<Rightarrow> ac_registered r)"

definition script_of :: "library \<Rightarrow> int \<Rightarrow> script_entry option" where
  "script_of l i = find (\<lambda>s. sn_id s = i) (lb_scripts l)"

definition version_of :: "library \<Rightarrow> int \<Rightarrow> int \<Rightarrow> version_entry option" where
  "version_of l i n = find (\<lambda>v. ve_script v = i \<and> ve_version v = n) (lb_versions l)"

definition may_edit :: "library \<Rightarrow> int \<Rightarrow> int \<Rightarrow> bool" where
  "may_edit l i a \<longleftrightarrow> lb_collaborators l (i, a) \<in> {Some ''owner'', Some ''editor''}"

definition status_of :: "library \<Rightarrow> int \<Rightarrow> version_status option" where
  "status_of l i = map_option ve_status (find (\<lambda>v. ve_id v = i) (lb_versions l))"

text \<open>The next version number, \<open>COALESCE(MAX(version),0)+1\<close>.\<close>

definition next_version :: "library \<Rightarrow> int \<Rightarrow> int" where
  "next_version l i = fold max (map ve_version (filter (\<lambda>v. ve_script v = i) (lb_versions l))) 0 + 1"

section \<open>Constraints\<close>

definition slug_ok :: "string \<Rightarrow> bool" where
  "slug_ok s = (case s of [] \<Rightarrow> False
     | c # cs \<Rightarrow> (is_lower_char c \<or> is_digit_char c) \<and> 2 \<le> length cs \<and> length cs \<le> 79
         \<and> list_all (\<lambda>d. is_lower_char d \<or> is_digit_char d \<or> d = CHR ''-'') cs)"

definition script_columns_ok :: "script_entry \<Rightarrow> bool" where
  "script_columns_ok s \<longleftrightarrow> slug_ok (sn_slug s) \<and> 1 \<le> char_length (sn_title s) \<and> char_length (sn_title s) \<le> 120
     \<and> char_length (sn_description s) \<le> 2000 \<and> sn_origin s \<in> {''recovered'', ''community'', ''official''}
     \<and> (sn_origin s = ''recovered'' \<longrightarrow> sn_locator s \<noteq> None \<and> sn_hash s \<noteq> None)"

definition sha256_text :: "string \<Rightarrow> bool" where
  "sha256_text s \<longleftrightarrow> length s = 64 \<and> list_all (\<lambda>c. is_digit_char c \<or> char_between (CHR ''a'') (CHR ''f'') c) s"

definition content_shape :: "version_content \<Rightarrow> bool" where
  "content_shape c \<longleftrightarrow>
     vc_format c = ''native-reference'' \<and> vc_document c \<noteq> None \<and> vc_source c = None \<and> vc_source_hash c = None
       \<and> vc_program c = None \<and> vc_program_hash c = None \<and> vc_compiler c = None \<and> vc_command_schema c = None
       \<and> vc_lines c = None \<and> vc_nodes c = None \<and> vc_compile_status c = ''not-applicable''
   \<or> vc_format c = ''yarn'' \<and> vc_document c = None \<and> vc_source c \<noteq> None \<and> pred_option sha256_text (vc_source_hash c)
       \<and> vc_source_hash c \<noteq> None \<and> vc_compiler c \<noteq> None \<and> vc_command_schema c \<noteq> None \<and> vc_lines c \<noteq> None \<and> vc_nodes c \<noteq> None
       \<and> (vc_compile_status c = ''valid'' \<and> vc_program c \<noteq> None \<and> vc_program_hash c \<noteq> None \<and> pred_option sha256_text (vc_program_hash c)
        \<or> vc_compile_status c \<in> {''uncompiled'', ''invalid''} \<and> vc_program c = None \<and> vc_program_hash c = None)"

definition content_ok :: "version_content \<Rightarrow> bool" where
  "content_ok c \<longleftrightarrow> content_shape c \<and> 0 < vc_version c \<and> int32_ok (vc_version c) \<and> 0 < vc_revision c \<and> int64_ok (vc_revision c)
     \<and> char_length (vc_summary c) \<le> 4000
     \<and> (vc_native_locator c = None \<and> vc_native_hash c = None
        \<or> vc_native_locator c \<notin> {None, Some ''''} \<and> vc_native_hash c \<noteq> None \<and> pred_option sha256_text (vc_native_hash c))"

definition entry_ok :: "version_entry \<Rightarrow> bool" where
  "entry_ok v \<longleftrightarrow> content_ok (ve_content v) \<and> (ve_status v \<in> {Published, Reference} \<longrightarrow> ve_published_at v \<noteq> None)"

definition archived :: "library \<Rightarrow> int \<Rightarrow> bool" where
  "archived l i \<longleftrightarrow> (\<exists>s\<in>set (lb_scripts l). sn_id s = i \<and> sn_archived s \<noteq> None)"

fun status_move :: "version_status \<Rightarrow> version_status \<Rightarrow> bool" where
  "status_move Draft InReview = True"
| "status_move Draft Reference = True"
| "status_move InReview Published = True"
| "status_move Published Superseded = True"
| "status_move old new = (old = new)"

definition protects :: "version_entry \<Rightarrow> version_entry \<Rightarrow> bool" where
  "protects old new \<longleftrightarrow> (ve_status old = Draft \<or> ve_content new = ve_content old) \<and> status_move (ve_status old) (ve_status new)
     \<and> (ve_published_at new = ve_published_at old \<or> ve_status old = InReview \<and> ve_status new = Published
        \<or> ve_status old = Draft \<and> ve_status new = Reference)"

section \<open>Statements\<close>

definition insert_script :: "script_entry \<Rightarrow> library \<Rightarrow> library ltx" where
  "insert_script s l =
     (if \<not> script_columns_ok s \<or> (\<exists>x\<in>set (lb_scripts l). sn_id x = sn_id s \<or> sn_slug x = sn_slug s
            \<or> sn_origin x = ''recovered'' \<and> sn_origin s = ''recovered'' \<and> sn_locator x = sn_locator s)
         \<or> (case sn_created_by s of None \<Rightarrow> False | Some a \<Rightarrow> account_of l a = None)
      then Inl Constraint else Inr (l\<lparr>lb_scripts := lb_scripts l @ [s]\<rparr>))"

definition update_scripts :: "(script_entry \<Rightarrow> bool) \<Rightarrow> (script_entry \<Rightarrow> script_entry) \<Rightarrow> library \<Rightarrow> library ltx" where
  "update_scripts P f l =
     (if list_all (\<lambda>s. P s \<longrightarrow> script_columns_ok (f s)) (lb_scripts l)
      then Inr (l\<lparr>lb_scripts := map (\<lambda>s. if P s then f s else s) (lb_scripts l)\<rparr>) else Inl Constraint)"

definition insert_version :: "version_entry \<Rightarrow> library \<Rightarrow> library ltx" where
  "insert_version v l =
     (if archived l (ve_script v) \<or> \<not> entry_ok v
         \<or> (\<exists>x\<in>set (lb_versions l). ve_id x = ve_id v \<or> ve_script x = ve_script v \<and> ve_version x = ve_version v)
         \<or> script_of l (ve_script v) = None \<or> (case vc_author (ve_content v) of None \<Rightarrow> False | Some a \<Rightarrow> account_of l a = None)
      then Inl Constraint else Inr (l\<lparr>lb_versions := lb_versions l @ [v]\<rparr>))"

definition update_versions :: "(version_entry \<Rightarrow> bool) \<Rightarrow> (version_entry \<Rightarrow> version_entry) \<Rightarrow> library \<Rightarrow> library ltx" where
  "update_versions P f l =
     (if list_all (\<lambda>v. P v \<longrightarrow> \<not> archived l (ve_script v) \<and> protects v (f v) \<and> entry_ok (f v)) (lb_versions l)
      then Inr (l\<lparr>lb_versions := map (\<lambda>v. if P v then f v else v) (lb_versions l)\<rparr>) else Inl Constraint)"

text \<open>A new draft, with the defaults of the columns.\<close>

definition draft_entry :: "int \<Rightarrow> int \<Rightarrow> version_content \<Rightarrow> version_entry" where
  "draft_entry now i c = \<lparr>ve_id = i, ve_status = Draft, ve_published_at = None, ve_updated_at = now, ve_content = c\<rparr>"

text \<open>Rows of a child table: the deletion of those of a version, and the insertion of more.\<close>

definition delete_rows :: "library \<Rightarrow> int \<Rightarrow> (int \<times> 'a) list \<Rightarrow> (int \<times> 'a) list ltx" where
  "delete_rows l i t =
     (if (\<exists>r\<in>set t. fst r = i) \<and> status_of l i \<notin> {None, Some Draft} then Inl Constraint
      else Inr (filter (\<lambda>r. fst r \<noteq> i) t))"

definition insert_rows ::
  "library \<Rightarrow> ('a \<Rightarrow> bool) \<Rightarrow> ('a \<Rightarrow> 'k) \<Rightarrow> int \<Rightarrow> 'a list \<Rightarrow> (int \<times> 'a) list \<Rightarrow> (int \<times> 'a) list ltx" where
  "insert_rows l ok key i rows t =
     (if rows = [] then Inr t
      else if status_of l i \<noteq> Some Draft \<or> \<not> list_all ok rows \<or> \<not> distinct (map key rows)
           \<or> (\<exists>r\<in>set t. fst r = i \<and> key (snd r) \<in> key ` set rows)
      then Inl Constraint else Inr (t @ map (Pair i) rows))"

definition rows_of :: "int \<Rightarrow> (int \<times> 'a) list \<Rightarrow> 'a list" where
  "rows_of i t = map snd (filter (\<lambda>r. fst r = i) t)"

definition identifier_text :: "string \<Rightarrow> bool" where
  "identifier_text s \<longleftrightarrow> 1 \<le> char_length s \<and> char_length s \<le> 160"

definition dependency_ok :: "dependency \<Rightarrow> bool" where
  "dependency_ok d \<longleftrightarrow> dp_access d \<in> {''read'', ''write''} \<and> identifier_text (dp_identifier d)
     \<and> dp_kind d \<in> {''flag'', ''progress'', ''item'', ''actor'', ''object'', ''script'', ''scene'', ''activity''}"

definition usage_ok :: "identifier_usage \<Rightarrow> bool" where
  "usage_ok u \<longleftrightarrow> identifier_text (iu_identifier u) \<and> identifier_kind_name (iu_kind u)"

definition trigger_ok :: "trigger \<Rightarrow> bool" where
  "trigger_ok t \<longleftrightarrow> - 1000 \<le> tg_priority t \<and> tg_priority t \<le> 1000"

definition source_role :: "string \<Rightarrow> bool" where
  "source_role s = (case s of [] \<Rightarrow> False
     | c # cs \<Rightarrow> is_lower_char c \<and> length cs \<le> 63
         \<and> list_all (\<lambda>d. is_lower_char d \<or> is_digit_char d \<or> d = CHR ''_'' \<or> d = CHR ''-'') cs)"

definition source_ok :: "native_source \<Rightarrow> bool" where
  "source_ok n \<longleftrightarrow> 0 \<le> ns_ordinal n \<and> source_role (ns_role n) \<and> sha256_text (ns_hash n) \<and> ns_locator n \<noteq> ''''"

definition region_area :: "string \<Rightarrow> bool" where
  "region_area s \<longleftrightarrow> length s = 4 \<and> list_all (\<lambda>c. char_between (CHR ''A'') (CHR ''Z'') c \<or> is_digit_char c) s"

definition region_ok :: "native_region \<Rightarrow> bool" where
  "region_ok g \<longleftrightarrow> 0 \<le> ng_offset g \<and> 0 \<le> ng_target g \<and> int32_ok (ng_target g) \<and> region_area (ng_area g) \<and> 1 \<le> ng_disc g \<and> ng_disc g \<le> 3
     \<and> ng_evidence g \<noteq> '''' \<and> 0 \<le> ng_ordinal g
     \<and> (ng_ownership g = ''translated'' \<and> ng_activity g = '''' \<or> ng_ownership g = ''specialized-activity-owned'' \<and> ng_activity g \<noteq> '''')"

definition region_identity :: "native_region \<Rightarrow> int \<times> string \<times> int \<times> int" where
  "region_identity g = (ng_disc g, ng_area g, ng_target g, ng_offset g)"

definition insert_sources :: "int \<Rightarrow> native_source list \<Rightarrow> library \<Rightarrow> library ltx" where
  "insert_sources i ns l = attempt (insert_rows l source_ok ns_ordinal i ns (lb_sources l)) (\<lambda>t. Inr (l\<lparr>lb_sources := t\<rparr>))"

definition insert_regions :: "int \<Rightarrow> native_region list \<Rightarrow> library \<Rightarrow> library ltx" where
  "insert_regions i gs l =
     attempt (insert_rows l region_ok ng_ordinal i gs (lb_regions l)) (\<lambda>_.
     attempt (insert_rows l region_ok region_identity i gs (lb_regions l)) (\<lambda>t. Inr (l\<lparr>lb_regions := t\<rparr>)))"

text \<open>The audit trail is kept of community scripts only, \<open>insertScriptModerationEvent\<close>.\<close>

definition moderation_actions :: "string list" where
  "moderation_actions = [''script.archived'', ''script.restored'', ''version.submitted'', ''version.published'',
     ''version.rollback-published'', ''collaborator.added'', ''collaborator.role-changed'', ''collaborator.removed'',
     ''review-thread.resolved'', ''review-thread.reopened'']"

definition insert_moderation_event ::
  "int \<Rightarrow> int \<Rightarrow> int option \<Rightarrow> int \<Rightarrow> string \<Rightarrow> event_details \<Rightarrow> library \<Rightarrow> library ltx" where
  "insert_moderation_event now i v actor action details l =
     (if \<not> (\<exists>s\<in>set (lb_scripts l). sn_id s = i \<and> sn_origin s = ''community'') then Inr l
      else if account_of l actor = None \<or> action \<notin> set moderation_actions then Inl Constraint
      else Inr (l\<lparr>lb_events := lb_events l @ [\<lparr>me_script = i, me_version = v, me_actor = actor, me_action = action,
                                               me_details = details, me_at = now\<rparr>]\<rparr>))"

section \<open>Indexes of a version\<close>

definition indexed_identifiers :: "script_analysis \<Rightarrow> identifier_usage list" where
  "indexed_identifiers an =
     (let m1 = fold usage_put (an_identifiers an) mempty;
          m2 = fold usage_put (map dependency_usage (an_dependencies an)) m1 in
      sorted_usages (fold usage_put
        (concat (map (\<lambda>t. filter (\<lambda>u. iu_identifier u \<noteq> '''') (selector_usages (tg_selector t))) (an_triggers an))) m2))"

definition replace_indexes :: "int \<Rightarrow> script_analysis \<Rightarrow> library \<Rightarrow> library ltx" where
  "replace_indexes i an l =
     attempt (delete_rows l i (lb_dependencies l)) (\<lambda>ds.
     attempt (delete_rows l i (lb_triggers l)) (\<lambda>ts.
     attempt (delete_rows l i (lb_identifiers l)) (\<lambda>us.
     attempt (insert_rows l dependency_ok (\<lambda>d. d) i (an_dependencies an) ds) (\<lambda>ds'.
     attempt (insert_rows l usage_ok (\<lambda>u. u) i (indexed_identifiers an) us) (\<lambda>us'.
     attempt (insert_rows l trigger_ok tg_node i (an_triggers an) ts) (\<lambda>ts'.
       Inr (l\<lparr>lb_dependencies := ds', lb_identifiers := us', lb_triggers := ts'\<rparr>)))))))"

definition copy_indexes :: "int \<Rightarrow> int \<Rightarrow> library \<Rightarrow> library ltx" where
  "copy_indexes i j l =
     attempt (insert_rows l dependency_ok (\<lambda>d. d) j (rows_of i (lb_dependencies l)) (lb_dependencies l)) (\<lambda>ds.
     attempt (insert_rows l usage_ok (\<lambda>u. u) j (rows_of i (lb_identifiers l)) (lb_identifiers l)) (\<lambda>us.
     attempt (insert_rows l trigger_ok tg_node j (rows_of i (lb_triggers l)) (lb_triggers l)) (\<lambda>ts.
       Inr (l\<lparr>lb_dependencies := ds, lb_identifiers := us, lb_triggers := ts\<rparr>))))"

definition copy_provenance :: "int \<Rightarrow> int \<Rightarrow> library \<Rightarrow> library ltx" where
  "copy_provenance i j l =
     attempt (insert_sources j (rows_of i (lb_sources l)) l) (\<lambda>l1.
       insert_regions j (rows_of i (lb_regions l1)) l1)"

definition load_analysis :: "library \<Rightarrow> int \<Rightarrow> script_analysis" where
  "load_analysis l i =
     \<lparr>an_dependencies = sort_key (\<lambda>d. (dp_kind d, dp_identifier d, dp_access d)) (rows_of i (lb_dependencies l)),
      an_identifiers = sort_key (\<lambda>u. (iu_kind u, iu_identifier u)) (rows_of i (lb_identifiers l)),
      an_triggers = sort_key tg_node (rows_of i (lb_triggers l)), an_warnings = []\<rparr>"

section \<open>What players meet\<close>

definition status_text :: "version_status \<Rightarrow> string" where
  "status_text s = (case s of Draft \<Rightarrow> ''draft'' | InReview \<Rightarrow> ''review'' | Published \<Rightarrow> ''published''
     | Reference \<Rightarrow> ''reference'' | Superseded \<Rightarrow> ''superseded'')"

definition live_script :: "script_entry \<Rightarrow> script_row" where
  "live_script s = \<lparr>sc_id = sn_id s, sc_slug = sn_slug s, sc_published = sn_published s, sc_archived = (sn_archived s \<noteq> None)\<rparr>"

definition live_version :: "version_entry \<Rightarrow> version_row" where
  "live_version v = (let c = ve_content v in
     \<lparr>vs_id = ve_id v, vs_status = status_text (ve_status v), vs_content_format = vc_format c, vs_compile_status = vc_compile_status c,
      vs_command_schema = vc_command_schema c, vs_program = (case vc_program c of None \<Rightarrow> '''' | Some p \<Rightarrow> p),
      vs_lines = vc_lines c\<rparr>)"

definition live_trigger :: "int \<times> trigger \<Rightarrow> trigger_row" where
  "live_trigger r = (let s = tg_selector (snd r) in
     \<lparr>tr_version = fst r, tr_node = tg_node (snd r), tr_kind = ts_kind s, tr_area = nullif_empty (ts_area s),
      tr_actor = nullif_empty (ts_actor s), tr_object = nullif_empty (ts_object s), tr_activity = nullif_empty (ts_activity s),
      tr_priority = tg_priority (snd r)\<rparr>)"

definition live_tables :: "library \<Rightarrow> 'j script_db \<Rightarrow> 'j script_db" where
  "live_tables l d = d\<lparr>sd_scripts := map live_script (lb_scripts l), sd_versions := map live_version (lb_versions l),
                       sd_triggers := map live_trigger (lb_triggers l)\<rparr>"

end
