(* ===== verification/ScriptAuthoring.thy ===== *)
theory ScriptAuthoring
  imports ScriptLibrary
begin

text \<open>
  Authors, reviewers and publishers at work on the repository: \<open>internal/store/scripts.go\<close>,
  \<open>script_rollbacks.go\<close> and \<open>script_collaborators.go\<close>.

  A function is a transaction: it returns the identity of what it made or changed and the new tables. The
  answer that the server sends is read from the tables afterwards (\<open>script_detail\<close>). Where the code reads
  before its transaction begins, other transactions may come between: these reads take tables of their
  own, as in \<open>publish_version\<close> and \<open>rollback_version\<close>.
\<close>

section \<open>Statements the operations share\<close>

definition insert_collaborator :: "int \<Rightarrow> int \<Rightarrow> string \<Rightarrow> library \<Rightarrow> library ltx" where
  "insert_collaborator i a role l =
     (if lb_collaborators l (i, a) \<noteq> None \<or> account_of l a = None \<or> script_of l i = None
         \<or> role \<notin> {''owner'', ''editor'', ''reviewer''}
      then Inl Constraint else Inr (l\<lparr>lb_collaborators := (lb_collaborators l)((i, a) \<mapsto> role)\<rparr>))"

definition touch_script :: "int \<Rightarrow> int \<Rightarrow> library \<Rightarrow> library ltx" where
  "touch_script now i = update_scripts (\<lambda>s. sn_id s = i) (\<lambda>s. s\<lparr>sn_updated_at := now\<rparr>)"

definition set_status :: "int \<Rightarrow> version_status \<Rightarrow> version_entry \<Rightarrow> version_entry" where
  "set_status now st v = v\<lparr>ve_status := st, ve_updated_at := now\<rparr>"

definition supersede :: "version_entry \<Rightarrow> version_entry" where
  "supersede v = v\<lparr>ve_status := Superseded\<rparr>"

definition set_published :: "int \<Rightarrow> version_entry \<Rightarrow> version_entry" where
  "set_published now v = v\<lparr>ve_status := Published, ve_published_at := Some now, ve_updated_at := now\<rparr>"

definition point_published :: "int \<Rightarrow> int \<Rightarrow> int \<Rightarrow> library \<Rightarrow> library ltx" where
  "point_published now i v = update_scripts (\<lambda>s. sn_id s = i) (\<lambda>s. s\<lparr>sn_published := Some v, sn_updated_at := now\<rparr>)"

section \<open>Creating and saving\<close>

record script_input =
  si_slug :: string
  si_title :: string
  si_description :: string
  si_summary :: string
  si_source :: string
  si_triggers :: "trigger list"

text \<open>What a compilation puts into a row.\<close>

definition compiled_content :: "authoring_env \<Rightarrow> string \<Rightarrow> compilation \<Rightarrow> version_content \<Rightarrow> version_content" where
  "compiled_content env source c row = row
     \<lparr>vc_source := Some source, vc_source_hash := Some (le_hash env source), vc_program := nullif_empty (cm_program c),
      vc_program_hash := (if cm_valid c then Some (le_hash env (cm_program c)) else None), vc_compiler := Some yarn_compiler_version,
      vc_command_schema := Some yarn_command_schema_version, vc_compile_status := (if cm_valid c then ''valid'' else ''invalid''),
      vc_diagnostics := cm_diagnostics c, vc_lines := Some (cm_lines c), vc_nodes := Some (cm_nodes c)\<rparr>"

definition blank_content :: "int \<Rightarrow> int \<Rightarrow> int \<Rightarrow> version_content" where
  "blank_content i n now =
     \<lparr>vc_script = i, vc_version = n, vc_revision = 1, vc_format = yarn_content_format, vc_schema = yarn_content_schema,
      vc_document = None, vc_source = None, vc_source_hash = None, vc_program = None, vc_program_hash = None, vc_compiler = None,
      vc_command_schema = None, vc_compile_status = ''not-applicable'', vc_diagnostics = [], vc_lines = None, vc_nodes = None,
      vc_summary = '''', vc_content_hash = None, vc_native_locator = None, vc_native_hash = None, vc_based_on = None,
      vc_author = None, vc_created_at = now\<rparr>"

definition compiled :: "authoring_env \<Rightarrow> string \<Rightarrow> string \<Rightarrow> trigger list \<Rightarrow> compilation ltx" where
  "compiled env file source triggers = map_sum CompileRefused id (compile_yarn (le_compiler env) file source triggers)"

definition create_from_source ::
  "authoring_env \<Rightarrow> call_moment \<Rightarrow> int \<Rightarrow> script_input \<Rightarrow> string \<Rightarrow> library \<Rightarrow> (int \<times> library) ltx" where
  "create_from_source env x a input source l =
     (let slug = le_lower env (trim_space (si_slug input)); i = cx_script x; v = cx_version x; now = cx_now x in
      attempt (compiled env (slug @ ''.yarn'') source (si_triggers input)) (\<lambda>c.
      attempt (insert_script
        \<lparr>sn_id = i, sn_slug = slug, sn_title = trim_space (si_title input), sn_description = trim_space (si_description input),
         sn_origin = ''community'', sn_locator = None, sn_hash = None, sn_created_by = Some a, sn_published = None,
         sn_reference = None, sn_updated_at = now, sn_archived = None\<rparr> l) (\<lambda>l1.
      attempt (insert_collaborator i a ''owner'' l1) (\<lambda>l2.
      attempt (insert_version (draft_entry now v (compiled_content env source c
        ((blank_content i 1 now)\<lparr>vc_summary := trim_space (si_summary input), vc_author := Some a\<rparr>))) l2) (\<lambda>l3.
      attempt (replace_indexes v (cm_analysis c) l3) (\<lambda>l4. Inr (i, l4)))))))"

definition create_yarn_script :: "authoring_env \<Rightarrow> call_moment \<Rightarrow> int \<Rightarrow> script_input \<Rightarrow> library \<Rightarrow> (int \<times> library) ltx" where
  "create_yarn_script env x a input l =
     attempt (map_sum SourceRefused id (canonical_yarn_source (si_source input))) (\<lambda>source. create_from_source env x a input source l)"

record draft_input =
  di_revision :: int
  di_summary :: string
  di_source :: string
  di_triggers :: "trigger list"

definition save_yarn_draft :: "authoring_env \<Rightarrow> call_moment \<Rightarrow> int \<Rightarrow> int \<Rightarrow> int \<Rightarrow> draft_input \<Rightarrow> library \<Rightarrow> (int \<times> library) ltx" where
  "save_yarn_draft env x a i n input l =
     attempt (map_sum SourceRefused id (canonical_yarn_source (di_source input))) (\<lambda>source.
     attempt (compiled env (''script-'' @ int_decimal i @ ''.yarn'') source (di_triggers input)) (\<lambda>c.
       let mine = (\<lambda>v. ve_script v = i \<and> ve_version v = n \<and> vc_revision (ve_content v) = di_revision input \<and> ve_status v = Draft
             \<and> vc_format (ve_content v) = ''yarn'' \<and> may_edit l i a);
           save = (\<lambda>v. v\<lparr>ve_updated_at := cx_now x,
             ve_content := compiled_content env source c ((ve_content v)
               \<lparr>vc_summary := trim_space (di_summary input), vc_revision := vc_revision (ve_content v) + 1\<rparr>)\<rparr>) in
       required VersionChanged (find mine (lb_versions l)) (\<lambda>v.
       attempt (update_versions mine save l) (\<lambda>l1.
       attempt (replace_indexes (ve_id v) (cm_analysis c) l1) (\<lambda>l2.
       attempt (touch_script (cx_now x) i l2) (\<lambda>l3. Inr (ve_id v, l3)))))))"

section \<open>A new version\<close>

text \<open>An outsider becomes an editor by building on what is published.\<close>

definition contribute :: "int \<Rightarrow> int \<Rightarrow> int \<Rightarrow> script_entry \<Rightarrow> version_entry \<Rightarrow> library \<Rightarrow> library ltx" where
  "contribute now a i s base l =
     (if lb_collaborators l (i, a) = Some ''reviewer'' then Inl Forbidden
      else if may_edit l i a then Inr l
      else if Some (ve_id base) \<notin> {sn_published s, sn_reference s} then Inl NotFound
      else attempt (insert_collaborator i a ''editor'' l)
             (insert_moderation_event now i None a ''collaborator.added'' (AccountRole a ''editor'' None)))"

definition create_script_version :: "call_moment \<Rightarrow> int \<Rightarrow> int \<Rightarrow> int \<Rightarrow> library \<Rightarrow> (int \<times> library) ltx" where
  "create_script_version x a i n l =
     required NotFound (script_of l i) (\<lambda>s.
     required NotFound (version_of l i n) (\<lambda>base.
       let v = cx_version x; now = cx_now x;
           c = (ve_content base)\<lparr>vc_version := next_version l i, vc_revision := 1, vc_based_on := Some (ve_id base),
                                  vc_author := Some a, vc_created_at := now\<rparr> in
       demand (vc_format (ve_content base) \<noteq> ''native-reference'') NativeNotEditable
       (attempt (contribute now a i s base l) (\<lambda>l1.
        attempt (insert_version (draft_entry now v c) l1) (\<lambda>l2.
        attempt (case vc_document c of
            Some d \<Rightarrow> replace_indexes v (case validate_document d False of Inr an \<Rightarrow> an
                        | Inl _ \<Rightarrow> \<lparr>an_dependencies = [], an_identifiers = [], an_triggers = [], an_warnings = []\<rparr>) l2
          | None \<Rightarrow> copy_indexes (ve_id base) v l2) (\<lambda>l3.
        attempt (copy_provenance (ve_id base) v l3) (\<lambda>l4. Inr (v, l4))))))))"

definition submit_version :: "call_moment \<Rightarrow> int \<Rightarrow> int \<Rightarrow> int \<Rightarrow> library \<Rightarrow> (int \<times> library) ltx" where
  "submit_version x a i n l =
     (let ready = (\<lambda>v. ve_script v = i \<and> ve_version v = n \<and> ve_status v = Draft
            \<and> (vc_format (ve_content v) \<noteq> ''yarn'' \<or> vc_compile_status (ve_content v) = ''valid''
                \<and> vc_compiler (ve_content v) = Some yarn_compiler_version
                \<and> vc_command_schema (ve_content v) = Some yarn_command_schema_version)
            \<and> may_edit l i a) in
      required NotFound (find ready (lb_versions l)) (\<lambda>v.
      attempt (update_versions ready (set_status (cx_now x) InReview) l) (\<lambda>l1.
      attempt (insert_moderation_event (cx_now x) i (Some (ve_id v)) a ''version.submitted'' NoDetails l1) (\<lambda>l2.
        Inr (ve_id v, l2)))))"

section \<open>Publication\<close>

definition publish_check :: "int \<Rightarrow> int \<Rightarrow> int \<Rightarrow> library \<Rightarrow> unit ltx" where
  "publish_check a i n l =
     required NotFound (account_of l a) (\<lambda>_.
     demand (is_moderator l a) Forbidden
     (required NotFound (version_of l i n) (\<lambda>v.
       let c = ve_content v in
       if vc_format c = ''yarn''
       then demand (vc_compile_status c = ''valid'' \<and> vc_program c \<notin> {None, Some ''''}) NotCompiled
            (demand (vc_compiler c = Some yarn_compiler_version \<and> vc_command_schema c = Some yarn_command_schema_version)
              CompilerOutdated (Inr ()))
       else required NoDocument (vc_document c) (\<lambda>d.
              map_sum DocumentRefused (\<lambda>_. ()) (validate_document d True)))))"

definition publish_commit :: "call_moment \<Rightarrow> int \<Rightarrow> int \<Rightarrow> int \<Rightarrow> library \<Rightarrow> (int \<times> library) ltx" where
  "publish_commit x a i n l =
     (let now = cx_now x; reviewed = (\<lambda>v. ve_script v = i \<and> ve_version v = n \<and> ve_status v = InReview);
          current = (case script_of l i of None \<Rightarrow> None | Some s \<Rightarrow> sn_published s) in
      attempt (update_versions (\<lambda>v. Some (ve_id v) = current \<and> ve_status v = Published) supersede l) (\<lambda>l1.
      required NoRows (find reviewed (lb_versions l1)) (\<lambda>v.
      attempt (update_versions reviewed (set_published now) l1) (\<lambda>l2.
      attempt (point_published now i (ve_id v) l2) (\<lambda>l3.
      attempt (insert_moderation_event now i (Some (ve_id v)) a ''version.published'' NoDetails l3) (\<lambda>l4.
        Inr (ve_id v, l4)))))))"

definition publish_version :: "call_moment \<Rightarrow> int \<Rightarrow> int \<Rightarrow> int \<Rightarrow> library \<Rightarrow> library \<Rightarrow> (int \<times> library) ltx" where
  "publish_version x a i n before_l l = attempt (publish_check a i n before_l) (\<lambda>_. publish_commit x a i n l)"

section \<open>Rolling back\<close>

text \<open>A text's first characters: the bytes before the one that starts the next character.\<close>

fun take_chars :: "nat \<Rightarrow> string \<Rightarrow> string" where
  "take_chars n [] = []"
| "take_chars n (c # s) =
     (if 128 \<le> (of_char c :: nat) \<and> (of_char c :: nat) < 192 then c # take_chars n s
      else case n of 0 \<Rightarrow> [] | Suc m \<Rightarrow> c # take_chars m s)"

definition rollback_summary :: "int \<Rightarrow> string \<Rightarrow> string" where
  "rollback_summary n previous =
     take_chars 4000 (''Rollback to version '' @ int_decimal n
       @ (if trim_space previous = '''' then '''' else '': '' @ trim_space previous))"

definition null_blank :: "string option \<Rightarrow> string option" where
  "null_blank t = (if t = Some '''' then None else t)"

record rollback_plan =
  rp_target :: version_entry
  rp_current :: int
  rp_compilation :: compilation

definition plan_rollback :: "authoring_env \<Rightarrow> int \<Rightarrow> int \<Rightarrow> int \<Rightarrow> library \<Rightarrow> rollback_plan ltx" where
  "plan_rollback env a i n l =
     required NotFound (account_of l a) (\<lambda>_.
     demand (is_moderator l a) Forbidden
     (required NotFound (script_of l i) (\<lambda>s.
      demand (sn_origin s = ''community'' \<and> sn_archived s = None) Forbidden
      (required NotFound (find (\<lambda>v. ve_script v = i \<and> ve_version v = n \<and> ve_status v = Superseded) (lb_versions l)) (\<lambda>target.
       required NotRollbackable (sn_published s) (\<lambda>current.
       let source = (case vc_source (ve_content target) of None \<Rightarrow> '''' | Some t \<Rightarrow> t) in
       demand (vc_format (ve_content target) = ''yarn'' \<and> trim_space source \<noteq> '''' \<and> current \<noteq> ve_id target) NotRollbackable
       (attempt (compiled env (''script-'' @ int_decimal i @ ''-rollback-v'' @ int_decimal n @ ''.yarn'') source
           (an_triggers (load_analysis l (ve_id target)))) (\<lambda>c.
        demand (cm_valid c \<and> cm_program c \<noteq> '''') NoLongerCompiles
        (Inr \<lparr>rp_target = target, rp_current = current, rp_compilation = c\<rparr>)))))))))"

definition rollback_content :: "authoring_env \<Rightarrow> int \<Rightarrow> int \<Rightarrow> int \<Rightarrow> rollback_plan \<Rightarrow> version_content" where
  "rollback_content env now a n p =
     (let t = ve_content (rp_target p) in
      compiled_content env (case vc_source t of None \<Rightarrow> '''' | Some s \<Rightarrow> s) (rp_compilation p)
        ((blank_content (vc_script t) n now)\<lparr>vc_summary := rollback_summary (vc_version t) (vc_summary t),
            vc_content_hash := null_blank (vc_content_hash t), vc_native_locator := null_blank (vc_native_locator t),
            vc_native_hash := null_blank (vc_native_hash t), vc_based_on := Some (ve_id (rp_target p)), vc_author := Some a\<rparr>))"

definition update_one :: "(version_entry \<Rightarrow> bool) \<Rightarrow> (version_entry \<Rightarrow> version_entry) \<Rightarrow> library \<Rightarrow> library ltx" where
  "update_one P f l =
     attempt (update_versions P f l) (\<lambda>l1. demand (length (filter P (lb_versions l)) = 1) VersionChanged (Inr l1))"

definition rollback_commit :: "authoring_env \<Rightarrow> call_moment \<Rightarrow> int \<Rightarrow> int \<Rightarrow> rollback_plan \<Rightarrow> library \<Rightarrow> (int \<times> library) ltx" where
  "rollback_commit env x a i p l =
     (let now = cx_now x; v = cx_version x; target = rp_target p in
      required NotFound (account_of l a) (\<lambda>_.
      demand (is_moderator l a) Forbidden
      (required NotFound (script_of l i) (\<lambda>s.
       demand (sn_origin s = ''community'' \<and> sn_archived s = None \<and> sn_published s = Some (rp_current p)) VersionChanged
       (demand (\<exists>t\<in>set (lb_versions l). ve_id t = ve_id target \<and> ve_script t = i \<and> ve_status t = Superseded) VersionChanged
        (attempt (insert_version (draft_entry now v (rollback_content env now a (next_version l i) p)) l) (\<lambda>l1.
         attempt (replace_indexes v (cm_analysis (rp_compilation p)) l1) (\<lambda>l2.
         attempt (copy_provenance (ve_id target) v l2) (\<lambda>l3.
         attempt (update_one (\<lambda>w. ve_id w = v \<and> ve_status w = Draft) (set_status now InReview) l3) (\<lambda>l4.
         attempt (update_one (\<lambda>w. ve_id w = rp_current p \<and> ve_status w = Published) (set_status now Superseded) l4) (\<lambda>l5.
         required NoRows (find (\<lambda>w. ve_id w = v \<and> ve_status w = InReview) (lb_versions l5)) (\<lambda>_.
         attempt (update_versions (\<lambda>w. ve_id w = v \<and> ve_status w = InReview) (set_published now) l5) (\<lambda>l6.
         attempt (point_published now i v l6) (\<lambda>l7.
         attempt (insert_moderation_event now i (Some v) a ''version.rollback-published''
             (SourceVersion (ve_id target) (ve_version target)) l7) (\<lambda>l8. Inr (v, l8))))))))))))))))"

definition rollback_version ::
  "authoring_env \<Rightarrow> call_moment \<Rightarrow> int \<Rightarrow> int \<Rightarrow> int \<Rightarrow> library \<Rightarrow> library \<Rightarrow> (int \<times> library) ltx" where
  "rollback_version env x a i n before_l l =
     attempt (plan_rollback env a i n before_l) (\<lambda>p. rollback_commit env x a i p l)"

end
