(* ===== verification/ScriptStewards.thy ===== *)
theory ScriptStewards
  imports ScriptAuthoring
begin

text \<open>
  Owners, moderators and readers: the metadata, archival and visibility of a script in
  \<open>internal/store/scripts.go\<close>, its collaborators (\<open>script_collaborators.go\<close>), its audit trail
  (\<open>script_moderation.go\<close>) and the identifiers in use (\<open>script_identifiers.go\<close>).
\<close>

section \<open>Metadata and archival\<close>

definition update_metadata :: "authoring_env \<Rightarrow> int \<Rightarrow> int \<Rightarrow> int \<Rightarrow> string \<Rightarrow> string \<Rightarrow> library \<Rightarrow> library ltx" where
  "update_metadata env now a i title description l =
     (let mine = (\<lambda>s. sn_id s = i \<and> sn_archived s = None \<and> (may_edit l i a \<or> is_moderator l a)) in
      attempt (update_scripts mine (\<lambda>s. s\<lparr>sn_title := trim_space title, sn_description := trim_space description,
          sn_updated_at := now\<rparr>) l) (\<lambda>l1.
      demand (length (filter mine (lb_scripts l)) = 1) Forbidden (Inr l1)))"

definition set_archived :: "int \<Rightarrow> int \<Rightarrow> int \<Rightarrow> bool \<Rightarrow> library \<Rightarrow> library ltx" where
  "set_archived now a i arch l =
     (let mine = (\<lambda>s. sn_id s = i \<and> sn_origin s = ''community''
            \<and> (lb_collaborators l (i, a) = Some ''owner'' \<or> is_moderator l a)) in
      attempt (update_scripts mine (\<lambda>s. s\<lparr>sn_archived := (if arch then Some (now, a) else None), sn_updated_at := now\<rparr>) l) (\<lambda>l1.
      demand (length (filter mine (lb_scripts l)) = 1) Forbidden
        (insert_moderation_event now i None a (if arch then ''script.archived'' else ''script.restored'') NoDetails l1)))"

section \<open>Collaborators\<close>

definition owned_script :: "int \<Rightarrow> int \<Rightarrow> library \<Rightarrow> script_entry ltx" where
  "owned_script owner i l =
     required Forbidden (script_of l i) (\<lambda>s.
     required Forbidden (lb_collaborators l (i, owner)) (\<lambda>role.
     demand (role = ''owner'' \<and> sn_origin s = ''community'' \<and> sn_archived s = None) Forbidden (Inr s)))"

definition set_collaborator ::
  "authoring_env \<Rightarrow> int \<Rightarrow> int \<Rightarrow> int \<Rightarrow> string \<Rightarrow> string \<Rightarrow> library \<Rightarrow> (int \<times> library) ltx" where
  "set_collaborator env now owner i email0 role0 l =
     (let email = le_lower env (trim_space email0); role = trim_space role0 in
      demand (email \<noteq> '''' \<and> role \<in> {''editor'', ''reviewer''}) CollaboratorInput
      (attempt (owned_script owner i l) (\<lambda>_.
       required NotFound (find (\<lambda>r. ac_registered r \<and> le_lower env (ac_email r) = le_lower env email) (lb_accounts l)) (\<lambda>account.
       let target = ac_id account; previous = lb_collaborators l (i, target) in
       demand (target \<noteq> owner) OwnerFixed
       (demand (previous \<noteq> Some ''owner'') Forbidden
        (attempt (touch_script now i (l\<lparr>lb_collaborators := (lb_collaborators l)((i, target) \<mapsto> role)\<rparr>)) (\<lambda>l1.
         attempt (insert_moderation_event now i None owner
             (if previous = None then ''collaborator.added'' else ''collaborator.role-changed'')
             (AccountRole target role previous) l1) (\<lambda>l2. Inr (target, l2)))))))))"

definition remove_collaborator :: "int \<Rightarrow> int \<Rightarrow> int \<Rightarrow> int \<Rightarrow> library \<Rightarrow> library ltx" where
  "remove_collaborator now owner i target l =
     demand (0 < target \<and> target \<noteq> owner) Forbidden
     (attempt (owned_script owner i l) (\<lambda>_.
      required NotFound (lb_collaborators l (i, target)) (\<lambda>role.
      demand (role \<noteq> ''owner'') NotFound
      (attempt (touch_script now i (l\<lparr>lb_collaborators := (lb_collaborators l)((i, target) := None)\<rparr>)) (\<lambda>l1.
         insert_moderation_event now i None owner ''collaborator.removed'' (AccountRole target role None) l1)))))"

definition role_rank :: "string \<Rightarrow> nat" where
  "role_rank r = (if r = ''owner'' then 0 else if r = ''editor'' then 1 else 2)"

definition list_collaborators :: "authoring_env \<Rightarrow> int \<Rightarrow> int \<Rightarrow> library \<Rightarrow> (int \<times> string \<times> string) list ltx" where
  "list_collaborators env viewer i l =
     demand (lb_collaborators l (i, viewer) \<noteq> None) Forbidden
     (Inr (sort_key (\<lambda>(a, email, role). (role_rank role, le_lower env email, a))
        (List.map_filter (\<lambda>r. map_option (\<lambda>role. (ac_id r, ac_email r, role)) (lb_collaborators l (i, ac_id r))) (lb_accounts l))))"

section \<open>Readers\<close>

text \<open>The account 0 of an anonymous reader matches no row. \<open>access_role\<close> is the role an answer names.\<close>

definition collaborates :: "library \<Rightarrow> int \<Rightarrow> int \<Rightarrow> bool" where
  "collaborates l i a \<longleftrightarrow> a \<noteq> 0 \<and> lb_collaborators l (i, a) \<noteq> None"

definition moderates :: "library \<Rightarrow> int \<Rightarrow> bool" where
  "moderates l a \<longleftrightarrow> a \<noteq> 0 \<and> is_moderator l a"

definition privileged :: "library \<Rightarrow> int \<Rightarrow> int \<Rightarrow> bool" where
  "privileged l i a \<longleftrightarrow> collaborates l i a \<or> moderates l a"

definition access_role :: "library \<Rightarrow> int \<Rightarrow> int \<Rightarrow> string" where
  "access_role l i a =
     (if collaborates l i a then (case lb_collaborators l (i, a) of Some r \<Rightarrow> r | None \<Rightarrow> '''')
      else if moderates l a then ''reviewer'' else '''')"

record script_answer =
  st_script :: script_entry
  st_role :: string
  st_versions :: "(version_entry \<times> script_analysis \<times> native_source list \<times> native_region list) list"

definition version_analysis :: "library \<Rightarrow> version_entry \<Rightarrow> library_error + script_analysis" where
  "version_analysis l v =
     (case vc_document (ve_content v) of
        Some d \<Rightarrow> (case validate_document d False of
            Inl e \<Rightarrow> Inl (DocumentRefused e)
          | Inr an \<Rightarrow> Inr (if vc_format (ve_content v) = yarn_content_format then load_analysis l (ve_id v) else an))
      | None \<Rightarrow> Inr (if vc_format (ve_content v) = yarn_content_format then load_analysis l (ve_id v)
                    else \<lparr>an_dependencies = [], an_identifiers = [], an_triggers = [], an_warnings = []\<rparr>))"

fun described_versions ::
  "library \<Rightarrow> version_entry list \<Rightarrow> (version_entry \<times> script_analysis \<times> native_source list \<times> native_region list) list ltx" where
  "described_versions l [] = Inr []"
| "described_versions l (v # vs) =
     attempt (version_analysis l v) (\<lambda>an.
     attempt (described_versions l vs) (\<lambda>rest.
       Inr ((v, an, sort_key ns_ordinal (rows_of (ve_id v) (lb_sources l)),
             sort_key ng_ordinal (rows_of (ve_id v) (lb_regions l))) # rest)))"

definition visible_versions :: "library \<Rightarrow> int \<Rightarrow> int \<Rightarrow> version_entry list" where
  "visible_versions l a i =
     rev (sort_key ve_version (filter (\<lambda>v. ve_script v = i
       \<and> (ve_status v \<in> {Published, Reference, Superseded} \<or> access_role l i a \<noteq> '''')) (lb_versions l)))"

definition script_detail :: "int \<Rightarrow> int \<Rightarrow> library \<Rightarrow> script_answer ltx" where
  "script_detail a i l =
     required NotFound (script_of l i) (\<lambda>s.
     demand ((privileged l i a \<or> sn_published s \<noteq> None \<or> sn_reference s \<noteq> None) \<and> (sn_archived s = None \<or> privileged l i a)) NotFound
     (attempt (described_versions l (visible_versions l a i)) (\<lambda>vs.
        Inr \<lparr>st_script = s, st_role = access_role l i a, st_versions = vs\<rparr>)))"

text \<open>The list shows one version of each script: the newest to collaborators and moderators, the current one to others.\<close>

definition listed_version :: "library \<Rightarrow> int \<Rightarrow> script_entry \<Rightarrow> version_entry option" where
  "listed_version l a s =
     (let i = sn_id s;
          rank = (\<lambda>v. (if privileged l i a then ve_version v else 0,
                       if Some (ve_id v) \<in> {sn_published s, sn_reference s} then 1 else 0 :: int, ve_version v));
          candidates = filter (\<lambda>v. ve_script v = i \<and> (ve_status v \<in> {Published, Reference} \<or> privileged l i a)) (lb_versions l) in
      case rev (sort_key rank candidates) of [] \<Rightarrow> None | v # _ \<Rightarrow> Some v)"

definition list_scripts :: "int \<Rightarrow> library \<Rightarrow> (script_entry \<times> string \<times> version_entry) list" where
  "list_scripts a l =
     rev (sort_key (\<lambda>(s, _, _). (sn_updated_at s, sn_id s))
       (List.map_filter (\<lambda>s. map_option (\<lambda>v. (s, access_role l (sn_id s) a, v)) (listed_version l a s))
         (filter (\<lambda>s. sn_archived s = None \<or> privileged l (sn_id s) a) (lb_scripts l))))"

definition list_moderation_events :: "int \<Rightarrow> int \<Rightarrow> library \<Rightarrow> moderation_event list ltx" where
  "list_moderation_events viewer i l =
     demand ((\<exists>s\<in>set (lb_scripts l). sn_id s = i \<and> sn_origin s = ''community'') \<and> is_registered l viewer
         \<and> (lb_collaborators l (i, viewer) \<noteq> None \<or> is_moderator l viewer)) Forbidden
     (Inr (rev (sort_key me_at (filter (\<lambda>e. me_script e = i) (lb_events l)))))"

definition published_identifiers :: "library \<Rightarrow> (string \<times> string \<times> nat) list" where
  "published_identifiers l =
     (let live = filter (\<lambda>v. \<exists>s\<in>set (lb_scripts l). sn_id s = ve_script v \<and> sn_archived s = None
            \<and> Some (ve_id v) \<in> {sn_published s, sn_reference s}) (lb_versions l);
          used = concat (map (\<lambda>v. map (\<lambda>u. (iu_kind u, iu_identifier u)) (rows_of (ve_id v) (lb_identifiers l))) live) in
      map (\<lambda>(k, n). (k, n, count_list used (k, n))) (sort (remdups used)))"

section \<open>Recovered scripts\<close>

record recovered_input =
  ri_slug :: string
  ri_title :: string
  ri_description :: string
  ri_locator :: string
  ri_hash :: string
  ri_document_hash :: string
  ri_document :: document
  ri_summary :: string

definition upsert_recovered :: "call_moment \<Rightarrow> recovered_input \<Rightarrow> library \<Rightarrow> (int \<times> library) ltx" where
  "upsert_recovered x input l =
     (let row = \<lparr>sn_id = cx_script x, sn_slug = ri_slug input, sn_title = ri_title input, sn_description = ri_description input,
              sn_origin = ''recovered'', sn_locator = Some (ri_locator input), sn_hash = Some (ri_hash input), sn_created_by = None,
              sn_published = None, sn_reference = None, sn_updated_at = cx_now x, sn_archived = None\<rparr>;
          same = (\<lambda>s. sn_origin s = ''recovered'' \<and> sn_locator s = Some (ri_locator input)) in
      demand (script_columns_ok row) Constraint
      (case find same (lb_scripts l) of
         None \<Rightarrow> attempt (insert_script row l) (\<lambda>l1. Inr (cx_script x, l1))
       | Some s \<Rightarrow> attempt (update_scripts same (\<lambda>s. s\<lparr>sn_title := ri_title input, sn_description := ri_description input,
                      sn_hash := Some (ri_hash input), sn_updated_at := cx_now x\<rparr>) l) (\<lambda>l1. Inr (sn_id s, l1))))"

definition import_recovered :: "call_moment \<Rightarrow> recovered_input \<Rightarrow> library \<Rightarrow> (int \<times> library) ltx" where
  "import_recovered x input l =
     attempt (map_sum DocumentRefused id (validate_document (ri_document input) False)) (\<lambda>an.
     demand (sha256_text (ri_hash input) \<and> sha256_text (ri_document_hash input)) HashesRequired
     (attempt (upsert_recovered x input l) (\<lambda>(i, l1).
      if \<exists>v\<in>set (lb_versions l1). ve_script v = i \<and> vc_content_hash (ve_content v) = Some (ri_document_hash input)
      then Inr (i, l1)
      else
        let v = cx_version x; now = cx_now x;
            c = (blank_content i (next_version l1 i) now)
              \<lparr>vc_format := ''native-reference'', vc_schema := document_schema, vc_document := Some (ri_document input),
               vc_summary := ri_summary input, vc_content_hash := Some (ri_document_hash input),
               vc_native_locator := Some (ri_locator input), vc_native_hash := Some (ri_hash input)\<rparr> in
        attempt (insert_version (draft_entry now v c) l1) (\<lambda>l2.
        attempt (replace_indexes v an l2) (\<lambda>l3.
        attempt (insert_sources v [\<lparr>ns_ordinal = 0, ns_role = ''primary'', ns_locator = ri_locator input, ns_hash = ri_hash input\<rparr>] l3) (\<lambda>l4.
        attempt (update_versions (\<lambda>w. ve_id w = v) (\<lambda>w. w\<lparr>ve_status := Reference, ve_published_at := Some now\<rparr>) l4) (\<lambda>l5.
        attempt (update_scripts (\<lambda>s. sn_id s = i) (\<lambda>s. s\<lparr>sn_reference := Some v\<rparr>) l5) (\<lambda>l6. Inr (i, l6)))))))))"

end
