(* ===== verification/ScriptOfficial.thy ===== *)
theory ScriptOfficial
  imports ScriptStewards
begin

text \<open>
  Test fixtures of a script (\<open>internal/store/script_fixtures.go\<close>) and the official translations the server
  ships (\<open>official_scripts.go\<close>).

  A fixture's world state is kept as the normalised JSON text; the identities of fixtures that the import
  may create are the list \<open>ids\<close>. The case mapping of the database is that of the server.
\<close>

section \<open>Fixtures\<close>

definition fixture_source :: "library \<Rightarrow> int \<Rightarrow> int \<Rightarrow> version_entry option" where
  "fixture_source l i v = find (\<lambda>w. ve_id w = v \<and> ve_script w = i \<and> vc_format (ve_content w) = ''yarn''
     \<and> vc_compile_status (ve_content w) = ''valid'') (lb_versions l)"

definition fixture_ok :: "authoring_env \<Rightarrow> fixture_row \<Rightarrow> bool" where
  "fixture_ok env f \<longleftrightarrow> 1 \<le> char_length (fx_name f) \<and> char_length (fx_name f) \<le> 120 \<and> char_length (fx_description f) \<le> 1000
     \<and> 1 \<le> char_length (fx_start f) \<and> char_length (fx_start f) \<le> 160 \<and> le_json_object env (fx_body f)
     \<and> 0 < fx_revision f \<and> int64_ok (fx_revision f) \<and> fx_origin f \<in> {''community'', ''official''}"

text \<open>Active fixtures of a script have different names.\<close>

definition fixture_key :: "authoring_env \<Rightarrow> fixture_row \<Rightarrow> (int \<times> string) option" where
  "fixture_key env f = (if fx_archived f = None then Some (fx_script f, le_lower env (fx_name f)) else None)"

definition insert_fixture :: "authoring_env \<Rightarrow> fixture_row \<Rightarrow> library \<Rightarrow> library ltx" where
  "insert_fixture env f l =
     (if \<not> fixture_ok env f \<or> fixture_source l (fx_script f) (fx_version f) = None
         \<or> (\<exists>g\<in>set (lb_fixtures l). fx_id g = fx_id f \<or> fixture_key env f \<noteq> None \<and> fixture_key env g = fixture_key env f)
      then Inl Constraint else Inr (l\<lparr>lb_fixtures := lb_fixtures l @ [f]\<rparr>))"

text \<open>The update of the fixture with an id; the version is checked where it is assigned.\<close>

definition update_fixture :: "authoring_env \<Rightarrow> bool \<Rightarrow> int \<Rightarrow> (fixture_row \<Rightarrow> fixture_row) \<Rightarrow> library \<Rightarrow> library ltx" where
  "update_fixture env assigns i f l =
     (let fs = map (\<lambda>g. if fx_id g = i then f g else g) (lb_fixtures l) in
      if list_all (\<lambda>g. fx_id g = i \<longrightarrow> fixture_ok env g \<and> (assigns \<longrightarrow> fixture_source l (fx_script g) (fx_version g) \<noteq> None)
             \<and> (fixture_key env g \<noteq> None \<longrightarrow> list_all (\<lambda>h. fx_id h = i \<or> fixture_key env h \<noteq> fixture_key env g) fs)) fs
      then Inr (l\<lparr>lb_fixtures := fs\<rparr>) else Inl Constraint)"

record fixture_input =
  fi_version :: int
  fi_name :: string
  fi_description :: string
  fi_start :: string
  fi_body :: string
  fi_revision :: int

definition sees_version :: "library \<Rightarrow> int \<Rightarrow> version_entry \<Rightarrow> bool" where
  "sees_version l a v \<longleftrightarrow> ve_status v \<in> {Published, Reference, Superseded}
     \<or> lb_collaborators l (ve_script v, a) \<noteq> None \<or> is_moderator l a"

definition manages_fixture :: "library \<Rightarrow> int \<Rightarrow> fixture_row \<Rightarrow> bool" where
  "manages_fixture l a f \<longleftrightarrow> fx_created_by f = Some a \<or> may_edit l (fx_script f) a \<or> is_moderator l a"

definition create_fixture :: "authoring_env \<Rightarrow> call_moment \<Rightarrow> int \<Rightarrow> int \<Rightarrow> fixture_input \<Rightarrow> library \<Rightarrow> (int \<times> library) ltx" where
  "create_fixture env x a i input l =
     required Forbidden (fixture_source l i (fi_version input)) (\<lambda>v.
     demand (script_of l i \<noteq> None \<and> \<not> archived l i \<and> is_registered l a \<and> sees_version l a v) Forbidden
     (attempt (insert_fixture env
        \<lparr>fx_id = cx_row x, fx_script = i, fx_version = fi_version input, fx_name = trim_space (fi_name input),
         fx_description = trim_space (fi_description input), fx_start = trim_space (fi_start input),
         fx_body = le_json_normal env (fi_body input), fx_created_by = Some a, fx_revision = 1, fx_updated_at = cx_now x,
         fx_archived = None, fx_origin = ''community''\<rparr> l) (\<lambda>l1. Inr (cx_row x, l1))))"

definition revise_fixture :: "authoring_env \<Rightarrow> call_moment \<Rightarrow> int \<Rightarrow> int \<Rightarrow> int \<Rightarrow> fixture_input \<Rightarrow> library \<Rightarrow> library ltx" where
  "revise_fixture env x a i j input l =
     required VersionChanged (find (\<lambda>f. fx_id f = j \<and> fx_script f = i \<and> fx_revision f = fi_revision input \<and> fx_archived f = None)
         (lb_fixtures l)) (\<lambda>f.
     required VersionChanged (fixture_source l i (fi_version input)) (\<lambda>v.
     demand (script_of l i \<noteq> None \<and> \<not> archived l i \<and> account_of l a \<noteq> None \<and> sees_version l a v \<and> manages_fixture l a f) VersionChanged
       (update_fixture env True j (\<lambda>g. g\<lparr>fx_version := fi_version input, fx_name := trim_space (fi_name input),
          fx_description := trim_space (fi_description input), fx_start := trim_space (fi_start input),
          fx_body := le_json_normal env (fi_body input), fx_revision := fx_revision g + 1, fx_updated_at := cx_now x\<rparr>) l)))"

definition set_fixture_archived :: "authoring_env \<Rightarrow> call_moment \<Rightarrow> int \<Rightarrow> int \<Rightarrow> int \<Rightarrow> int \<Rightarrow> bool \<Rightarrow> library \<Rightarrow> library ltx" where
  "set_fixture_archived env x a i j revision arch l =
     required VersionChanged (find (\<lambda>f. fx_id f = j \<and> fx_script f = i \<and> fx_revision f = revision \<and> (fx_archived f = None) = arch)
         (lb_fixtures l)) (\<lambda>f.
     demand (script_of l i \<noteq> None \<and> account_of l a \<noteq> None \<and> manages_fixture l a f) VersionChanged
       (update_fixture env False j (\<lambda>g. g\<lparr>fx_archived := (if arch then Some (cx_now x, Some a) else None),
          fx_revision := fx_revision g + 1, fx_updated_at := cx_now x\<rparr>) l))"

definition listed_fixtures :: "library \<Rightarrow> int \<Rightarrow> int \<Rightarrow> bool \<Rightarrow> fixture_row list" where
  "listed_fixtures l a i with_archived =
     sort_key (\<lambda>f. (case fx_archived f of None \<Rightarrow> (0 :: int, 0) | Some (t, _) \<Rightarrow> (1, t), - fx_updated_at f, - fx_id f))
     (filter (\<lambda>f. fx_script f = i \<and> (with_archived \<or> fx_archived f = None)
       \<and> (\<exists>s\<in>set (lb_scripts l). sn_id s = i \<and> (sn_archived s = None \<or> privileged l i a)
            \<and> (privileged l i a \<or> sn_published s \<noteq> None \<or> sn_reference s \<noteq> None))
       \<and> (\<exists>v\<in>set (lb_versions l). ve_id v = fx_version f
            \<and> (ve_status v \<in> {Published, Reference, Superseded} \<or> privileged l i a))) (lb_fixtures l))"

section \<open>Official translations\<close>

record official_fixture =
  of_name :: string
  of_description :: string
  of_start :: string
  of_body :: string

record official_input =
  oi_slug :: string
  oi_title :: string
  oi_description :: string
  oi_summary :: string
  oi_locator :: string
  oi_hash :: string
  oi_sources :: "native_source list"
  oi_regions :: "native_region list"
  oi_source :: string
  oi_triggers :: "trigger list"
  oi_fixtures :: "official_fixture list"

fun check_sources :: "nat \<Rightarrow> (string \<times> string) list \<Rightarrow> native_source list \<Rightarrow> native_source list ltx" where
  "check_sources k seen [] = Inr []"
| "check_sources k seen (n # ns) =
     (let m = \<lparr>ns_ordinal = int k, ns_role = trim_space (ns_role n), ns_locator = trim_space (ns_locator n), ns_hash = trim_space (ns_hash n)\<rparr> in
      demand (source_role (ns_role m) \<and> ns_locator m \<noteq> '''' \<and> sha256_text (ns_hash m)) (BadNativeSource k)
      (demand ((ns_role m, ns_locator m) \<notin> set seen) (DuplicateNativeSource k)
       (attempt (check_sources (Suc k) ((ns_role m, ns_locator m) # seen) ns) (\<lambda>ms. Inr (m # ms)))))"

definition official_sources :: "official_input \<Rightarrow> native_source list ltx" where
  "official_sources input =
     check_sources 0 [] (if oi_sources input = []
       then [\<lparr>ns_ordinal = 0, ns_role = ''primary'', ns_locator = oi_locator input, ns_hash = oi_hash input\<rparr>] else oi_sources input)"

fun check_regions :: "authoring_env \<Rightarrow> nat \<Rightarrow> (int \<times> string \<times> int \<times> int) list \<Rightarrow> native_region list \<Rightarrow> native_region list ltx" where
  "check_regions env k seen [] = Inr []"
| "check_regions env k seen (g # gs) =
     (let h = g\<lparr>ng_ordinal := int k, ng_area := le_upper env (trim_space (ng_area g)), ng_ownership := trim_space (ng_ownership g),
               ng_activity := trim_space (ng_activity g), ng_evidence := trim_space (ng_evidence g)\<rparr> in
      demand (1 \<le> ng_disc h \<and> ng_disc h \<le> 3 \<and> region_area (ng_area h) \<and> 0 \<le> ng_target h \<and> 0 \<le> ng_offset h \<and> ng_evidence h \<noteq> ''''
          \<and> ng_ownership h \<in> {''translated'', ''specialized-activity-owned''}
          \<and> (ng_ownership h = ''translated'') = (ng_activity h = '''')) (BadRegion k)
      (demand (region_identity h \<notin> set seen) (DuplicateRegion k)
       (attempt (check_regions env (Suc k) (region_identity h # seen) gs) (\<lambda>hs. Inr (h # hs)))))"

definition max_fixture_bytes :: nat where "max_fixture_bytes = 64 * 1024"

fun check_fixtures :: "authoring_env \<Rightarrow> string list \<Rightarrow> string list \<Rightarrow> official_fixture list \<Rightarrow> official_fixture list ltx" where
  "check_fixtures env nodes seen [] = Inr []"
| "check_fixtures env nodes seen (f # fs) =
     (let g = f\<lparr>of_name := trim_space (of_name f), of_description := trim_space (of_description f), of_start := trim_space (of_start f)\<rparr>;
          key = le_lower env (of_name g); bad = (\<lambda>why. BadFixture (of_name g) why) in
      demand (1 \<le> char_length (of_name g) \<and> char_length (of_name g) \<le> 120 \<and> key \<notin> set seen) (bad ''name'')
      (demand (char_length (of_description g) \<le> 1000) (bad ''description'')
      (demand (of_start g \<in> set nodes) (bad ''node'')
      (demand (of_body g \<noteq> '''' \<and> length (of_body g) \<le> max_fixture_bytes) (bad ''size'')
      (demand (le_json_object env (of_body g)) (bad ''object'')
       (attempt (check_fixtures env nodes (key # seen) fs) (\<lambda>gs. Inr (g # gs))))))))"

text \<open>The first fixture of that name: active ones before archived ones.\<close>

definition fixture_named :: "authoring_env \<Rightarrow> library \<Rightarrow> int \<Rightarrow> string \<Rightarrow> fixture_row option" where
  "fixture_named env l i key =
     (case sort_key (\<lambda>f. (case fx_archived f of None \<Rightarrow> (0 :: int, 0) | Some (t, _) \<Rightarrow> (1, t), fx_id f))
         (filter (\<lambda>f. fx_script f = i \<and> le_lower env (fx_name f) = key) (lb_fixtures l)) of
        [] \<Rightarrow> None | f # _ \<Rightarrow> Some f)"

fun sync_wanted :: "authoring_env \<Rightarrow> int \<Rightarrow> int list \<Rightarrow> int \<Rightarrow> int \<Rightarrow> official_fixture list \<Rightarrow> library \<Rightarrow> library ltx" where
  "sync_wanted env now ids i v [] l = Inr l"
| "sync_wanted env now ids i v (f # fs) l =
     (case fixture_named env l i (le_lower env (of_name f)) of
        None \<Rightarrow>
          (case ids of [] \<Rightarrow> Inl Constraint
           | j # ids' \<Rightarrow> attempt (insert_fixture env
              \<lparr>fx_id = j, fx_script = i, fx_version = v, fx_name = of_name f, fx_description = of_description f, fx_start = of_start f,
               fx_body = le_json_normal env (of_body f), fx_created_by = None, fx_revision = 1, fx_updated_at = now,
               fx_archived = None, fx_origin = ''official''\<rparr> l) (sync_wanted env now ids' i v fs))
      | Some g \<Rightarrow>
          if fx_origin g \<noteq> ''official'' then Inl (FixtureConflict (of_name f))
          else if (fx_version g, fx_name g, fx_description g, fx_start g, fx_body g)
                = (v, of_name f, of_description f, of_start f, le_json_normal env (of_body f)) then sync_wanted env now ids i v fs l
          else attempt (update_fixture env True (fx_id g) (\<lambda>h. h\<lparr>fx_version := v, fx_name := of_name f, fx_description := of_description f,
                 fx_start := of_start f, fx_body := le_json_normal env (of_body f), fx_revision := fx_revision h + 1,
                 fx_updated_at := now\<rparr>) l) (sync_wanted env now ids i v fs))"

fun sync_unwanted :: "authoring_env \<Rightarrow> int \<Rightarrow> string list \<Rightarrow> fixture_row list \<Rightarrow> library \<Rightarrow> library ltx" where
  "sync_unwanted env now wanted [] l = Inr l"
| "sync_unwanted env now wanted (f # fs) l =
     (if le_lower env (fx_name f) \<in> set wanted then sync_unwanted env now wanted fs l
      else attempt (update_fixture env False (fx_id f) (\<lambda>g. g\<lparr>fx_archived := Some (now, None), fx_revision := fx_revision g + 1,
               fx_updated_at := now\<rparr>) l) (sync_unwanted env now wanted fs))"

definition sync_fixtures :: "authoring_env \<Rightarrow> int \<Rightarrow> int list \<Rightarrow> int \<Rightarrow> int \<Rightarrow> official_fixture list \<Rightarrow> library \<Rightarrow> library ltx" where
  "sync_fixtures env now ids i v fs l =
     attempt (sync_wanted env now ids i v fs l) (\<lambda>l1.
       sync_unwanted env now (map (\<lambda>f. le_lower env (of_name f)) fs)
         (filter (\<lambda>g. fx_script g = i \<and> fx_origin g = ''official'' \<and> fx_archived g = None) (lb_fixtures l1)) l1)"

text \<open>The script's row: a new one, or the official one under that slug with its metadata renewed.\<close>

definition official_script :: "authoring_env \<Rightarrow> call_moment \<Rightarrow> string \<Rightarrow> native_source \<Rightarrow> official_input \<Rightarrow> library \<Rightarrow> (int \<times> library) ltx" where
  "official_script env x slug primary input l =
     (let title = trim_space (oi_title input); description = trim_space (oi_description input) in
      case find (\<lambda>s. sn_slug s = slug) (lb_scripts l) of
        None \<Rightarrow> attempt (insert_script
          \<lparr>sn_id = cx_script x, sn_slug = slug, sn_title = title, sn_description = description, sn_origin = ''official'',
           sn_locator = Some (ns_locator primary), sn_hash = Some (ns_hash primary), sn_created_by = None, sn_published = None,
           sn_reference = None, sn_updated_at = cx_now x, sn_archived = None\<rparr> l) (\<lambda>l1. Inr (cx_script x, l1))
      | Some s \<Rightarrow> demand (sn_origin s = ''official'') (SlugTaken slug (sn_origin s))
          (attempt (update_scripts (\<lambda>r. sn_id r = sn_id s) (\<lambda>r. r\<lparr>sn_title := title, sn_description := description,
              sn_locator := Some (ns_locator primary), sn_hash := Some (ns_hash primary), sn_updated_at := cx_now x\<rparr>) l)
            (\<lambda>l1. Inr (sn_id s, l1))))"

definition up_to_date ::
  "library \<Rightarrow> version_entry \<Rightarrow> string \<Rightarrow> native_source list \<Rightarrow> native_region list \<Rightarrow> script_analysis \<Rightarrow> bool" where
  "up_to_date l v content_hash sources regions an \<longleftrightarrow>
     (let c = ve_content v; text = (\<lambda>t. case t of None \<Rightarrow> '''' | Some s \<Rightarrow> s) in
      text (vc_content_hash c) = content_hash \<and> text (vc_compiler c) = yarn_compiler_version
      \<and> text (vc_command_schema c) = yarn_command_schema_version \<and> text (vc_native_locator c) = ns_locator (hd sources)
      \<and> text (vc_native_hash c) = ns_hash (hd sources) \<and> sort_key ns_ordinal (rows_of (ve_id v) (lb_sources l)) = sources
      \<and> sort_key ng_ordinal (rows_of (ve_id v) (lb_regions l)) = regions
      \<and> sort_key (\<lambda>u. (iu_kind u, iu_identifier u)) (rows_of (ve_id v) (lb_identifiers l)) = indexed_identifiers an)"

definition official_content ::
  "authoring_env \<Rightarrow> int \<Rightarrow> int \<Rightarrow> int \<Rightarrow> string \<Rightarrow> string \<Rightarrow> string \<Rightarrow> native_source \<Rightarrow> compilation \<Rightarrow> version_content" where
  "official_content env now i n source content_hash summary primary c =
     compiled_content env source c ((blank_content i n now)\<lparr>vc_summary := summary, vc_content_hash := Some content_hash,
       vc_native_locator := Some (ns_locator primary), vc_native_hash := Some (ns_hash primary)\<rparr>)"

text \<open>A new version replaces the published one.\<close>

definition release_official ::
  "authoring_env \<Rightarrow> call_moment \<Rightarrow> int \<Rightarrow> version_entry option \<Rightarrow> version_content \<Rightarrow> script_analysis
     \<Rightarrow> native_source list \<Rightarrow> native_region list \<Rightarrow> library \<Rightarrow> library ltx" where
  "release_official env x i current c an sources regions l =
     (let v = cx_version x; now = cx_now x in
      attempt (insert_version (draft_entry now v c) l) (\<lambda>l1.
      attempt (replace_indexes v an l1) (\<lambda>l2.
      attempt (insert_sources v sources l2) (\<lambda>l3.
      attempt (insert_regions v regions l3) (\<lambda>l4.
      attempt (case current of None \<Rightarrow> Inr l4
          | Some w \<Rightarrow> update_versions (\<lambda>u. ve_id u = ve_id w \<and> ve_status u = Published) supersede l4) (\<lambda>l5.
      attempt (update_versions (\<lambda>u. ve_id u = v) (set_status now InReview) l5) (\<lambda>l6.
      attempt (update_versions (\<lambda>u. ve_id u = v) (set_published now) l6) (\<lambda>l7.
        point_published now i v l7))))))))"

definition import_official ::
  "authoring_env \<Rightarrow> call_moment \<Rightarrow> int list \<Rightarrow> official_input \<Rightarrow> library \<Rightarrow> (int \<times> library) ltx" where
  "import_official env x ids input l =
     attempt (map_sum SourceRefused id (canonical_yarn_source (oi_source input))) (\<lambda>source.
     let slug = le_lower env (trim_space (oi_slug input)) in
     attempt (official_sources input) (\<lambda>sources.
     attempt (check_regions env 0 [] (oi_regions input)) (\<lambda>regions.
     attempt (compiled env (slug @ ''.yarn'') source (oi_triggers input)) (\<lambda>c.
     demand (cm_valid c \<and> cm_program c \<noteq> '''') TranslationInvalid
     (attempt (check_fixtures env (cm_nodes c) [] (oi_fixtures input)) (\<lambda>fixtures.
      let content_hash = le_hash env (source @ [CHR 0x00] @ le_trigger_json env (an_triggers (cm_analysis c))) in
      attempt (official_script env x slug (hd sources) input l) (\<lambda>(i, l1).
      let current = (case script_of l1 i of None \<Rightarrow> None | Some s \<Rightarrow>
            (case sn_published s of None \<Rightarrow> None | Some p \<Rightarrow> find (\<lambda>v. ve_id v = p) (lb_versions l1))) in
      attempt (if pred_option (\<lambda>w. up_to_date l1 w content_hash sources regions (cm_analysis c)) current \<and> current \<noteq> None
          then Inr (ve_id (the current), l1)
          else attempt (release_official env x i current (official_content env (cx_now x) i (next_version l1 i) source content_hash
                 (trim_space (oi_summary input)) (hd sources) c) (cm_analysis c) sources regions l1)
               (\<lambda>l2. Inr (cx_version x, l2))) (\<lambda>(v, l2).
      attempt (sync_fixtures env (cx_now x) ids i v fixtures l2) (\<lambda>l3. Inr (i, l3))))))))))"

end
