(* ===== verification/ScriptReviews.thy ===== *)
theory ScriptReviews
  imports ScriptStewards
begin

text \<open>
  The discussion of a version, \<open>internal/store/script_reviews.go\<close>: threads on a line of the stored source and
  their comments, of versions that left the draft status.
\<close>

section \<open>Threads and comments\<close>

definition max_comment_chars :: nat where "max_comment_chars = 4000"

definition review_body :: "string \<Rightarrow> string ltx" where
  "review_body body = (let b = trim_space body in
     if b = '''' \<or> max_comment_chars < char_length b then Inl BadReviewBody else Inr b)"

definition sees_review :: "library \<Rightarrow> int \<Rightarrow> version_entry \<Rightarrow> bool" where
  "sees_review l a v \<longleftrightarrow> ve_status v \<in> {Published, Superseded} \<or> lb_collaborators l (ve_script v, a) \<noteq> None \<or> is_moderator l a"

text \<open>An unarchived community script, and the versions of it that may be discussed.\<close>

definition community_script :: "library \<Rightarrow> int \<Rightarrow> bool" where
  "community_script l i \<longleftrightarrow> (\<exists>s\<in>set (lb_scripts l). sn_id s = i \<and> sn_origin s = ''community'' \<and> sn_archived s = None)"

definition discussable :: "library \<Rightarrow> int \<Rightarrow> int \<Rightarrow> version_entry \<Rightarrow> bool" where
  "discussable l a i v \<longleftrightarrow> ve_script v = i \<and> community_script l i \<and> is_registered l a
     \<and> ve_status v \<in> {InReview, Published, Superseded} \<and> sees_review l a v"

definition line_count :: "string \<Rightarrow> int" where
  "line_count s = int (count_list s lf) + (if s \<noteq> '''' \<and> \<not> ends_in_newline s then 1 else 0)"

definition insert_thread :: "review_thread \<Rightarrow> library \<Rightarrow> library ltx" where
  "insert_thread t l =
     (if \<not> (\<exists>v\<in>set (lb_versions l). ve_id v = rt_version t \<and> ve_status v \<in> {InReview, Published, Superseded}
              \<and> (\<exists>s\<in>set (lb_scripts l). sn_id s = ve_script v \<and> sn_origin s = ''community''))
         \<or> (case rt_line t of None \<Rightarrow> False | Some n \<Rightarrow> n \<le> 0 \<or> \<not> int32_ok n)
         \<or> (\<exists>u\<in>set (lb_threads l). rt_id u = rt_id t) \<or> account_of l (rt_created_by t) = None
      then Inl Constraint else Inr (l\<lparr>lb_threads := lb_threads l @ [t]\<rparr>))"

definition insert_comment :: "review_comment \<Rightarrow> library \<Rightarrow> library ltx" where
  "insert_comment c l =
     (if char_length (rc_body c) < 1 \<or> 4000 < char_length (rc_body c) \<or> (\<exists>d\<in>set (lb_comments l). rc_id d = rc_id c)
         \<or> \<not> (\<exists>t\<in>set (lb_threads l). rt_id t = rc_thread c) \<or> account_of l (rc_author c) = None
      then Inl Constraint else Inr (l\<lparr>lb_comments := lb_comments l @ [c]\<rparr>))"

definition create_review_thread ::
  "call_moment \<Rightarrow> int \<Rightarrow> int \<Rightarrow> int \<Rightarrow> int option \<Rightarrow> string \<Rightarrow> library \<Rightarrow> (int \<times> library) ltx" where
  "create_review_thread x a i n line body l =
     attempt (review_body body) (\<lambda>text.
     demand (case line of None \<Rightarrow> True | Some k \<Rightarrow> 0 < k) BadReviewLine
     (required Forbidden (find (\<lambda>v. ve_version v = n \<and> vc_format (ve_content v) = ''yarn'' \<and> vc_source (ve_content v) \<noteq> None
         \<and> discussable l a i v) (lb_versions l)) (\<lambda>v.
      demand (case line of None \<Rightarrow> True | Some k \<Rightarrow> k \<le> line_count (the (vc_source (ve_content v)))) BadReviewLine
      (attempt (insert_thread \<lparr>rt_id = cx_row x, rt_version = ve_id v, rt_line = line, rt_created_by = a, rt_resolved = None,
          rt_created_at = cx_now x, rt_updated_at = cx_now x\<rparr> l) (\<lambda>l1.
       attempt (insert_comment \<lparr>rc_id = cx_comment x, rc_thread = cx_row x, rc_author = a, rc_body = text, rc_at = cx_now x\<rparr> l1) (\<lambda>l2.
         Inr (cx_row x, l2)))))))"

definition thread_version :: "library \<Rightarrow> int \<Rightarrow> version_entry option" where
  "thread_version l t = (case find (\<lambda>u. rt_id u = t) (lb_threads l) of None \<Rightarrow> None
     | Some u \<Rightarrow> find (\<lambda>v. ve_id v = rt_version u) (lb_versions l))"

definition update_threads :: "(review_thread \<Rightarrow> bool) \<Rightarrow> (review_thread \<Rightarrow> review_thread) \<Rightarrow> library \<Rightarrow> library" where
  "update_threads P f l = l\<lparr>lb_threads := map (\<lambda>t. if P t then f t else t) (lb_threads l)\<rparr>"

definition add_review_comment :: "call_moment \<Rightarrow> int \<Rightarrow> int \<Rightarrow> int \<Rightarrow> string \<Rightarrow> library \<Rightarrow> (int \<times> library) ltx" where
  "add_review_comment x a i t body l =
     attempt (review_body body) (\<lambda>text.
     required Forbidden (thread_version l t) (\<lambda>v.
     demand (discussable l a i v) Forbidden
     (attempt (insert_comment \<lparr>rc_id = cx_comment x, rc_thread = t, rc_author = a, rc_body = text, rc_at = cx_now x\<rparr> l) (\<lambda>l1.
        Inr (cx_comment x, update_threads (\<lambda>u. rt_id u = t) (\<lambda>u. u\<lparr>rt_updated_at := cx_now x\<rparr>) l1)))))"

definition set_thread_resolved :: "call_moment \<Rightarrow> int \<Rightarrow> int \<Rightarrow> int \<Rightarrow> bool \<Rightarrow> library \<Rightarrow> library ltx" where
  "set_thread_resolved x a i t resolved l =
     required Forbidden (find (\<lambda>u. rt_id u = t) (lb_threads l)) (\<lambda>u.
     required Forbidden (thread_version l t) (\<lambda>v.
     demand ((rt_resolved u = None) = resolved \<and> ve_script v = i \<and> community_script l i \<and> is_registered l a
         \<and> (rt_created_by u = a \<or> is_moderator l a \<or> lb_collaborators l (i, a) \<noteq> None)) Forbidden
       (insert_moderation_event (cx_now x) i (Some (ve_id v)) a
          (if resolved then ''review-thread.resolved'' else ''review-thread.reopened'') (ThreadDetails t)
          (update_threads (\<lambda>u. rt_id u = t) (\<lambda>u. u\<lparr>rt_resolved := (if resolved then Some (a, cx_now x) else None),
             rt_updated_at := cx_now x\<rparr>) l))))"

definition list_review_threads :: "int \<Rightarrow> int \<Rightarrow> int \<Rightarrow> library \<Rightarrow> (review_thread \<times> review_comment list) list ltx" where
  "list_review_threads viewer i n l =
     (let shown = filter (\<lambda>v. ve_script v = i \<and> ve_version v = n
            \<and> (\<exists>s\<in>set (lb_scripts l). sn_id s = i \<and> sn_origin s = ''community'' \<and> (sn_archived s = None \<or> privileged l i viewer))
            \<and> (ve_status v \<in> {Published, Superseded} \<or> privileged l i viewer)) (lb_versions l) in
      demand (shown \<noteq> []) NotFound
      (Inr (map (\<lambda>t. (t, sort_key (\<lambda>c. (rc_at c, rc_id c)) (filter (\<lambda>c. rc_thread c = rt_id t) (lb_comments l))))
         (sort_key (\<lambda>t. (if rt_resolved t = None then 0 else 1 :: int, rt_created_at t, rt_id t))
           (filter (\<lambda>t. rt_version t \<in> ve_id ` set shown) (lb_threads l))))))"

end
