(* ===== verification/ScriptHistory.thy ===== *)
theory ScriptHistory
  imports ScriptOfficial ScriptReviews
begin

text \<open>
  What each statement on the repository does to its tables, and what all of them keep: versions and
  scripts stay where they are, a version that left the draft status keeps its content and its indexes,
  and the audit trail and the comments only grow (\<open>evolves\<close>).
\<close>

section \<open>What a statement does\<close>

lemma insert_script_Inr: "insert_script s l = Inr l' \<Longrightarrow> l' = l\<lparr>lb_scripts := lb_scripts l @ [s]\<rparr> \<and> script_columns_ok s
    \<and> (\<forall>x\<in>set (lb_scripts l). sn_id x \<noteq> sn_id s \<and> sn_slug x \<noteq> sn_slug s)"
  by (auto simp: insert_script_def split: if_splits)

lemma update_scripts_Inr: "update_scripts P f l = Inr l' \<Longrightarrow> l' = l\<lparr>lb_scripts := map (\<lambda>s. if P s then f s else s) (lb_scripts l)\<rparr>"
  by (auto simp: update_scripts_def split: if_splits)

lemma insert_version_Inr: "insert_version v l = Inr l' \<Longrightarrow> l' = l\<lparr>lb_versions := lb_versions l @ [v]\<rparr> \<and> entry_ok v
    \<and> (\<forall>x\<in>set (lb_versions l). ve_id x \<noteq> ve_id v \<and> \<not> (ve_script x = ve_script v \<and> ve_version x = ve_version v))
    \<and> (\<exists>s\<in>set (lb_scripts l). sn_id s = ve_script v) \<and> \<not> archived l (ve_script v)"
  by (auto simp: insert_version_def script_of_def find_None_iff split: if_splits)

lemma update_versions_Inr: "update_versions P f l = Inr l' \<Longrightarrow> l' = l\<lparr>lb_versions := map (\<lambda>v. if P v then f v else v) (lb_versions l)\<rparr>
    \<and> (\<forall>v\<in>set (lb_versions l). P v \<longrightarrow> \<not> archived l (ve_script v) \<and> protects v (f v) \<and> entry_ok (f v))"
  by (auto simp: update_versions_def list_all_iff split: if_splits)

lemma update_one_Inr: "update_one P f l = Inr l' \<Longrightarrow> update_versions P f l = Inr l' \<and> (\<exists>v\<in>set (lb_versions l). P v)"
  by (auto simp: update_one_def chain_Inr length_Suc_conv filter_eq_Cons_iff)

text \<open>The tables other than those of a version's children, collaborators, audit, fixtures and reviews.\<close>

definition same_core :: "library \<Rightarrow> library \<Rightarrow> bool" where
  "same_core l l' \<longleftrightarrow> lb_scripts l' = lb_scripts l \<and> lb_versions l' = lb_versions l \<and> lb_accounts l' = lb_accounts l"

lemma same_core_refl [simp]: "same_core l l"
  by (simp add: same_core_def)

lemma same_core_trans: "same_core l1 l2 \<Longrightarrow> same_core l2 l3 \<Longrightarrow> same_core l1 l3"
  by (simp add: same_core_def)

named_theorems core_frame

lemma insert_sources_core [core_frame]: "insert_sources i ns l = Inr l' \<Longrightarrow> same_core l l'"
  by (auto simp: insert_sources_def chain_Inr same_core_def)

lemma insert_regions_core [core_frame]: "insert_regions i gs l = Inr l' \<Longrightarrow> same_core l l'"
  by (auto simp: insert_regions_def chain_Inr same_core_def)

lemma insert_moderation_event_core [core_frame]: "insert_moderation_event now i v a act d l = Inr l' \<Longrightarrow> same_core l l'"
  by (auto simp: insert_moderation_event_def same_core_def split: if_splits)

lemma replace_indexes_core [core_frame]: "replace_indexes i an l = Inr l' \<Longrightarrow> same_core l l'"
  by (auto simp: replace_indexes_def chain_Inr same_core_def)

lemma copy_indexes_core [core_frame]: "copy_indexes i j l = Inr l' \<Longrightarrow> same_core l l'"
  by (auto simp: copy_indexes_def chain_Inr same_core_def)

lemma copy_provenance_core [core_frame]: "copy_provenance i j l = Inr l' \<Longrightarrow> same_core l l'"
  unfolding copy_provenance_def chain_Inr by (meson core_frame same_core_trans)

lemma insert_collaborator_core [core_frame]: "insert_collaborator i a r l = Inr l' \<Longrightarrow> same_core l l'"
  by (auto simp: insert_collaborator_def same_core_def split: if_splits)

lemma contribute_core [core_frame]: "contribute now a i s base l = Inr l' \<Longrightarrow> same_core l l'"
  by (auto simp: contribute_def chain_Inr split: if_splits dest!: core_frame elim: same_core_trans)

text \<open>Synchronising fixtures changes nothing else.\<close>

definition fixtures_only :: "library \<Rightarrow> library \<Rightarrow> bool" where
  "fixtures_only l l' \<longleftrightarrow> (\<exists>fs. l' = l\<lparr>lb_fixtures := fs\<rparr>)"

lemma fixtures_only_trans: "fixtures_only l1 l2 \<Longrightarrow> fixtures_only l2 l3 \<Longrightarrow> fixtures_only l1 l3"
  by (auto simp: fixtures_only_def)

lemma fixtures_only_refl: "fixtures_only l l"
  unfolding fixtures_only_def by (rule exI [of _ "lb_fixtures l"]) simp

lemma fixtures_only_insert: "insert_fixture env f l = Inr l' \<Longrightarrow> fixtures_only l l'"
  by (auto simp: insert_fixture_def fixtures_only_def split: if_splits)

lemma fixtures_only_update: "update_fixture env b i f l = Inr l' \<Longrightarrow> fixtures_only l l'"
  by (auto simp: update_fixture_def fixtures_only_def Let_def split: if_splits)

lemma attempt_fixtures:
  "attempt r f = Inr l' \<Longrightarrow> (\<And>x. r = Inr x \<Longrightarrow> fixtures_only l x) \<Longrightarrow> (\<And>x. f x = Inr l' \<Longrightarrow> fixtures_only x l') \<Longrightarrow> fixtures_only l l'"
  by (auto simp: attempt_Inr intro: fixtures_only_trans)

lemma sync_wanted_fixtures: "sync_wanted env now ids i v fs l = Inr l' \<Longrightarrow> fixtures_only l l'"
proof (induction env now ids i v fs l rule: sync_wanted.induct)
  case (2 env now ids i v f fs l)
  show ?case
  proof (cases "fixture_named env l i (le_lower env (of_name f))")
    case None
    then show ?thesis using 2 by (auto split: list.splits elim!: attempt_fixtures intro: fixtures_only_insert)
  next
    case (Some g)
    let ?same = "(fx_version g, fx_name g, fx_description g, fx_start g, fx_body g)
      = (v, of_name f, of_description f, of_start f, le_json_normal env (of_body f))"
    have o: "fx_origin g = ''official''" using 2(4) Some by (simp split: if_splits)
    show ?thesis
    proof (cases ?same)
      case True
      show ?thesis using 2(2) [OF Some] 2(4) o True Some by simp
    next
      case False
      then have "attempt (update_fixture env True (fx_id g) (\<lambda>h. h\<lparr>fx_version := v, fx_name := of_name f, fx_description := of_description f,
          fx_start := of_start f, fx_body := le_json_normal env (of_body f), fx_revision := fx_revision h + 1, fx_updated_at := now\<rparr>) l)
          (sync_wanted env now ids i v fs) = Inr l'" using 2(4) Some o by (simp split: if_splits)
      then show ?thesis using 2(3) [OF Some _ False] o by (auto elim!: attempt_fixtures intro: fixtures_only_update)
    qed
  qed
qed (simp add: fixtures_only_refl)

lemma sync_unwanted_fixtures: "sync_unwanted env now ws fs l = Inr l' \<Longrightarrow> fixtures_only l l'"
  by (induction env now ws fs l rule: sync_unwanted.induct)
    (auto simp: fixtures_only_refl split: if_splits elim!: attempt_fixtures intro: fixtures_only_update)

lemma sync_fixtures_only: "sync_fixtures env now ids i v fs l = Inr l' \<Longrightarrow> fixtures_only l l'"
  unfolding sync_fixtures_def chain_Inr by (meson sync_wanted_fixtures sync_unwanted_fixtures fixtures_only_trans)

lemma fixtures_only_core [core_frame]: "fixtures_only l l' \<Longrightarrow> same_core l l'"
  by (auto simp: fixtures_only_def same_core_def)

lemmas fixtures_core [core_frame] = fixtures_only_core [OF sync_fixtures_only] fixtures_only_core [OF fixtures_only_insert]
  fixtures_only_core [OF fixtures_only_update]

lemma insert_thread_core [core_frame]: "insert_thread t l = Inr l' \<Longrightarrow> same_core l l'"
  by (auto simp: insert_thread_def same_core_def split: if_splits)

lemma insert_comment_core [core_frame]: "insert_comment c l = Inr l' \<Longrightarrow> same_core l l'"
  by (auto simp: insert_comment_def same_core_def split: if_splits)

section \<open>History is kept\<close>

definition entry_of :: "library \<Rightarrow> int \<Rightarrow> version_entry option" where
  "entry_of l j = find (\<lambda>v. ve_id v = j) (lb_versions l)"

lemma status_of_entry: "status_of l j = map_option ve_status (entry_of l j)"
  by (simp add: status_of_def entry_of_def)

text \<open>The rows that describe a version.\<close>

definition indexes_of :: "library \<Rightarrow> int \<Rightarrow> dependency list \<times> identifier_usage list \<times> trigger list \<times> native_source list \<times> native_region list" where
  "indexes_of l j = (rows_of j (lb_dependencies l), rows_of j (lb_identifiers l), rows_of j (lb_triggers l),
     rows_of j (lb_sources l), rows_of j (lb_regions l))"

definition forward :: "version_status \<Rightarrow> version_status \<Rightarrow> bool" where
  "forward s t \<longleftrightarrow> s = t \<or> s = Draft \<or> s = InReview \<and> t \<in> {Published, Superseded} \<or> s = Published \<and> t = Superseded"

lemma forward_refl [simp]: "forward s s" by (simp add: forward_def)

lemma forward_trans: "forward s t \<Longrightarrow> forward t u \<Longrightarrow> forward s u"
  by (auto simp: forward_def)

lemma status_move_forward: "status_move s t \<Longrightarrow> forward s t"
  by (cases s; cases t) (simp_all add: forward_def)

lemma forward_Draft: "forward s t \<Longrightarrow> s \<noteq> Draft \<Longrightarrow> t \<noteq> Draft"
  by (auto simp: forward_def)

text \<open>A version keeps its place; once out of the draft status it keeps all that it says.\<close>

definition kept_entry :: "library \<Rightarrow> library \<Rightarrow> int \<Rightarrow> version_entry \<Rightarrow> version_entry \<Rightarrow> bool" where
  "kept_entry l l' j v v' \<longleftrightarrow> ve_script v' = ve_script v \<and> ve_version v' = ve_version v \<and> forward (ve_status v) (ve_status v')
     \<and> (ve_status v \<noteq> Draft \<longrightarrow> ve_content v' = ve_content v \<and> indexes_of l' j = indexes_of l j
        \<and> (ve_status v \<noteq> InReview \<longrightarrow> ve_published_at v' = ve_published_at v))"

definition versions_kept :: "library \<Rightarrow> library \<Rightarrow> bool" where
  "versions_kept l l' \<longleftrightarrow> (\<forall>j v. entry_of l j = Some v \<longrightarrow> (\<exists>v'. entry_of l' j = Some v' \<and> kept_entry l l' j v v'))"

definition scripts_kept :: "library \<Rightarrow> library \<Rightarrow> bool" where
  "scripts_kept l l' \<longleftrightarrow> (\<forall>j s. script_of l j = Some s \<longrightarrow> (\<exists>s'. script_of l' j = Some s' \<and> sn_slug s' = sn_slug s
     \<and> sn_origin s' = sn_origin s \<and> sn_created_by s' = sn_created_by s))"

definition thread_identity :: "review_thread \<Rightarrow> int \<times> int \<times> int option \<times> int" where
  "thread_identity t = (rt_id t, rt_version t, rt_line t, rt_created_by t)"

definition logs_kept :: "library \<Rightarrow> library \<Rightarrow> bool" where
  "logs_kept l l' \<longleftrightarrow> (\<exists>es. lb_events l' = lb_events l @ es) \<and> (\<exists>cs. lb_comments l' = lb_comments l @ cs)
     \<and> (\<exists>ts. map thread_identity (lb_threads l') = map thread_identity (lb_threads l) @ ts)"

definition evolves :: "library \<Rightarrow> library \<Rightarrow> bool" where
  "evolves l l' \<longleftrightarrow> versions_kept l l' \<and> scripts_kept l l' \<and> logs_kept l l'"

lemma kept_entry_trans:
  "kept_entry l1 l2 j u v \<Longrightarrow> kept_entry l2 l3 j v w \<Longrightarrow> kept_entry l1 l3 j u w"
  unfolding kept_entry_def by (auto dest: forward_trans forward_Draft) (auto simp: forward_def)

lemma evolves_refl [simp]: "evolves l l"
  by (auto simp: evolves_def versions_kept_def kept_entry_def scripts_kept_def logs_kept_def)

lemma evolves_trans [trans]: "evolves l1 l2 \<Longrightarrow> evolves l2 l3 \<Longrightarrow> evolves l1 l3"
  unfolding evolves_def versions_kept_def scripts_kept_def logs_kept_def
  by (auto; metis kept_entry_trans append_assoc)

named_theorems evolution

lemma find_map_id: "(\<And>v. h (g v) = h v) \<Longrightarrow> find (\<lambda>v. h v = j) (map g vs) = map_option g (find (\<lambda>v. h v = j) vs)"
  by (induction vs) auto

lemma insert_script_evolves [evolution]: "insert_script s l = Inr l' \<Longrightarrow> evolves l l'"
  by (auto dest!: insert_script_Inr simp: evolves_def versions_kept_def kept_entry_def scripts_kept_def logs_kept_def entry_of_def
      indexes_of_def script_of_def find_append split: option.splits)

lemma update_scripts_evolves:
  assumes "update_scripts P f l = Inr l'"
    and "\<And>s. sn_id (f s) = sn_id s \<and> sn_slug (f s) = sn_slug s \<and> sn_origin (f s) = sn_origin s \<and> sn_created_by (f s) = sn_created_by s"
  shows "evolves l l'"
  using update_scripts_Inr [OF assms(1)] assms(2)
  by (auto simp: evolves_def versions_kept_def kept_entry_def scripts_kept_def logs_kept_def entry_of_def indexes_of_def script_of_def
      find_map_id split: option.splits)

lemma insert_version_evolves [evolution]: "insert_version v l = Inr l' \<Longrightarrow> evolves l l'"
  by (auto dest!: insert_version_Inr simp: evolves_def versions_kept_def kept_entry_def scripts_kept_def logs_kept_def entry_of_def
      indexes_of_def script_of_def find_append split: option.splits)

lemma update_versions_evolves:
  assumes u: "update_versions P f l = Inr l'"
    and f: "\<And>v. ve_id (f v) = ve_id v \<and> ve_script (f v) = ve_script v \<and> ve_version (f v) = ve_version v"
  shows "evolves l l'"
proof -
  note u' = update_versions_Inr [OF u]
  have "versions_kept l l'"
    unfolding versions_kept_def
  proof (intro allI impI)
    fix j v assume v: "entry_of l j = Some v"
    then have mem: "v \<in> set (lb_versions l)" by (auto simp: entry_of_def find_Some_iff)
    have "entry_of l' j = map_option (\<lambda>v. if P v then f v else v) (entry_of l j)"
      using u' f unfolding entry_of_def by (simp add: find_map_id)
    then have "entry_of l' j = Some (if P v then f v else v)" by (simp add: v)
    moreover have "kept_entry l l' j v (if P v then f v else v)"
      using u' f mem by (auto simp: kept_entry_def protects_def indexes_of_def intro: status_move_forward)
    ultimately show "\<exists>v'. entry_of l' j = Some v' \<and> kept_entry l l' j v v'" by blast
  qed
  then show ?thesis using u' by (auto simp: evolves_def scripts_kept_def logs_kept_def script_of_def)
qed

text \<open>Children of a version that is out of the draft status are not written.\<close>

definition fixed :: "library \<Rightarrow> int \<Rightarrow> bool" where
  "fixed l j \<longleftrightarrow> status_of l j \<notin> {None, Some Draft}"

lemma rows_of_other: "j \<noteq> i \<Longrightarrow> map snd (filter (\<lambda>r. fst r \<noteq> i \<and> fst r = j) t) = map snd (filter (\<lambda>r. fst r = j) t)"
  by (induction t) auto

lemma delete_rows_fixed: "delete_rows l i t = Inr t' \<Longrightarrow> fixed l j \<Longrightarrow> rows_of j t' = rows_of j t"
  by (cases "j = i") (auto simp: delete_rows_def fixed_def rows_of_other rows_of_def filter_empty_conv split: if_splits)

lemma insert_rows_fixed: "insert_rows l ok key i rows t = Inr t' \<Longrightarrow> fixed l j \<Longrightarrow> rows_of j t' = rows_of j t"
  by (auto simp: insert_rows_def fixed_def rows_of_def filter_empty_conv split: if_splits)

lemma children_evolve:
  assumes "lb_versions l' = lb_versions l" "lb_scripts l' = lb_scripts l" "logs_kept l l'"
    and "\<And>j. fixed l j \<Longrightarrow> indexes_of l' j = indexes_of l j"
  shows "evolves l l'"
  using assms by (auto simp: evolves_def versions_kept_def kept_entry_def scripts_kept_def entry_of_def script_of_def fixed_def status_of_def)

lemma logs_kept_refl: "lb_events l' = lb_events l \<Longrightarrow> lb_comments l' = lb_comments l \<Longrightarrow> lb_threads l' = lb_threads l \<Longrightarrow> logs_kept l l'"
  by (simp add: logs_kept_def)

lemma insert_sources_evolves [evolution]: "insert_sources i ns l = Inr l' \<Longrightarrow> evolves l l'"
  by (rule children_evolve) (auto simp: insert_sources_def chain_Inr indexes_of_def logs_kept_def dest: insert_rows_fixed)

lemma insert_regions_evolves [evolution]: "insert_regions i gs l = Inr l' \<Longrightarrow> evolves l l'"
  by (rule children_evolve) (auto simp: insert_regions_def chain_Inr indexes_of_def logs_kept_def dest: insert_rows_fixed)

lemma replace_indexes_evolves [evolution]: "replace_indexes i an l = Inr l' \<Longrightarrow> evolves l l'"
  by (rule children_evolve)
    (auto simp: replace_indexes_def chain_Inr indexes_of_def logs_kept_def dest!: insert_rows_fixed delete_rows_fixed)

lemma copy_indexes_evolves [evolution]: "copy_indexes i j l = Inr l' \<Longrightarrow> evolves l l'"
  by (rule children_evolve) (auto simp: copy_indexes_def chain_Inr indexes_of_def logs_kept_def dest: insert_rows_fixed)

lemma copy_provenance_evolves [evolution]: "copy_provenance i j l = Inr l' \<Longrightarrow> evolves l l'"
  unfolding copy_provenance_def chain_Inr by (meson evolution evolves_trans)

lemma insert_moderation_event_evolves [evolution]: "insert_moderation_event now i v a act d l = Inr l' \<Longrightarrow> evolves l l'"
  by (rule children_evolve) (auto simp: insert_moderation_event_def logs_kept_def indexes_of_def split: if_splits)

lemma insert_collaborator_evolves [evolution]: "insert_collaborator i a r l = Inr l' \<Longrightarrow> evolves l l'"
  by (rule children_evolve) (auto simp: insert_collaborator_def logs_kept_def indexes_of_def split: if_splits)

lemma contribute_evolves [evolution]: "contribute now a i s base l = Inr l' \<Longrightarrow> evolves l l'"
  by (auto simp: contribute_def chain_Inr split: if_splits dest!: evolution elim: evolves_trans)

lemma fixtures_only_evolves [evolution]: "fixtures_only l l' \<Longrightarrow> evolves l l'"
  by (rule children_evolve) (auto simp: fixtures_only_def logs_kept_def indexes_of_def)

lemma insert_thread_evolves [evolution]: "insert_thread t l = Inr l' \<Longrightarrow> evolves l l'"
  by (rule children_evolve) (auto simp: insert_thread_def logs_kept_def indexes_of_def split: if_splits)

lemma insert_comment_evolves [evolution]: "insert_comment c l = Inr l' \<Longrightarrow> evolves l l'"
  by (rule children_evolve) (auto simp: insert_comment_def logs_kept_def indexes_of_def split: if_splits)

lemma update_threads_evolves:
  assumes "\<And>t. thread_identity (f t) = thread_identity t"
  shows "evolves l (update_threads P f l)"
proof -
  have "thread_identity \<circ> (\<lambda>t. if P t then f t else t) = thread_identity" using assms by auto
  then show ?thesis by (intro children_evolve) (auto simp: update_threads_def logs_kept_def indexes_of_def)
qed

lemma touch_script_evolves [evolution]: "touch_script now i l = Inr l' \<Longrightarrow> evolves l l'"
  unfolding touch_script_def by (erule update_scripts_evolves) simp

lemma point_published_evolves [evolution]: "point_published now i v l = Inr l' \<Longrightarrow> evolves l l'"
  unfolding point_published_def by (erule update_scripts_evolves) simp

lemma set_status_evolves [evolution]: "update_versions P (set_status now st) l = Inr l' \<Longrightarrow> evolves l l'"
  by (erule update_versions_evolves) (simp add: set_status_def)

lemma set_published_evolves [evolution]: "update_versions P (set_published now) l = Inr l' \<Longrightarrow> evolves l l'"
  by (erule update_versions_evolves) (simp add: set_published_def)

lemma supersede_evolves [evolution]: "update_versions P supersede l = Inr l' \<Longrightarrow> evolves l l'"
  by (erule update_versions_evolves) (simp add: supersede_def)

lemma update_one_evolves [evolution]: "update_one P (set_status now st) l = Inr l' \<Longrightarrow> evolves l l'"
  by (drule update_one_Inr, elim conjE) (rule set_status_evolves)

end
