(* ===== verification/ScriptSteps.thy ===== *)
theory ScriptSteps
  imports ScriptHistory
begin

text \<open>
  The operations of the repository as steps, each taken apart into the statements it runs, and the proof
  that every one of them keeps history.
\<close>

section \<open>The operations as steps\<close>

text \<open>
  One committed transaction. What an operation reads before its transaction is read from \<open>b\<close>, the tables at
  some earlier time. Accounts are added and change; none is deleted.
\<close>

inductive authoring_step :: "authoring_env \<Rightarrow> library \<Rightarrow> library \<Rightarrow> library \<Rightarrow> bool" for env b l where
  create: "create_yarn_script env x a input l = Inr (r, l') \<Longrightarrow> authoring_step env b l l'"
| save: "save_yarn_draft env x a i n draft l = Inr (r, l') \<Longrightarrow> authoring_step env b l l'"
| new_version: "create_script_version x a i n l = Inr (r, l') \<Longrightarrow> authoring_step env b l l'"
| submit: "submit_version x a i n l = Inr (r, l') \<Longrightarrow> authoring_step env b l l'"
| publish: "publish_version x a i n b l = Inr (r, l') \<Longrightarrow> authoring_step env b l l'"
| rollback: "rollback_version env x a i n b l = Inr (r, l') \<Longrightarrow> authoring_step env b l l'"
| metadata: "update_metadata env now a i title description l = Inr l' \<Longrightarrow> authoring_step env b l l'"
| archive: "set_archived now a i arch l = Inr l' \<Longrightarrow> authoring_step env b l l'"
| collaborator: "set_collaborator env now a i email role l = Inr (r, l') \<Longrightarrow> authoring_step env b l l'"
| no_collaborator: "remove_collaborator now a i target l = Inr l' \<Longrightarrow> authoring_step env b l l'"
| recovered: "import_recovered x document l = Inr (r, l') \<Longrightarrow> authoring_step env b l l'"
| official: "import_official env x ids translation l = Inr (r, l') \<Longrightarrow> authoring_step env b l l'"
| new_fixture: "create_fixture env x a i fixture l = Inr (r, l') \<Longrightarrow> authoring_step env b l l'"
| fixture: "revise_fixture env x a i j fixture l = Inr l' \<Longrightarrow> authoring_step env b l l'"
| fixture_archive: "set_fixture_archived env x a i j revision arch l = Inr l' \<Longrightarrow> authoring_step env b l l'"
| new_thread: "create_review_thread x a i n line body l = Inr (r, l') \<Longrightarrow> authoring_step env b l l'"
| comment: "add_review_comment x a i t body l = Inr (r, l') \<Longrightarrow> authoring_step env b l l'"
| resolve: "set_thread_resolved x a i t resolved l = Inr l' \<Longrightarrow> authoring_step env b l l'"
| accounts: "ac_id ` set (lb_accounts l) \<subseteq> ac_id ` set accounts \<Longrightarrow> authoring_step env b l (l\<lparr>lb_accounts := accounts\<rparr>)"

inductive_cases authoring_stepE: "authoring_step env b l l'"

section \<open>The chains of statements\<close>

lemma find_in: "find P xs = Some x \<Longrightarrow> x \<in> set xs \<and> P x"
  by (auto simp: find_Some_iff)

lemma create_yarn_script_chain:
  assumes "create_yarn_script env x a input l = Inr (i, l')"
  obtains s v l1 l2 l3 an where "insert_script s l = Inr l1" "insert_collaborator i a ''owner'' l1 = Inr l2" "insert_version v l2 = Inr l3"
    "replace_indexes (ve_id v) an l3 = Inr l'" "sn_id s = i" "sn_origin s = ''community''" "sn_created_by s = Some a"
    "sn_published s = None" "sn_reference s = None" "sn_archived s = None"
    "ve_status v = Draft" "ve_script v = i" "ve_version v = 1" "vc_format (ve_content v) = ''yarn''"
  using assms
  by (auto simp: create_yarn_script_def create_from_source_def chain_Inr Let_def draft_entry_def compiled_content_def blank_content_def yarn_content_format_def)

lemma save_yarn_draft_chain:
  assumes "save_yarn_draft env x a i n input l = Inr (r, l')"
  obtains P f v l1 l2 an where "update_versions P f l = Inr l1" "replace_indexes r an l1 = Inr l2" "touch_script (cx_now x) i l2 = Inr l'"
    "v \<in> set (lb_versions l)" "P v" "ve_id v = r" "\<And>v. P v \<Longrightarrow> ve_status v = Draft \<and> vc_format (ve_content v) = ''yarn'' \<and> may_edit l i a
        \<and> ve_script v = i \<and> ve_version v = n \<and> vc_revision (ve_content v) = di_revision input"
    "\<And>v. ve_id (f v) = ve_id v \<and> ve_status (f v) = ve_status v \<and> ve_published_at (f v) = ve_published_at v \<and> ve_script (f v) = ve_script v
        \<and> ve_version (f v) = ve_version v \<and> vc_format (ve_content (f v)) = vc_format (ve_content v)"
proof -
  obtain source c v l1 l2 where *: "find (\<lambda>v. ve_script v = i \<and> ve_version v = n \<and> vc_revision (ve_content v) = di_revision input
        \<and> ve_status v = Draft \<and> vc_format (ve_content v) = ''yarn'' \<and> may_edit l i a) (lb_versions l) = Some v"
    and u: "update_versions (\<lambda>v. ve_script v = i \<and> ve_version v = n \<and> vc_revision (ve_content v) = di_revision input
        \<and> ve_status v = Draft \<and> vc_format (ve_content v) = ''yarn'' \<and> may_edit l i a)
      (\<lambda>v. v\<lparr>ve_updated_at := cx_now x, ve_content := compiled_content env source c ((ve_content v)
               \<lparr>vc_summary := trim_space (di_summary input), vc_revision := vc_revision (ve_content v) + 1\<rparr>)\<rparr>) l = Inr l1"
    and r: "replace_indexes (ve_id v) (cm_analysis c) l1 = Inr l2" "touch_script (cx_now x) i l2 = Inr l'" "r = ve_id v"
    using assms by (auto simp: save_yarn_draft_def chain_Inr Let_def)
  show thesis
    by (rule that [OF u _ r(2), of "cm_analysis c" v]) (use find_in [OF *] r in \<open>auto simp: compiled_content_def\<close>)
qed

lemma create_script_version_chain:
  assumes "create_script_version x a i n l = Inr (r, l')"
  obtains s base v l1 l2 l3 where "script_of l i = Some s" "version_of l i n = Some base" "contribute (cx_now x) a i s base l = Inr l1"
    "insert_version v l1 = Inr l2" "(\<exists>an. replace_indexes r an l2 = Inr l3) \<or> copy_indexes (ve_id base) r l2 = Inr l3"
    "evolves l2 l3" "same_core l2 l3" "copy_provenance (ve_id base) r l3 = Inr l'"
    "ve_id v = r" "ve_status v = Draft" "ve_script v = ve_script base" "ve_version v = next_version l i"
    "vc_format (ve_content v) = vc_format (ve_content base)" "vc_format (ve_content base) \<noteq> ''native-reference''"
    "vc_based_on (ve_content v) = Some (ve_id base)" "vc_author (ve_content v) = Some a" "vc_source (ve_content v) = vc_source (ve_content base)"
proof -
  obtain s base l1 v l2 l3 where "script_of l i = Some s" "version_of l i n = Some base" "contribute (cx_now x) a i s base l = Inr l1"
    "insert_version v l1 = Inr l2" "copy_provenance (ve_id base) r l3 = Inr l'"
    "v = draft_entry (cx_now x) (cx_version x) ((ve_content base)\<lparr>vc_version := next_version l i, vc_revision := 1,
        vc_based_on := Some (ve_id base), vc_author := Some a, vc_created_at := cx_now x\<rparr>)" "r = cx_version x"
    "vc_format (ve_content base) \<noteq> ''native-reference''"
    and "(case vc_document (ve_content base) of
            Some d \<Rightarrow> replace_indexes r (case validate_document d False of Inr an \<Rightarrow> an
                        | Inl _ \<Rightarrow> \<lparr>an_dependencies = [], an_identifiers = [], an_triggers = [], an_warnings = []\<rparr>) l2
          | None \<Rightarrow> copy_indexes (ve_id base) r l2) = Inr l3"
    using assms by (auto simp: create_script_version_def chain_Inr Let_def)
  moreover from this(9) have indexed: "(\<exists>an. replace_indexes r an l2 = Inr l3) \<or> copy_indexes (ve_id base) r l2 = Inr l3"
    by (auto split: option.splits)
  moreover have "evolves l2 l3" "same_core l2 l3"
    using indexed by (auto intro: replace_indexes_evolves copy_indexes_evolves replace_indexes_core copy_indexes_core)
  ultimately show thesis by (intro that [of s base l1 v l2 l3]) (auto simp: draft_entry_def)
qed

lemma submit_version_chain:
  assumes "submit_version x a i n l = Inr (r, l')"
  obtains P v l1 where "update_versions P (set_status (cx_now x) InReview) l = Inr l1"
    "insert_moderation_event (cx_now x) i (Some r) a ''version.submitted'' NoDetails l1 = Inr l'" "v \<in> set (lb_versions l)" "P v" "ve_id v = r"
    "\<And>v. P v \<Longrightarrow> ve_script v = i \<and> ve_version v = n \<and> ve_status v = Draft \<and> may_edit l i a \<and> (vc_format (ve_content v) \<noteq> ''yarn''
        \<or> vc_compile_status (ve_content v) = ''valid'' \<and> vc_compiler (ve_content v) = Some yarn_compiler_version
          \<and> vc_command_schema (ve_content v) = Some yarn_command_schema_version)"
proof -
  let ?P = "\<lambda>v. ve_script v = i \<and> ve_version v = n \<and> ve_status v = Draft
            \<and> (vc_format (ve_content v) \<noteq> ''yarn'' \<or> vc_compile_status (ve_content v) = ''valid''
                \<and> vc_compiler (ve_content v) = Some yarn_compiler_version
                \<and> vc_command_schema (ve_content v) = Some yarn_command_schema_version)
            \<and> may_edit l i a"
  obtain v l1 where "find ?P (lb_versions l) = Some v" "update_versions ?P (set_status (cx_now x) InReview) l = Inr l1"
    "insert_moderation_event (cx_now x) i (Some r) a ''version.submitted'' NoDetails l1 = Inr l'" "r = ve_id v"
    using assms by (auto simp: submit_version_def chain_Inr Let_def)
  then show thesis by (intro that [of ?P l1 v]) (auto dest!: find_in)
qed

lemma publish_version_chain:
  assumes "publish_version x a i n b l = Inr (r, l')"
  obtains v l1 l2 l3 where "is_moderator b a"
    "update_versions (\<lambda>v. Some (ve_id v) = (case script_of l i of None \<Rightarrow> None | Some s \<Rightarrow> sn_published s) \<and> ve_status v = Published)
        supersede l = Inr l1"
    "update_versions (\<lambda>v. ve_script v = i \<and> ve_version v = n \<and> ve_status v = InReview) (set_published (cx_now x)) l1 = Inr l2"
    "point_published (cx_now x) i r l2 = Inr l3"
    "insert_moderation_event (cx_now x) i (Some r) a ''version.published'' NoDetails l3 = Inr l'"
    "v \<in> set (lb_versions l1)" "ve_script v = i" "ve_version v = n" "ve_status v = InReview" "ve_id v = r"
  using assms by (auto simp: publish_version_def publish_check_def publish_commit_def chain_Inr Let_def dest!: find_in intro!: that)

lemma rollback_version_chain:
  assumes "rollback_version env x a i n b l = Inr (r, l')"
  obtains p s t w l1 l2 l3 l4 l5 l6 l7 where "plan_rollback env a i n b = Inr p" "is_moderator b a" "is_moderator l a"
    "script_of l i = Some s" "sn_origin s = ''community''" "sn_archived s = None" "sn_published s = Some (rp_current p)"
    "t \<in> set (lb_versions l)" "ve_id t = ve_id (rp_target p)" "ve_script t = i" "ve_status t = Superseded"
    "w = draft_entry (cx_now x) r (rollback_content env (cx_now x) a (next_version l i) p)"
    "insert_version w l = Inr l1" "replace_indexes r (cm_analysis (rp_compilation p)) l1 = Inr l2"
    "copy_provenance (ve_id (rp_target p)) r l2 = Inr l3"
    "update_one (\<lambda>w. ve_id w = r \<and> ve_status w = Draft) (set_status (cx_now x) InReview) l3 = Inr l4"
    "update_one (\<lambda>w. ve_id w = rp_current p \<and> ve_status w = Published) (set_status (cx_now x) Superseded) l4 = Inr l5"
    "update_versions (\<lambda>w. ve_id w = r \<and> ve_status w = InReview) (set_published (cx_now x)) l5 = Inr l6"
    "point_published (cx_now x) i r l6 = Inr l7"
    "insert_moderation_event (cx_now x) i (Some r) a ''version.rollback-published''
             (SourceVersion (ve_id (rp_target p)) (ve_version (rp_target p))) l7 = Inr l'"
proof -
  obtain p where p: "plan_rollback env a i n b = Inr p" and c: "rollback_commit env x a i p l = Inr (r, l')"
    using assms by (auto simp: rollback_version_def chain_Inr)
  have "is_moderator b a" using p by (auto simp: plan_rollback_def chain_Inr Let_def)
  with p c show thesis
    unfolding rollback_commit_def chain_Inr Let_def
    by (elim exE conjE bexE) (rule that, auto)
qed

definition metadata_only :: "(script_entry \<Rightarrow> script_entry) \<Rightarrow> bool" where
  "metadata_only f \<longleftrightarrow> (\<forall>s. sn_id (f s) = sn_id s \<and> sn_slug (f s) = sn_slug s \<and> sn_origin (f s) = sn_origin s
     \<and> sn_created_by (f s) = sn_created_by s \<and> sn_published (f s) = sn_published s \<and> sn_reference (f s) = sn_reference s)"

lemma official_script_chain:
  assumes "official_script env x slug primary input l = Inr (i, l')"
  shows "(\<exists>s. insert_script s l = Inr l' \<and> sn_id s = i \<and> sn_origin s = ''official'' \<and> sn_created_by s = None \<and> sn_published s = None
        \<and> sn_reference s = None)
    \<or> (\<exists>f s. update_scripts (\<lambda>r. sn_id r = i) f l = Inr l' \<and> s \<in> set (lb_scripts l) \<and> sn_id s = i \<and> sn_origin s = ''official''
        \<and> metadata_only f)"
proof (cases "find (\<lambda>s. sn_slug s = slug) (lb_scripts l)")
  case None
  then show ?thesis using assms by (auto simp: official_script_def Let_def chain_Inr)
next
  case (Some s)
  then have u: "update_scripts (\<lambda>r. sn_id r = i) (\<lambda>r. r\<lparr>sn_title := trim_space (oi_title input), sn_description := trim_space (oi_description input),
              sn_locator := Some (ns_locator primary), sn_hash := Some (ns_hash primary), sn_updated_at := cx_now x\<rparr>) l = Inr l'"
    and s: "sn_id s = i" "sn_origin s = ''official''"
    using assms by (auto simp: official_script_def Let_def chain_Inr)
  show ?thesis
    by (rule disjI2, intro exI conjI, rule u) (use find_in [OF Some] s in \<open>auto simp: metadata_only_def\<close>)
qed

lemma release_official_chain:
  assumes "release_official env x i current c an sources regions l = Inr l'"
  obtains l1 l2 l3 l4 l5 l6 l7 where "insert_version (draft_entry (cx_now x) (cx_version x) c) l = Inr l1"
    "replace_indexes (cx_version x) an l1 = Inr l2" "insert_sources (cx_version x) sources l2 = Inr l3"
    "insert_regions (cx_version x) regions l3 = Inr l4"
    "update_versions (\<lambda>u. Some (ve_id u) = map_option ve_id current \<and> ve_status u = Published) supersede l4 = Inr l5"
    "update_versions (\<lambda>u. ve_id u = cx_version x) (set_status (cx_now x) InReview) l5 = Inr l6"
    "update_versions (\<lambda>u. ve_id u = cx_version x) (set_published (cx_now x)) l6 = Inr l7"
    "point_published (cx_now x) i (cx_version x) l7 = Inr l'"
proof -
  obtain l1 l2 l3 l4 l5 l6 l7 where *: "insert_version (draft_entry (cx_now x) (cx_version x) c) l = Inr l1"
    "replace_indexes (cx_version x) an l1 = Inr l2" "insert_sources (cx_version x) sources l2 = Inr l3"
    "insert_regions (cx_version x) regions l3 = Inr l4"
    and s: "(case current of None \<Rightarrow> Inr l4
          | Some w \<Rightarrow> update_versions (\<lambda>u. ve_id u = ve_id w \<and> ve_status u = Published) supersede l4) = Inr l5"
    and **: "update_versions (\<lambda>u. ve_id u = cx_version x) (set_status (cx_now x) InReview) l5 = Inr l6"
    "update_versions (\<lambda>u. ve_id u = cx_version x) (set_published (cx_now x)) l6 = Inr l7"
    "point_published (cx_now x) i (cx_version x) l7 = Inr l'"
    using assms by (auto simp: release_official_def chain_Inr Let_def)
  have "update_versions (\<lambda>u. Some (ve_id u) = map_option ve_id current \<and> ve_status u = Published) supersede l4 = Inr l5"
    using s by (cases current) (simp_all add: update_versions_def list_all_iff)
  with * ** show thesis by (intro that)
qed

lemma import_official_chain:
  assumes "import_official env x ids input l = Inr (r, l')"
  obtains slug primary l1 current source h summary c sources regions l2 where "official_script env x slug primary input l = Inr (r, l1)"
    "current = (case script_of l1 r of None \<Rightarrow> None | Some s \<Rightarrow>
            (case sn_published s of None \<Rightarrow> None | Some p \<Rightarrow> find (\<lambda>v. ve_id v = p) (lb_versions l1)))"
    "cm_valid c" "cm_program c \<noteq> ''''"
    "l2 = l1 \<or> release_official env x r current (official_content env (cx_now x) r (next_version l1 r) source h summary primary c)
        (cm_analysis c) sources regions l1 = Inr l2"
    "fixtures_only l2 l'"
proof -
  let ?current = "\<lambda>l1. case script_of l1 r of None \<Rightarrow> None | Some s \<Rightarrow>
            (case sn_published s of None \<Rightarrow> None | Some p \<Rightarrow> find (\<lambda>v. ve_id v = p) (lb_versions l1))"
  obtain slug source sources regions c l1 v l2 fixtures h where o: "official_script env x slug (hd sources) input l = Inr (r, l1)"
    and c: "cm_valid c" "cm_program c \<noteq> ''''"
    and i: "(if pred_option (\<lambda>w. up_to_date l1 w h sources regions (cm_analysis c)) (?current l1) \<and> ?current l1 \<noteq> None
          then Inr (ve_id (the (?current l1)), l1)
          else attempt (release_official env x r (?current l1) (official_content env (cx_now x) r (next_version l1 r) source h
                 (trim_space (oi_summary input)) (hd sources) c) (cm_analysis c) sources regions l1)
               (\<lambda>l2. Inr (cx_version x, l2))) = Inr (v, l2)"
    and f: "sync_fixtures env (cx_now x) ids r v fixtures l2 = Inr l'"
    using assms unfolding import_official_def chain_Inr Let_def by (auto simp only: chain_Inr split_paired_all prod.case sum.inject prod.inject)
  have "l2 = l1 \<or> release_official env x r (?current l1) (official_content env (cx_now x) r (next_version l1 r) source h
      (trim_space (oi_summary input)) (hd sources) c) (cm_analysis c) sources regions l1 = Inr l2"
    using i by (auto simp: chain_Inr split: if_splits)
  from that [OF o refl c this sync_fixtures_only [OF f]] show thesis .
qed

lemma upsert_recovered_chain:
  assumes "upsert_recovered x input l = Inr (i, l')"
  shows "(\<exists>s. insert_script s l = Inr l' \<and> sn_id s = i \<and> sn_origin s = ''recovered'' \<and> sn_created_by s = None \<and> sn_published s = None
        \<and> sn_reference s = None)
    \<or> (\<exists>P f s. update_scripts P f l = Inr l' \<and> s \<in> set (lb_scripts l) \<and> sn_id s = i \<and> sn_origin s = ''recovered''
        \<and> metadata_only f)"
proof (cases "find (\<lambda>s. sn_origin s = ''recovered'' \<and> sn_locator s = Some (ri_locator input)) (lb_scripts l)")
  case None
  then show ?thesis using assms by (auto simp: upsert_recovered_def Let_def chain_Inr)
next
  case (Some s)
  then have u: "update_scripts (\<lambda>s. sn_origin s = ''recovered'' \<and> sn_locator s = Some (ri_locator input))
      (\<lambda>s. s\<lparr>sn_title := ri_title input, sn_description := ri_description input, sn_hash := Some (ri_hash input), sn_updated_at := cx_now x\<rparr>) l = Inr l'"
    and s: "sn_id s = i"
    using assms by (auto simp: upsert_recovered_def Let_def chain_Inr)
  show ?thesis
    by (rule disjI2, intro exI conjI, rule u) (use find_in [OF Some] s in \<open>auto simp: metadata_only_def\<close>)
qed

lemma import_recovered_chain:
  assumes "import_recovered x input l = Inr (r, l')"
  obtains l1 where "upsert_recovered x input l = Inr (r, l1)" "l' = l1"
  | l1 w l2 l3 l4 l5 an ns where "upsert_recovered x input l = Inr (r, l1)" "insert_version w l1 = Inr l2"
    "replace_indexes (ve_id w) an l2 = Inr l3" "insert_sources (ve_id w) ns l3 = Inr l4"
    "update_versions (\<lambda>u. ve_id u = ve_id w) (\<lambda>u. u\<lparr>ve_status := Reference, ve_published_at := Some (cx_now x)\<rparr>) l4 = Inr l5"
    "update_scripts (\<lambda>s. sn_id s = r) (\<lambda>s. s\<lparr>sn_reference := Some (ve_id w)\<rparr>) l5 = Inr l'"
    "ve_status w = Draft" "ve_script w = r" "ve_version w = next_version l1 r" "vc_format (ve_content w) = ''native-reference''"
proof -
  obtain l1 where u: "upsert_recovered x input l = Inr (r, l1)" and
    c: "l' = l1 \<or> (\<exists>l2 l3 l4 l5 an ns w. insert_version w l1 = Inr l2 \<and> replace_indexes (ve_id w) an l2 = Inr l3
        \<and> insert_sources (ve_id w) ns l3 = Inr l4
        \<and> update_versions (\<lambda>u. ve_id u = ve_id w) (\<lambda>u. u\<lparr>ve_status := Reference, ve_published_at := Some (cx_now x)\<rparr>) l4 = Inr l5
        \<and> update_scripts (\<lambda>s. sn_id s = r) (\<lambda>s. s\<lparr>sn_reference := Some (ve_id w)\<rparr>) l5 = Inr l'
        \<and> ve_status w = Draft \<and> ve_script w = r \<and> ve_version w = next_version l1 r \<and> vc_format (ve_content w) = ''native-reference'')"
    using assms unfolding import_recovered_def
    by (auto simp: chain_Inr Let_def draft_entry_def blank_content_def split: if_splits) (force simp: draft_entry_def)
  from c show thesis using that u by blast
qed

section \<open>Every operation keeps history\<close>

named_theorems step_evolution

lemma metadata_only_evolves: "update_scripts P f l = Inr l' \<Longrightarrow> metadata_only f \<Longrightarrow> evolves l l'"
  by (erule update_scripts_evolves) (simp add: metadata_only_def)

lemma create_evolves [step_evolution]: "create_yarn_script env x a input l = Inr (i, l') \<Longrightarrow> evolves l l'"
  by (erule create_yarn_script_chain) (meson evolution evolves_trans)

lemma save_evolves [step_evolution]:
  assumes "save_yarn_draft env x a i n input l = Inr (r, l')"
  shows "evolves l l'"
proof -
  from save_yarn_draft_chain [OF assms] obtain P f l1 l2 an where u: "update_versions P f l = Inr l1"
    and "replace_indexes r an l1 = Inr l2" "touch_script (cx_now x) i l2 = Inr l'"
    and f: "\<And>v. ve_id (f v) = ve_id v \<and> ve_script (f v) = ve_script v \<and> ve_version (f v) = ve_version v" by metis
  then show ?thesis using update_versions_evolves [OF u f] by (meson evolution evolves_trans)
qed

lemma new_version_evolves [step_evolution]: "create_script_version x a i n l = Inr (r, l') \<Longrightarrow> evolves l l'"
  by (erule create_script_version_chain) (meson evolution evolves_trans)

lemma submit_evolves [step_evolution]: "submit_version x a i n l = Inr (r, l') \<Longrightarrow> evolves l l'"
  by (erule submit_version_chain) (meson evolution evolves_trans)

lemma publish_evolves [step_evolution]: "publish_version x a i n b l = Inr (r, l') \<Longrightarrow> evolves l l'"
  by (erule publish_version_chain) (meson evolution evolves_trans)

lemma rollback_evolves [step_evolution]: "rollback_version env x a i n b l = Inr (r, l') \<Longrightarrow> evolves l l'"
  by (erule rollback_version_chain) (meson evolution evolves_trans)

lemma metadata_evolves [step_evolution]: "update_metadata env now a i t d l = Inr l' \<Longrightarrow> evolves l l'"
  by (auto simp: update_metadata_def chain_Inr Let_def elim!: update_scripts_evolves)

lemma archive_evolves [step_evolution]:
  assumes "set_archived now a i arch l = Inr l'"
  shows "evolves l l'"
proof -
  obtain P f l1 where u: "update_scripts P f l = Inr l1" and "\<exists>act. insert_moderation_event now i None a act NoDetails l1 = Inr l'"
    and f: "f = (\<lambda>s. s\<lparr>sn_archived := (if arch then Some (now, a) else None), sn_updated_at := now\<rparr>)"
    using assms by (auto simp: set_archived_def chain_Inr Let_def)
  moreover have "evolves l l1" by (rule update_scripts_evolves [OF u]) (simp add: f)
  ultimately show ?thesis by (meson evolution evolves_trans)
qed

lemma collaborators_evolve: "evolves (l\<lparr>lb_collaborators := c\<rparr>) l' \<Longrightarrow> evolves l l'"
  by (erule evolves_trans [rotated], rule children_evolve) (simp_all add: logs_kept_def indexes_of_def)

lemma collaborator_evolves [step_evolution]: "set_collaborator env now a i email role l = Inr (r, l') \<Longrightarrow> evolves l l'"
  by (auto simp: set_collaborator_def chain_Inr Let_def dest!: evolution intro: collaborators_evolve evolves_trans)

lemma no_collaborator_evolves [step_evolution]: "remove_collaborator now a i target l = Inr l' \<Longrightarrow> evolves l l'"
  by (auto simp: remove_collaborator_def chain_Inr Let_def dest!: evolution intro: collaborators_evolve evolves_trans)

lemma recovered_evolves [step_evolution]:
  assumes "import_recovered x input l = Inr (r, l')"
  shows "evolves l l'"
  using assms
proof (cases rule: import_recovered_chain)
  case (1 l1)
  then show ?thesis using upsert_recovered_chain [OF 1(1)] by (auto intro: insert_script_evolves metadata_only_evolves)
next
  case (2 l1 w l2 l3 l4 l5 an ns)
  have "evolves l l1" using upsert_recovered_chain [OF 2(1)] by (auto intro: insert_script_evolves metadata_only_evolves)
  moreover have "evolves l4 l5" using 2(5) by (rule update_versions_evolves) simp
  moreover have "evolves l5 l'" using 2(6) by (rule update_scripts_evolves) simp
  ultimately show ?thesis using 2(2-4) by (meson evolution evolves_trans)
qed

lemma release_official_evolves: "release_official env x i current c an sources regions l = Inr l' \<Longrightarrow> evolves l l'"
  by (erule release_official_chain) (meson evolution evolves_trans)

lemma official_evolves [step_evolution]:
  assumes "import_official env x ids input l = Inr (r, l')"
  shows "evolves l l'"
  using assms
proof (rule import_official_chain)
  fix slug primary l1 current source h summary c sources regions l2
  assume o: "official_script env x slug primary input l = Inr (r, l1)"
    and i: "l2 = l1 \<or> release_official env x r current (official_content env (cx_now x) r (next_version l1 r) source h summary primary c)
        (cm_analysis c) sources regions l1 = Inr l2" and f: "fixtures_only l2 l'"
  have "evolves l l1" using official_script_chain [OF o] by (auto intro: insert_script_evolves metadata_only_evolves)
  then show ?thesis using i f by (meson release_official_evolves evolution evolves_trans evolves_refl)
qed

lemma new_fixture_evolves [step_evolution]: "create_fixture env x a i fixture l = Inr (r, l') \<Longrightarrow> evolves l l'"
  by (auto simp: create_fixture_def chain_Inr dest!: fixtures_only_insert evolution)

lemma fixture_evolves [step_evolution]: "revise_fixture env x a i j fixture l = Inr l' \<Longrightarrow> evolves l l'"
  by (auto simp: revise_fixture_def chain_Inr dest!: fixtures_only_update evolution)

lemma fixture_archive_evolves [step_evolution]: "set_fixture_archived env x a i j revision arch l = Inr l' \<Longrightarrow> evolves l l'"
  by (auto simp: set_fixture_archived_def chain_Inr dest!: fixtures_only_update evolution)

lemma new_thread_evolves [step_evolution]: "create_review_thread x a i n line body l = Inr (r, l') \<Longrightarrow> evolves l l'"
  by (auto simp: create_review_thread_def chain_Inr dest!: evolution intro: evolves_trans)

lemma comment_evolves [step_evolution]: "add_review_comment x a i t body l = Inr (r, l') \<Longrightarrow> evolves l l'"
  by (auto simp: add_review_comment_def chain_Inr dest!: evolution intro!: evolves_trans [OF _ update_threads_evolves]
      simp: thread_identity_def)

lemma resolve_evolves [step_evolution]:
  assumes "set_thread_resolved x a i t resolved l = Inr l'"
  shows "evolves l l'"
proof -
  obtain v act d where "insert_moderation_event (cx_now x) i v a act d (update_threads (\<lambda>u. rt_id u = t)
      (\<lambda>u. u\<lparr>rt_resolved := (if resolved then Some (a, cx_now x) else None), rt_updated_at := cx_now x\<rparr>) l) = Inr l'"
    using assms by (auto simp: set_thread_resolved_def chain_Inr)
  from insert_moderation_event_evolves [OF this] show ?thesis
    by (rule evolves_trans [rotated]) (rule update_threads_evolves, simp add: thread_identity_def)
qed

lemma accounts_evolve: "evolves l (l\<lparr>lb_accounts := accounts\<rparr>)"
  by (rule children_evolve) (simp_all add: logs_kept_def indexes_of_def)

lemma step_evolves: "authoring_step env b l l' \<Longrightarrow> evolves l l'"
  by (induction rule: authoring_step.induct) (erule step_evolution | rule accounts_evolve)+

end
