(* ===== verification/ScriptInvariant.thy ===== *)
theory ScriptInvariant
  imports ScriptSteps
begin

text \<open>
  What is true of the repository's tables between transactions (\<open>library_ok\<close>): the keys hold and the
  versions of a script are numbered from 1 without gaps, a version that may be published has a valid
  program of the current compiler, and a script's pointers name its published version and a reference
  of it. The statements keep it, and so does a release, which leaves it in between.
\<close>

section \<open>The invariant\<close>

definition numbers :: "library \<Rightarrow> int \<Rightarrow> int list" where
  "numbers l i = map ve_version (filter (\<lambda>v. ve_script v = i) (lb_versions l))"

lemma next_version_numbers: "next_version l i = fold max (numbers l i) 0 + 1"
  by (simp add: next_version_def numbers_def)

definition library_keys :: "library \<Rightarrow> bool" where
  "library_keys l \<longleftrightarrow> distinct (map ve_id (lb_versions l)) \<and> distinct (map sn_id (lb_scripts l)) \<and> distinct (map sn_slug (lb_scripts l))
     \<and> (\<forall>v\<in>set (lb_versions l). entry_ok v \<and> ve_script v \<in> sn_id ` set (lb_scripts l))
     \<and> (\<forall>i. distinct (numbers l i) \<and> set (numbers l i) = {1..<next_version l i})"

definition releasable :: "version_entry \<Rightarrow> bool" where
  "releasable v \<longleftrightarrow> vc_format (ve_content v) = ''yarn'' \<and> vc_compile_status (ve_content v) = ''valid''
     \<and> vc_compiler (ve_content v) = Some yarn_compiler_version \<and> vc_command_schema (ve_content v) = Some yarn_command_schema_version"

definition stage_ok :: "version_entry \<Rightarrow> bool" where
  "stage_ok v \<longleftrightarrow> (vc_format (ve_content v) \<noteq> ''yarn'' \<longrightarrow> ve_status v = Reference)
     \<and> (ve_status v \<in> {InReview, Published, Superseded} \<longrightarrow> releasable v)"

text \<open>A script's pointers name its published version and one of its references.\<close>

definition pointers_ok :: "library \<Rightarrow> script_entry \<Rightarrow> bool" where
  "pointers_ok l s \<longleftrightarrow>
     (\<forall>v\<in>set (lb_versions l). ve_script v = sn_id s \<longrightarrow> (ve_status v = Published \<longleftrightarrow> sn_published s = Some (ve_id v)))
     \<and> (\<forall>p. sn_published s = Some p \<longrightarrow> (\<exists>v\<in>set (lb_versions l). ve_id v = p \<and> ve_script v = sn_id s))
     \<and> (\<forall>p. sn_reference s = Some p \<longrightarrow> (\<exists>v\<in>set (lb_versions l). ve_id v = p \<and> ve_script v = sn_id s \<and> ve_status v = Reference))"

definition library_ok :: "library \<Rightarrow> bool" where
  "library_ok l \<longleftrightarrow> library_keys l \<and> (\<forall>v\<in>set (lb_versions l). stage_ok v) \<and> (\<forall>s\<in>set (lb_scripts l). pointers_ok l s)"

lemma fold_max: "fold max xs (a :: int) = Max (insert a (set xs))"
  by (metis Max.set_eq_fold list.simps(15))

lemma numbers_append: "lb_versions l' = lb_versions l @ [v] \<Longrightarrow> numbers l' i = numbers l i @ (if ve_script v = i then [ve_version v] else [])"
  by (simp add: numbers_def)

lemma numbers_map:
  "lb_versions l' = map g (lb_versions l) \<Longrightarrow> (\<And>v. ve_script (g v) = ve_script v \<and> ve_version (g v) = ve_version v) \<Longrightarrow> numbers l' i = numbers l i"
  by (simp add: numbers_def filter_map comp_def)

lemma next_version_pos: "1 \<le> next_version l i"
  by (simp add: next_version_numbers fold_max)

lemma library_keys_insert_version:
  assumes "library_keys l" and "insert_version v l = Inr l'" and "ve_version v = next_version l (ve_script v)"
  shows "library_keys l'"
proof -
  note i = insert_version_Inr [OF assms(2)]
  have n: "numbers l' i = numbers l i @ (if ve_script v = i then [next_version l i] else [])" for i
    using i assms(3) by (auto simp: numbers_def)
  have nv: "next_version l' i = (if ve_script v = i then next_version l i + 1 else next_version l i)" for i
    using next_version_pos [of l i] by (simp add: next_version_numbers n)
  have "distinct (numbers l' i) \<and> set (numbers l' i) = {1..<next_version l' i}" for i
    using assms(1) next_version_pos [of l i] unfolding library_keys_def n nv by auto
  then show ?thesis using assms(1) i unfolding library_keys_def by (auto intro: rev_image_eqI)
qed

lemma library_keys_map_versions:
  assumes "library_keys l" and "lb_versions l' = map g (lb_versions l)" and "lb_scripts l' = lb_scripts l"
    and "\<And>v. ve_id (g v) = ve_id v \<and> ve_script (g v) = ve_script v \<and> ve_version (g v) = ve_version v"
    and "\<And>v. v \<in> set (lb_versions l) \<Longrightarrow> entry_ok (g v)"
  shows "library_keys l'"
proof -
  have n: "numbers l' i = numbers l i" for i using assms(2,4) by (simp add: numbers_map)
  have "map ve_id (lb_versions l') = map ve_id (lb_versions l)" using assms(2,4) by simp
  then have "distinct (map ve_id (lb_versions l'))" using assms(1) by (simp add: library_keys_def)
  then show ?thesis
    using assms by (auto simp: library_keys_def n next_version_numbers)
qed

lemma library_keys_update_versions:
  assumes "library_keys l" and "update_versions P f l = Inr l'"
    and "\<And>v. ve_id (f v) = ve_id v \<and> ve_script (f v) = ve_script v \<and> ve_version (f v) = ve_version v"
  shows "library_keys l'"
  using update_versions_Inr [OF assms(2)] assms(1)
  by (intro library_keys_map_versions [OF assms(1), of _ "\<lambda>v. if P v then f v else v"]) (auto simp: assms(3) library_keys_def)

lemma library_keys_insert_script: "library_keys l \<Longrightarrow> insert_script s l = Inr l' \<Longrightarrow> library_keys l'"
  by (drule insert_script_Inr) (auto simp: library_keys_def numbers_def next_version_def)

lemma library_keys_map_scripts:
  assumes k: "library_keys l" and l': "lb_versions l' = lb_versions l" "lb_scripts l' = map h (lb_scripts l)"
    and h: "\<And>s. sn_id (h s) = sn_id s \<and> sn_slug (h s) = sn_slug s"
  shows "library_keys l'"
proof -
  have m: "map sn_id (lb_scripts l') = map sn_id (lb_scripts l)" "map sn_slug (lb_scripts l') = map sn_slug (lb_scripts l)"
    using l' h by simp_all
  have "sn_id ` set (lb_scripts l') = sn_id ` set (lb_scripts l)" using arg_cong [OF m(1), of set] by simp
  then show ?thesis using k m l'(1) by (simp add: library_keys_def numbers_def next_version_def)
qed

lemma library_keys_update_scripts:
  assumes "library_keys l" and "update_scripts P f l = Inr l'" and "\<And>s. sn_id (f s) = sn_id s \<and> sn_slug (f s) = sn_slug s"
  shows "library_keys l'"
  using update_scripts_Inr [OF assms(2)]
  by (intro library_keys_map_scripts [OF assms(1), where h = "\<lambda>s. if P s then f s else s"]) (simp_all add: assms(3))

lemma library_keys_core: "library_keys l \<Longrightarrow> same_core l l' \<Longrightarrow> library_keys l'"
  by (simp add: library_keys_def same_core_def numbers_def next_version_def)

lemma library_ok_core: "library_ok l \<Longrightarrow> same_core l l' \<Longrightarrow> library_ok l'"
  using library_keys_core [of l l'] by (simp add: library_ok_def same_core_def pointers_ok_def)

text \<open>New scripts have no versions yet.\<close>

lemma library_ok_insert_script:
  assumes "library_ok l" and "insert_script s l = Inr l'" and "sn_published s = None" and "sn_reference s = None"
  shows "library_ok l'" and "next_version l' (sn_id s) = 1"
proof -
  note i = insert_script_Inr [OF assms(2)]
  have no: "\<forall>v\<in>set (lb_versions l). ve_script v \<noteq> sn_id s"
    using assms(1) i unfolding library_ok_def library_keys_def by fastforce
  then have v: "\<forall>v\<in>set (lb_versions l'). ve_script v \<noteq> sn_id s" using i by simp
  then have e: "filter (\<lambda>v. ve_script v = sn_id s) (lb_versions l') = []" by (auto simp: filter_empty_conv)
  show "next_version l' (sn_id s) = 1" by (simp add: next_version_def e)
  have k: "library_keys l'" using assms(1,2) by (auto simp: library_ok_def intro: library_keys_insert_script)
  have p: "\<forall>x\<in>set (lb_scripts l). pointers_ok l' x" using assms(1) i by (simp add: library_ok_def pointers_ok_def)
  have "pointers_ok l' s" using v assms(3,4) by (auto simp: pointers_ok_def)
  then show "library_ok l'" using k p assms(1) i by (simp add: library_ok_def)
qed

lemma library_ok_update_scripts:
  assumes "library_ok l" and "update_scripts P f l = Inr l'"
    and "\<And>s. sn_id (f s) = sn_id s \<and> sn_slug (f s) = sn_slug s \<and> sn_published (f s) = sn_published s \<and> sn_reference (f s) = sn_reference s"
  shows "library_ok l'"
proof -
  note u = update_scripts_Inr [OF assms(2)]
  define g where "g = (\<lambda>s. if P s then f s else s)"
  have k: "library_keys l'" using assms by (auto simp: library_ok_def intro: library_keys_update_scripts)
  have l': "lb_scripts l' = map g (lb_scripts l)" "lb_versions l' = lb_versions l" using u by (simp_all add: g_def)
  have "pointers_ok l' (g s) \<longleftrightarrow> pointers_ok l s" for s using l'(2) assms(3) by (simp add: pointers_ok_def g_def)
  then show ?thesis using k l' assms(1) by (simp add: library_ok_def)
qed

lemma library_ok_insert_draft:
  assumes "library_ok l" and "insert_version v l = Inr l'" and "ve_version v = next_version l (ve_script v)"
    and "ve_status v = Draft" and "vc_format (ve_content v) = ''yarn''"
  shows "library_ok l'"
proof -
  note i = insert_version_Inr [OF assms(2)]
  have "library_keys l'" using assms by (auto simp: library_ok_def intro: library_keys_insert_version)
  moreover have "stage_ok v" using assms(4,5) by (simp add: stage_ok_def)
  moreover have "pointers_ok l' s" if s: "s \<in> set (lb_scripts l)" for s
  proof -
    have "pointers_ok l s" using assms(1) s by (simp add: library_ok_def)
    then have "sn_published s \<noteq> Some (ve_id v)" using i by (auto simp: pointers_ok_def)
    with \<open>pointers_ok l s\<close> show ?thesis using i assms(4) by (auto simp: pointers_ok_def)
  qed
  ultimately show ?thesis using i assms(1) by (simp add: library_ok_def)
qed

text \<open>Changes of versions that publish nothing and recall nothing.\<close>

lemma library_ok_update_versions:
  assumes "library_ok l" and "update_versions P f l = Inr l'"
    and f: "\<And>v. ve_id (f v) = ve_id v \<and> ve_script (f v) = ve_script v \<and> ve_version (f v) = ve_version v"
    and st: "\<And>v. v \<in> set (lb_versions l) \<Longrightarrow> P v \<Longrightarrow> ve_status v = Draft \<and> ve_status (f v) \<in> {Draft, InReview} \<and> stage_ok (f v)"
  shows "library_ok l'"
proof -
  note u = update_versions_Inr [OF assms(2)]
  define g where "g = (\<lambda>v. if P v then f v else v)"
  have l': "lb_versions l' = map g (lb_versions l)" "lb_scripts l' = lb_scripts l" using u by (simp_all add: g_def)
  have g: "ve_id (g v) = ve_id v" "ve_script (g v) = ve_script v" for v using f by (auto simp: g_def)
  have gs: "(ve_status (g v) = Published) = (ve_status v = Published)" "(ve_status (g v) = Reference) = (ve_status v = Reference)"
    "stage_ok (g v)" if "v \<in> set (lb_versions l)" for v
    using st [OF that] that assms(1) by (auto simp: g_def library_ok_def)
  have "library_keys l'" using assms(1,2) f by (auto simp: library_ok_def intro: library_keys_update_versions)
  moreover have "\<forall>v\<in>set (lb_versions l'). stage_ok v" using gs(3) by (simp add: l')
  moreover have "pointers_ok l' s" if s: "s \<in> set (lb_scripts l)" for s
  proof -
    have "pointers_ok l s" using assms(1) s by (simp add: library_ok_def)
    then show ?thesis using gs by (auto simp: pointers_ok_def l' g)
  qed
  ultimately show ?thesis using l' by (simp add: library_ok_def)
qed

text \<open>A release: one version becomes the published one, and the one published before is superseded.\<close>

lemma library_ok_release:
  assumes ok: "library_ok l" and l': "lb_versions l' = map g (lb_versions l)" "lb_scripts l' = map h (lb_scripts l)"
    and g: "\<And>v. ve_id (g v) = ve_id v \<and> ve_script (g v) = ve_script v \<and> ve_version (g v) = ve_version v"
    and e: "\<And>v. v \<in> set (lb_versions l) \<Longrightarrow> entry_ok (g v)"
    and st: "\<And>v. v \<in> set (lb_versions l) \<Longrightarrow> ve_status (g v) = (if ve_id v = w then Published
      else if sn_published s = Some (ve_id v) \<and> ve_status v = Published then Superseded else ve_status v)"
    and c: "\<And>v. v \<in> set (lb_versions l) \<Longrightarrow> ve_content (g v) = ve_content v"
    and s: "s \<in> set (lb_scripts l)" and w: "w0 \<in> set (lb_versions l)" "ve_id w0 = w" "ve_script w0 = sn_id s" "ve_status w0 \<in> {Draft, InReview}" "releasable w0"
    and h: "\<And>x. sn_id (h x) = sn_id x \<and> sn_slug (h x) = sn_slug x \<and> sn_reference (h x) = sn_reference x
      \<and> sn_published (h x) = (if sn_id x = sn_id s then Some w else sn_published x)"
  shows "library_ok l'"
proof -
  have keys: "library_keys l" and stages: "\<forall>v\<in>set (lb_versions l). stage_ok v" and ptr: "\<And>x. x \<in> set (lb_scripts l) \<Longrightarrow> pointers_ok l x"
    using ok by (auto simp: library_ok_def)
  have "library_keys (l\<lparr>lb_versions := lb_versions l'\<rparr>)"
    by (rule library_keys_map_versions [OF keys, of _ g]) (use l' g e in auto)
  then have "library_keys l'" by (rule library_keys_map_scripts [where h = h]) (use l' h in auto)
  have same_id: "v = w0" if "v \<in> set (lb_versions l)" "ve_id v = w" for v
    using keys that w by (auto simp: library_keys_def distinct_map inj_on_def)
  have same_script: "x = s" if "x \<in> set (lb_scripts l)" "sn_id x = sn_id s" for x
    using keys that s by (auto simp: library_keys_def distinct_map inj_on_def)
  have "stage_ok (g v)" if v: "v \<in> set (lb_versions l)" for v
  proof (cases "ve_id v = w")
    case True
    then have "releasable (g v)" "ve_status (g v) = Published"
      using same_id [OF v True] c [OF v] st [OF v] w(5) by (simp_all add: releasable_def)
    then show ?thesis by (simp add: stage_ok_def releasable_def)
  next
    case False
    have "stage_ok v" using stages v by simp
    have same: "releasable (g v) = releasable v" "vc_format (ve_content (g v)) = vc_format (ve_content v)"
      by (simp_all add: releasable_def c [OF v])
    from st [OF v] False consider "ve_status (g v) = ve_status v" | "ve_status v = Published" "ve_status (g v) = Superseded"
      by (auto split: if_splits)
    then show ?thesis using \<open>stage_ok v\<close> by cases (simp_all add: stage_ok_def same)
  qed
  moreover have "pointers_ok l' (h x)" if x: "x \<in> set (lb_scripts l)" for x
  proof (cases "sn_id x = sn_id s")
    case True
    then have xs: "x = s" using same_script x by simp
    have p: "ve_script v = sn_id s \<Longrightarrow> (ve_status v = Published) = (sn_published s = Some (ve_id v))" if "v \<in> set (lb_versions l)" for v
      using ptr [OF s] that by (simp add: pointers_ok_def)
    have "(ve_status (g v) = Published) = (Some w = Some (ve_id v))" if "v \<in> set (lb_versions l)" "ve_script v = sn_id s" for v
      using st [OF that(1)] p [OF that] by auto
    moreover have "\<exists>v\<in>set (lb_versions l'). ve_id v = w \<and> ve_script v = sn_id s"
      using w(1-3) g by (auto simp: l')
    moreover have "\<exists>v\<in>set (lb_versions l'). ve_id v = q \<and> ve_script v = sn_id s \<and> ve_status v = Reference" if q: "sn_reference s = Some q" for q
    proof -
      obtain v where v: "v \<in> set (lb_versions l)" "ve_id v = q" "ve_script v = sn_id s" "ve_status v = Reference"
        using ptr [OF s] q by (auto simp: pointers_ok_def)
      then have "ve_id v \<noteq> w" using same_id [OF v(1)] w(4) by auto
      then have "ve_status (g v) = Reference" using st [OF v(1)] v(4) by simp
      then show ?thesis using v g by (auto simp: l')
    qed
    ultimately show ?thesis using h g by (simp add: pointers_ok_def xs l')
  next
    case False
    have same: "ve_status (g v) = ve_status v" if v: "v \<in> set (lb_versions l)" "ve_script v = sn_id x" for v
    proof -
      have "ve_id v \<noteq> w" using same_id [OF v(1)] w(3) False v(2) by auto
      moreover have "sn_published s \<noteq> Some (ve_id v)"
      proof
        assume "sn_published s = Some (ve_id v)"
        then obtain u where "u \<in> set (lb_versions l)" "ve_id u = ve_id v" "ve_script u = sn_id s"
          using ptr [OF s] by (auto simp: pointers_ok_def)
        with v False show False using keys by (auto simp: library_keys_def distinct_map inj_on_def)
      qed
      ultimately show ?thesis using st [OF v(1)] by simp
    qed
    have p: "pointers_ok l x" by (rule ptr [OF x])
    have "\<forall>v\<in>set (lb_versions l). ve_script v = sn_id x \<longrightarrow> (ve_status (g v) = Published) = (sn_published x = Some (ve_id v))"
      using p same by (simp add: pointers_ok_def)
    moreover have "\<exists>v\<in>set (lb_versions l). ve_id v = q \<and> ve_script v = sn_id x \<and> ve_status (g v) = Reference"
      if r: "sn_reference x = Some q" for q
    proof -
      obtain v where "v \<in> set (lb_versions l)" "ve_id v = q" "ve_script v = sn_id x" "ve_status v = Reference"
        using p r by (auto simp: pointers_ok_def)
      then show ?thesis using same by (intro bexI [of _ v]) simp_all
    qed
    ultimately show ?thesis using p h g False by (simp add: pointers_ok_def l')
  qed
  ultimately show ?thesis using \<open>library_keys l'\<close> by (auto simp: library_ok_def l')
qed

end
