(* ===== verification/ScriptUpkeep.thy ===== *)
theory ScriptUpkeep
  imports ScriptInvariant
begin

text \<open>
  Every operation on the repository keeps its invariant: one lemma per operation, over the statements it
  runs.
\<close>

section \<open>Every operation keeps the invariant\<close>

text \<open>The effect of a series of status changes.\<close>

definition restated :: "library \<Rightarrow> library \<Rightarrow> (version_entry \<Rightarrow> version_entry) \<Rightarrow> bool" where
  "restated l l' g \<longleftrightarrow> lb_versions l' = map g (lb_versions l) \<and> lb_scripts l' = lb_scripts l
     \<and> (\<forall>v\<in>set (lb_versions l). entry_ok v \<longrightarrow> entry_ok (g v)) \<and> (\<forall>v. ve_id (g v) = ve_id v \<and> ve_content (g v) = ve_content v)"

lemma restated_trans: "restated l l1 g \<Longrightarrow> restated l1 l2 h \<Longrightarrow> restated l l2 (\<lambda>v. h (g v))"
  by (auto simp: restated_def)

lemma restated_update:
  assumes "update_versions P f l = Inr l'" and "\<And>v. ve_id (f v) = ve_id v \<and> ve_content (f v) = ve_content v"
  shows "restated l l' (\<lambda>v. if P v then f v else v)"
  using update_versions_Inr [OF assms(1)] assms(2) by (auto simp: restated_def)

lemma status_setters [simp]:
  "ve_id (set_status now st v) = ve_id v" "ve_content (set_status now st v) = ve_content v" "ve_status (set_status now st v) = st"
  "ve_id (set_published now v) = ve_id v" "ve_content (set_published now v) = ve_content v" "ve_status (set_published now v) = Published"
  "ve_id (supersede v) = ve_id v" "ve_content (supersede v) = ve_content v" "ve_status (supersede v) = Superseded"
  by (simp_all add: set_status_def set_published_def supersede_def)

lemma point_published_scripts: "point_published now i w l = Inr l' \<Longrightarrow> lb_versions l' = lb_versions l
    \<and> lb_scripts l' = map (\<lambda>s. if sn_id s = i then s\<lparr>sn_published := Some w, sn_updated_at := now\<rparr> else s) (lb_scripts l)"
  unfolding point_published_def by (drule update_scripts_Inr) simp

lemma library_ok_publish:
  assumes ok: "library_ok l" and r: "restated l l1 g" and p: "point_published now (sn_id s) w l1 = Inr l'"
    and s: "s \<in> set (lb_scripts l)"
    and w: "w0 \<in> set (lb_versions l)" "ve_id w0 = w" "ve_script w0 = sn_id s" "ve_status w0 \<in> {Draft, InReview}" "releasable w0"
    and st: "\<And>v. v \<in> set (lb_versions l) \<Longrightarrow> ve_status (g v) = (if ve_id v = w then Published
      else if sn_published s = Some (ve_id v) \<and> ve_status v = Published then Superseded else ve_status v)"
  shows "library_ok l'"
proof (rule library_ok_release [OF ok _ _ _ _ _ _ s w, where g = g])
  show "lb_versions l' = map g (lb_versions l)" using r point_published_scripts [OF p] by (simp add: restated_def)
  show "lb_scripts l' = map (\<lambda>x. if sn_id x = sn_id s then x\<lparr>sn_published := Some w, sn_updated_at := now\<rparr> else x) (lb_scripts l)"
    using r point_published_scripts [OF p] by (simp add: restated_def)
  show "entry_ok (g v)" if "v \<in> set (lb_versions l)" for v
    using r ok that by (auto simp: restated_def library_ok_def library_keys_def)
qed (use r st in \<open>auto simp: restated_def\<close>)

lemma next_version_core: "same_core l l' \<Longrightarrow> next_version l' i = next_version l i"
  by (simp add: same_core_def next_version_def)

lemma find_unique: "distinct (map f xs) \<Longrightarrow> x \<in> set xs \<Longrightarrow> find (\<lambda>y. f y = f x) xs = Some x"
  by (induction xs) auto

lemma script_of_mem: "library_ok l \<Longrightarrow> s \<in> set (lb_scripts l) \<Longrightarrow> script_of l (sn_id s) = Some s"
  by (simp add: library_ok_def library_keys_def script_of_def find_unique)

lemma entry_of_mem: "library_ok l \<Longrightarrow> v \<in> set (lb_versions l) \<Longrightarrow> entry_of l (ve_id v) = Some v"
  by (simp add: library_ok_def library_keys_def entry_of_def find_unique)

lemma script_of_Some: "script_of l i = Some s \<Longrightarrow> s \<in> set (lb_scripts l) \<and> sn_id s = i"
  unfolding script_of_def by (rule find_in)

lemma version_id_unique: "library_ok l \<Longrightarrow> u \<in> set (lb_versions l) \<Longrightarrow> v \<in> set (lb_versions l) \<Longrightarrow> ve_id u = ve_id v \<Longrightarrow> u = v"
  by (auto simp: library_ok_def library_keys_def distinct_map inj_on_def)

lemma version_number_unique:
  assumes "library_ok l" "u \<in> set (lb_versions l)" "v \<in> set (lb_versions l)" "ve_script u = ve_script v" "ve_version u = ve_version v"
  shows "u = v"
proof -
  have "distinct (numbers l (ve_script v))" using assms(1) by (simp add: library_ok_def library_keys_def)
  then show ?thesis using assms(2-5) by (auto simp: numbers_def distinct_map inj_on_def)
qed

lemma version_script: "library_ok l \<Longrightarrow> v \<in> set (lb_versions l) \<Longrightarrow> \<exists>s\<in>set (lb_scripts l). sn_id s = ve_script v"
  by (fastforce simp: library_ok_def library_keys_def)

named_theorems step_ok

lemma create_ok [step_ok]:
  assumes ok: "library_ok l" and c: "create_yarn_script env x a input l = Inr (i, l')"
  shows "library_ok l'"
  using c
proof (rule create_yarn_script_chain)
  fix s v l1 l2 l3 an
  assume 1: "insert_script s l = Inr l1" "sn_published s = None" "sn_reference s = None" "sn_id s = i"
    and 2: "insert_collaborator i a ''owner'' l1 = Inr l2" and 3: "insert_version v l2 = Inr l3" "replace_indexes (ve_id v) an l3 = Inr l'"
    and v: "ve_status v = Draft" "ve_script v = i" "ve_version v = 1" "vc_format (ve_content v) = ''yarn''"
  note l1 = library_ok_insert_script [OF ok 1(1-3)]
  have "library_ok l2" "next_version l2 i = 1"
    using l1 1(4) insert_collaborator_core [OF 2] by (auto intro: library_ok_core simp: next_version_core)
  then have "library_ok l3" using 3 v by (intro library_ok_insert_draft [of l2 v l3]) simp_all
  then show ?thesis using replace_indexes_core [OF 3(2)] by (rule library_ok_core)
qed

lemma touch_script_ok: "library_ok l \<Longrightarrow> touch_script now i l = Inr l' \<Longrightarrow> library_ok l'"
  unfolding touch_script_def by (rule library_ok_update_scripts) (assumption | simp)+

lemma save_ok [step_ok]:
  assumes ok: "library_ok l" and c: "save_yarn_draft env x a i n input l = Inr (r, l')"
  shows "library_ok l'"
  using c
proof (rule save_yarn_draft_chain)
  fix P f v l1 l2 an
  assume u: "update_versions P f l = Inr l1" and l2: "replace_indexes r an l1 = Inr l2" "touch_script (cx_now x) i l2 = Inr l'"
    and P: "\<And>v. P v \<Longrightarrow> ve_status v = Draft \<and> vc_format (ve_content v) = ''yarn'' \<and> may_edit l i a
        \<and> ve_script v = i \<and> ve_version v = n \<and> vc_revision (ve_content v) = di_revision input"
    and f: "\<And>v. ve_id (f v) = ve_id v \<and> ve_status (f v) = ve_status v \<and> ve_published_at (f v) = ve_published_at v
        \<and> ve_script (f v) = ve_script v \<and> ve_version (f v) = ve_version v \<and> vc_format (ve_content (f v)) = vc_format (ve_content v)"
  have "library_ok l1"
  proof (rule library_ok_update_versions [OF ok u])
    fix v assume "P v"
    then show "ve_status v = Draft \<and> ve_status (f v) \<in> {Draft, InReview} \<and> stage_ok (f v)"
      using P [of v] f [of v] by (simp add: stage_ok_def)
  qed (use f in blast)
  then show ?thesis using library_ok_core [OF _ replace_indexes_core [OF l2(1)]] touch_script_ok [OF _ l2(2)] by blast
qed

lemma new_version_ok [step_ok]:
  assumes ok: "library_ok l" and c: "create_script_version x a i n l = Inr (r, l')"
  shows "library_ok l'"
  using c
proof (rule create_script_version_chain)
  fix s base v l1 l2 l3
  assume b: "version_of l i n = Some base" and c: "contribute (cx_now x) a i s base l = Inr l1" and i: "insert_version v l1 = Inr l2"
    and l3: "same_core l2 l3" "copy_provenance (ve_id base) r l3 = Inr l'"
    and v: "ve_status v = Draft" "ve_script v = ve_script base" "ve_version v = next_version l i"
      "vc_format (ve_content v) = vc_format (ve_content base)" "vc_format (ve_content base) \<noteq> ''native-reference''"
  have base: "base \<in> set (lb_versions l)" "ve_script base = i" using find_in [OF b [unfolded version_of_def]] by simp_all
  have "vc_format (ve_content base) = ''yarn''"
    using ok base(1) v(5) by (auto simp: library_ok_def library_keys_def entry_ok_def content_ok_def content_shape_def)
  moreover have "library_ok l1" "next_version l1 i = next_version l i"
    using ok contribute_core [OF c] by (auto intro: library_ok_core simp: next_version_core)
  ultimately have "library_ok l2" using i v base by (intro library_ok_insert_draft [of l1 v l2]) simp_all
  then show ?thesis using l3 by (meson library_ok_core core_frame)
qed

lemma submit_ok [step_ok]:
  assumes ok: "library_ok l" and c: "submit_version x a i n l = Inr (r, l')"
  shows "library_ok l'"
  using c
proof (rule submit_version_chain)
  fix P v l1
  assume u: "update_versions P (set_status (cx_now x) InReview) l = Inr l1"
    and e: "insert_moderation_event (cx_now x) i (Some r) a ''version.submitted'' NoDetails l1 = Inr l'"
    and P: "\<And>v. P v \<Longrightarrow> ve_script v = i \<and> ve_version v = n \<and> ve_status v = Draft \<and> may_edit l i a \<and> (vc_format (ve_content v) \<noteq> ''yarn''
        \<or> vc_compile_status (ve_content v) = ''valid'' \<and> vc_compiler (ve_content v) = Some yarn_compiler_version
          \<and> vc_command_schema (ve_content v) = Some yarn_command_schema_version)"
  have "stage_ok (set_status (cx_now x) InReview v)" if "v \<in> set (lb_versions l)" "P v" for v
  proof -
    have "stage_ok v" using ok that(1) by (simp add: library_ok_def)
    then have "releasable v" using P [OF that(2)] by (auto simp: stage_ok_def releasable_def)
    then show ?thesis by (simp add: stage_ok_def releasable_def)
  qed
  then have "library_ok l1" using P by (intro library_ok_update_versions [OF ok u]) auto
  then show ?thesis using insert_moderation_event_core [OF e] by (rule library_ok_core)
qed

lemma publish_ok [step_ok]:
  assumes ok: "library_ok l" and c: "publish_version x a i n b l = Inr (r, l')"
  shows "library_ok l'"
  using c
proof (rule publish_version_chain)
  fix w l1 l2 l3
  let ?P = "\<lambda>v. Some (ve_id v) = (case script_of l i of None \<Rightarrow> None | Some s \<Rightarrow> sn_published s) \<and> ve_status v = Published"
  let ?Q = "\<lambda>v. ve_script v = i \<and> ve_version v = n \<and> ve_status v = InReview"
  assume u1: "update_versions ?P supersede l = Inr l1" and u2: "update_versions ?Q (set_published (cx_now x)) l1 = Inr l2"
    and p: "point_published (cx_now x) i r l2 = Inr l3"
    and e: "insert_moderation_event (cx_now x) i (Some r) a ''version.published'' NoDetails l3 = Inr l'"
    and w: "w \<in> set (lb_versions l1)" "ve_script w = i" "ve_version w = n" "ve_status w = InReview" "ve_id w = r"
  note r1 = restated_update [OF u1, simplified] and r2 = restated_update [OF u2, simplified]
  have wl: "w \<in> set (lb_versions l)" using w(1,4) r1 by (auto simp: restated_def split: if_splits)
  obtain s where s: "s \<in> set (lb_scripts l)" "sn_id s = i" using version_script [OF ok wl] w(2) by auto
  have so: "script_of l i = Some s" using script_of_mem [OF ok s(1)] s(2) by simp
  have q: "ve_script v = i \<and> ve_version v = n \<longleftrightarrow> ve_id v = r" if "v \<in> set (lb_versions l)" for v
    using version_number_unique [OF ok that wl] version_id_unique [OF ok that wl] w(2,3,5) by auto
  have "library_ok l3"
  proof (rule library_ok_publish [OF ok restated_trans [OF r1 r2] p [folded s(2)] s(1) wl w(5)])
    show "releasable w" using ok wl w(4) by (auto simp: library_ok_def stage_ok_def)
    fix v assume v: "v \<in> set (lb_versions l)"
    show "ve_status (if ?Q (if ?P v then supersede v else v) then set_published (cx_now x) (if ?P v then supersede v else v)
        else if ?P v then supersede v else v) = (if ve_id v = r then Published
      else if sn_published s = Some (ve_id v) \<and> ve_status v = Published then Superseded else ve_status v)"
      using q [OF v] version_id_unique [OF ok v wl] w(4,5) by (auto simp: so)
  qed (use w s in auto)
  then show ?thesis using insert_moderation_event_core [OF e] by (rule library_ok_core)
qed

text \<open>The two imports and the rollback release a version that they have just written.\<close>

lemma restated_core: "restated l l1 g \<Longrightarrow> same_core l1 l2 \<Longrightarrow> restated l l2 g"
  by (simp add: restated_def same_core_def)

lemma compiled_releasable: "cm_valid c \<Longrightarrow> vc_format (ve_content v) = ''yarn'' \<Longrightarrow> ve_content v = compiled_content env source c row \<Longrightarrow> releasable v"
  by (simp add: releasable_def compiled_content_def)

lemma release_draft:
  assumes ok: "library_ok l" and ins: "insert_version w l = Inr l1" and c: "same_core l1 l2"
    and w: "ve_status w = Draft" "ve_version w = next_version l (ve_script w)" "releasable w"
    and g: "restated l2 l3 g" and p: "point_published now i (ve_id w) l3 = Inr l4" and i: "ve_script w = i"
    and st: "\<And>v s. v \<in> set (lb_versions l2) \<Longrightarrow> s \<in> set (lb_scripts l2) \<Longrightarrow> sn_id s = i \<Longrightarrow>
      ve_status (g v) = (if ve_id v = ve_id w then Published
      else if sn_published s = Some (ve_id v) \<and> ve_status v = Published then Superseded else ve_status v)"
  shows "library_ok l4"
proof -
  have "library_ok l1" using w by (intro library_ok_insert_draft [OF ok ins]) (simp_all add: releasable_def)
  then have ok2: "library_ok l2" using c by (rule library_ok_core)
  have wl: "w \<in> set (lb_versions l2)" using insert_version_Inr [OF ins] c by (simp add: same_core_def)
  obtain s where s: "s \<in> set (lb_scripts l2)" "sn_id s = i" using version_script [OF ok2 wl] i by auto
  show ?thesis
    by (rule library_ok_publish [OF ok2 g p [folded s(2)] s(1) wl]) (use w s i st in auto)
qed

lemma rollback_ok [step_ok]:
  assumes ok: "library_ok l" and c: "rollback_version env x a i n b l = Inr (r, l')"
  shows "library_ok l'"
  using c
proof (rule rollback_version_chain)
  fix p :: rollback_plan and s :: script_entry and t w :: version_entry and l1 l2 l3 l4 l5 l6 l7
  let ?D = "\<lambda>w. ve_id w = r \<and> ve_status w = Draft" and ?C = "\<lambda>w. ve_id w = rp_current p \<and> ve_status w = Published"
    and ?R = "\<lambda>w. ve_id w = r \<and> ve_status w = InReview" and ?now = "cx_now x"
  assume plan: "plan_rollback env a i n b = Inr p" and s: "script_of l i = Some s" "sn_published s = Some (rp_current p)"
    and w: "w = draft_entry ?now r (rollback_content env ?now a (next_version l i) p)"
    and ins: "insert_version w l = Inr l1" and idx: "replace_indexes r (cm_analysis (rp_compilation p)) l1 = Inr l2"
    and prov: "copy_provenance (ve_id (rp_target p)) r l2 = Inr l3"
    and u1: "update_one ?D (set_status ?now InReview) l3 = Inr l4" and u2: "update_one ?C (set_status ?now Superseded) l4 = Inr l5"
    and u3: "update_versions ?R (set_published ?now) l5 = Inr l6" and pt: "point_published ?now i r l6 = Inr l7"
    and e: "insert_moderation_event ?now i (Some r) a ''version.rollback-published'' (SourceVersion (ve_id (rp_target p)) (ve_version (rp_target p))) l7 = Inr l'"
  have target: "ve_script (rp_target p) = i" "cm_valid (rp_compilation p)"
    using plan by (auto simp: plan_rollback_def chain_Inr Let_def dest!: find_in)
  have wd: "ve_id w = r" "ve_status w = Draft" "ve_script w = i" "ve_version w = next_version l i" "releasable w"
    using target by (simp_all add: w draft_entry_def rollback_content_def Let_def releasable_def compiled_content_def blank_content_def yarn_content_format_def)
  have core: "same_core l1 l3" using replace_indexes_core [OF idx] copy_provenance_core [OF prov] by (rule same_core_trans)
  note r1 = restated_update [OF conjunct1 [OF update_one_Inr [OF u1]], simplified]
    and r2 = restated_update [OF conjunct1 [OF update_one_Inr [OF u2]], simplified] and r3 = restated_update [OF u3, simplified]
  have "library_ok l7"
  proof (rule release_draft [OF ok ins core wd(2) _ wd(5) restated_trans [OF restated_trans [OF r1 r2] r3] _ wd(3)])
    show "ve_version w = next_version l (ve_script w)" using wd by simp
    show "point_published ?now i (ve_id w) l6 = Inr l7" using pt wd by simp
    fix v y assume v: "v \<in> set (lb_versions l3)" and y: "y \<in> set (lb_scripts l3)" "sn_id y = i"
    have same: "lb_scripts l3 = lb_scripts l" "lb_versions l3 = lb_versions l @ [w]"
      using core insert_version_Inr [OF ins] by (simp_all add: same_core_def)
    have "y = s" using script_of_mem [OF ok, of y] y s(1) same by simp
    then have cur: "sn_published y = Some (rp_current p)" using s(2) by simp
    have new: "ve_id v = r \<Longrightarrow> ve_status v = Draft" using v same insert_version_Inr [OF ins] wd(1,2) by auto
    show "ve_status (if ?R (if ?C (if ?D v then set_status ?now InReview v else v) then set_status ?now Superseded (if ?D v then set_status ?now InReview v else v)
          else if ?D v then set_status ?now InReview v else v)
        then set_published ?now (if ?C (if ?D v then set_status ?now InReview v else v) then set_status ?now Superseded (if ?D v then set_status ?now InReview v else v)
          else if ?D v then set_status ?now InReview v else v)
        else if ?C (if ?D v then set_status ?now InReview v else v) then set_status ?now Superseded (if ?D v then set_status ?now InReview v else v)
          else if ?D v then set_status ?now InReview v else v)
      = (if ve_id v = ve_id w then Published else if sn_published y = Some (ve_id v) \<and> ve_status v = Published then Superseded else ve_status v)"
      using new by (auto simp: wd(1) cur)
  qed
  then show ?thesis using insert_moderation_event_core [OF e] by (rule library_ok_core)
qed

lemma metadata_only_ok: "library_ok l \<Longrightarrow> update_scripts P f l = Inr l' \<Longrightarrow> metadata_only f \<Longrightarrow> library_ok l'"
  by (rule library_ok_update_scripts) (assumption | simp add: metadata_only_def)+

lemma official_script_ok:
  assumes ok: "library_ok l" and o: "official_script env x slug primary input l = Inr (i, l')"
  shows "library_ok l' \<and> (\<exists>s\<in>set (lb_scripts l'). sn_id s = i)"
  using official_script_chain [OF o]
proof (elim disjE exE conjE)
  fix s assume s: "insert_script s l = Inr l'" "sn_published s = None" "sn_reference s = None" "sn_id s = i"
  then show ?thesis using library_ok_insert_script [OF ok s(1-3)] insert_script_Inr [OF s(1)] by auto
next
  fix f s assume u: "update_scripts (\<lambda>r. sn_id r = i) f l = Inr l'" "metadata_only f" "s \<in> set (lb_scripts l)" "sn_id s = i"
  then have "f s \<in> set (lb_scripts l')" "sn_id (f s) = i" using update_scripts_Inr [OF u(1)] by (auto simp: metadata_only_def)
  then show ?thesis using metadata_only_ok [OF ok u(1,2)] by blast
qed

lemma release_official_ok:
  assumes ok: "library_ok l" and rel: "release_official env x i current c an sources regions l = Inr l'"
    and c: "vc_script c = i" "vc_version c = next_version l i" "vc_format c = ''yarn''" "vc_compile_status c = ''valid''"
      "vc_compiler c = Some yarn_compiler_version" "vc_command_schema c = Some yarn_command_schema_version"
    and s: "script_of l i = Some s" and current: "map_option ve_id current = sn_published s"
  shows "library_ok l'"
  using rel
proof (rule release_official_chain)
  fix l1 l2 l3 l4 l5 l6 l7
  let ?now = "cx_now x" and ?C = "\<lambda>u. Some (ve_id u) = map_option ve_id current \<and> ve_status u = Published" and ?N = "\<lambda>u. ve_id u = cx_version x"
  let ?w = "draft_entry ?now (cx_version x) c"
  assume ins: "insert_version ?w l = Inr l1" and idx: "replace_indexes (cx_version x) an l1 = Inr l2"
    and src: "insert_sources (cx_version x) sources l2 = Inr l3" "insert_regions (cx_version x) regions l3 = Inr l4"
    and u1: "update_versions ?C supersede l4 = Inr l5" and u2: "update_versions ?N (set_status ?now InReview) l5 = Inr l6"
    and u3: "update_versions ?N (set_published ?now) l6 = Inr l7" and pt: "point_published ?now i (cx_version x) l7 = Inr l'"
  have w: "ve_id ?w = cx_version x" "ve_status ?w = Draft" "ve_script ?w = i" "ve_version ?w = next_version l (ve_script ?w)" "releasable ?w"
    using c by (simp_all add: draft_entry_def releasable_def)
  have core: "same_core l1 l4"
    using replace_indexes_core [OF idx] insert_sources_core [OF src(1)] insert_regions_core [OF src(2)] by (blast intro: same_core_trans)
  note r1 = restated_update [OF u1, simplified] and r2 = restated_update [OF u2, simplified] and r3 = restated_update [OF u3, simplified]
  show "library_ok l'"
  proof (rule release_draft [OF ok ins core w(2) w(4) w(5) restated_trans [OF restated_trans [OF r1 r2] r3] _ w(3)])
    show "point_published ?now i (ve_id ?w) l7 = Inr l'" using pt by (simp only: w(1))
    fix v y assume v: "v \<in> set (lb_versions l4)" and y: "y \<in> set (lb_scripts l4)" "sn_id y = i"
    have same: "lb_scripts l4 = lb_scripts l" "lb_versions l4 = lb_versions l @ [?w]"
      using core insert_version_Inr [OF ins] by (simp_all add: same_core_def)
    have "y = s" using script_of_mem [OF ok, of y] y s same by simp
    then have cur: "map_option ve_id current = sn_published y" using current by simp
    show "ve_status (if ?N (if ?N (if ?C v then supersede v else v) then set_status ?now InReview (if ?C v then supersede v else v)
          else if ?C v then supersede v else v)
        then set_published ?now (if ?N (if ?C v then supersede v else v) then set_status ?now InReview (if ?C v then supersede v else v)
          else if ?C v then supersede v else v)
        else if ?N (if ?C v then supersede v else v) then set_status ?now InReview (if ?C v then supersede v else v)
          else if ?C v then supersede v else v)
      = (if ve_id v = ve_id ?w then Published else if sn_published y = Some (ve_id v) \<and> ve_status v = Published then Superseded else ve_status v)"
      by (auto simp: w(1) cur)
  qed
qed

lemma official_ok [step_ok]:
  assumes ok: "library_ok l" and i: "import_official env x ids input l = Inr (r, l')"
  shows "library_ok l'"
  using i
proof (rule import_official_chain)
  fix slug primary l1 current source h summary c sources regions l2
  assume o: "official_script env x slug primary input l = Inr (r, l1)"
    and cur: "current = (case script_of l1 r of None \<Rightarrow> None | Some s \<Rightarrow>
            (case sn_published s of None \<Rightarrow> None | Some p \<Rightarrow> find (\<lambda>v. ve_id v = p) (lb_versions l1)))"
    and c: "cm_valid c"
    and rel: "l2 = l1 \<or> release_official env x r current (official_content env (cx_now x) r (next_version l1 r) source h summary primary c)
        (cm_analysis c) sources regions l1 = Inr l2"
    and f: "fixtures_only l2 l'"
  from official_script_ok [OF ok o] obtain s where ok1: "library_ok l1" and s: "s \<in> set (lb_scripts l1)" "sn_id s = r" by blast
  have so: "script_of l1 r = Some s" using script_of_mem [OF ok1 s(1)] s(2) by simp
  have "map_option ve_id current = sn_published s"
  proof (cases "sn_published s")
    case (Some p)
    have "pointers_ok l1 s" using ok1 s(1) by (simp add: library_ok_def)
    then obtain v where v: "v \<in> set (lb_versions l1)" "ve_id v = p" using Some by (auto simp: pointers_ok_def)
    then have "find (\<lambda>v. ve_id v = p) (lb_versions l1) = Some v" using entry_of_mem [OF ok1 v(1)] by (simp add: entry_of_def)
    then show ?thesis using Some v by (simp add: cur so)
  qed (simp add: cur so)
  then have "library_ok l2" using rel ok1
    by (elim disjE) (auto intro!: release_official_ok [OF ok1 _ _ _ _ _ _ _ so]
      simp: official_content_def compiled_content_def blank_content_def c yarn_content_format_def)
  then show ?thesis using fixtures_only_core [OF f] by (rule library_ok_core)
qed

lemma upsert_recovered_ok:
  assumes ok: "library_ok l" and o: "upsert_recovered x input l = Inr (i, l')"
  shows "library_ok l' \<and> (\<exists>s\<in>set (lb_scripts l'). sn_id s = i)"
  using upsert_recovered_chain [OF o]
proof (elim disjE exE conjE)
  fix s assume s: "insert_script s l = Inr l'" "sn_published s = None" "sn_reference s = None" "sn_id s = i"
  then show ?thesis using library_ok_insert_script [OF ok s(1-3)] insert_script_Inr [OF s(1)] by auto
next
  fix P f s assume u: "update_scripts P f l = Inr l'" "metadata_only f" "s \<in> set (lb_scripts l)" "sn_id s = i"
  then have "(if P s then f s else s) \<in> set (lb_scripts l')" "sn_id (if P s then f s else s) = i"
    using update_scripts_Inr [OF u(1)] by (auto simp: metadata_only_def)
  then show ?thesis using metadata_only_ok [OF ok u(1,2)] by blast
qed

text \<open>A reference is written as a draft and becomes the current reference in the same transaction.\<close>

lemma reference_ok:
  assumes ok: "library_ok l" and ins: "insert_version w l = Inr l1" and core: "same_core l1 l2"
    and u: "update_versions (\<lambda>u. ve_id u = ve_id w) (\<lambda>u. u\<lparr>ve_status := Reference, ve_published_at := Some now\<rparr>) l2 = Inr l3"
    and p: "update_scripts (\<lambda>s. sn_id s = i) (\<lambda>s. s\<lparr>sn_reference := Some (ve_id w)\<rparr>) l3 = Inr l4"
    and w: "ve_status w = Draft" "ve_script w = i" "ve_version w = next_version l i" "vc_format (ve_content w) = ''native-reference''"
  shows "library_ok l4"
proof -
  note i = insert_version_Inr [OF ins] and u' = update_versions_Inr [OF u] and p' = update_scripts_Inr [OF p]
  let ?w = "w\<lparr>ve_status := Reference, ve_published_at := Some now\<rparr>"
  have v2: "lb_versions l2 = lb_versions l @ [w]" "lb_scripts l2 = lb_scripts l" using i core by (simp_all add: same_core_def)
  have others: "\<forall>v\<in>set (lb_versions l). ve_id v \<noteq> ve_id w" using i by blast
  then have "map (\<lambda>v. if ve_id v = ve_id w then v\<lparr>ve_status := Reference, ve_published_at := Some now\<rparr> else v) (lb_versions l) = lb_versions l"
    by (intro map_idI) auto
  then have v4: "lb_versions l4 = lb_versions l @ [?w]"
    using u' p' v2 by simp
  have s4: "lb_scripts l4 = map (\<lambda>s. if sn_id s = i then s\<lparr>sn_reference := Some (ve_id w)\<rparr> else s) (lb_scripts l)"
    using u' p' v2 by simp
  have keys: "library_keys l4"
  proof -
    have "library_keys l" using ok by (simp add: library_ok_def)
    then have "library_keys l1" using ins by (rule library_keys_insert_version) (simp only: w)
    then have "library_keys l2" using core by (rule library_keys_core)
    then have "library_keys l3" using u by (rule library_keys_update_versions) simp_all
    then show ?thesis using p by (rule library_keys_update_scripts) simp
  qed
  define h :: "script_entry \<Rightarrow> script_entry" where "h = (\<lambda>s. if sn_id s = i then s\<lparr>sn_reference := Some (ve_id w)\<rparr> else s)"
  have "\<forall>v\<in>set (lb_versions l4). stage_ok v" using ok w by (auto simp: v4 library_ok_def stage_ok_def)
  moreover have "pointers_ok l4 (h s)" if s: "s \<in> set (lb_scripts l)" for s
  proof -
    have "pointers_ok l s" using ok s by (simp add: library_ok_def)
    moreover from this have "sn_published s \<noteq> Some (ve_id w)" using others by (auto simp: pointers_ok_def)
    ultimately show ?thesis using w by (auto simp: pointers_ok_def v4 h_def)
  qed
  ultimately show ?thesis using keys s4 [folded h_def] by (simp add: library_ok_def)
qed

lemma recovered_ok [step_ok]:
  assumes ok: "library_ok l" and c: "import_recovered x input l = Inr (r, l')"
  shows "library_ok l'"
  using c
proof (cases rule: import_recovered_chain)
  case (1 l1)
  then show ?thesis using upsert_recovered_ok [OF ok 1(1)] by simp
next
  case (2 l1 w l2 l3 l4 l5 an ns)
  have ok1: "library_ok l1" using upsert_recovered_ok [OF ok 2(1)] by simp
  have core: "same_core l2 l4" using replace_indexes_core [OF 2(3)] insert_sources_core [OF 2(4)] by (rule same_core_trans)
  show ?thesis by (rule reference_ok [OF ok1 2(2) core 2(5-10)])
qed

lemma metadata_ok [step_ok]: "library_ok l \<Longrightarrow> update_metadata env now a i t d l = Inr l' \<Longrightarrow> library_ok l'"
  by (auto simp: update_metadata_def chain_Inr Let_def elim!: library_ok_update_scripts)

lemma archive_ok [step_ok]:
  assumes ok: "library_ok l" and s: "set_archived now a i arch l = Inr l'"
  shows "library_ok l'"
proof -
  obtain P f l1 act where u: "update_scripts P f l = Inr l1" and e: "insert_moderation_event now i None a act NoDetails l1 = Inr l'"
    and f: "f = (\<lambda>s. s\<lparr>sn_archived := (if arch then Some (now, a) else None), sn_updated_at := now\<rparr>)"
    using s by (auto simp: set_archived_def chain_Inr Let_def)
  have "library_ok l1" using ok u by (rule library_ok_update_scripts) (simp add: f)
  then show ?thesis using insert_moderation_event_core [OF e] by (rule library_ok_core)
qed

lemma collaborators_ok:
  assumes "library_ok l" and "touch_script now i (l\<lparr>lb_collaborators := c\<rparr>) = Inr l1" and "same_core l1 l'"
  shows "library_ok l'"
proof -
  have "library_ok (l\<lparr>lb_collaborators := c\<rparr>)" using assms(1) by (rule library_ok_core) (simp add: same_core_def)
  then show ?thesis using touch_script_ok [OF _ assms(2)] library_ok_core [OF _ assms(3)] by blast
qed

lemma collaborator_ok [step_ok]: "library_ok l \<Longrightarrow> set_collaborator env now a i email role l = Inr (r, l') \<Longrightarrow> library_ok l'"
  by (auto simp: set_collaborator_def chain_Inr Let_def dest!: insert_moderation_event_core intro: collaborators_ok)

lemma no_collaborator_ok [step_ok]: "library_ok l \<Longrightarrow> remove_collaborator now a i target l = Inr l' \<Longrightarrow> library_ok l'"
  by (auto simp: remove_collaborator_def chain_Inr Let_def dest!: insert_moderation_event_core intro: collaborators_ok)

lemma new_fixture_ok [step_ok]: "library_ok l \<Longrightarrow> create_fixture env x a i fixture l = Inr (r, l') \<Longrightarrow> library_ok l'"
  by (auto simp: create_fixture_def chain_Inr dest!: fixtures_core intro: library_ok_core)

lemma fixture_step_ok [step_ok]: "library_ok l \<Longrightarrow> revise_fixture env x a i j fixture l = Inr l' \<Longrightarrow> library_ok l'"
  by (auto simp: revise_fixture_def chain_Inr dest!: fixtures_core intro: library_ok_core)

lemma fixture_archive_ok [step_ok]: "library_ok l \<Longrightarrow> set_fixture_archived env x a i j revision arch l = Inr l' \<Longrightarrow> library_ok l'"
  by (auto simp: set_fixture_archived_def chain_Inr dest!: fixtures_core intro: library_ok_core)

lemma new_thread_ok [step_ok]: "library_ok l \<Longrightarrow> create_review_thread x a i n line body l = Inr (r, l') \<Longrightarrow> library_ok l'"
  by (auto simp: create_review_thread_def chain_Inr dest!: insert_thread_core insert_comment_core intro: library_ok_core)

lemma update_threads_core: "same_core l (update_threads P f l)"
  by (simp add: same_core_def update_threads_def)

lemma comment_ok [step_ok]: "library_ok l \<Longrightarrow> add_review_comment x a i t body l = Inr (r, l') \<Longrightarrow> library_ok l'"
  by (auto simp: add_review_comment_def chain_Inr dest!: insert_comment_core intro: library_ok_core update_threads_core)

lemma resolve_ok [step_ok]: "library_ok l \<Longrightarrow> set_thread_resolved x a i t resolved l = Inr l' \<Longrightarrow> library_ok l'"
  by (auto simp: set_thread_resolved_def chain_Inr dest!: insert_moderation_event_core intro: library_ok_core update_threads_core)

lemma accounts_ok [step_ok]: "library_ok l \<Longrightarrow> library_ok (l\<lparr>lb_accounts := accounts\<rparr>)"
  by (simp add: library_ok_def library_keys_def numbers_def next_version_def pointers_ok_def)

lemma authoring_step_ok: "authoring_step env b l l' \<Longrightarrow> library_ok l \<Longrightarrow> library_ok l'"
  by (induction rule: authoring_step.induct) (erule (1) step_ok | erule step_ok)+

end
