(* ===== verification/ScriptRepository.thy ===== *)
theory ScriptRepository
  imports ScriptUpkeep
begin

text \<open>
  The histories of a repository: the tables after each transaction of \<open>authoring_step\<close>, from a database
  without scripts. In all of them the invariant holds, what was released stays as it was, and only
  moderators publish community scripts, on the record.
\<close>

section \<open>Histories\<close>

text \<open>The tables of a repository after each transaction, the latest first; it begins without scripts.\<close>

definition no_scripts :: "library \<Rightarrow> bool" where
  "no_scripts l \<longleftrightarrow> lb_scripts l = [] \<and> lb_versions l = [] \<and> lb_dependencies l = [] \<and> lb_identifiers l = [] \<and> lb_triggers l = []
     \<and> lb_sources l = [] \<and> lb_regions l = [] \<and> lb_collaborators l = Map.empty \<and> lb_events l = [] \<and> lb_fixtures l = []
     \<and> lb_threads l = [] \<and> lb_comments l = []"

inductive repository :: "authoring_env \<Rightarrow> library list \<Rightarrow> bool" for env where
  start: "no_scripts l \<Longrightarrow> repository env [l]"
| transaction: "repository env (l # ls) \<Longrightarrow> b \<in> set (l # ls) \<Longrightarrow> authoring_step env b l l' \<Longrightarrow> repository env (l' # l # ls)"

inductive_cases repositoryE: "repository env (l' # l # ls)"

lemma no_scripts_ok: "no_scripts l \<Longrightarrow> library_ok l"
  by (simp add: no_scripts_def library_ok_def library_keys_def numbers_def next_version_def)

abbreviation authored :: "authoring_env \<Rightarrow> library \<Rightarrow> library \<Rightarrow> bool" where
  "authored env l l' \<equiv> \<exists>b. authoring_step env b l l'"

interpretation authoring: growing_system no_scripts "authored env" library_ok evolves for env
  by unfold_locales (blast intro: no_scripts_ok authoring_step_ok evolves_refl evolves_trans step_evolves)+

lemma repository_reach: "repository env hs \<Longrightarrow> (\<forall>l\<in>set hs. reach no_scripts (authored env) l \<and> (authored env)\<^sup>*\<^sup>* l (hd hs))"
  by (induction rule: repository.induct) (auto intro: reach.intros rtranclp.rtrancl_into_rtrancl)

lemma repository_ok: "repository env hs \<Longrightarrow> \<forall>l\<in>set hs. library_ok l"
  using repository_reach authoring.reachable_inv by blast

lemma repository_evolves: "repository env hs \<Longrightarrow> l \<in> set hs \<Longrightarrow> evolves l (hd hs)"
  using repository_reach authoring.reachable_inv authoring.steps_grown by blast


text \<open>
  C8: what was released stays: a version that left the draft status at some time is still there later,
  with the same text, program, indexes and provenance, its status has moved forward only, and the time
  of its publication stands; the audit trail and the comments have only grown.
\<close>

theorem released_versions_are_final:
  assumes "repository env (l' # ls)" and "l \<in> set (l' # ls)" and "v \<in> set (lb_versions l)" and "ve_status v \<noteq> Draft"
  shows "(\<exists>v'\<in>set (lb_versions l'). ve_id v' = ve_id v \<and> ve_content v' = ve_content v \<and> indexes_of l' (ve_id v) = indexes_of l (ve_id v)
      \<and> (ve_status v' = ve_status v \<or> (ve_status v, ve_status v') \<in> {(InReview, Published), (InReview, Superseded), (Published, Superseded)})
      \<and> (ve_status v \<noteq> InReview \<longrightarrow> ve_published_at v' = ve_published_at v))
    \<and> (\<exists>es. lb_events l' = lb_events l @ es) \<and> (\<exists>cs. lb_comments l' = lb_comments l @ cs)"
proof -
  have "evolves l l'" using repository_evolves [OF assms(1,2)] by simp
  then have k: "versions_kept l l'" "logs_kept l l'" by (auto simp: evolves_def)
  have "library_ok l" using repository_ok [OF assms(1)] assms(2) by blast
  then have "entry_of l (ve_id v) = Some v" using assms(3) by (rule entry_of_mem)
  then obtain v' where "entry_of l' (ve_id v) = Some v'" "kept_entry l l' (ve_id v) v v'" using k(1) unfolding versions_kept_def by blast
  moreover from this(1) have "v' \<in> set (lb_versions l')" "ve_id v' = ve_id v" unfolding entry_of_def by (auto dest!: find_in)
  ultimately show ?thesis using assms(4) k(2) by (auto simp: kept_entry_def forward_def logs_kept_def)
qed


section \<open>Who publishes\<close>

text \<open>No community script has been given another published version.\<close>

definition releases_nothing :: "library \<Rightarrow> library \<Rightarrow> bool" where
  "releases_nothing l l' \<longleftrightarrow> (\<forall>s'\<in>set (lb_scripts l'). sn_origin s' = ''community'' \<longrightarrow> sn_published s' = None
     \<or> (\<exists>s\<in>set (lb_scripts l). sn_id s = sn_id s' \<and> sn_origin s = sn_origin s' \<and> sn_published s = sn_published s'))"

named_theorems quiet

lemma same_scripts_quiet: "lb_scripts l' = lb_scripts l \<Longrightarrow> releases_nothing l l'"
  by (auto simp: releases_nothing_def)

lemma releases_nothing_refl: "releases_nothing l l"
  by (rule same_scripts_quiet) simp

lemma releases_nothing_trans: "releases_nothing l1 l2 \<Longrightarrow> releases_nothing l2 l3 \<Longrightarrow> releases_nothing l1 l3"
  unfolding releases_nothing_def by (intro ballI impI) (metis (no_types, lifting))

lemma inserted_script_quiet: "insert_script s l = Inr l' \<Longrightarrow> sn_published s = None \<Longrightarrow> releases_nothing l l'"
  by (drule insert_script_Inr) (auto simp: releases_nothing_def)

lemma updated_scripts_quiet:
  "update_scripts P f l = Inr l' \<Longrightarrow> (\<And>s. sn_id (f s) = sn_id s \<and> sn_origin (f s) = sn_origin s \<and> sn_published (f s) = sn_published s)
    \<Longrightarrow> releases_nothing l l'"
  by (drule update_scripts_Inr) (auto simp: releases_nothing_def)

lemma metadata_quiet: "update_scripts P f l = Inr l' \<Longrightarrow> metadata_only f \<Longrightarrow> releases_nothing l l'"
  by (erule updated_scripts_quiet) (simp add: metadata_only_def)

lemma touched_quiet [quiet]: "touch_script now i l = Inr l' \<Longrightarrow> releases_nothing l l'"
  unfolding touch_script_def by (erule updated_scripts_quiet) simp

lemma core_quiet: "same_core l l' \<Longrightarrow> releases_nothing l l'"
  by (rule same_scripts_quiet) (simp add: same_core_def)

lemma statements_quiet [quiet]:
  "insert_version v l = Inr l' \<Longrightarrow> releases_nothing l l'" "update_versions P g l = Inr l' \<Longrightarrow> releases_nothing l l'"
  by (auto dest!: insert_version_Inr update_versions_Inr intro: same_scripts_quiet)

lemmas core_statements_quiet [quiet] = core_frame [THEN core_quiet]

lemma create_quiet: "create_yarn_script env x a input l = Inr (i, l') \<Longrightarrow> releases_nothing l l'"
  by (erule create_yarn_script_chain) (meson quiet inserted_script_quiet releases_nothing_trans)

lemma save_quiet: "save_yarn_draft env x a i n input l = Inr (r, l') \<Longrightarrow> releases_nothing l l'"
  by (erule save_yarn_draft_chain) (meson quiet releases_nothing_trans)

lemma new_version_quiet: "create_script_version x a i n l = Inr (r, l') \<Longrightarrow> releases_nothing l l'"
  by (erule create_script_version_chain) (meson quiet core_quiet releases_nothing_trans)

lemma submit_quiet: "submit_version x a i n l = Inr (r, l') \<Longrightarrow> releases_nothing l l'"
  by (erule submit_version_chain) (meson quiet releases_nothing_trans)

lemma stewards_quiet:
  "update_metadata env now a i t d l = Inr l' \<Longrightarrow> releases_nothing l l'"
  "set_archived now a i arch l = Inr l' \<Longrightarrow> releases_nothing l l'"
  "set_collaborator env now a i email role l = Inr (q, l') \<Longrightarrow> releases_nothing l l'"
  "remove_collaborator now a i target l = Inr l' \<Longrightarrow> releases_nothing l l'"
  by (auto simp: update_metadata_def set_archived_def set_collaborator_def remove_collaborator_def chain_Inr Let_def
      dest!: quiet elim!: updated_scripts_quiet releases_nothing_trans [rotated] releases_nothing_trans
      intro: same_scripts_quiet)

lemma recovered_quiet:
  assumes "import_recovered x input l = Inr (r, l')"
  shows "releases_nothing l l'"
  using assms
proof (cases rule: import_recovered_chain)
  case (1 l1)
  then show ?thesis using upsert_recovered_chain [OF 1(1)] by (auto intro: inserted_script_quiet metadata_quiet)
next
  case (2 l1 w l2 l3 l4 l5 an ns)
  have "releases_nothing l l1" using upsert_recovered_chain [OF 2(1)] by (auto intro: inserted_script_quiet metadata_quiet)
  moreover have "releases_nothing l5 l'" using 2(6) by (rule updated_scripts_quiet) simp
  ultimately show ?thesis using 2(2-5) by (meson quiet releases_nothing_trans)
qed

text \<open>A translation releases a script of its own origin.\<close>

lemma pointed_official:
  assumes p: "point_published now i w l = Inr l'" and o: "\<And>s. s \<in> set (lb_scripts l) \<Longrightarrow> sn_id s = i \<Longrightarrow> sn_origin s \<noteq> ''community''"
  shows "releases_nothing l l'"
  using p o unfolding point_published_def by (drule_tac update_scripts_Inr) (auto simp: releases_nothing_def)

lemma release_official_quiet:
  assumes "release_official env x i current c an sources regions l = Inr l'"
    and o: "\<And>s. s \<in> set (lb_scripts l) \<Longrightarrow> sn_id s = i \<Longrightarrow> sn_origin s \<noteq> ''community''"
  shows "releases_nothing l l'"
  using assms(1)
proof (rule release_official_chain)
  fix l1 l2 l3 l4 l5 l6 l7
  let ?now = "cx_now x" and ?C = "\<lambda>u. Some (ve_id u) = map_option ve_id current \<and> ve_status u = Published" and ?N = "\<lambda>u. ve_id u = cx_version x"
  assume ins: "insert_version (draft_entry ?now (cx_version x) c) l = Inr l1" and idx: "replace_indexes (cx_version x) an l1 = Inr l2"
    and src: "insert_sources (cx_version x) sources l2 = Inr l3" "insert_regions (cx_version x) regions l3 = Inr l4"
    and u: "update_versions ?C supersede l4 = Inr l5" "update_versions ?N (set_status ?now InReview) l5 = Inr l6"
      "update_versions ?N (set_published ?now) l6 = Inr l7" and pt: "point_published ?now i (cx_version x) l7 = Inr l'"
  have same: "lb_scripts l7 = lb_scripts l"
    using insert_version_Inr [OF ins] replace_indexes_core [OF idx] insert_sources_core [OF src(1)] insert_regions_core [OF src(2)]
      update_versions_Inr [OF u(1)] update_versions_Inr [OF u(2)] update_versions_Inr [OF u(3)] by (simp add: same_core_def)
  have "releases_nothing l7 l'" by (rule pointed_official [OF pt]) (auto simp: same o)
  then show ?thesis by (rule releases_nothing_trans [OF same_scripts_quiet [OF same]])
qed

lemma official_quiet:
  assumes ok: "library_ok l" and i: "import_official env x ids input l = Inr (r, l')"
  shows "releases_nothing l l'"
  using i
proof (rule import_official_chain)
  fix slug primary l1 current source h summary c sources regions l2
  assume o: "official_script env x slug primary input l = Inr (r, l1)"
    and i: "l2 = l1 \<or> release_official env x r current (official_content env (cx_now x) r (next_version l1 r) source h summary primary c)
        (cm_analysis c) sources regions l1 = Inr l2" and f: "fixtures_only l2 l'"
  have q: "releases_nothing l l1" using official_script_chain [OF o] by (auto intro: inserted_script_quiet metadata_quiet)
  have ok1: "library_ok l1" using official_script_ok [OF ok o] by simp
  have "\<exists>s\<in>set (lb_scripts l1). sn_id s = r \<and> sn_origin s = ''official''"
    using official_script_chain [OF o]
  proof (elim disjE exE conjE)
    fix s assume "insert_script s l = Inr l1" "sn_id s = r" "sn_origin s = ''official''"
    then show ?thesis by (auto dest!: insert_script_Inr)
  next
    fix f s assume u: "update_scripts (\<lambda>q. sn_id q = r) f l = Inr l1" "metadata_only f" "s \<in> set (lb_scripts l)" "sn_id s = r" "sn_origin s = ''official''"
    then have "f s \<in> set (lb_scripts l1)" "sn_id (f s) = r" "sn_origin (f s) = ''official''"
      using update_scripts_Inr [OF u(1)] by (auto simp: metadata_only_def)
    then show ?thesis by blast
  qed
  then obtain s0 where s0: "script_of l1 r = Some s0" "sn_origin s0 = ''official''" using script_of_mem [OF ok1] by blast
  have "sn_origin s \<noteq> ''community''" if "s \<in> set (lb_scripts l1)" "sn_id s = r" for s
    using script_of_mem [OF ok1 that(1)] that(2) s0 by simp
  then have "releases_nothing l1 l2" using i by (auto intro: release_official_quiet releases_nothing_refl)
  with q f show ?thesis by (meson quiet releases_nothing_trans)
qed

lemma fixtures_and_reviews_quiet:
  "create_fixture env x a i fixture l = Inr (q, l') \<Longrightarrow> releases_nothing l l'"
  "revise_fixture env x a i j fixture l = Inr l' \<Longrightarrow> releases_nothing l l'"
  "set_fixture_archived env x a i j revision arch l = Inr l' \<Longrightarrow> releases_nothing l l'"
  "create_review_thread x a i n line body l = Inr (q, l') \<Longrightarrow> releases_nothing l l'"
  "add_review_comment x a i t body l = Inr (q, l') \<Longrightarrow> releases_nothing l l'"
  "set_thread_resolved x a i t resolved l = Inr l' \<Longrightarrow> releases_nothing l l'"
  by (auto simp: create_fixture_def revise_fixture_def set_fixture_archived_def create_review_thread_def add_review_comment_def
      set_thread_resolved_def update_threads_def chain_Inr dest!: core_frame simp: same_core_def intro!: same_scripts_quiet)

text \<open>The two releases of community scripts say who made them.\<close>

definition recorded_release :: "library \<Rightarrow> library \<Rightarrow> library \<Rightarrow> script_entry \<Rightarrow> bool" where
  "recorded_release b l l' s \<longleftrightarrow> (\<exists>e. lb_events l' = lb_events l @ [e] \<and> is_moderator b (me_actor e)
     \<and> me_action e \<in> {''version.published'', ''version.rollback-published''} \<and> me_script e = sn_id s \<and> me_version e = sn_published s)"

definition releases_recorded :: "library \<Rightarrow> library \<Rightarrow> library \<Rightarrow> bool" where
  "releases_recorded b l l' \<longleftrightarrow> (\<forall>s'\<in>set (lb_scripts l'). sn_origin s' = ''community'' \<longrightarrow> sn_published s' = None
     \<or> (\<exists>s\<in>set (lb_scripts l). sn_id s = sn_id s' \<and> sn_origin s = sn_origin s' \<and> sn_published s = sn_published s')
     \<or> recorded_release b l l' s')"

lemma quiet_recorded: "releases_nothing l l' \<Longrightarrow> releases_recorded b l l'"
  unfolding releases_nothing_def releases_recorded_def by blast

lemma pointed_recorded:
  assumes m: "is_moderator b a" and same: "lb_scripts l1 = lb_scripts l" "lb_events l1 = lb_events l"
    and p: "point_published now i r l1 = Inr l2" and e: "insert_moderation_event now i (Some r) a act d l2 = Inr l'"
    and act: "act \<in> {''version.published'', ''version.rollback-published''}"
  shows "releases_recorded b l l'"
  unfolding releases_recorded_def
proof (intro ballI impI)
  fix s' assume s': "s' \<in> set (lb_scripts l')" "sn_origin s' = ''community''"
  note p' = update_scripts_Inr [OF p [unfolded point_published_def]]
  have l': "lb_scripts l' = lb_scripts l2" using insert_moderation_event_core [OF e] by (simp add: same_core_def)
  then obtain s where s: "s \<in> set (lb_scripts l)" "s' = (if sn_id s = i then s\<lparr>sn_published := Some r, sn_updated_at := now\<rparr> else s)"
    using s'(1) p' same by auto
  show "sn_published s' = None
     \<or> (\<exists>s\<in>set (lb_scripts l). sn_id s = sn_id s' \<and> sn_origin s = sn_origin s' \<and> sn_published s = sn_published s')
     \<or> recorded_release b l l' s'"
  proof (cases "sn_id s = i")
    case True
    have "s' \<in> set (lb_scripts l2)" "sn_id s' = i" "sn_published s' = Some r" using s'(1) l' s True by auto
    moreover from this have "lb_events l' = lb_events l2 @ [\<lparr>me_script = i, me_version = Some r, me_actor = a, me_action = act, me_details = d, me_at = now\<rparr>]"
      using e s'(2) by (auto simp: insert_moderation_event_def split: if_splits)
    ultimately have "recorded_release b l l' s'" using m act p' same by (simp add: recorded_release_def)
    then show ?thesis by blast
  qed (use s in auto)
qed

definition same_record :: "library \<Rightarrow> library \<Rightarrow> bool" where
  "same_record l l' \<longleftrightarrow> lb_scripts l' = lb_scripts l \<and> lb_events l' = lb_events l"

lemma same_record_trans: "same_record l1 l2 \<Longrightarrow> same_record l2 l3 \<Longrightarrow> same_record l1 l3"
  by (simp add: same_record_def)

named_theorems record_frame

lemma statements_record [record_frame]:
  "insert_version v l = Inr l' \<Longrightarrow> same_record l l'" "update_versions P g l = Inr l' \<Longrightarrow> same_record l l'"
  "update_one P g l = Inr l' \<Longrightarrow> same_record l l'"
  by (auto dest!: insert_version_Inr update_versions_Inr update_one_Inr simp: same_record_def)

lemma children_record [record_frame]:
  "replace_indexes j an l = Inr l' \<Longrightarrow> same_record l l'" "copy_provenance j k l = Inr l' \<Longrightarrow> same_record l l'"
  by (auto simp: replace_indexes_def copy_provenance_def insert_sources_def insert_regions_def chain_Inr same_record_def)

lemma released_recorded:
  "is_moderator b a \<Longrightarrow> same_record l l1 \<Longrightarrow> point_published now i r l1 = Inr l2
    \<Longrightarrow> insert_moderation_event now i (Some r) a act d l2 = Inr l' \<Longrightarrow> act \<in> {''version.published'', ''version.rollback-published''}
    \<Longrightarrow> releases_recorded b l l'"
  by (rule pointed_recorded) (auto simp: same_record_def)

lemma publish_recorded:
  assumes "publish_version x a i n b l = Inr (r, l')"
  shows "releases_recorded b l l'"
  using assms
proof (rule publish_version_chain)
  fix l1 l2 l3
  assume "is_moderator b a" and u: "update_versions (\<lambda>v. Some (ve_id v) = (case script_of l i of None \<Rightarrow> None | Some s \<Rightarrow> sn_published s)
        \<and> ve_status v = Published) supersede l = Inr l1"
      "update_versions (\<lambda>v. ve_script v = i \<and> ve_version v = n \<and> ve_status v = InReview) (set_published (cx_now x)) l1 = Inr l2"
    and "point_published (cx_now x) i r l2 = Inr l3"
      "insert_moderation_event (cx_now x) i (Some r) a ''version.published'' NoDetails l3 = Inr l'"
  moreover have "same_record l l2" using u by (meson record_frame same_record_trans)
  ultimately show ?thesis by (intro released_recorded) auto
qed

lemma rollback_recorded:
  assumes "rollback_version env x a i n b l = Inr (r, l')"
  shows "releases_recorded b l l'"
  using assms
proof (rule rollback_version_chain)
  fix p :: rollback_plan and w l1 l2 l3 l4 l5 l6 l7
  assume "is_moderator b a" and u: "insert_version w l = Inr l1" "replace_indexes r (cm_analysis (rp_compilation p)) l1 = Inr l2"
    "copy_provenance (ve_id (rp_target p)) r l2 = Inr l3"
    "update_one (\<lambda>w. ve_id w = r \<and> ve_status w = Draft) (set_status (cx_now x) InReview) l3 = Inr l4"
    "update_one (\<lambda>w. ve_id w = rp_current p \<and> ve_status w = Published) (set_status (cx_now x) Superseded) l4 = Inr l5"
    "update_versions (\<lambda>w. ve_id w = r \<and> ve_status w = InReview) (set_published (cx_now x)) l5 = Inr l6"
    and "point_published (cx_now x) i r l6 = Inr l7"
    "insert_moderation_event (cx_now x) i (Some r) a ''version.rollback-published''
             (SourceVersion (ve_id (rp_target p)) (ve_version (rp_target p))) l7 = Inr l'"
  moreover have "same_record l l6" using u by (meson record_frame same_record_trans)
  ultimately show ?thesis by (intro released_recorded) auto
qed

lemmas step_records = publish_recorded rollback_recorded create_quiet [THEN quiet_recorded] save_quiet [THEN quiet_recorded]
  new_version_quiet [THEN quiet_recorded] submit_quiet [THEN quiet_recorded] stewards_quiet [THEN quiet_recorded]
  recovered_quiet [THEN quiet_recorded] fixtures_and_reviews_quiet [THEN quiet_recorded]

lemma accounts_recorded: "releases_recorded b l (l\<lparr>lb_accounts := accounts\<rparr>)"
  by (rule quiet_recorded, rule same_scripts_quiet) simp

lemma step_recorded: "authoring_step env b l l' \<Longrightarrow> library_ok l \<Longrightarrow> releases_recorded b l l'"
  by (induction rule: authoring_step.induct) (erule step_records | erule (1) official_quiet [THEN quiet_recorded, rotated] | rule accounts_recorded)+

text \<open>
  C10: a version of a community script is published only by a moderator, and on the record: whenever one
  becomes the published version, the transaction has appended the event that names the version and the
  actor, who was a moderator in the tables that the transaction read before.
\<close>

theorem publication_is_authorised:
  assumes "repository env (l' # l # ls)" and "v \<in> set (lb_versions l')" and "ve_status v = Published"
    and "\<forall>u\<in>set (lb_versions l). ve_id u = ve_id v \<longrightarrow> ve_status u \<noteq> Published"
    and "s \<in> set (lb_scripts l')" and "sn_id s = ve_script v" and "sn_origin s = ''community''"
  shows "\<exists>b\<in>set (l # ls). \<exists>e. lb_events l' = lb_events l @ [e] \<and> is_moderator b (me_actor e) \<and> me_script e = ve_script v
    \<and> me_version e = Some (ve_id v) \<and> me_action e \<in> {''version.published'', ''version.rollback-published''}"
proof -
  from assms(1) obtain b where b: "b \<in> set (l # ls)" "authoring_step env b l l'" by (auto elim: repositoryE)
  have ok: "library_ok l" "library_ok l'" using repository_ok [OF assms(1)] by simp_all
  have p: "sn_published s = Some (ve_id v)" using ok(2) assms(2,3,5,6) by (simp add: library_ok_def pointers_ok_def)
  have "\<not> (\<exists>t\<in>set (lb_scripts l). sn_id t = sn_id s \<and> sn_origin t = sn_origin s \<and> sn_published t = sn_published s)"
  proof
    assume "\<exists>t\<in>set (lb_scripts l). sn_id t = sn_id s \<and> sn_origin t = sn_origin s \<and> sn_published t = sn_published s"
    then obtain t where t: "t \<in> set (lb_scripts l)" "sn_published t = Some (ve_id v)" using p by auto
    then have "pointers_ok l t" using ok(1) by (simp add: library_ok_def)
    with t(2) show False using assms(4) unfolding pointers_ok_def by metis
  qed
  then have "recorded_release b l l' s" using step_recorded [OF b(2) ok(1)] assms(5,7) p unfolding releases_recorded_def by auto
  then show ?thesis using b(1) p assms(6) unfolding recorded_release_def by auto
qed

end
