(* ===== verification/ScriptReleases.thy ===== *)
theory ScriptReleases
  imports ScriptRepository
begin

text \<open>
  What comes of a repository: the versions that readers see, the triggers that players meet on the tables
  of \<open>ScriptStore\<close>, and the version that a rollback publishes.
\<close>

section \<open>What readers see\<close>

lemma described_versions_Inr: "described_versions l vs = Inr ds \<Longrightarrow> map fst ds = vs"
  by (induction vs arbitrary: ds) (auto simp: chain_Inr)

lemma access_role_blank: "\<not> privileged l i a \<Longrightarrow> access_role l i a = ''''"
  by (simp add: privileged_def access_role_def)

lemma last_sort_key: "x \<in> set xs \<Longrightarrow> \<exists>y ys. rev (sort_key k xs) = y # ys \<and> y \<in> set xs \<and> (\<forall>z\<in>set xs. k z \<le> k y)"
proof -
  assume x: "x \<in> set xs"
  then obtain y ys where r: "rev (sort_key k xs) = y # ys" by (metis empty_iff list.exhaust rev_is_Nil_conv set_empty set_sort)
  then have s: "sort_key k xs = rev ys @ [y]" by (simp add: rev_swap)
  have "sorted (map k (sort_key k xs))" by (rule sorted_sort_key)
  then have "\<forall>z\<in>set (sort_key k xs). k z \<le> k y" unfolding s by (auto simp: sorted_append)
  moreover have "y \<in> set (sort_key k xs)" unfolding s by simp
  ultimately show ?thesis using r by auto
qed

lemma listed_version_Some:
  assumes "listed_version l a s = Some v"
  shows "v \<in> set (lb_versions l) \<and> ve_script v = sn_id s \<and> (ve_status v \<in> {Published, Reference} \<or> privileged l (sn_id s) a)
    \<and> (\<forall>u\<in>set (lb_versions l). ve_script u = sn_id s \<and> (ve_status u \<in> {Published, Reference} \<or> privileged l (sn_id s) a)
        \<longrightarrow> (if privileged l (sn_id s) a then ve_version u \<le> ve_version v
             else Some (ve_id u) \<in> {sn_published s, sn_reference s} \<longrightarrow> Some (ve_id v) \<in> {sn_published s, sn_reference s}))"
proof -
  let ?rank = "\<lambda>v. (if privileged l (sn_id s) a then ve_version v else 0,
                       if Some (ve_id v) \<in> {sn_published s, sn_reference s} then 1 else 0 :: int, ve_version v)"
  let ?cs = "filter (\<lambda>v. ve_script v = sn_id s \<and> (ve_status v \<in> {Published, Reference} \<or> privileged l (sn_id s) a)) (lb_versions l)"
  obtain ys where r: "rev (sort_key ?rank ?cs) = v # ys"
    using assms unfolding listed_version_def Let_def by (cases "rev (sort_key ?rank ?cs)") simp_all
  have "v \<in> set (rev (sort_key ?rank ?cs))" unfolding r by simp
  then have v: "v \<in> set ?cs" by (simp only: set_sort set_rev)
  from last_sort_key [OF this, of ?rank] r have m: "\<forall>z\<in>set ?cs. ?rank z \<le> ?rank v" by (simp only: list.inject) blast
  show ?thesis
  proof (intro conjI ballI impI)
    fix u assume "u \<in> set (lb_versions l)" "ve_script u = sn_id s \<and> (ve_status u \<in> {Published, Reference} \<or> privileged l (sn_id s) a)"
    then have "?rank u \<le> ?rank v" using m by simp
    then show "if privileged l (sn_id s) a then ve_version u \<le> ve_version v
             else Some (ve_id u) \<in> {sn_published s, sn_reference s} \<longrightarrow> Some (ve_id v) \<in> {sn_published s, sn_reference s}"
      by (auto simp: less_eq_prod_def split: if_splits)
  qed (use v in auto)
qed

lemma detail_for_readers:
  assumes "script_detail a i l = Inr d" and "\<not> privileged l i a"
  shows "(\<forall>v\<in>fst ` set (st_versions d). ve_script v = i \<and> ve_status v \<in> {Published, Reference, Superseded}) \<and> sn_archived (st_script d) = None"
proof -
  from assms(1) obtain vs where vs: "described_versions l (visible_versions l a i) = Inr vs" "st_versions d = vs" and arch: "sn_archived (st_script d) = None"
    using assms(2) by (auto simp: script_detail_def chain_Inr)
  have "fst ` set vs = set (visible_versions l a i)" using described_versions_Inr [OF vs(1)] by (metis set_map)
  then show ?thesis using vs(2) arch assms(2) by (auto simp: visible_versions_def access_role_blank)
qed

lemma listed:
  "(s, role, v) \<in> set (list_scripts a l) \<Longrightarrow>
     listed_version l a s = Some v \<and> s \<in> set (lb_scripts l) \<and> (sn_archived s = None \<or> privileged l (sn_id s) a)"
  by (auto simp: list_scripts_def List.map_filter_def)

lemma listed_for_readers:
  assumes "library_ok l" and "(s, role, v) \<in> set (list_scripts a l)" and n: "\<not> privileged l (sn_id s) a"
  shows "ve_status v \<in> {Published, Reference} \<and> sn_archived s = None
    \<and> (\<forall>p. sn_published s = Some p \<longrightarrow> ve_id v = p \<or> Some (ve_id v) = sn_reference s)"
proof -
  note m = listed [OF assms(2)] and lv = listed_version_Some [OF conjunct1 [OF listed [OF assms(2)]]]
  have "ve_id v = p \<or> Some (ve_id v) = sn_reference s" if p: "sn_published s = Some p" for p
  proof -
    have "pointers_ok l s" using assms(1) m by (simp add: library_ok_def)
    then obtain u where u: "u \<in> set (lb_versions l)" "ve_id u = p" "ve_script u = sn_id s" "ve_status u = Published"
      using p unfolding pointers_ok_def by metis
    then have "Some (ve_id v) \<in> {sn_published s, sn_reference s}" using lv n p by auto
    then show ?thesis using p by auto
  qed
  then show ?thesis using lv m n by blast
qed

lemma listed_for_members:
  assumes "library_ok l" and "(s, role, v) \<in> set (list_scripts a l)" and p: "privileged l (sn_id s) a"
  shows "ve_version v + 1 = next_version l (sn_id s)"
proof -
  note lv = listed_version_Some [OF conjunct1 [OF listed [OF assms(2)]]]
  have n: "set (numbers l (sn_id s)) = {1..<next_version l (sn_id s)}" using assms(1) by (simp add: library_ok_def library_keys_def)
  have "ve_version v \<in> set (numbers l (sn_id s))" using lv by (simp add: numbers_def)
  then have r: "1 \<le> ve_version v" "ve_version v < next_version l (sn_id s)" using n by auto
  then have "next_version l (sn_id s) - 1 \<in> set (numbers l (sn_id s))" using n by auto
  then obtain u where "u \<in> set (lb_versions l)" "ve_script u = sn_id s" "ve_version u = next_version l (sn_id s) - 1"
    by (auto simp: numbers_def)
  then have "next_version l (sn_id s) - 1 \<le> ve_version v" using lv p by auto
  then show ?thesis using r by simp
qed

text \<open>
  C12: to readers who neither collaborate on a script nor moderate, a script shows only versions that were
  published or recovered, never a draft or a version under review; the list names the current published
  version of a script that has one; an archived script is not shown at all. Collaborators and moderators
  find the newest version in the list.
\<close>

theorem drafts_are_hidden:
  assumes "repository env (l # ls)"
  shows "(\<forall>i d. script_detail a i l = Inr d \<and> \<not> privileged l i a \<longrightarrow>
        (\<forall>v\<in>fst ` set (st_versions d). ve_script v = i \<and> ve_status v \<in> {Published, Reference, Superseded}) \<and> sn_archived (st_script d) = None)
    \<and> (\<forall>s role v. (s, role, v) \<in> set (list_scripts a l) \<and> \<not> privileged l (sn_id s) a \<longrightarrow>
        ve_status v \<in> {Published, Reference} \<and> sn_archived s = None
        \<and> (\<forall>p. sn_published s = Some p \<longrightarrow> ve_id v = p \<or> Some (ve_id v) = sn_reference s))
    \<and> (\<forall>s role v. (s, role, v) \<in> set (list_scripts a l) \<and> privileged l (sn_id s) a \<longrightarrow> ve_version v + 1 = next_version l (sn_id s))"
proof -
  have ok: "library_ok l" using repository_ok [OF assms] by simp
  show ?thesis
    by (intro conjI; intro allI impI; elim conjE) (erule (1) detail_for_readers listed_for_readers [OF ok] listed_for_members [OF ok])+
qed

section \<open>What players meet\<close>









section \<open>What a rollback restores\<close>







end
