(* ===== verification/ScriptExamples.thy ===== *)
theory ScriptExamples
  imports ScriptReleases
begin

text \<open>
  A history of a repository, evaluated: a script is written, reviewed, published and replaced, and its
  first version is published again. The properties of repositories are applied to it. The last section
  holds two findings, evaluated on these tables.
\<close>

section \<open>A history\<close>

lemma pred_option_code [code]: "pred_option P None = True" "pred_option P (Some x) = P x"
  by simp_all

lemma take_chars_short: "length s \<le> n \<Longrightarrow> take_chars n s = s"
  by (induction n s rule: take_chars.induct) (auto split: nat.splits)

lemma rollback_summary_code [code]:
  "rollback_summary n previous =
     (let s = ''Rollback to version '' @ int_decimal n
        @ (if trim_space previous = [] then [] else '': '' @ trim_space previous) in
      if length s \<le> 4000 then s else take_chars 4000 s)"
  by (simp add: rollback_summary_def Let_def take_chars_short)

definition story_compilation :: compilation where
  "story_compilation = \<lparr>cm_valid = True, cm_program = ''program'', cm_diagnostics = [], cm_lines = [], cm_nodes = [''Start''],
     cm_analysis = \<lparr>an_dependencies = [], an_identifiers = [], an_triggers = [], an_warnings = []\<rparr>\<rparr>"

definition story_env :: authoring_env where
  "story_env = \<lparr>le_compiler = Some (\<lambda>_ _. Inr story_compilation), le_hash = (\<lambda>_. replicate 64 (CHR ''a'')), le_lower = (\<lambda>s. s),
     le_upper = (\<lambda>s. s), le_trigger_json = (\<lambda>_. ''[]''), le_json_object = (\<lambda>_. True), le_json_normal = (\<lambda>s. s)\<rparr>"

definition story_moment :: "int \<Rightarrow> int \<Rightarrow> call_moment" where
  "story_moment t v = \<lparr>cx_now = t, cx_script = 1, cx_version = v, cx_row = 1, cx_comment = 1\<rparr>"

definition story_start :: library where
  "story_start = \<lparr>lb_accounts = [\<lparr>ac_id = 1, ac_registered = True, ac_email = ''author'', ac_role = ''player''\<rparr>,
       \<lparr>ac_id = 2, ac_registered = True, ac_email = ''moderator'', ac_role = ''moderator''\<rparr>],
     lb_scripts = [], lb_versions = [], lb_dependencies = [], lb_identifiers = [], lb_triggers = [], lb_sources = [], lb_regions = [],
     lb_collaborators = Map.empty, lb_events = [], lb_fixtures = [], lb_threads = [], lb_comments = []\<rparr>"

definition story_input :: script_input where
  "story_input = \<lparr>si_slug = ''greeting'', si_title = ''Greeting'', si_description = [], si_summary = [],
     si_source = ''title: Start'' @ [cr, lf] @ ''==='', si_triggers = sample_triggers\<rparr>"

text \<open>The tables after each transaction, written out.\<close>

definition story_source :: string where "story_source = ''title: Start'' @ [lf] @ ''==='' @ [lf]"

definition story_script :: "int option \<Rightarrow> int \<Rightarrow> script_entry" where
  "story_script published now = \<lparr>sn_id = 1, sn_slug = ''greeting'', sn_title = ''Greeting'', sn_description = [], sn_origin = ''community'',
     sn_locator = None, sn_hash = None, sn_created_by = Some 1, sn_published = published, sn_reference = None, sn_updated_at = now,
     sn_archived = None\<rparr>"

definition story_content :: "int \<Rightarrow> int option \<Rightarrow> int \<Rightarrow> version_content" where
  "story_content n based now = (blank_content 1 n now)
     \<lparr>vc_source := Some story_source, vc_source_hash := Some (replicate 64 (CHR ''a'')), vc_program := Some ''program'',
      vc_program_hash := Some (replicate 64 (CHR ''a'')), vc_compiler := Some yarn_compiler_version,
      vc_command_schema := Some yarn_command_schema_version, vc_compile_status := ''valid'', vc_lines := Some [],
      vc_nodes := Some [''Start''], vc_based_on := based, vc_author := Some 1\<rparr>"

definition story_version :: "int \<Rightarrow> version_status \<Rightarrow> int option \<Rightarrow> int \<Rightarrow> version_content \<Rightarrow> version_entry" where
  "story_version i st published now c = \<lparr>ve_id = i, ve_status = st, ve_published_at = published, ve_updated_at = now, ve_content = c\<rparr>"

definition story_event :: "int \<Rightarrow> int \<Rightarrow> string \<Rightarrow> int \<Rightarrow> moderation_event" where
  "story_event v a action now = \<lparr>me_script = 1, me_version = Some v, me_actor = a, me_action = action, me_details = NoDetails, me_at = now\<rparr>"

definition story_trigger :: trigger where
  "story_trigger = hd (fst (check_triggers [''Start''] [] sample_triggers))"

definition story_library :: "script_entry \<Rightarrow> version_entry list \<Rightarrow> moderation_event list \<Rightarrow> library" where
  "story_library s vs es = story_start\<lparr>lb_scripts := [s], lb_versions := vs,
     lb_triggers := map (\<lambda>v. (ve_id v, story_trigger)) vs,
     lb_identifiers := concat (map (\<lambda>v. map (Pair (ve_id v)) (indexed_identifiers ((cm_analysis story_compilation)\<lparr>an_triggers := [story_trigger]\<rparr>))) vs),
     lb_collaborators := [(1, 1) \<mapsto> ''owner''], lb_events := es\<rparr>"

definition story_drafted :: library where
  "story_drafted = story_library (story_script None 1) [story_version 11 Draft None 1 (story_content 1 None 1)] []"

definition story_submitted :: library where
  "story_submitted = story_library (story_script None 1) [story_version 11 InReview None 2 (story_content 1 None 1)]
     [story_event 11 1 ''version.submitted'' 2]"

definition story_published :: library where
  "story_published = story_library (story_script (Some 11) 3) [story_version 11 Published (Some 3) 3 (story_content 1 None 1)]
     [story_event 11 1 ''version.submitted'' 2, story_event 11 2 ''version.published'' 3]"

definition story_redrafted :: library where
  "story_redrafted = story_library (story_script (Some 11) 3) [story_version 11 Published (Some 3) 3 (story_content 1 None 1),
       story_version 12 Draft None 4 (story_content 2 (Some 11) 4)]
     [story_event 11 1 ''version.submitted'' 2, story_event 11 2 ''version.published'' 3]"

definition story_resubmitted :: library where
  "story_resubmitted = story_library (story_script (Some 11) 3) [story_version 11 Published (Some 3) 3 (story_content 1 None 1),
       story_version 12 InReview None 5 (story_content 2 (Some 11) 4)]
     [story_event 11 1 ''version.submitted'' 2, story_event 11 2 ''version.published'' 3, story_event 12 1 ''version.submitted'' 5]"

definition story_replaced :: library where
  "story_replaced = story_library (story_script (Some 12) 6) [story_version 11 Superseded (Some 3) 3 (story_content 1 None 1),
       story_version 12 Published (Some 6) 6 (story_content 2 (Some 11) 4)]
     [story_event 11 1 ''version.submitted'' 2, story_event 11 2 ''version.published'' 3, story_event 12 1 ''version.submitted'' 5,
      story_event 12 2 ''version.published'' 6]"

text \<open>The tables that can be compared by evaluation: all but the map of collaborators.\<close>

definition tables :: "library \<Rightarrow> _" where
  "tables l = (lb_accounts l, lb_scripts l, lb_versions l, lb_dependencies l, lb_identifiers l, lb_triggers l, lb_sources l, lb_regions l,
     lb_events l, lb_fixtures l, lb_threads l, lb_comments l)"

lemma step_value:
  assumes "map_sum (\<lambda>_. ()) (\<lambda>(r, l). (r, tables l)) X = Inr (r, tables l')" and "\<And>r l. X = Inr (r, l) \<Longrightarrow> lb_collaborators l = lb_collaborators l'"
  shows "X = Inr (r, l')"
proof (cases X)
  case (Inr p)
  obtain q l where p: "p = (q, l)" by (cases p)
  then have "q = r" "tables l = tables l'" "lb_collaborators l = lb_collaborators l'" using assms Inr by simp_all
  then have "l = l'" by (intro library.equality) (simp_all add: tables_def)
  then show ?thesis using Inr p \<open>q = r\<close> by simp
qed (use assms(1) in simp)

definition same_team :: "library \<Rightarrow> library \<Rightarrow> bool" where
  "same_team l l' \<longleftrightarrow> lb_collaborators l' = lb_collaborators l"

lemma same_team_trans: "same_team l1 l2 \<Longrightarrow> same_team l2 l3 \<Longrightarrow> same_team l1 l3"
  by (simp add: same_team_def)

named_theorems team_frame

lemma statements_team [team_frame]:
  "insert_script s l = Inr l' \<Longrightarrow> same_team l l'" "insert_version v l = Inr l' \<Longrightarrow> same_team l l'"
  "update_versions P g l = Inr l' \<Longrightarrow> same_team l l'" "point_published now i w l = Inr l' \<Longrightarrow> same_team l l'"
  by (auto dest!: insert_script_Inr insert_version_Inr update_versions_Inr update_scripts_Inr simp: same_team_def point_published_def)

lemma children_team [team_frame]:
  "replace_indexes j an l = Inr l' \<Longrightarrow> same_team l l'" "copy_indexes j k l = Inr l' \<Longrightarrow> same_team l l'"
  "copy_provenance j k l = Inr l' \<Longrightarrow> same_team l l'" "insert_moderation_event now i v a act d l = Inr l' \<Longrightarrow> same_team l l'"
  by (auto simp: replace_indexes_def copy_indexes_def copy_provenance_def insert_sources_def insert_regions_def chain_Inr same_team_def
      insert_moderation_event_def split: if_splits)

lemma drafting_team:
  assumes "create_from_source env x a input source l = Inr (r, l')"
  shows "lb_collaborators l' = (lb_collaborators l)((cx_script x, a) \<mapsto> ''owner'')"
proof -
  obtain s v an l1 l2 l3 where "insert_script s l = Inr l1" "insert_collaborator (cx_script x) a ''owner'' l1 = Inr l2"
    "insert_version v l2 = Inr l3" "replace_indexes (cx_version x) an l3 = Inr l'"
    using assms by (auto simp: create_from_source_def chain_Inr Let_def)
  then show ?thesis using team_frame(1,2,5) by (auto simp: same_team_def insert_collaborator_def split: if_splits)
qed

lemma submission_team: "submit_version x a i n l = Inr (r, l') \<Longrightarrow> same_team l l'"
  by (erule submit_version_chain) (meson team_frame same_team_trans)

lemma publication_team: "publish_version x a i n b l = Inr (r, l') \<Longrightarrow> same_team l l'"
  by (erule publish_version_chain) (meson team_frame same_team_trans)

lemma version_team: "create_script_version x a i n l = Inr (r, l') \<Longrightarrow> may_edit l i a \<Longrightarrow> same_team l l'"
proof (erule create_script_version_chain)
  fix s base v l1 l2 l3
  assume e: "may_edit l i a" "contribute (cx_now x) a i s base l = Inr l1" and "insert_version v l1 = Inr l2"
    and idx: "(\<exists>an. replace_indexes r an l2 = Inr l3) \<or> copy_indexes (ve_id base) r l2 = Inr l3" and "copy_provenance (ve_id base) r l3 = Inr l'"
  moreover have "l1 = l" using e by (simp add: contribute_def split: if_splits)
  moreover have "same_team l2 l3" using idx by (auto intro: team_frame)
  ultimately show ?thesis by (meson team_frame same_team_trans)
qed

lemma story_create: "create_yarn_script story_env (story_moment 1 11) 1 story_input story_start = Inr (1, story_drafted)"
proof -
  have "create_from_source story_env (story_moment 1 11) 1 story_input story_source story_start = Inr (1, story_drafted)"
  proof (rule step_value)
    show "map_sum (\<lambda>_. ()) (\<lambda>(r, l). (r, tables l)) (create_from_source story_env (story_moment 1 11) 1 story_input story_source story_start)
        = Inr (1, tables story_drafted)" by code_simp
  qed (drule drafting_team, simp add: story_moment_def story_drafted_def story_library_def story_start_def)
  then show ?thesis using sample_source by (simp add: create_yarn_script_def story_input_def story_source_def)
qed

lemma story_submit: "submit_version (story_moment 2 0) 1 1 1 story_drafted = Inr (11, story_submitted)"
proof (rule step_value)
  show "map_sum (\<lambda>_. ()) (\<lambda>(r, l). (r, tables l)) (submit_version (story_moment 2 0) 1 1 1 story_drafted) = Inr (11, tables story_submitted)"
    by code_simp
qed (drule submission_team, simp add: same_team_def story_drafted_def story_submitted_def story_library_def)

lemma story_publish: "publish_version (story_moment 3 0) 2 1 1 story_submitted story_submitted = Inr (11, story_published)"
proof (rule step_value)
  show "map_sum (\<lambda>_. ()) (\<lambda>(r, l). (r, tables l)) (publish_version (story_moment 3 0) 2 1 1 story_submitted story_submitted)
      = Inr (11, tables story_published)" by code_simp
qed (drule publication_team, simp add: same_team_def story_submitted_def story_published_def story_library_def)

lemma story_redraft: "create_script_version (story_moment 4 12) 1 1 1 story_published = Inr (12, story_redrafted)"
proof (rule step_value)
  show "map_sum (\<lambda>_. ()) (\<lambda>(r, l). (r, tables l)) (create_script_version (story_moment 4 12) 1 1 1 story_published)
      = Inr (12, tables story_redrafted)" by code_simp
qed (drule version_team, simp_all add: same_team_def may_edit_def story_published_def story_redrafted_def story_library_def)

lemma story_resubmit: "submit_version (story_moment 5 0) 1 1 2 story_redrafted = Inr (12, story_resubmitted)"
proof (rule step_value)
  show "map_sum (\<lambda>_. ()) (\<lambda>(r, l). (r, tables l)) (submit_version (story_moment 5 0) 1 1 2 story_redrafted) = Inr (12, tables story_resubmitted)"
    by code_simp
qed (drule submission_team, simp add: same_team_def story_redrafted_def story_resubmitted_def story_library_def)

lemma story_replace: "publish_version (story_moment 6 0) 2 1 2 story_resubmitted story_resubmitted = Inr (12, story_replaced)"
proof (rule step_value)
  show "map_sum (\<lambda>_. ()) (\<lambda>(r, l). (r, tables l)) (publish_version (story_moment 6 0) 2 1 2 story_resubmitted story_resubmitted)
      = Inr (12, tables story_replaced)" by code_simp
qed (drule publication_team, simp add: same_team_def story_resubmitted_def story_replaced_def story_library_def)





lemma transact: "repository env (l # ls) \<Longrightarrow> authoring_step env b l l' \<Longrightarrow> b \<in> set (l # ls) \<Longrightarrow> repository env (l' # l # ls)"
  by (rule repository.transaction)

lemma story_history:
  "repository story_env [story_replaced, story_resubmitted, story_redrafted, story_published, story_submitted, story_drafted, story_start]"
proof -
  have "repository story_env [story_start]" by (rule repository.start) (simp add: no_scripts_def story_start_def)
  then have "repository story_env [story_drafted, story_start]"
    using authoring_step.create [OF story_create, of story_start] by (rule transact) simp
  then have "repository story_env [story_submitted, story_drafted, story_start]"
    using authoring_step.submit [OF story_submit, of story_env story_drafted] by (rule transact) simp
  then have "repository story_env [story_published, story_submitted, story_drafted, story_start]"
    using authoring_step.publish [OF story_publish, of story_env] by (rule transact) simp
  then have "repository story_env [story_redrafted, story_published, story_submitted, story_drafted, story_start]"
    using authoring_step.new_version [OF story_redraft, of story_env story_published] by (rule transact) simp
  then have "repository story_env [story_resubmitted, story_redrafted, story_published, story_submitted, story_drafted, story_start]"
    using authoring_step.submit [OF story_resubmit, of story_env story_redrafted] by (rule transact) simp
  then show ?thesis
    using authoring_step.publish [OF story_replace, of story_env] by (rule transact) simp
qed

lemmas story_defs = story_replaced_def story_resubmitted_def story_redrafted_def story_published_def story_library_def story_version_def story_event_def
  story_script_def story_start_def story_content_def blank_content_def

text \<open>The other tables of the database: empty ones.\<close>

definition story_tables :: "string script_db" where
  "story_tables = \<lparr>sd_economy = demo_db, sd_account = Map.empty, sd_world = Map.empty, sd_scripts = [], sd_versions = [], sd_triggers = [],
     sd_revision = Map.empty, sd_flags = Map.empty, sd_progress = Map.empty, sd_runs = [], sd_effects = [], sd_trace = []\<rparr>"


theorem released_versions_are_final_witness:
  "\<exists>v\<in>set (lb_versions story_replaced). ve_id v = 11 \<and> ve_content v = story_content 1 None 1 \<and> ve_published_at v = Some 3"
proof -
  let ?v = "story_version 11 Published (Some 3) 3 (story_content 1 None 1)"
  have "?v \<in> set (lb_versions story_published)" "ve_status ?v \<noteq> Draft" by (simp_all add: story_published_def story_library_def story_version_def)
  from released_versions_are_final [OF story_history _ this] have "\<exists>v\<in>set (lb_versions story_replaced). ve_id v = ve_id ?v
    \<and> ve_content v = ve_content ?v \<and> (ve_status ?v \<noteq> InReview \<longrightarrow> ve_published_at v = ve_published_at ?v)" by auto
  then show ?thesis by (simp add: story_version_def)
qed

theorem publication_is_authorised_witness:
  "\<exists>e\<in>set (lb_events story_replaced). me_version e = Some 12 \<and> me_action e \<in> {''version.published'', ''version.rollback-published''}"
proof -
  let ?v = "story_version 12 Published (Some 6) 6 (story_content 2 (Some 11) 4)" and ?s = "story_script (Some 12) 6"
  have "\<exists>b\<in>set [story_resubmitted, story_redrafted, story_published, story_submitted, story_drafted, story_start].
      \<exists>e. lb_events story_replaced = lb_events story_resubmitted @ [e] \<and> is_moderator b (me_actor e) \<and> me_script e = ve_script ?v
        \<and> me_version e = Some (ve_id ?v) \<and> me_action e \<in> {''version.published'', ''version.rollback-published''}"
    by (rule publication_is_authorised [OF story_history, where s = ?s]) (simp_all add: story_defs)
  then show ?thesis by (auto simp: story_version_def)
qed

theorem drafts_are_hidden_witness:
  "\<exists>d. script_detail 0 1 story_redrafted = Inr d \<and> (\<forall>v\<in>fst ` set (st_versions d). ve_status v \<in> {Published, Reference, Superseded})"
proof -
  have h: "repository story_env [story_redrafted, story_published, story_submitted, story_drafted, story_start]"
    using story_history by (auto elim: repositoryE)
  have "isl (script_detail 0 1 story_redrafted) = False" by code_simp
  then obtain d where d: "script_detail 0 1 story_redrafted = Inr d" by (cases "script_detail 0 1 story_redrafted") simp_all
  have "\<not> privileged story_redrafted 1 0" by (simp add: privileged_def collaborates_def moderates_def)
  then show ?thesis using drafts_are_hidden [OF h] d by blast
qed



section \<open>Where the code and its documentation part\<close>

text \<open>
  Publication does not look at the triggers of other scripts: two scripts may be published with the same
  trigger at the same priority, and players then find it ambiguous.
\<close>

definition story_second :: "int \<Rightarrow> call_moment" where
  "story_second t = \<lparr>cx_now = t, cx_script = 2, cx_version = 21, cx_row = 1, cx_comment = 1\<rparr>"

lemma ambiguous_triggers_are_published:
  "map_sum (\<lambda>_. ()) (resolve_published_trigger (trim_selector sample_selector) [])
     (attempt (create_from_source story_env (story_second 7) 1 (story_input\<lparr>si_slug := ''farewell''\<rparr>) story_source story_replaced) (\<lambda>(_, l1).
      attempt (submit_version (story_second 8) 1 2 1 l1) (\<lambda>(_, l2).
      attempt (publish_version (story_second 9) 2 2 1 l2 l2) (\<lambda>(_, l3). Inr (live_tables l3 story_tables)))))
   = Inr (Inl AmbiguousTrigger)"
  by code_simp

text \<open>
  An official fixture that a translation drops is archived; when a later translation names it again, it is
  renewed but stays archived, so that it is not listed.
\<close>

definition story_fixture :: official_fixture where
  "story_fixture = \<lparr>of_name = ''Morning'', of_description = [], of_start = ''Start'', of_body = ''{}''\<rparr>"

lemma readded_fixture_stays_archived:
  "map_sum (\<lambda>_. ()) (\<lambda>l. map fx_archived (lb_fixtures l))
     (attempt (sync_fixtures story_env 7 [5] 1 12 [story_fixture] story_replaced) (\<lambda>l1.
      attempt (sync_fixtures story_env 8 [] 1 12 [] l1) (sync_fixtures story_env 9 [6] 1 12 [story_fixture\<lparr>of_description := ''Again''\<rparr>])))
   = Inr [Some (8, None)]"
  by code_simp

end
